(* ===== verification/Fixed_Bytes.thy ===== *)
theory Fixed_Bytes
  imports Prelude
begin

text \<open>
  Fixed-size byte arrays \<open>[u8; N]\<close>. One type, indexed by its length, serves every instance of
  the \<open>fixed_bytes!\<close> and \<open>fixed_id!\<close> macros; its values are exactly the byte lists of
  that length, so a fixed array never has the wrong length, as in the source. The order is the
  derived one, lexicographic on the bytes.
\<close>

typedef (overloaded) 'n fixed = "{bs :: bytes. length bs = LENGTH('n::len)}"
  morphisms as_bytes Fixed
  by (rule exI [of _ "replicate LENGTH('n) 0"]) simp

setup_lifting type_definition_fixed

lemma length_as_bytes [simp]: "length (as_bytes x) = LENGTH('n)" for x :: "'n::len fixed"
  using as_bytes [of x] by simp

lemma as_bytes_inject [simp]: "as_bytes x = as_bytes y \<longleftrightarrow> x = y"
  by (rule as_bytes_inject)

text \<open>The array built from the first \<open>N\<close> bytes of a list, zero-padded; on a list of the right
  length it is the array of exactly these bytes.\<close>

lift_definition array_of :: "bytes \<Rightarrow> ('n::len) fixed" is
  "\<lambda>bs :: bytes. take LENGTH('n) (bs @ replicate LENGTH('n) 0)"
  by simp

text \<open>The array literal \<open>[b; N]\<close>.\<close>

lift_definition repeat_byte :: "u8 \<Rightarrow> ('n::len) fixed" is "\<lambda>b :: u8. replicate LENGTH('n) b"
  by simp

text \<open>\<open>slice.try_into()\<close> to an array.\<close>

definition try_fixed :: "bytes \<Rightarrow> ('n::len) fixed option" where
  "try_fixed bs = (if length bs = LENGTH('n) then Some (array_of bs) else None)"

lemma as_bytes_array_of [simp]:
  "length bs = LENGTH('n) \<Longrightarrow> as_bytes (array_of bs :: 'n::len fixed) = bs"
  by transfer simp

lemma array_of_as_bytes [simp]: "array_of (as_bytes x) = x"
  by (simp flip: as_bytes_inject)

lemma as_bytes_repeat_byte [simp]: "as_bytes (repeat_byte b :: 'n::len fixed) = replicate LENGTH('n) b"
  by transfer simp

lemma array_of_replicate [simp]:
  "n = LENGTH('n) \<Longrightarrow> (array_of (replicate n b) :: 'n::len fixed) = repeat_byte b"
  by (simp flip: as_bytes_inject)

lemma repeat_byte_inject [simp]: "(repeat_byte a :: 'n::len fixed) = repeat_byte b \<longleftrightarrow> a = b"
  by (simp flip: as_bytes_inject)

lemma try_fixed_Some_iff [results]: "try_fixed bs = Some x \<longleftrightarrow> bs = as_bytes x"
  by (auto simp: try_fixed_def)

lemma try_fixed_as_bytes [simp]: "try_fixed (as_bytes x) = Some x"
  by (simp add: try_fixed_Some_iff)

lemma try_fixed_None_iff:
  "(try_fixed bs :: 'n::len fixed option) = None \<longleftrightarrow> length bs \<noteq> LENGTH('n)"
  by (simp add: try_fixed_def)

section \<open>The derived equality and order\<close>

instantiation fixed :: (len) equal
begin

definition equal_fixed :: "'a fixed \<Rightarrow> 'a fixed \<Rightarrow> bool" where
  "equal_fixed x y \<longleftrightarrow> as_bytes x = as_bytes y"

instance
  by standard (simp add: equal_fixed_def)

end

instantiation fixed :: (len) linorder
begin

definition less_eq_fixed :: "'a fixed \<Rightarrow> 'a fixed \<Rightarrow> bool" where
  "less_eq_fixed x y \<longleftrightarrow> as_bytes x \<le> as_bytes y"

definition less_fixed :: "'a fixed \<Rightarrow> 'a fixed \<Rightarrow> bool" where
  "less_fixed x y \<longleftrightarrow> as_bytes x < as_bytes y"

instance
  by standard (auto simp: less_eq_fixed_def less_fixed_def less_le)

end

instantiation fixed :: (len) size
begin

definition size_fixed :: "'a fixed \<Rightarrow> nat" where
  "size_fixed x = LENGTH('a)"

instance ..

end

lemma replicate_less_iff:
  "replicate n a < replicate n b \<longleftrightarrow> 0 < n \<and> a < b" for a b :: "'a::linorder"
  by (induction n) auto

lemma repeat_byte_less_iff [simp]:
  "(repeat_byte a :: 'n::len fixed) < repeat_byte b \<longleftrightarrow> a < b"
  by (simp add: less_fixed_def replicate_less_iff)

end
