(* ===== verification/Codec.thy ===== *)
theory Codec
  imports Fixed_Bytes
begin

text \<open>
  The boundary to third-party code and \<open>crates/styrene-git-core/src/{codec,error}.rs\<close>.

  The record \<open>env\<close> holds the functions of the crates the core calls (BLAKE3, SHA-256,
  Ed25519, hexadecimal and base32 text); a \<open>codec\<close> holds what \<open>minicbor\<close> and its derived
  implementations do for one type. They are arguments of every definition that uses them. What
  the code relies on is stated as the predicates \<open>signatures_ok\<close>, \<open>hex_ok\<close>, \<open>base32_ok\<close> and
  \<open>codec_ok\<close>, each documented behaviour of the crate; the theory Instances exhibits
  concrete functions that satisfy all of them.
\<close>

section \<open>Third-party functions\<close>

record env =
  blake3 :: "bytes \<Rightarrow> 32 fixed"
  sha256 :: "bytes \<Rightarrow> 32 fixed"
  ed_verifying_key :: "32 fixed \<Rightarrow> 32 fixed"
  ed_valid_key :: "32 fixed \<Rightarrow> bool"
  ed_sign :: "32 fixed \<Rightarrow> bytes \<Rightarrow> 64 fixed"
  ed_verify_strict :: "32 fixed \<Rightarrow> bytes \<Rightarrow> 64 fixed \<Rightarrow> bool"
  hex_encode :: "bytes \<Rightarrow> string"
  hex_decode :: "string \<Rightarrow> bytes option"
  base32_encode :: "bytes \<Rightarrow> string"
  base32_decode :: "string \<Rightarrow> bytes option"

text \<open>
  \<open>SigningKey::from_bytes\<close> of any 32-byte seed gives a signing key; its public half is a valid
  key, and strict verification accepts what it signed.
\<close>

definition signatures_ok :: "('z) env_scheme \<Rightarrow> bool" where
  "signatures_ok E \<longleftrightarrow>
     (\<forall>k m. ed_valid_key E (ed_verifying_key E k) \<and>
            ed_verify_strict E (ed_verifying_key E k) m (ed_sign E k m))"

text \<open>
  \<open>hex::encode\<close> writes two lowercase digits per byte; \<open>hex::decode\<close> reads digits of either
  case and nothing else.
\<close>

definition hex_digits :: string where
  "hex_digits = ''0123456789abcdef''"

definition hex_ok :: "('z) env_scheme \<Rightarrow> bool" where
  "hex_ok E \<longleftrightarrow>
     (\<forall>bs. hex_decode E (hex_encode E bs) = Some bs
         \<and> length (hex_encode E bs) = 2 * length bs
         \<and> set (hex_encode E bs) \<subseteq> set hex_digits) \<and>
     (\<forall>s bs. hex_decode E s = Some bs \<longrightarrow> hex_encode E bs = map to_lower s)"

text \<open>
  \<open>BASE32_NOPAD\<close> (RFC 4648 without padding) writes 52 uppercase characters for 32 bytes and
  decodes canonical text only.
\<close>

definition base32_alphabet :: string where
  "base32_alphabet = ''ABCDEFGHIJKLMNOPQRSTUVWXYZ234567''"

definition base32_ok :: "('z) env_scheme \<Rightarrow> bool" where
  "base32_ok E \<longleftrightarrow>
     (\<forall>bs. length bs = 32 \<longrightarrow>
         base32_decode E (base32_encode E bs) = Some bs
         \<and> length (base32_encode E bs) = 52
         \<and> set (base32_encode E bs) \<subseteq> set base32_alphabet) \<and>
     (\<forall>s bs. base32_decode E s = Some bs \<longrightarrow> base32_encode E bs = s)"

section \<open>Errors\<close>

datatype core_error =
    Encode string
  | Decode string
  | NonCanonical
  | InvalidIdentity string
  | InvalidRepositoryId string
  | InvalidBinding string
  | InvalidIdentityTransition string
  | InvalidRefTransition string
  | InvalidSignature

section \<open>Canonical CBOR\<close>

text \<open>
  For one type: \<open>minicbor::to_vec\<close>, and \<open>Decoder::decode\<close> on the whole input with the position
  it leaves the decoder at. The errors are the texts of minicbor's errors.
\<close>

record 'a codec =
  to_vec :: "'a \<Rightarrow> (string, bytes) result"
  decode_at :: "bytes \<Rightarrow> (string, 'a \<times> nat) result"

definition canonical_bytes :: "'a codec \<Rightarrow> 'a \<Rightarrow> (core_error, bytes) result" where
  "canonical_bytes c v = map_err Encode (to_vec c v)"

definition from_canonical_bytes :: "'a codec \<Rightarrow> bytes \<Rightarrow> (core_error, 'a) result" where
  "from_canonical_bytes c bs =
     bindE (map_err Decode (decode_at c bs)) (\<lambda>(v, position).
     if position \<noteq> length bs then Inl NonCanonical
     else bindE (canonical_bytes c v) (\<lambda>again.
          if again \<noteq> bs then Inl NonCanonical else Inr v))"

text \<open>The derived implementations encode every value and decode what they encoded.\<close>

definition codec_ok :: "'a codec \<Rightarrow> bool" where
  "codec_ok c \<longleftrightarrow>
     (\<forall>v. \<exists>bs. to_vec c v = Inr bs \<and> decode_at c bs = Inr (v, length bs))"

text \<open>The contract a reader and a writer of signed values have with their callers.\<close>

locale canonical_form =
  fixes print_bytes :: "'a \<Rightarrow> (core_error, bytes) result"
    and parse_bytes :: "bytes \<Rightarrow> (core_error, 'a) result"
  assumes parse_print: "parse_bytes bs = Inr v \<Longrightarrow> print_bytes v = Inr bs"
begin

lemma parse_injective: "parse_bytes bs = Inr v \<Longrightarrow> parse_bytes bs' = Inr v \<Longrightarrow> bs = bs'"
  by (metis parse_print sum.inject(2))

lemma print_unparsable:
  "print_bytes v = Inr bs \<Longrightarrow> bs \<noteq> bs' \<Longrightarrow> parse_bytes bs' \<noteq> Inr v"
  by (auto dest: parse_print)

lemma print_fails_unparsable: "print_bytes v = Inl e \<Longrightarrow> parse_bytes bs \<noteq> Inr v"
  by (auto dest: parse_print)

end

lemma from_canonical_bytes_Inr_iff [results]:
  "from_canonical_bytes c bs = Inr v \<longleftrightarrow>
     decode_at c bs = Inr (v, length bs) \<and> to_vec c v = Inr bs"
  by (auto simp: from_canonical_bytes_def canonical_bytes_def results split: if_splits)

interpretation cbor: canonical_form "canonical_bytes c" "from_canonical_bytes c" for c
  by unfold_locales (simp add: results canonical_bytes_def)

lemma canonical_bytes_total: "codec_ok c \<Longrightarrow> \<exists>bs. canonical_bytes c v = Inr bs"
  by (metis canonical_bytes_def codec_ok_def map_err.simps(2))

lemma canonical_bytes_iff:
  assumes "codec_ok c"
  shows "from_canonical_bytes c bs = Inr v \<longleftrightarrow> canonical_bytes c v = Inr bs"
proof -
  obtain b where "to_vec c v = Inr b" "decode_at c b = Inr (v, length b)"
    using assms by (auto simp: codec_ok_def)
  then show ?thesis by (auto simp: results canonical_bytes_def)
qed

lemma canonical_bytes_inject:
  assumes "codec_ok c" "canonical_bytes c v = Inr bs" "canonical_bytes c w = Inr bs"
  shows "v = w"
  using assms by (metis canonical_bytes_iff sum.inject(2))

section \<open>Domain-separated digests\<close>

datatype digest = Digest (digest_array: "32 fixed")

text \<open>\<open>Hasher::update\<close> called twice hashes the concatenation.\<close>

definition domain_digest :: "('z) env_scheme \<Rightarrow> bytes \<Rightarrow> bytes \<Rightarrow> digest" where
  "domain_digest E domain value = Digest (blake3 E (domain @ value))"

end
