(* ===== verification/Core_Types.thy ===== *)
theory Core_Types
  imports Codec
begin

text \<open>
  \<open>crates/styrene-git-core/src/types.rs\<close>: the fixed-size identifiers and cryptographic values,
  their text forms, and the derived orders that sets and maps of them use.
\<close>

datatype public_key = PublicKey (public_key_array: "32 fixed")
datatype signature_bytes = SignatureBytes (signature_array: "64 fixed")
datatype styrene_identity = StyreneIdentity (identity_array: "16 fixed")
datatype repository_id = RepositoryId (repository_digest: digest)

text \<open>An \<open>ed25519_dalek::SigningKey\<close> is given by its 32 secret bytes.\<close>

type_synonym signing_key = "32 fixed"

section \<open>Derived orders\<close>

instantiation digest :: linorder
begin

definition less_eq_digest :: "digest \<Rightarrow> digest \<Rightarrow> bool" where
  "less_eq_digest x y \<longleftrightarrow> digest_array x \<le> digest_array y"

definition less_digest :: "digest \<Rightarrow> digest \<Rightarrow> bool" where
  "less_digest x y \<longleftrightarrow> digest_array x < digest_array y"

instance
  by standard (auto simp: less_eq_digest_def less_digest_def digest.expand)

end

instantiation styrene_identity :: linorder
begin

definition less_eq_styrene_identity :: "styrene_identity \<Rightarrow> styrene_identity \<Rightarrow> bool" where
  "less_eq_styrene_identity x y \<longleftrightarrow> identity_array x \<le> identity_array y"

definition less_styrene_identity :: "styrene_identity \<Rightarrow> styrene_identity \<Rightarrow> bool" where
  "less_styrene_identity x y \<longleftrightarrow> identity_array x < identity_array y"

instance
  by standard
    (auto simp: less_eq_styrene_identity_def less_styrene_identity_def styrene_identity.expand)

end

instantiation repository_id :: linorder
begin

definition less_eq_repository_id :: "repository_id \<Rightarrow> repository_id \<Rightarrow> bool" where
  "less_eq_repository_id x y \<longleftrightarrow> repository_digest x \<le> repository_digest y"

definition less_repository_id :: "repository_id \<Rightarrow> repository_id \<Rightarrow> bool" where
  "less_repository_id x y \<longleftrightarrow> repository_digest x < repository_digest y"

instance
  by standard
    (auto simp: less_eq_repository_id_def less_repository_id_def repository_id.expand)

end

section \<open>The encodings written by the macro\<close>

text \<open>
  \<open>Decode for $name\<close>: the byte string the decoder returned becomes an array, or minicbor's
  message error. \<open>decoded\<close> stands for the result of \<open>decoder.bytes()\<close>.
\<close>

definition decode_fixed :: "(string, bytes) result \<Rightarrow> (string, ('n::len) fixed) result" where
  "decode_fixed decoded =
     bindE decoded (\<lambda>bs. ok_or ''invalid fixed byte length'' (try_fixed bs))"

section \<open>Keys, identities and their text\<close>

definition digest_base32 :: "('z) env_scheme \<Rightarrow> digest \<Rightarrow> string" where
  "digest_base32 E d = map to_lower (base32_encode E (as_bytes (digest_array d)))"

text \<open>\<open>PublicKey::verifying_key\<close>, then \<open>verify_strict\<close> with the error both are mapped to.\<close>

definition verifying_key :: "('z) env_scheme \<Rightarrow> public_key \<Rightarrow> (core_error, 32 fixed) result" where
  "verifying_key E k =
     (if ed_valid_key E (public_key_array k) then Inr (public_key_array k) else Inl InvalidSignature)"

definition verify_strict ::
  "('z) env_scheme \<Rightarrow> public_key \<Rightarrow> bytes \<Rightarrow> signature_bytes \<Rightarrow> (core_error, unit) result" where
  "verify_strict E k message s =
     bindE (verifying_key E k) (\<lambda>key.
     ensure (ed_verify_strict E key message (signature_array s)) InvalidSignature)"

definition from_public_key :: "('z) env_scheme \<Rightarrow> public_key \<Rightarrow> styrene_identity" where
  "from_public_key E k =
     StyreneIdentity (array_of (take 16 (as_bytes (sha256 E (as_bytes (public_key_array k))))))"

definition public_key_of :: "('z) env_scheme \<Rightarrow> signing_key \<Rightarrow> public_key" where
  "public_key_of E k = PublicKey (ed_verifying_key E k)"

definition from_signing_key :: "('z) env_scheme \<Rightarrow> signing_key \<Rightarrow> styrene_identity" where
  "from_signing_key E k = from_public_key E (public_key_of E k)"

definition sign_bytes :: "('z) env_scheme \<Rightarrow> signing_key \<Rightarrow> bytes \<Rightarrow> signature_bytes" where
  "sign_bytes E k message = SignatureBytes (ed_sign E k message)"

definition identity_hex :: "('z) env_scheme \<Rightarrow> styrene_identity \<Rightarrow> string" where
  "identity_hex E i = hex_encode E (as_bytes (identity_array i))"

definition identity_from_hex ::
  "('z) env_scheme \<Rightarrow> string \<Rightarrow> (core_error, styrene_identity) result" where
  "identity_from_hex E value =
     (if length value \<noteq> 32 \<or> list_ex is_ascii_uppercase value
      then Inl (InvalidIdentity ''identity must be 32 lowercase hexadecimal characters'')
      else bindE (ok_or (InvalidIdentity ''identity is not hexadecimal'') (hex_decode E value)) (\<lambda>bs.
           bindE (ok_or (InvalidIdentity ''identity has the wrong length'') (try_fixed bs)) (\<lambda>a.
           Inr (StyreneIdentity a))))"

section \<open>Repository identifiers\<close>

definition repository_prefix :: string where
  "repository_prefix = ''styrene:git:v1:''"

definition repository_to_string :: "('z) env_scheme \<Rightarrow> repository_id \<Rightarrow> string" where
  "repository_to_string E r = repository_prefix @ digest_base32 E (repository_digest r)"

definition repository_from_str ::
  "('z) env_scheme \<Rightarrow> string \<Rightarrow> (core_error, repository_id) result" where
  "repository_from_str E value =
     bindE (ok_or (InvalidRepositoryId ''unsupported repository identifier prefix'')
              (strip_prefix repository_prefix value)) (\<lambda>encoded.
     if length encoded \<noteq> 52 \<or> list_ex is_ascii_uppercase encoded
     then Inl (InvalidRepositoryId ''digest must be canonical lowercase base32'')
     else bindE (ok_or (InvalidRepositoryId ''digest is not valid base32'')
                   (base32_decode E (map to_upper encoded))) (\<lambda>bs.
          bindE (ok_or (InvalidRepositoryId ''digest has the wrong length'') (try_fixed bs)) (\<lambda>a.
          Inr (RepositoryId (Digest a)))))"

section \<open>Lemmas\<close>

lemma verify_strict_Inr_iff:
  "verify_strict E k m s = Inr u \<longleftrightarrow>
     ed_valid_key E (public_key_array k) \<and>
     ed_verify_strict E (public_key_array k) m (signature_array s)"
  by (auto simp: verify_strict_def verifying_key_def results)

lemma verifying_key_Inr_iff:
  "verifying_key E k = Inr key \<longleftrightarrow> ed_valid_key E (public_key_array k) \<and> key = public_key_array k"
  by (auto simp: verifying_key_def)

lemma verify_strict_valid_key: "verify_strict E k m s = Inr u \<Longrightarrow> ed_valid_key E (public_key_array k)"
  by (simp add: verify_strict_Inr_iff)

lemma verify_strict_Inl: "verify_strict E k m s = Inl e \<Longrightarrow> e = InvalidSignature"
  by (auto simp: verify_strict_def verifying_key_def bindE_Inl_iff ensure_Inl_iff split: if_splits)

lemma verify_strict_sign [simp]:
  "signatures_ok E \<Longrightarrow> verify_strict E (public_key_of E k) m (sign_bytes E k m) = Inr ()"
  by (simp add: verify_strict_Inr_iff signatures_ok_def public_key_of_def sign_bytes_def)

lemma to_lower_upper: "\<not> is_ascii_uppercase c \<Longrightarrow> to_lower (to_upper c) = c"
  by (auto simp: to_lower_def to_upper_def is_ascii_uppercase_def is_ascii_lowercase_def
      less_eq_char_def)

lemma to_upper_lower: "\<not> is_ascii_lowercase c \<Longrightarrow> to_upper (to_lower c) = c"
  by (auto simp: to_lower_def to_upper_def is_ascii_uppercase_def is_ascii_lowercase_def
      less_eq_char_def)

lemma to_lower_id: "\<not> is_ascii_uppercase c \<Longrightarrow> to_lower c = c"
  by (simp add: to_lower_def)

lemma map_to_lower_id: "\<not> list_ex is_ascii_uppercase s \<Longrightarrow> map to_lower s = s"
  by (simp add: list_ex_iff map_idI to_lower_id)

lemma hex_digits_lower: "c \<in> set hex_digits \<Longrightarrow> \<not> is_ascii_uppercase c"
  by (auto simp: hex_digits_def is_ascii_uppercase_def less_eq_char_def)

lemma base32_alphabet_upper:
  "c \<in> set base32_alphabet \<Longrightarrow> \<not> is_ascii_lowercase c \<and> \<not> is_ascii_uppercase (to_lower c)"
  by (auto simp: base32_alphabet_def is_ascii_lowercase_def is_ascii_uppercase_def to_lower_def
      less_eq_char_def)

lemma length_identity_hex [simp]: "hex_ok E \<Longrightarrow> length (identity_hex E i) = 32"
  by (simp add: hex_ok_def identity_hex_def)

lemma identity_hex_chars: "hex_ok E \<Longrightarrow> set (identity_hex E i) \<subseteq> set hex_digits"
  by (simp add: hex_ok_def identity_hex_def)

lemma digest_base32_length [simp]: "base32_ok E \<Longrightarrow> length (digest_base32 E d) = 52"
  by (simp add: base32_ok_def digest_base32_def)

lemma base32_alphabet_upper_lower: "c \<in> set base32_alphabet \<Longrightarrow> to_upper (to_lower c) = c"
  by (simp add: base32_alphabet_upper to_upper_lower)

lemma base32_ok_fixed:
  fixes x :: "32 fixed"
  assumes "base32_ok E"
  shows "base32_decode E (base32_encode E (as_bytes x)) = Some (as_bytes x)"
    and "length (base32_encode E (as_bytes x)) = 52"
    and "c \<in> set (base32_encode E (as_bytes x)) \<Longrightarrow> c \<in> set base32_alphabet"
proof -
  have len: "length (as_bytes x) = 32" by simp
  note ok = assms [unfolded base32_ok_def, THEN conjunct1, rule_format, OF len]
  show "base32_decode E (base32_encode E (as_bytes x)) = Some (as_bytes x)"
    and "length (base32_encode E (as_bytes x)) = 52"
    using ok by simp_all
  show "c \<in> set (base32_encode E (as_bytes x)) \<Longrightarrow> c \<in> set base32_alphabet"
    using ok by blast
qed

lemma digest_base32_lower: "base32_ok E \<Longrightarrow> \<not> list_ex is_ascii_uppercase (digest_base32 E d)"
  by (auto simp: digest_base32_def list_ex_iff dest: base32_ok_fixed base32_alphabet_upper)

lemma digest_base32_chars:
  "base32_ok E \<Longrightarrow> set (digest_base32 E d) \<subseteq> to_lower ` set base32_alphabet"
  by (auto simp: digest_base32_def dest: base32_ok_fixed)

lemma digest_base32_decode:
  assumes "base32_ok E"
  shows "base32_decode E (map to_upper (digest_base32 E d)) = Some (as_bytes (digest_array d))"
proof -
  have "map to_upper (map to_lower (base32_encode E (as_bytes (digest_array d))))
      = base32_encode E (as_bytes (digest_array d))"
    unfolding map_map
    using assms by (intro map_idI) (auto intro: base32_alphabet_upper_lower dest: base32_ok_fixed)
  then show ?thesis using assms by (simp only: digest_base32_def base32_ok_fixed)
qed

lemma identity_from_hex_hex:
  assumes "hex_ok E"
  shows "identity_from_hex E (identity_hex E i) = Inr i"
proof -
  have "\<not> list_ex is_ascii_uppercase (identity_hex E i)"
    using identity_hex_chars [OF assms, of i] hex_digits_lower by (auto simp: list_ex_iff)
  then show ?thesis
    using assms by (simp add: identity_from_hex_def) (simp add: identity_hex_def hex_ok_def)
qed

lemma identity_hex_from_hex:
  assumes "hex_ok E" "identity_from_hex E s = Inr i"
  shows "identity_hex E i = s"
  using assms
  by (auto simp: identity_from_hex_def identity_hex_def results hex_ok_def map_to_lower_id split: if_splits)

lemma repository_from_str_to_string:
  assumes "base32_ok E"
  shows "repository_from_str E (repository_to_string E r) = Inr r"
  using assms digest_base32_lower [OF assms]
  by (simp add: repository_from_str_def repository_to_string_def strip_prefix_def
      digest_base32_decode)

lemma map_lower_upper: "\<not> list_ex is_ascii_uppercase s \<Longrightarrow> map to_lower (map to_upper s) = s"
  unfolding map_map by (rule map_idI) (auto simp: list_ex_iff to_lower_upper)

lemma repository_to_string_from_str:
  assumes "base32_ok E" "repository_from_str E s = Inr r"
  shows "repository_to_string E r = s"
proof -
  obtain enc a where s: "s = repository_prefix @ enc"
    and low: "\<not> list_ex is_ascii_uppercase enc"
    and dec: "base32_decode E (map to_upper enc) = Some (as_bytes a)"
    and r: "r = RepositoryId (Digest a)"
    using assms(2) by (auto simp: repository_from_str_def results split: if_splits)
  then have "base32_encode E (as_bytes a) = map to_upper enc"
    using assms(1) by (simp add: base32_ok_def)
  then show ?thesis
    using s r map_lower_upper [OF low] by (simp add: repository_to_string_def digest_base32_def)
qed

end
