(* ===== verification/Ordered.thy ===== *)
theory Ordered
  imports Prelude "HOL-Library.Multiset"
begin

text \<open>
  The ordered collections of the standard library that the sources use: \<open>BTreeMap\<close> (an
  association list with strictly increasing keys, which is the order its iterators follow),
  \<open>BTreeSet\<close> (the strictly increasing list of its elements), sorting with \<open>sort_unstable\<close>,
  \<open>sort_by_key\<close> and \<open>dedup\<close>, and the \<open>binary_search_by\<close> of slices.
  The locale \<open>ordered_map\<close> states what clients rely on; \<open>BTreeMap\<close>'s model interprets it.
\<close>

section \<open>The map interface\<close>

locale ordered_map =
  fixes empty :: 'm
    and insert :: "'k::linorder \<Rightarrow> 'v \<Rightarrow> 'm \<Rightarrow> 'm"
    and lookup :: "'m \<Rightarrow> 'k \<Rightarrow> 'v option"
    and entries :: "'m \<Rightarrow> ('k \<times> 'v) list"
    and invar :: "'m \<Rightarrow> bool"
  assumes lookup_empty: "lookup empty k = None"
    and invar_empty: "invar empty"
    and invar_insert: "invar m \<Longrightarrow> invar (insert k v m)"
    and lookup_insert: "invar m \<Longrightarrow> lookup (insert k v m) = (lookup m)(k \<mapsto> v)"
    and entries_sorted: "invar m \<Longrightarrow> sorted_wrt (<) (map fst (entries m))"
    and entries_lookup: "invar m \<Longrightarrow> map_of (entries m) = lookup m"
begin

text \<open>\<open>collect()\<close> and the insertion loops of the sources.\<close>

definition insert_all :: "('k \<times> 'v) list \<Rightarrow> 'm \<Rightarrow> 'm" where
  "insert_all kvs m = foldl (\<lambda>m (k, v). insert k v m) m kvs"

lemma invar_insert_all: "invar m \<Longrightarrow> invar (insert_all kvs m)"
  by (induction kvs arbitrary: m) (auto simp: insert_all_def invar_insert)

lemma lookup_insert_all:
  "invar m \<Longrightarrow> lookup (insert_all kvs m) = lookup m ++ map_of (rev kvs)"
proof (induction kvs arbitrary: m)
  case (Cons kv kvs)
  obtain k v where kv: "kv = (k, v)" by (cases kv)
  have "lookup (insert_all kvs (insert k v m)) = (lookup m)(k \<mapsto> v) ++ map_of (rev kvs)"
    using Cons.IH [OF invar_insert [OF Cons.prems]] by (simp only: lookup_insert [OF Cons.prems])
  moreover have "insert_all (kv # kvs) m = insert_all kvs (insert k v m)"
    by (simp add: insert_all_def kv)
  ultimately show ?case
    by (auto simp: kv map_add_def fun_eq_iff split: option.splits)
qed (simp add: insert_all_def)

lemma entries_determined:
  assumes "invar m" "invar m'" "lookup m = lookup m'"
  shows "entries m = entries m'"
proof -
  have dist: "distinct (map fst (entries m))" "distinct (map fst (entries m'))"
    using assms by (auto intro: strict_sorted_distinct entries_sorted)
  then have same: "set (entries m) = set (entries m')"
    using assms by (simp add: entries_lookup flip: map_of_inject_set)
  show ?thesis
  proof (rule map_sorted_distinct_set_unique [where f = fst])
    show "inj_on fst (set (entries m) \<union> set (entries m'))"
      using dist same by (simp add: distinct_map)
  qed (use assms dist same in \<open>auto simp: entries_sorted strict_sorted_imp_sorted\<close>)
qed

lemma mem_entries_iff: "invar m \<Longrightarrow> (k, v) \<in> set (entries m) \<longleftrightarrow> lookup m k = Some v"
  by (metis entries_lookup entries_sorted map_of_eq_Some_iff strict_sorted_distinct)

end

section \<open>BTreeMap\<close>

type_synonym ('k, 'v) btree_map = "('k \<times> 'v) list"

definition btree_invar :: "('k::linorder, 'v) btree_map \<Rightarrow> bool" where
  "btree_invar m \<longleftrightarrow> sorted_wrt (<) (map fst m)"

fun btree_insert :: "'k::linorder \<Rightarrow> 'v \<Rightarrow> ('k, 'v) btree_map \<Rightarrow> ('k, 'v) btree_map" where
  "btree_insert k v [] = [(k, v)]"
| "btree_insert k v ((k', v') # m) =
     (if k < k' then (k, v) # (k', v') # m
      else if k = k' then (k, v) # m
      else (k', v') # btree_insert k v m)"

definition btree_get :: "('k, 'v) btree_map \<Rightarrow> 'k \<Rightarrow> 'v option" where
  "btree_get m k = map_of m k"

definition btree_of_list :: "('k::linorder \<times> 'v) list \<Rightarrow> ('k, 'v) btree_map" where
  "btree_of_list kvs = foldl (\<lambda>m (k, v). btree_insert k v m) [] kvs"

lemma keys_btree_insert: "fst ` set (btree_insert k v m) = insert k (fst ` set m)"
  by (induction k v m rule: btree_insert.induct) auto

lemma btree_invar_insert: "btree_invar m \<Longrightarrow> btree_invar (btree_insert k v m)"
proof (induction k v m rule: btree_insert.induct)
  case (2 k v k' v' m)
  then show ?case
    using keys_btree_insert [of k v m] by (auto simp: btree_invar_def)
qed (simp add: btree_invar_def)

lemma btree_get_insert: "btree_invar m \<Longrightarrow> btree_get (btree_insert k v m) = (btree_get m)(k \<mapsto> v)"
proof (induction k v m rule: btree_insert.induct)
  case (2 k v k' v' m)
  then show ?case by (auto simp: btree_invar_def btree_get_def fun_eq_iff)
qed (simp add: btree_get_def fun_eq_iff)

interpretation btree: ordered_map "[]" btree_insert btree_get "\<lambda>m. m" btree_invar
  by unfold_locales
    (auto simp: btree_invar_insert btree_get_insert, auto simp: btree_get_def btree_invar_def)

lemma btree_of_list_insert_all: "btree_of_list kvs = btree.insert_all kvs []"
  by (simp add: btree_of_list_def btree.insert_all_def)

lemma btree_invar_of_list [simp]: "btree_invar (btree_of_list kvs)"
  by (simp add: btree_of_list_insert_all btree.invar_insert_all btree.invar_empty)

lemma btree_get_of_list: "btree_get (btree_of_list kvs) = map_of (rev kvs)"
  by (simp add: btree_of_list_insert_all btree.lookup_insert_all btree.invar_empty
      btree_get_def map_add_def fun_eq_iff split: option.splits)

lemma btree_get_of_list_distinct:
  "distinct (map fst kvs) \<Longrightarrow> btree_get (btree_of_list kvs) = map_of kvs"
  by (simp add: btree_get_of_list map_of_inject_set distinct_rev flip: rev_map)

section \<open>BTreeSet, sorting and dedup\<close>

text \<open>\<open>collect::<BTreeSet<_>>()\<close> followed by iteration.\<close>

definition btree_set :: "'a::linorder list \<Rightarrow> 'a list" where
  "btree_set xs = sort (remdups xs)"

lemma set_btree_set [simp]: "set (btree_set xs) = set xs"
  by (simp add: btree_set_def)

lemma sorted_btree_set: "sorted_wrt (<) (btree_set xs)"
  by (simp add: btree_set_def strict_sorted_iff)

lemma btree_set_id: "sorted_wrt (<) xs \<Longrightarrow> btree_set xs = xs"
  by (rule strict_sorted_unique) (auto simp: sorted_btree_set)

lemma length_btree_set: "length (btree_set xs) \<le> length xs"
  by (simp add: btree_set_def length_remdups_leq)

text \<open>\<open>dedup\<close> drops an element equal to the one kept before it.\<close>

fun dedup :: "'a list \<Rightarrow> 'a list" where
  "dedup (x # y # zs) = (if x = y then dedup (x # zs) else x # dedup (y # zs))"
| "dedup xs = xs"

lemma set_dedup [simp]: "set (dedup xs) = set xs"
  by (induction xs rule: dedup.induct) auto

lemma dedup_sorted: "sorted xs \<Longrightarrow> sorted_wrt (<) (dedup xs)"
proof (induction xs rule: dedup.induct)
  case (1 x y zs)
  then show ?case
    by (cases "x = y") (auto simp: less_le)
qed auto

lemma dedup_sort: "dedup (sort xs) = btree_set xs"
  by (rule strict_sorted_unique) (auto simp: dedup_sorted sorted_btree_set)

section \<open>Binary search\<close>

datatype ordering = Less | Equal | Greater

definition cmp :: "'a::linorder \<Rightarrow> 'a \<Rightarrow> ordering" where
  "cmp a b = (if a < b then Less else if a = b then Equal else Greater)"

text \<open>The loop of \<open>slice::binary_search_by\<close> narrows \<open>[base, base + len)\<close> to one index.\<close>

function search_loop :: "('a \<Rightarrow> ordering) \<Rightarrow> 'a list \<Rightarrow> nat \<Rightarrow> nat \<Rightarrow> nat" where
  "search_loop f xs base len =
     (if len \<le> 1 then base
      else let half = len div 2; mid = base + half
           in search_loop f xs (if f (xs ! mid) = Greater then base else mid) (len - half))"
  by pat_completeness auto
termination
  by (relation "measure (\<lambda>(f, xs, base, len). len)") auto

declare search_loop.simps [simp del]

definition binary_search_by :: "('a \<Rightarrow> ordering) \<Rightarrow> 'a list \<Rightarrow> (nat, nat) result" where
  "binary_search_by f xs =
     (if xs = [] then Inl 0
      else let base = search_loop f xs 0 (length xs)
           in case f (xs ! base) of
                Equal \<Rightarrow> Inr base
              | Less \<Rightarrow> Inl (base + 1)
              | Greater \<Rightarrow> Inl base)"

lemma search_loop_range:
  "0 < len \<Longrightarrow> base \<le> search_loop f xs base len \<and> search_loop f xs base len < base + len"
proof (induction f xs base len rule: search_loop.induct)
  case (1 f xs base len)
  show ?case
  proof (cases "len \<le> 1")
    case False
    define half where "half = len div 2"
    define b where "b = (if f (xs ! (base + half)) = Greater then base else base + half)"
    have "b \<le> search_loop f xs b (len - half) \<and> search_loop f xs b (len - half) < b + (len - half)"
      using "1.IH" [OF False half_def refl] False by (auto simp: b_def half_def)
    moreover have "search_loop f xs base len = search_loop f xs b (len - half)"
      using False by (simp add: search_loop.simps [of f xs base len] Let_def b_def half_def)
    moreover have "half \<le> len" by (simp add: half_def)
    ultimately show ?thesis by (auto simp: b_def split: if_splits)
  qed (use "1.prems" in \<open>simp add: search_loop.simps [of f xs base len]\<close>)
qed

lemma search_loop_finds:
  assumes "sorted_wrt (<) (map key xs)" "i < length xs" "key (xs ! i) = k"
    and "base \<le> i" "i < base + len" "base + len \<le> length xs"
  shows "search_loop (\<lambda>e. cmp (key e) k) xs base len = i"
  using assms
proof (induction "\<lambda>e. cmp (key e) k" xs base len rule: search_loop.induct)
  case (1 xs base len)
  show ?case
  proof (cases "len \<le> 1")
    case False
    define half where "half = len div 2"
    have half: "0 < half" "half + half \<le> len" using False by (auto simp: half_def)
    have mid: "base + half < length xs" using "1.prems" half by auto
    have gt: "cmp (key (xs ! (base + half))) k = Greater \<longleftrightarrow> i < base + half"
    proof (cases i "base + half" rule: linorder_cases)
      case less
      then have "key (xs ! i) < key (xs ! (base + half))"
        using sorted_wrt_nth_less [OF "1.prems"(1), of i "base + half"] mid by simp
      then show ?thesis using "1.prems"(3) less by (auto simp: cmp_def)
    next
      case greater
      then have "key (xs ! (base + half)) < key (xs ! i)"
        using sorted_wrt_nth_less [OF "1.prems"(1), of "base + half" i] "1.prems"(2) by simp
      then show ?thesis using "1.prems"(3) greater by (auto simp: cmp_def)
    qed (use "1.prems"(3) in \<open>simp add: cmp_def\<close>)
    show ?thesis
      using "1.hyps" [OF False half_def refl] "1.prems" half gt False
      by (cases "i < base + half") (simp_all add: search_loop.simps [of _ xs base len] Let_def flip: half_def)
  qed (use "1.prems" in \<open>simp add: search_loop.simps [of _ xs base len]\<close>)
qed

lemma binary_search_sound:
  "binary_search_by (\<lambda>e. cmp (key e) k) xs = Inr i \<Longrightarrow> i < length xs \<and> key (xs ! i) = k"
  using search_loop_range [of "length xs" 0 "\<lambda>e. cmp (key e) k" xs]
  by (auto simp: binary_search_by_def Let_def cmp_def split: if_splits)

lemma binary_search_iff:
  assumes "sorted_wrt (<) (map key xs)"
  shows "binary_search_by (\<lambda>e. cmp (key e) k) xs = Inr i \<longleftrightarrow> i < length xs \<and> key (xs ! i) = k"
proof
  assume i: "i < length xs \<and> key (xs ! i) = k"
  then have "search_loop (\<lambda>e. cmp (key e) k) xs 0 (length xs) = i"
    using assms by (intro search_loop_finds) auto
  then show "binary_search_by (\<lambda>e. cmp (key e) k) xs = Inr i"
    using i by (auto simp: binary_search_by_def Let_def cmp_def)
qed (rule binary_search_sound)

end
