(* ===== verification/Identity.thy ===== *)
theory Identity
  imports Core_Types Ordered
begin

text \<open>
  \<open>crates/styrene-git-core/src/identity.rs\<close>: identity documents, signer bindings and the
  transitions that replace a repository's identity document under its delegates' threshold.
\<close>

section \<open>Identity documents\<close>

datatype visibility = Public | Private

record identity_document =
  doc_version :: u8
  doc_name :: string
  doc_description :: string
  doc_default_branch :: string
  doc_visibility :: visibility
  doc_delegates :: "styrene_identity list"
  doc_threshold :: u16

definition ref_specials :: "char list" where
  "ref_specials = '' ~^:?*['' @ [CHR 0x5C]"

definition valid_branch_name :: "string \<Rightarrow> bool" where
  "valid_branch_name branch \<longleftrightarrow>
     branch \<noteq> [] \<and>
     \<not> starts_with branch ''.'' \<and>
     \<not> ends_with branch ''.'' \<and>
     \<not> contains_str branch ''..'' \<and>
     \<not> contains_any branch ref_specials \<and>
     \<not> ends_with branch ''/'' \<and>
     \<not> ends_with branch ''.lock''"

definition document_validate :: "identity_document \<Rightarrow> (core_error, unit) result" where
  "document_validate d =
     (if doc_version d \<noteq> 1 then Inl (InvalidIdentity ''unsupported identity version'')
      else if doc_name d = [] then Inl (InvalidIdentity ''name must not be empty'')
      else if \<not> valid_branch_name (doc_default_branch d)
      then Inl (InvalidIdentity ''invalid default branch'')
      else if doc_delegates d = [] then Inl (InvalidIdentity ''delegate set must not be empty'')
      else if doc_threshold d = 0 \<or> unat (doc_threshold d) > length (doc_delegates d)
      then Inl (InvalidIdentity ''threshold is outside delegate set'')
      else if \<not> windows2_all (<) (doc_delegates d)
      then Inl (InvalidIdentity ''delegates must be sorted and unique'')
      else Inr ())"

definition document_new ::
  "string \<Rightarrow> string \<Rightarrow> string \<Rightarrow> visibility \<Rightarrow> styrene_identity list \<Rightarrow> u16
     \<Rightarrow> (core_error, identity_document) result" where
  "document_new name description default_branch visibility delegates threshold =
     (let document = \<lparr>doc_version = 1, doc_name = name, doc_description = description,
            doc_default_branch = default_branch, doc_visibility = visibility,
            doc_delegates = sort delegates, doc_threshold = threshold\<rparr>
      in bindE (document_validate document) (\<lambda>_. Inr document))"

section \<open>Signer bindings\<close>

record signer_binding_payload =
  sbp_version :: u8
  sbp_purpose :: string
  sbp_identity :: styrene_identity
  sbp_identity_key :: public_key
  sbp_repository_key :: public_key
  sbp_key_epoch :: u32

record signer_binding =
  sb_payload :: signer_binding_payload
  sb_signature :: signature_bytes

record signer_selection =
  sel_identity :: styrene_identity
  sel_repository_key :: public_key
  sel_key_epoch :: u32

definition signer_binding_purpose :: string where
  "signer_binding_purpose = ''styrene-repository-signing-v1''"

section \<open>Identity transitions and states\<close>

record identity_transition_payload =
  itp_version :: u8
  itp_repository :: repository_id
  itp_parent :: digest
  itp_sequence :: u64
  itp_document :: identity_document

record approval =
  appr_identity :: styrene_identity
  appr_key_epoch :: u32
  appr_signature :: signature_bytes

record identity_transition =
  it_payload :: identity_transition_payload
  it_approvals :: "approval list"

record identity_state =
  ids_repository :: repository_id
  ids_transition :: digest
  ids_sequence :: u64
  ids_document :: identity_document

text \<open>The environment, extended by the CBOR codecs of this file's types.\<close>

record identity_env = env +
  document_codec :: "identity_document codec"
  binding_payload_codec :: "signer_binding_payload codec"
  binding_codec :: "signer_binding codec"
  identity_payload_codec :: "identity_transition_payload codec"
  identity_transition_codec :: "identity_transition codec"

definition identity_codecs_ok :: "('z) identity_env_scheme \<Rightarrow> bool" where
  "identity_codecs_ok E \<longleftrightarrow>
     codec_ok (document_codec E) \<and> codec_ok (binding_payload_codec E) \<and>
     codec_ok (binding_codec E) \<and> codec_ok (identity_payload_codec E) \<and>
     codec_ok (identity_transition_codec E)"

section \<open>Domain separators\<close>

text \<open>A byte string literal ending in a NUL byte.\<close>

definition domain_bytes :: "string \<Rightarrow> bytes" where
  "domain_bytes s = str_bytes s @ [0]"

definition repository_id_domain :: bytes where
  "repository_id_domain = domain_bytes ''styrene/git/repository-id/v1''"

definition identity_root_domain :: bytes where
  "identity_root_domain = domain_bytes ''styrene/git/identity-root/v1''"

definition identity_transition_domain :: bytes where
  "identity_transition_domain = domain_bytes ''styrene/git/identity-transition/v1''"

section \<open>Operations\<close>

definition document_repository_id ::
  "('z) identity_env_scheme \<Rightarrow> identity_document \<Rightarrow> (core_error, repository_id) result" where
  "document_repository_id E d =
     bindE (document_validate d) (\<lambda>_.
     bindE (canonical_bytes (document_codec E) d) (\<lambda>bs.
     Inr (RepositoryId (domain_digest E repository_id_domain bs))))"

definition binding_issue ::
  "('z) identity_env_scheme \<Rightarrow> signing_key \<Rightarrow> public_key \<Rightarrow> u32
     \<Rightarrow> (core_error, signer_binding) result" where
  "binding_issue E identity_key repository_key key_epoch =
     (let identity_key_public = public_key_of E identity_key;
          payload = \<lparr>sbp_version = 1, sbp_purpose = signer_binding_purpose,
            sbp_identity = from_public_key E identity_key_public,
            sbp_identity_key = identity_key_public,
            sbp_repository_key = repository_key, sbp_key_epoch = key_epoch\<rparr>
      in bindE (canonical_bytes (binding_payload_codec E) payload) (\<lambda>bs.
         Inr \<lparr>sb_payload = payload, sb_signature = sign_bytes E identity_key bs\<rparr>))"

definition binding_verify ::
  "('z) identity_env_scheme \<Rightarrow> signer_binding \<Rightarrow> (core_error, unit) result" where
  "binding_verify E b =
     (let p = sb_payload b in
      if sbp_version p \<noteq> 1 \<or> sbp_purpose p \<noteq> signer_binding_purpose
      then Inl (InvalidBinding ''unsupported binding domain'')
      else if from_public_key E (sbp_identity_key p) \<noteq> sbp_identity p
      then Inl (InvalidBinding ''identity hash does not match key'')
      else bindE (verifying_key E (sbp_identity_key p)) (\<lambda>_.
           bindE (canonical_bytes (binding_payload_codec E) p) (\<lambda>bs.
           verify_strict E (sbp_identity_key p) bs (sb_signature b))))"

definition binding_identity :: "signer_binding \<Rightarrow> styrene_identity" where
  "binding_identity b = sbp_identity (sb_payload b)"

definition binding_repository_key :: "signer_binding \<Rightarrow> public_key" where
  "binding_repository_key b = sbp_repository_key (sb_payload b)"

definition binding_key_epoch :: "signer_binding \<Rightarrow> u32" where
  "binding_key_epoch b = sbp_key_epoch (sb_payload b)"

definition binding_selection ::
  "('z) identity_env_scheme \<Rightarrow> signer_binding \<Rightarrow> (core_error, signer_selection) result" where
  "binding_selection E b =
     bindE (binding_verify E b) (\<lambda>_.
     Inr \<lparr>sel_identity = binding_identity b, sel_repository_key = binding_repository_key b,
          sel_key_epoch = binding_key_epoch b\<rparr>)"

definition binding_verify_selected ::
  "('z) identity_env_scheme \<Rightarrow> signer_binding \<Rightarrow> signer_selection \<Rightarrow> (core_error, unit) result" where
  "binding_verify_selected E b selected =
     bindE (binding_verify E b) (\<lambda>_.
     if binding_identity b \<noteq> sel_identity selected \<or>
        binding_repository_key b \<noteq> sel_repository_key selected \<or>
        binding_key_epoch b \<noteq> sel_key_epoch selected
     then Inl (InvalidBinding ''binding does not match prior-state signer selection'')
     else Inr ())"

definition identity_initial ::
  "('z) identity_env_scheme \<Rightarrow> identity_document \<Rightarrow> (core_error, identity_state) result" where
  "identity_initial E document =
     bindE (document_validate document) (\<lambda>_.
     bindE (canonical_bytes (document_codec E) document) (\<lambda>bs.
     bindE (document_repository_id E document) (\<lambda>repository.
     Inr \<lparr>ids_repository = repository,
          ids_transition = domain_digest E identity_root_domain bs,
          ids_sequence = 0, ids_document = document\<rparr>)))"

definition transition_proposed ::
  "identity_state \<Rightarrow> identity_document \<Rightarrow> (core_error, identity_transition) result" where
  "transition_proposed previous document =
     bindE (ok_or (InvalidIdentityTransition ''identity transition sequence exhausted'')
              (checked_add_one (ids_sequence previous))) (\<lambda>sequence.
     Inr \<lparr>it_payload = \<lparr>itp_version = 1, itp_repository = ids_repository previous,
            itp_parent = ids_transition previous, itp_sequence = sequence,
            itp_document = document\<rparr>,
          it_approvals = []\<rparr>)"

text \<open>\<open>approve\<close> mutates the transition; the model returns the updated one.\<close>

definition transition_approve ::
  "('z) identity_env_scheme \<Rightarrow> identity_transition \<Rightarrow> signer_binding \<Rightarrow> signing_key
     \<Rightarrow> (core_error, identity_transition) result" where
  "transition_approve E t binding repository_key =
     (if public_key_of E repository_key \<noteq> binding_repository_key binding
      then Inl (InvalidBinding ''repository private key does not match binding'')
      else bindE (canonical_bytes (identity_payload_codec E) (it_payload t)) (\<lambda>bs.
        let signature = sign_bytes E repository_key bs;
            kept = filter (\<lambda>a. appr_identity a \<noteq> binding_identity binding) (it_approvals t);
            approval = \<lparr>appr_identity = binding_identity binding,
              appr_key_epoch = binding_key_epoch binding, appr_signature = signature\<rparr>
        in Inr (t\<lparr>it_approvals := sort_key appr_identity (kept @ [approval])\<rparr>)))"

text \<open>The loop of \<open>IdentityTransition::verify\<close>: the counter is a \<open>u16\<close>, incremented per valid
  approval of a current delegate; approvals of others are skipped.\<close>

fun count_approvals ::
  "('z) identity_env_scheme \<Rightarrow> styrene_identity list \<Rightarrow> (styrene_identity, signer_selection) btree_map
     \<Rightarrow> bytes \<Rightarrow> u16 \<Rightarrow> approval list \<Rightarrow> (core_error, u16) result" where
  "count_approvals E delegates selections signing_bytes valid [] = Inr valid"
| "count_approvals E delegates selections signing_bytes valid (a # as) =
     (if appr_identity a \<notin> set delegates
      then count_approvals E delegates selections signing_bytes valid as
      else bindE (ok_or (InvalidIdentityTransition ''missing signer selection'')
                    (btree_get selections (appr_identity a))) (\<lambda>selection.
           if sel_identity selection \<noteq> appr_identity a
           then Inl (InvalidIdentityTransition ''signer identity mismatch'')
           else if sel_key_epoch selection \<noteq> appr_key_epoch a
           then Inl (InvalidIdentityTransition ''signer epoch mismatch'')
           else bindE (verify_strict E (sel_repository_key selection) signing_bytes (appr_signature a)) (\<lambda>_.
                count_approvals E delegates selections signing_bytes (valid + 1) as)))"

definition transition_verify ::
  "('z) identity_env_scheme \<Rightarrow> identity_transition \<Rightarrow> identity_state
     \<Rightarrow> (styrene_identity, signer_selection) btree_map \<Rightarrow> (core_error, identity_state) result" where
  "transition_verify E t previous selections =
     bindE (ok_or (InvalidIdentityTransition ''identity transition sequence exhausted'')
              (checked_add_one (ids_sequence previous))) (\<lambda>expected_sequence.
     let p = it_payload t in
     if itp_version p \<noteq> 1 \<or> itp_repository p \<noteq> ids_repository previous \<or>
        itp_parent p \<noteq> ids_transition previous \<or> itp_sequence p \<noteq> expected_sequence
     then Inl (InvalidIdentityTransition ''repository, parent, or sequence mismatch'')
     else bindE (document_validate (itp_document p)) (\<lambda>_.
     if \<not> windows2_all (\<lambda>a b. appr_identity a < appr_identity b) (it_approvals t)
     then Inl (InvalidIdentityTransition ''approvals must be sorted and unique'')
     else bindE (canonical_bytes (identity_payload_codec E) p) (\<lambda>signing_bytes.
     bindE (count_approvals E (btree_set (doc_delegates (ids_document previous))) selections
              signing_bytes 0 (it_approvals t)) (\<lambda>valid.
     if valid < doc_threshold (ids_document previous)
     then Inl (InvalidIdentityTransition ''delegate threshold not satisfied'')
     else bindE (canonical_bytes (identity_transition_codec E) t) (\<lambda>bs.
     Inr \<lparr>ids_repository = ids_repository previous,
          ids_transition = domain_digest E identity_transition_domain bs,
          ids_sequence = itp_sequence p, ids_document = itp_document p\<rparr>)))))"

end
