(* ===== verification/Identity_Facts.thy ===== *)
theory Identity_Facts
  imports Identity
begin

text \<open>
  What the definitions of the theory Identity compute: the condition under which each operation
  succeeds, the invariant on a transition's approvals, and the histories that accepted
  transitions form.
\<close>

lemma identity_codecs_total:
  assumes "identity_codecs_ok E"
  shows "\<exists>bs. canonical_bytes (identity_payload_codec E) p = Inr bs"
    and "\<exists>bs. canonical_bytes (identity_transition_codec E) t = Inr bs"
    and "\<exists>bs. canonical_bytes (document_codec E) d = Inr bs"
    and "\<exists>bs. canonical_bytes (binding_payload_codec E) bp = Inr bs"
    and "\<exists>bs. canonical_bytes (binding_codec E) b = Inr bs"
  using assms by (auto simp: identity_codecs_ok_def intro: canonical_bytes_total)

section \<open>Documents\<close>

text \<open>The policy an accepted document satisfies, with the delegates as a set.\<close>

definition valid_document :: "identity_document \<Rightarrow> bool" where
  "valid_document d \<longleftrightarrow>
     doc_version d = 1 \<and> doc_name d \<noteq> [] \<and> valid_branch_name (doc_default_branch d) \<and>
     sorted_wrt (<) (doc_delegates d) \<and>
     0 < unat (doc_threshold d) \<and> unat (doc_threshold d) \<le> card (set (doc_delegates d))"

lemma document_validate_Inr_iff [results]: "document_validate d = Inr u \<longleftrightarrow> valid_document d"
proof -
  have "length (doc_delegates d) = card (set (doc_delegates d))" if "sorted_wrt (<) (doc_delegates d)"
    using strict_sorted_distinct [OF that] by (simp add: distinct_card)
  then show ?thesis
    by (auto simp: document_validate_def valid_document_def unat_gt_0 unat_eq_0 not_less)
qed

lemma document_new_Inr_iff [results]:
  "document_new name description branch visibility delegates threshold = Inr d \<longleftrightarrow>
     d = \<lparr>doc_version = 1, doc_name = name, doc_description = description,
          doc_default_branch = branch, doc_visibility = visibility,
          doc_delegates = sort delegates, doc_threshold = threshold\<rparr> \<and>
     valid_document d"
  by (auto simp: document_new_def results Let_def)

lemma sort_strict_iff_distinct: "sorted_wrt (<) (sort xs) \<longleftrightarrow> distinct xs" for xs :: "'a::linorder list"
  by (simp add: strict_sorted_iff)

lemma document_repository_id_Inr_iff [results]:
  "document_repository_id E d = Inr r \<longleftrightarrow>
     valid_document d \<and>
     (\<exists>bs. canonical_bytes (document_codec E) d = Inr bs \<and>
           r = RepositoryId (domain_digest E repository_id_domain bs))"
  by (auto simp: document_repository_id_def results)

section \<open>Bindings\<close>

definition binding_authentic :: "('z) identity_env_scheme \<Rightarrow> signer_binding \<Rightarrow> bool" where
  "binding_authentic E b \<longleftrightarrow>
     (let p = sb_payload b in
      sbp_version p = 1 \<and> sbp_purpose p = signer_binding_purpose \<and>
      sbp_identity p = from_public_key E (sbp_identity_key p) \<and>
      (\<exists>bs. canonical_bytes (binding_payload_codec E) p = Inr bs \<and>
            verify_strict E (sbp_identity_key p) bs (sb_signature b) = Inr ()))"

lemma binding_verify_Inr_iff [results]: "binding_verify E b = Inr u \<longleftrightarrow> binding_authentic E b"
  by (auto simp: binding_verify_def binding_authentic_def Let_def results verifying_key_Inr_iff
      dest: verify_strict_valid_key)

definition selects :: "signer_binding \<Rightarrow> signer_selection \<Rightarrow> bool" where
  "selects b s \<longleftrightarrow>
     s = \<lparr>sel_identity = binding_identity b, sel_repository_key = binding_repository_key b,
          sel_key_epoch = binding_key_epoch b\<rparr>"

lemma binding_selection_Inr_iff [results]:
  "binding_selection E b = Inr s \<longleftrightarrow> binding_authentic E b \<and> selects b s"
  by (auto simp: binding_selection_def results selects_def)

lemma binding_verify_selected_Inr_iff [results]:
  "binding_verify_selected E b s = Inr u \<longleftrightarrow> binding_authentic E b \<and> selects b s"
  by (cases s) (auto simp: binding_verify_selected_def results selects_def)

lemma binding_issue_authentic:
  assumes "signatures_ok E" "binding_issue E k repository_key epoch = Inr b"
  shows "binding_authentic E b"
    and "binding_identity b = from_signing_key E k"
    and "binding_repository_key b = repository_key"
    and "binding_key_epoch b = epoch"
  using assms
  by (auto simp: binding_issue_def results Let_def binding_authentic_def binding_identity_def
      binding_repository_key_def binding_key_epoch_def from_signing_key_def)

lemma binding_issue_total:
  "codec_ok (binding_payload_codec E) \<Longrightarrow> \<exists>b. binding_issue E k repository_key epoch = Inr b"
  using canonical_bytes_total [of "binding_payload_codec E"]
  by (fastforce simp: binding_issue_def Let_def results)

section \<open>Initial states\<close>

lemma identity_initial_Inr_iff [results]:
  "identity_initial E d = Inr s \<longleftrightarrow>
     valid_document d \<and>
     (\<exists>bs. canonical_bytes (document_codec E) d = Inr bs \<and>
       s = \<lparr>ids_repository = RepositoryId (domain_digest E repository_id_domain bs),
            ids_transition = domain_digest E identity_root_domain bs,
            ids_sequence = 0, ids_document = d\<rparr>)"
  by (auto simp: identity_initial_def results)

section \<open>Approvals\<close>

definition approvals_sorted :: "identity_transition \<Rightarrow> bool" where
  "approvals_sorted t \<longleftrightarrow> sorted_wrt (<) (map appr_identity (it_approvals t))"

lemma sorted_sort_key_strict:
  "distinct (map f xs) \<Longrightarrow> sorted_wrt (<) (map f (sort_key f xs))"
  by (simp add: strict_sorted_iff distinct_map)

lemma strict_keyed_unique:
  fixes f :: "'a \<Rightarrow> 'k::linorder"
  assumes "sorted_wrt (<) (map f xs)" "sorted_wrt (<) (map f ys)" "set xs = set ys"
  shows "xs = ys"
proof (rule map_sorted_distinct_set_unique [where f = f])
  show "inj_on f (set xs \<union> set ys)"
    using assms by (metis distinct_map strict_sorted_distinct sup.idem)
qed (use assms in \<open>auto dest: strict_sorted_distinct simp: strict_sorted_imp_sorted\<close>)

definition new_approval :: "('z) identity_env_scheme \<Rightarrow> bytes \<Rightarrow> signer_binding \<Rightarrow> signing_key \<Rightarrow> approval" where
  "new_approval E bs b k =
     \<lparr>appr_identity = binding_identity b, appr_key_epoch = binding_key_epoch b,
      appr_signature = sign_bytes E k bs\<rparr>"

lemma transition_approve_Inr_iff [results]:
  "transition_approve E t b k = Inr t' \<longleftrightarrow>
     public_key_of E k = binding_repository_key b \<and>
     (\<exists>bs. canonical_bytes (identity_payload_codec E) (it_payload t) = Inr bs \<and>
        t' = t\<lparr>it_approvals := sort_key appr_identity
               (filter (\<lambda>a. appr_identity a \<noteq> binding_identity b) (it_approvals t)
                @ [new_approval E bs b k])\<rparr>)"
  by (auto simp: transition_approve_def bindE_Inr_iff Let_def new_approval_def)

lemma transition_approve_payload [simp]:
  "transition_approve E t b k = Inr t' \<Longrightarrow> it_payload t' = it_payload t"
  by (auto simp: transition_approve_Inr_iff)

lemma transition_approve_set:
  assumes "transition_approve E t b k = Inr t'"
    and "canonical_bytes (identity_payload_codec E) (it_payload t) = Inr bs"
  shows "set (it_approvals t') =
     insert (new_approval E bs b k) {a \<in> set (it_approvals t). appr_identity a \<noteq> binding_identity b}"
  using assms unfolding transition_approve_Inr_iff by (elim conjE exE) simp

lemma transition_approve_sorted:
  assumes "approvals_sorted t" "transition_approve E t b k = Inr t'"
  shows "approvals_sorted t'"
proof -
  obtain bs where t': "it_approvals t' = sort_key appr_identity
      (filter (\<lambda>a. appr_identity a \<noteq> binding_identity b) (it_approvals t) @ [new_approval E bs b k])"
    using assms(2) unfolding transition_approve_Inr_iff by fastforce
  have "distinct (map appr_identity (it_approvals t))"
    using assms(1) by (simp add: approvals_sorted_def strict_sorted_distinct)
  then have "distinct (map appr_identity
      (filter (\<lambda>a. appr_identity a \<noteq> binding_identity b) (it_approvals t) @ [new_approval E bs b k]))"
    by (auto simp: distinct_map new_approval_def inj_on_def)
  then show ?thesis
    unfolding t' approvals_sorted_def by (rule sorted_sort_key_strict)
qed

text \<open>What makes the vote of one approval count.\<close>

definition approval_ok ::
  "('z) identity_env_scheme \<Rightarrow> (styrene_identity, signer_selection) btree_map \<Rightarrow> bytes \<Rightarrow> approval \<Rightarrow> bool" where
  "approval_ok E selections bs a \<longleftrightarrow>
     (\<exists>s. btree_get selections (appr_identity a) = Some s \<and>
          sel_identity s = appr_identity a \<and> sel_key_epoch s = appr_key_epoch a \<and>
          verify_strict E (sel_repository_key s) bs (appr_signature a) = Inr ())"

lemma count_approvals_Inr_iff [results]:
  "count_approvals E ds selections bs n as = Inr v \<longleftrightarrow>
     (\<forall>a \<in> set as. appr_identity a \<in> set ds \<longrightarrow> approval_ok E selections bs a) \<and>
     v = n + of_nat (length (filter (\<lambda>a. appr_identity a \<in> set ds) as))"
proof (induction E ds selections bs n as rule: count_approvals.induct)
  case (2 E ds selections bs n a as)
  show ?case
  proof (cases "appr_identity a \<in> set ds")
    case True
    show ?thesis
    proof (cases "approval_ok E selections bs a")
      case ok: True
      then show ?thesis
        using 2(2) True by (auto simp: approval_ok_def algebra_simps)
    next
      case False
      then show ?thesis
        using True by (auto simp: approval_ok_def results split: if_splits)
    qed
  qed (use 2 in auto)
qed auto

declare count_approvals.simps [simp del]

section \<open>Accepted transitions\<close>

definition continues :: "identity_transition_payload \<Rightarrow> identity_state \<Rightarrow> bool" where
  "continues p previous \<longleftrightarrow>
     itp_version p = 1 \<and> itp_repository p = ids_repository previous \<and>
     itp_parent p = ids_transition previous \<and>
     checked_add_one (ids_sequence previous) = Some (itp_sequence p)"

abbreviation delegates_of :: "identity_state \<Rightarrow> styrene_identity set" where
  "delegates_of s \<equiv> set (doc_delegates (ids_document s))"

lemma transition_verify_Inr_iff [results]:
  "transition_verify E t previous selections = Inr s \<longleftrightarrow>
     continues (it_payload t) previous \<and> valid_document (itp_document (it_payload t)) \<and>
     approvals_sorted t \<and>
     (\<exists>bs tbs. canonical_bytes (identity_payload_codec E) (it_payload t) = Inr bs \<and>
        canonical_bytes (identity_transition_codec E) t = Inr tbs \<and>
        (\<forall>a \<in> set (it_approvals t). appr_identity a \<in> delegates_of previous \<longrightarrow>
             approval_ok E selections bs a) \<and>
        doc_threshold (ids_document previous)
          \<le> of_nat (length (filter (\<lambda>a. appr_identity a \<in> delegates_of previous) (it_approvals t))) \<and>
        s = \<lparr>ids_repository = ids_repository previous,
             ids_transition = domain_digest E identity_transition_domain tbs,
             ids_sequence = itp_sequence (it_payload t),
             ids_document = itp_document (it_payload t)\<rparr>)"
  unfolding transition_verify_def Let_def results windows2_all_key continues_def approvals_sorted_def
    set_btree_set not_less not_not de_Morgan_disj sum.inject
  by (rule iffI; elim conjE exE; simp)

lemma transition_verify_continues:
  assumes "transition_verify E t previous selections = Inr s"
  shows "ids_repository s = ids_repository previous"
    and "checked_add_one (ids_sequence previous) = Some (ids_sequence s)"
    and "itp_sequence (it_payload t) = ids_sequence s"
    and "valid_document (ids_document s)"
  using assms unfolding transition_verify_Inr_iff continues_def by (elim conjE exE; simp)+

text \<open>A step of a repository's identity history, and the histories.\<close>

inductive identity_step :: "('z) identity_env_scheme \<Rightarrow> identity_state \<Rightarrow> identity_state \<Rightarrow> bool" for E where
  accept: "transition_verify E t previous selections = Inr s \<Longrightarrow> identity_step E previous s"

inductive identity_history :: "('z) identity_env_scheme \<Rightarrow> identity_state \<Rightarrow> nat \<Rightarrow> identity_state \<Rightarrow> bool" for E where
  here: "identity_history E s 0 s"
| there: "identity_history E s n s' \<Longrightarrow> identity_step E s' s'' \<Longrightarrow> identity_history E s (Suc n) s''"

inductive_cases identity_stepE: "identity_step E s s'"

lemma identity_step_facts:
  assumes "identity_step E s s'"
  shows "ids_repository s' = ids_repository s"
    and "unat (ids_sequence s') = unat (ids_sequence s) + 1"
    and "valid_document (ids_document s')"
  using assms by (auto elim!: identity_stepE dest: transition_verify_continues(1,3,4)
      transition_verify_continues(2) [THEN unat_checked_add_one])

lemma identity_history_invariant:
  "identity_history E s n s' \<Longrightarrow> ids_repository s' = ids_repository s \<and>
     unat (ids_sequence s') = unat (ids_sequence s) + n \<and>
     (valid_document (ids_document s) \<longrightarrow> valid_document (ids_document s'))"
  by (induction rule: identity_history.induct) (simp_all add: identity_step_facts)

section \<open>Collecting approvals\<close>

text \<open>The delegates approve one after the other; the list holds their bindings and keys.\<close>

fun approve_all ::
  "('z) identity_env_scheme \<Rightarrow> identity_transition \<Rightarrow> (signer_binding \<times> signing_key) list
     \<Rightarrow> (core_error, identity_transition) result" where
  "approve_all E t [] = Inr t"
| "approve_all E t ((b, k) # signers) =
     bindE (transition_approve E t b k) (\<lambda>t'. approve_all E t' signers)"

abbreviation signer_identities :: "(signer_binding \<times> signing_key) list \<Rightarrow> styrene_identity set" where
  "signer_identities signers \<equiv> (\<lambda>(b, k). binding_identity b) ` set signers"

lemma approve_all_payload: "approve_all E t signers = Inr t' \<Longrightarrow> it_payload t' = it_payload t"
proof (induction E t signers rule: approve_all.induct)
  case (2 E t b k signers)
  then obtain u where "transition_approve E t b k = Inr u" "approve_all E u signers = Inr t'"
    by (auto simp: bindE_Inr_iff)
  then show ?case using "2.IH" by fastforce
qed simp

lemma approve_all_sorted: "approve_all E t signers = Inr t' \<Longrightarrow> approvals_sorted t \<Longrightarrow> approvals_sorted t'"
  by (induction E t signers rule: approve_all.induct) (auto simp: bindE_Inr_iff transition_approve_sorted)

lemma approve_all_ConsE:
  assumes "approve_all E t ((b, k) # signers) = Inr t'"
  obtains u where "transition_approve E t b k = Inr u" "approve_all E u signers = Inr t'"
  using assms by (auto simp: bindE_Inr_iff)

lemma approve_all_keys:
  "approve_all E t signers = Inr t' \<Longrightarrow> (b, k) \<in> set signers \<Longrightarrow> public_key_of E k = binding_repository_key b"
proof (induction E t signers rule: approve_all.induct)
  case (2 E t b' k' signers)
  obtain u where u: "transition_approve E t b' k' = Inr u" "approve_all E u signers = Inr t'"
    using "2.prems"(1) by (rule approve_all_ConsE)
  have "public_key_of E k' = binding_repository_key b'"
    using u(1) unfolding transition_approve_Inr_iff by simp
  then show ?case using "2.IH" [OF u(2)] "2.prems"(2) by auto
qed simp

lemma approve_all_new:
  assumes "approve_all E t signers = Inr t'"
    and "canonical_bytes (identity_payload_codec E) (it_payload t) = Inr bs"
    and "a \<in> set (it_approvals t')"
  shows "a \<in> set (it_approvals t) \<or> (\<exists>(b, k) \<in> set signers. a = new_approval E bs b k)"
  using assms
proof (induction E t signers rule: approve_all.induct)
  case (2 E t b k signers)
  obtain u where u: "transition_approve E t b k = Inr u" "approve_all E u signers = Inr t'"
    using "2.prems"(1) by (rule approve_all_ConsE)
  then have "a \<in> set (it_approvals u) \<or> (\<exists>(b, k) \<in> set signers. a = new_approval E bs b k)"
    using "2.prems" by (intro "2.IH") simp_all
  then show ?case using transition_approve_set [OF u(1) "2.prems"(2)] by auto
qed simp

lemma approve_all_identities:
  assumes "approve_all E t signers = Inr t'"
    and "canonical_bytes (identity_payload_codec E) (it_payload t) = Inr bs"
  shows "appr_identity ` set (it_approvals t') =
      appr_identity ` set (it_approvals t) \<union> signer_identities signers"
  using assms
proof (induction E t signers rule: approve_all.induct)
  case (2 E t b k signers)
  obtain u where u: "transition_approve E t b k = Inr u" "approve_all E u signers = Inr t'"
    using "2.prems"(1) by (rule approve_all_ConsE)
  then have "appr_identity ` set (it_approvals t') =
      appr_identity ` set (it_approvals u) \<union> signer_identities signers"
    using "2.prems" by (intro "2.IH") simp_all
  moreover have "appr_identity ` set (it_approvals u) =
      insert (binding_identity b) (appr_identity ` set (it_approvals t))"
    using transition_approve_set [OF u(1) "2.prems"(2)] by (auto simp: new_approval_def)
  ultimately show ?case by auto
qed simp

lemma approve_all_distinct:
  assumes "approve_all E t signers = Inr t'"
    and "canonical_bytes (identity_payload_codec E) (it_payload t) = Inr bs"
    and "distinct (map (\<lambda>(b, k). binding_identity b) signers)"
  shows "set (it_approvals t') =
      {a \<in> set (it_approvals t). appr_identity a \<notin> signer_identities signers} \<union>
      (\<lambda>(b, k). new_approval E bs b k) ` set signers"
  using assms
proof (induction E t signers rule: approve_all.induct)
  case (2 E t b k signers)
  obtain u where u: "transition_approve E t b k = Inr u" "approve_all E u signers = Inr t'"
    using "2.prems"(1) by (rule approve_all_ConsE)
  then have "set (it_approvals t') =
      {a \<in> set (it_approvals u). appr_identity a \<notin> signer_identities signers} \<union>
      (\<lambda>(b, k). new_approval E bs b k) ` set signers"
    using "2.prems" by (intro "2.IH") simp_all
  moreover have "binding_identity b \<notin> signer_identities signers"
    using "2.prems"(3) by auto
  ultimately show ?case
    using transition_approve_set [OF u(1) "2.prems"(2)] by (auto simp: new_approval_def)
qed simp

end
