(* ===== verification/Governance.thy ===== *)
theory Governance
  imports Identity_Facts
begin

text \<open>
  The correctness properties of the repository identity: text forms, document policy, signer
  bindings, and the authority, lineage and completeness of identity transitions.
\<close>

text \<open>C1: an identity transition is accepted only with enough delegate authority. If
  \<open>IdentityTransition::verify\<close> accepts, the proposal continues exactly the given state, and the
  delegates of the prior document whose own selected repository key and epoch produced a
  verifying signature over the proposal's canonical bytes number at least the prior threshold.
  The \<open>u16\<close> counter of the code may wrap; the bound holds all the same.\<close>

theorem transition_authority:
  assumes "transition_verify E t previous selections = Inr s"
  shows "continues (it_payload t) previous \<and>
    (\<exists>bs. canonical_bytes (identity_payload_codec E) (it_payload t) = Inr bs \<and>
      unat (doc_threshold (ids_document previous)) \<le>
        card {i \<in> delegates_of previous.
                \<exists>a \<in> set (it_approvals t). appr_identity a = i \<and> approval_ok E selections bs a})"
proof -
  have cont: "continues (it_payload t) previous"
    using assms unfolding transition_verify_Inr_iff by simp
  obtain bs where bs: "canonical_bytes (identity_payload_codec E) (it_payload t) = Inr bs"
    and ok: "\<forall>a \<in> set (it_approvals t). appr_identity a \<in> delegates_of previous \<longrightarrow>
               approval_ok E selections bs a"
    and thr: "doc_threshold (ids_document previous) \<le> of_nat (length
        (filter (\<lambda>a. appr_identity a \<in> delegates_of previous) (it_approvals t)))"
    and sorted: "approvals_sorted t"
    using assms unfolding transition_verify_Inr_iff by blast
  define votes where "votes = filter (\<lambda>a. appr_identity a \<in> delegates_of previous) (it_approvals t)"
  have "distinct (map appr_identity votes)"
    using sorted by (simp add: approvals_sorted_def strict_sorted_distinct distinct_map_filter votes_def)
  then have "card (appr_identity ` set votes) = length votes"
    using distinct_card by fastforce
  also have "appr_identity ` set votes = {i \<in> delegates_of previous.
      \<exists>a \<in> set (it_approvals t). appr_identity a = i \<and> approval_ok E selections bs a}"
    using ok by (auto simp: votes_def)
  finally have "card {i \<in> delegates_of previous.
      \<exists>a \<in> set (it_approvals t). appr_identity a = i \<and> approval_ok E selections bs a} = length votes" .
  moreover have "unat (doc_threshold (ids_document previous)) \<le> length votes"
  proof -
    have "unat (doc_threshold (ids_document previous)) \<le> unat (of_nat (length votes) :: u16)"
      using thr by (simp add: votes_def word_le_nat_alt)
    also have "\<dots> \<le> length votes"
      by (simp add: unat_of_nat)
    finally show ?thesis .
  qed
  ultimately show ?thesis
    using bs cont by (intro conjI exI [of _ bs]) simp_all
qed

text \<open>C18: no replay. A transition that was accepted once is rejected by every state of the
  history that follows, whatever signer selections are used.\<close>

theorem transition_no_replay:
  assumes "transition_verify E t s selections = Inr s'" and "identity_history E s' n s''"
  shows "\<not> is_ok (transition_verify E t s'' selections')"
proof
  assume "is_ok (transition_verify E t s'' selections')"
  then obtain x where x: "transition_verify E t s'' selections' = Inr x" by (auto simp: is_ok_iff)
  have "unat (ids_sequence s') = unat (ids_sequence s'') + 1"
    using transition_verify_continues(2,3) [OF x] transition_verify_continues(3) [OF assms(1)]
    by (simp add: unat_checked_add_one)
  moreover have "unat (ids_sequence s'') = unat (ids_sequence s') + n"
    using identity_history_invariant [OF assms(2)] by simp
  ultimately show False by simp
qed

text \<open>C23: histories keep their identity. From an initial state, every history of accepted
  transitions keeps the repository identifier computed from the initial document, numbers its
  states consecutively from zero without wrapping, and only holds valid documents.\<close>

theorem history_invariant:
  assumes "identity_initial E d = Inr s" and "identity_history E s n s'"
  shows "document_repository_id E d = Inr (ids_repository s') \<and>
    unat (ids_sequence s') = n \<and> n < 2 ^ 64 \<and> valid_document (ids_document s')"
proof -
  have s: "document_repository_id E d = Inr (ids_repository s)" "ids_sequence s = 0"
    "valid_document (ids_document s)"
    using assms(1) unfolding identity_initial_Inr_iff document_repository_id_Inr_iff by fastforce+
  moreover have "unat (ids_sequence s') < 2 ^ 64"
    using unsigned_less [of "ids_sequence s'"] by simp
  ultimately show ?thesis
    using identity_history_invariant [OF assms(2)] by simp
qed

lemma enough_approvals_accepted:
  assumes "signatures_ok E" "identity_codecs_ok E"
    and "transition_proposed previous document = Inr proposal" "valid_document document"
    and "approve_all E proposal signers = Inr t"
    and "\<forall>(b, k) \<in> set signers. \<exists>s. btree_get selections (binding_identity b) = Some s \<and> selects b s"
    and "unat (doc_threshold (ids_document previous)) \<le> card (signer_identities signers \<inter> delegates_of previous)"
    and "card (signer_identities signers \<inter> delegates_of previous) < 2 ^ 16"
  shows "\<exists>s. transition_verify E t previous selections = Inr s \<and> ids_document s = document"
proof -
  obtain q where q: "checked_add_one (ids_sequence previous) = Some q"
    and proposal: "proposal = \<lparr>it_payload = \<lparr>itp_version = 1, itp_repository = ids_repository previous,
        itp_parent = ids_transition previous, itp_sequence = q, itp_document = document\<rparr>,
      it_approvals = []\<rparr>"
    using assms(3) unfolding transition_proposed_def bindE_Inr_iff ok_or_Inr_iff sum.inject by blast
  then have start: "continues (it_payload proposal) previous"
    "itp_document (it_payload proposal) = document" "it_approvals proposal = []"
    by (simp_all add: continues_def)
  note payload = approve_all_payload [OF assms(5)]
  obtain bs where bs: "canonical_bytes (identity_payload_codec E) (it_payload proposal) = Inr bs"
    using identity_codecs_total(1) [OF assms(2)] by blast
  obtain tbs where tbs: "canonical_bytes (identity_transition_codec E) t = Inr tbs"
    using identity_codecs_total(2) [OF assms(2)] by blast
  have sorted: "approvals_sorted t"
    using approve_all_sorted [OF assms(5)] start(3) by (simp add: approvals_sorted_def)
  have ok: "approval_ok E selections bs a" if mem: "a \<in> set (it_approvals t)" for a
  proof -
    obtain b k where bk: "(b, k) \<in> set signers" and a: "a = new_approval E bs b k"
      using approve_all_new [OF assms(5) bs mem] start(3) by auto
    obtain s where "btree_get selections (binding_identity b) = Some s" "selects b s"
      using assms(6) bk by blast
    moreover have "public_key_of E k = binding_repository_key b"
      using approve_all_keys [OF assms(5) bk] .
    ultimately show ?thesis
      using verify_strict_sign [OF assms(1), of k bs]
      by (simp add: approval_ok_def a new_approval_def selects_def)
  qed
  define votes where "votes = filter (\<lambda>a. appr_identity a \<in> delegates_of previous) (it_approvals t)"
  have "distinct (map appr_identity votes)"
    using sorted by (simp add: approvals_sorted_def strict_sorted_distinct distinct_map_filter votes_def)
  then have "length votes = card (appr_identity ` set votes)"
    using distinct_card by fastforce
  also have "appr_identity ` set votes = appr_identity ` set (it_approvals t) \<inter> delegates_of previous"
    by (auto simp: votes_def)
  also have "\<dots> = signer_identities signers \<inter> delegates_of previous"
    using approve_all_identities [OF assms(5) bs] start(3) by simp
  finally have len: "length votes = card (signer_identities signers \<inter> delegates_of previous)" .
  have "doc_threshold (ids_document previous) \<le> of_nat (length votes)"
    using assms(7,8) by (simp add: word_le_nat_alt len unat_of_nat)
  then show ?thesis
    unfolding transition_verify_Inr_iff payload start(2) votes_def
    using start(1) assms(4) sorted bs tbs ok by simp
qed

text \<open>C24: proposals with enough approvals are accepted. Starting from a proposal of a valid
  document, when signers approve with keys that match their bindings, those bindings are the ones
  selected for them, and at least threshold many current delegates are among them (fewer than
  \<open>2 ^ 16\<close>, the range of the counter), verification accepts and installs the document.\<close>

theorem transition_completeness:
  assumes "signatures_ok E" "identity_codecs_ok E"
    and "transition_proposed previous document = Inr proposal" "valid_document document"
    and "approve_all E proposal signers = Inr t"
    and "\<forall>(b, k) \<in> set signers. \<exists>s. btree_get selections (binding_identity b) = Some s \<and> selects b s"
    and "unat (doc_threshold (ids_document previous)) \<le> card (signer_identities signers \<inter> delegates_of previous)"
    and "card (signer_identities signers \<inter> delegates_of previous) < 2 ^ 16"
  shows "\<exists>s. transition_verify E t previous selections = Inr s \<and> ids_document s = document"
  using assms by (rule enough_approvals_accepted)

text \<open>C25: the order in which delegates approve does not matter. Signers with distinct identities
  that approve the same transition in any order give the same transition, hence the same
  identifier.\<close>

theorem approval_order_irrelevant:
  assumes "approvals_sorted t" "distinct (map (\<lambda>(b, k). binding_identity b) xs)" "mset xs = mset ys"
    and "approve_all E t xs = Inr t\<^sub>1" "approve_all E t ys = Inr t\<^sub>2"
    and "canonical_bytes (identity_payload_codec E) (it_payload t) = Inr bs"
  shows "t\<^sub>1 = t\<^sub>2"
proof -
  have same: "set xs = set ys" using assms(3) by (rule mset_eq_setD)
  have "mset (map (\<lambda>(b, k). binding_identity b) xs) = mset (map (\<lambda>(b, k). binding_identity b) ys)"
    using assms(3) by simp
  from mset_eq_imp_distinct_iff [OF this] assms(2)
  have "distinct (map (\<lambda>(b, k). binding_identity b) ys)" by simp
  from approve_all_distinct [OF assms(5,6) this]
  have "set (it_approvals t\<^sub>1) = set (it_approvals t\<^sub>2)"
    unfolding approve_all_distinct [OF assms(4,6,2)] same by (rule sym)
  then have "it_approvals t\<^sub>1 = it_approvals t\<^sub>2"
    using approve_all_sorted [OF assms(4,1)] approve_all_sorted [OF assms(5,1)]
    by (intro strict_keyed_unique [where f = appr_identity]) (simp_all add: approvals_sorted_def)
  then show ?thesis
    using approve_all_payload [OF assms(4)] approve_all_payload [OF assms(5)] by simp
qed

text \<open>C26: an approval is not bound to the identity and epoch it names. When two delegates'
  selections carry the same repository key, relabelling one delegate's counted approval with the
  other's identity and selected epoch is counted as a second vote; only the proposal is signed.\<close>

theorem approval_relabelling_counts:
  assumes "count_approvals E ds selections bs 0 [a] = Inr 1"
    and "btree_get selections (appr_identity a) = Some s" "btree_get selections j = Some s'"
    and "j \<in> set ds" "sel_identity s' = j" "sel_repository_key s' = sel_repository_key s"
  shows "count_approvals E ds selections bs 0
           [a, a\<lparr>appr_identity := j, appr_key_epoch := sel_key_epoch s'\<rparr>] = Inr 2"
proof -
  have mem: "appr_identity a \<in> set ds"
    using assms(1) by (rule contrapos_pp) (simp add: count_approvals.simps)
  then have ok: "approval_ok E selections bs a"
    using assms(1) by (simp add: count_approvals_Inr_iff)
  define a' where "a' = a\<lparr>appr_identity := j, appr_key_epoch := sel_key_epoch s'\<rparr>"
  have "approval_ok E selections bs a'"
    using ok assms(2-6) by (auto simp: approval_ok_def a'_def)
  moreover have "appr_identity a' = j" by (simp add: a'_def)
  ultimately show ?thesis
    using mem ok assms(4) by (simp add: count_approvals_Inr_iff flip: a'_def)
qed

text \<open>At the last sequence number both proposing and verifying a transition fail with the
  exhaustion error; nothing wraps.\<close>

lemma transition_sequence_exhausted:
  "ids_sequence previous = - 1 \<Longrightarrow>
     transition_proposed previous document =
       Inl (InvalidIdentityTransition ''identity transition sequence exhausted'') \<and>
     transition_verify E t previous selections =
       Inl (InvalidIdentityTransition ''identity transition sequence exhausted'')"
  by (simp add: transition_proposed_def transition_verify_def checked_add_one_def)

text \<open>The repository identifier is a function of the document's fields. Listing the same
  delegates in any order gives the same document or the same error, and a document is accepted
  exactly when its policy is sound: a name, a valid branch, distinct delegates, and a nonzero
  threshold that does not exceed their number.\<close>

lemma document_new_deterministic:
  assumes "mset xs = mset ys"
  shows "document_new name description branch v xs threshold =
         document_new name description branch v ys threshold \<and>
    (is_ok (document_new name description branch v xs threshold) \<longleftrightarrow>
       name \<noteq> [] \<and> valid_branch_name branch \<and> distinct xs \<and>
       0 < unat threshold \<and> unat threshold \<le> card (set xs))"
proof -
  have "sort xs = sort ys" "distinct xs = distinct ys" "set xs = set ys"
    using assms by (auto intro: properties_for_sort dest: mset_eq_setD mset_eq_imp_distinct_iff)
  then show ?thesis
    by (auto simp: document_new_def Let_def is_ok_iff results valid_document_def sort_strict_iff_distinct)
qed

text \<open>An issued binding verifies, and it is accepted for exactly one signer selection: the
  issuer's identity with the key and epoch it was issued for.\<close>

lemma binding_issue_selected:
  assumes "signatures_ok E" "binding_issue E k repository_key epoch = Inr b"
  shows "binding_verify E b = Inr () \<and>
    (binding_verify_selected E b s = Inr () \<longleftrightarrow>
       s = \<lparr>sel_identity = from_signing_key E k, sel_repository_key = repository_key,
            sel_key_epoch = epoch\<rparr>)"
  using binding_issue_authentic [OF assms] by (simp add: results selects_def)

text \<open>Repository identifiers and their text correspond one to one. Printing then parsing
  gives the identifier back, and a text that parses is the printed form of what it parses to, so
  no other spelling (case, prefix, length, non-canonical base32) names the same repository.\<close>

lemma repository_id_text:
  assumes "base32_ok E"
  shows "repository_from_str E text = Inr r \<longleftrightarrow> text = repository_to_string E r"
  using repository_from_str_to_string [OF assms] repository_to_string_from_str [OF assms] by auto

text \<open>The same for Styrene identities and their 32 hexadecimal digits.\<close>

lemma identity_text:
  assumes "hex_ok E"
  shows "identity_from_hex E text = Inr i \<longleftrightarrow> text = identity_hex E i"
  using identity_from_hex_hex [OF assms] identity_hex_from_hex [OF assms] by auto

end
