(* ===== verification/Refs.thy ===== *)
theory Refs
  imports Identity
begin

text \<open>
  \<open>crates/styrene-git-core/src/refs.rs\<close>: Git object identifiers, reference maps, the signed
  transitions a publisher makes, and the state each accepted transition leaves.
\<close>

section \<open>Git object identifiers\<close>

datatype git_object_id = GitObjectId (algorithm: string) (object_bytes: bytes)

text \<open>The derived order compares the fields in turn.\<close>

definition object_key :: "git_object_id \<Rightarrow> string \<times> bytes" where
  "object_key o' = (algorithm o', object_bytes o')"

lemma object_key_inject [simp]: "object_key a = object_key b \<longleftrightarrow> a = b"
  by (auto simp: object_key_def git_object_id.expand)

instantiation git_object_id :: linorder
begin

definition less_eq_git_object_id :: "git_object_id \<Rightarrow> git_object_id \<Rightarrow> bool" where
  "less_eq_git_object_id a b \<longleftrightarrow> object_key a \<le> object_key b"

definition less_git_object_id :: "git_object_id \<Rightarrow> git_object_id \<Rightarrow> bool" where
  "less_git_object_id a b \<longleftrightarrow> object_key a < object_key b"

instance
  by standard (auto simp: less_eq_git_object_id_def less_git_object_id_def less_le)

end

definition object_sha1 :: "20 fixed \<Rightarrow> git_object_id" where
  "object_sha1 bs = GitObjectId ''sha1'' (as_bytes bs)"

definition object_sha256 :: "32 fixed \<Rightarrow> git_object_id" where
  "object_sha256 bs = GitObjectId ''sha256'' (as_bytes bs)"

definition object_from_hex ::
  "('z) env_scheme \<Rightarrow> string \<Rightarrow> string \<Rightarrow> (core_error, git_object_id) result" where
  "object_from_hex E alg value =
     bindE (ok_or (InvalidRefTransition ''Git object identifier is not hexadecimal'')
              (hex_decode E value)) (\<lambda>bs.
     if alg = ''sha1''
     then map_ok object_sha1 (ok_or (InvalidRefTransition ''invalid SHA-1 length'') (try_fixed bs))
     else if alg = ''sha256''
     then map_ok object_sha256 (ok_or (InvalidRefTransition ''invalid SHA-256 length'') (try_fixed bs))
     else Inl (InvalidRefTransition ''unsupported Git object algorithm''))"

definition object_hex :: "('z) env_scheme \<Rightarrow> git_object_id \<Rightarrow> string" where
  "object_hex E o' = hex_encode E (object_bytes o')"

definition object_validate :: "git_object_id \<Rightarrow> (core_error, unit) result" where
  "object_validate o' =
     ensure (algorithm o' = ''sha1'' \<and> length (object_bytes o') = 20 \<or>
             algorithm o' = ''sha256'' \<and> length (object_bytes o') = 32)
       (InvalidRefTransition ''invalid Git object identifier'')"

section \<open>Reference maps and transitions\<close>

record ref_target =
  rt_name :: string
  rt_target :: git_object_id

record ref_transition_payload =
  rtp_version :: u8
  rtp_repository :: repository_id
  rtp_publisher :: styrene_identity
  rtp_key_epoch :: u32
  rtp_parent :: "digest option"
  rtp_sequence :: u64
  rtp_refs :: "ref_target list"

record ref_transition =
  rtr_payload :: ref_transition_payload
  rtr_signature :: signature_bytes

record ref_state =
  rs_repository :: repository_id
  rs_publisher :: styrene_identity
  rs_transition :: digest
  rs_sequence :: u64
  rs_refs :: "ref_target list"

record refs_env = identity_env +
  ref_payload_codec :: "ref_transition_payload codec"
  ref_transition_codec :: "ref_transition codec"
  ref_state_codec :: "ref_state codec"

definition refs_codecs_ok :: "('z) refs_env_scheme \<Rightarrow> bool" where
  "refs_codecs_ok E \<longleftrightarrow>
     codec_ok (ref_payload_codec E) \<and> codec_ok (ref_transition_codec E) \<and>
     codec_ok (ref_state_codec E)"

definition ref_transition_domain :: bytes where
  "ref_transition_domain = domain_bytes ''styrene/git/ref-transition/v1''"

definition ref_signature_domain :: bytes where
  "ref_signature_domain = domain_bytes ''styrene/git/ref-transition-signature/v1''"

definition validate_ref :: "ref_target \<Rightarrow> (core_error, unit) result" where
  "validate_ref r =
     (if \<not> starts_with (rt_name r) ''refs/'' \<or> contains_str (rt_name r) ''..'' \<or>
         contains_any (rt_name r) ref_specials
      then Inl (InvalidRefTransition ''invalid reference name'')
      else object_validate (rt_target r))"

definition validate_refs :: "ref_target list \<Rightarrow> (core_error, unit) result" where
  "validate_refs refs =
     (if \<not> windows2_all (\<lambda>a b. rt_name a < rt_name b) refs
      then Inl (InvalidRefTransition ''references must be sorted and unique'')
      else for_each validate_ref refs)"

definition signature_frame ::
  "('z) refs_env_scheme \<Rightarrow> ref_transition_payload \<Rightarrow> (core_error, bytes) result" where
  "signature_frame E payload =
     bindE (canonical_bytes (ref_payload_codec E) payload) (\<lambda>bs.
     Inr (ref_signature_domain @ bs))"

definition transition_id ::
  "('z) refs_env_scheme \<Rightarrow> ref_transition \<Rightarrow> (core_error, digest) result" where
  "transition_id E t =
     bindE (canonical_bytes (ref_transition_codec E) t) (\<lambda>bs.
     Inr (domain_digest E ref_transition_domain bs))"

text \<open>Both constructing and verifying a transition compute the expected parent and sequence.\<close>

definition next_position :: "ref_state option \<Rightarrow> (core_error, digest option \<times> u64) result" where
  "next_position previous =
     (case previous of
        Some state \<Rightarrow>
          bindE (ok_or (InvalidRefTransition ''reference transition sequence exhausted'')
                   (checked_add_one (rs_sequence state))) (\<lambda>sequence.
          Inr (Some (rs_transition state), sequence))
      | None \<Rightarrow> Inr (None, 0))"

definition ref_transition_signed ::
  "('z) refs_env_scheme \<Rightarrow> repository_id \<Rightarrow> signer_binding \<Rightarrow> signing_key \<Rightarrow> ref_state option
     \<Rightarrow> ref_target list \<Rightarrow> (core_error, ref_transition) result" where
  "ref_transition_signed E repository binding repository_key previous refs =
     bindE (binding_verify E binding) (\<lambda>_.
     if public_key_of E repository_key \<noteq> binding_repository_key binding
     then Inl (InvalidBinding ''repository private key does not match binding'')
     else let refs = sort_key rt_name refs in
     bindE (validate_refs refs) (\<lambda>_.
     bindE (next_position previous) (\<lambda>(parent, sequence).
     let payload = \<lparr>rtp_version = 1, rtp_repository = repository,
           rtp_publisher = binding_identity binding, rtp_key_epoch = binding_key_epoch binding,
           rtp_parent = parent, rtp_sequence = sequence, rtp_refs = refs\<rparr>
     in bindE (signature_frame E payload) (\<lambda>frame.
        Inr \<lparr>rtr_payload = payload, rtr_signature = sign_bytes E repository_key frame\<rparr>))))"

definition ref_transition_verify ::
  "('z) refs_env_scheme \<Rightarrow> ref_transition \<Rightarrow> repository_id \<Rightarrow> signer_binding \<Rightarrow> signer_selection
     \<Rightarrow> ref_state option \<Rightarrow> (core_error, ref_state) result" where
  "ref_transition_verify E t repository binding selected previous =
     bindE (binding_verify_selected E binding selected) (\<lambda>_.
     bindE (next_position previous) (\<lambda>(expected_parent, expected_sequence).
     let p = rtr_payload t in
     if rtp_version p \<noteq> 1 \<or> rtp_repository p \<noteq> repository \<or>
        rtp_publisher p \<noteq> sel_identity selected \<or> rtp_key_epoch p \<noteq> sel_key_epoch selected \<or>
        rtp_parent p \<noteq> expected_parent \<or> rtp_sequence p \<noteq> expected_sequence
     then Inl (InvalidRefTransition
            ''repository, publisher, parent, sequence, or epoch mismatch'')
     else bindE (validate_refs (rtp_refs p)) (\<lambda>_.
     bindE (verifying_key E (sel_repository_key selected)) (\<lambda>_.
     bindE (signature_frame E p) (\<lambda>frame.
     bindE (verify_strict E (sel_repository_key selected) frame (rtr_signature t)) (\<lambda>_.
     bindE (transition_id E t) (\<lambda>transition.
     Inr \<lparr>rs_repository = repository, rs_publisher = rtp_publisher p,
          rs_transition = transition, rs_sequence = rtp_sequence p, rs_refs = rtp_refs p\<rparr>)))))))"

text \<open>\<open>RefState::target\<close>: binary search by name.\<close>

definition ref_state_target :: "ref_state \<Rightarrow> string \<Rightarrow> git_object_id option" where
  "ref_state_target s name =
     (case binary_search_by (\<lambda>r. cmp (rt_name r) name) (rs_refs s) of
        Inr i \<Rightarrow> Some (rt_target (rs_refs s ! i))
      | Inl _ \<Rightarrow> None)"

end
