(* ===== verification/Publishing.thy ===== *)
theory Publishing
  imports Refs Identity_Facts
begin

text \<open>
  What the definitions of the theory Refs compute, and the properties of reference transitions:
  authority, lineage, completeness of signing, and lookup by binary search.
\<close>

section \<open>Valid references\<close>

definition valid_object :: "git_object_id \<Rightarrow> bool" where
  "valid_object o' \<longleftrightarrow>
     (algorithm o', length (object_bytes o')) \<in> {(''sha1'', 20), (''sha256'', 32)}"

definition valid_ref_name :: "string \<Rightarrow> bool" where
  "valid_ref_name n \<longleftrightarrow>
     starts_with n ''refs/'' \<and> \<not> contains_str n ''..'' \<and> (\<forall>c \<in> set n. c \<notin> set ref_specials)"

definition valid_refs :: "ref_target list \<Rightarrow> bool" where
  "valid_refs refs \<longleftrightarrow>
     sorted_wrt (<) (map rt_name refs) \<and>
     (\<forall>r \<in> set refs. valid_ref_name (rt_name r) \<and> valid_object (rt_target r))"

lemma object_validate_Inr_iff [results]: "object_validate o' = Inr u \<longleftrightarrow> valid_object o'"
  by (auto simp: object_validate_def results valid_object_def)

lemma object_validate_Inl: "object_validate o' = Inl e \<Longrightarrow> e = InvalidRefTransition ''invalid Git object identifier''"
  by (simp add: object_validate_def ensure_Inl_iff)

lemma validate_refs_Inr_iff [results]: "validate_refs refs = Inr u \<longleftrightarrow> valid_refs refs"
  by (auto simp: validate_refs_def validate_ref_def results valid_refs_def valid_ref_name_def
      contains_any_iff)

section \<open>Positions in a publisher's history\<close>

lemma next_position_Inr_iff [results]:
  "next_position previous = Inr (parent, sequence) \<longleftrightarrow>
     (case previous of
        None \<Rightarrow> parent = None \<and> sequence = 0
      | Some s \<Rightarrow> parent = Some (rs_transition s) \<and>
                  checked_add_one (rs_sequence s) = Some sequence)"
  by (auto simp: next_position_def results split: option.splits)

lemma signature_frame_Inr_iff [results]:
  "signature_frame E p = Inr frame \<longleftrightarrow>
     (\<exists>bs. canonical_bytes (ref_payload_codec E) p = Inr bs \<and> frame = ref_signature_domain @ bs)"
  by (auto simp: signature_frame_def results)

lemma transition_id_Inr_iff [results]:
  "transition_id E t = Inr d \<longleftrightarrow>
     (\<exists>bs. canonical_bytes (ref_transition_codec E) t = Inr bs \<and>
           d = domain_digest E ref_transition_domain bs)"
  by (auto simp: transition_id_def results)

definition names_position ::
  "ref_transition_payload \<Rightarrow> repository_id \<Rightarrow> signer_selection \<Rightarrow> ref_state option \<Rightarrow> bool" where
  "names_position p repository selected previous \<longleftrightarrow>
     rtp_version p = 1 \<and> rtp_repository p = repository \<and>
     rtp_publisher p = sel_identity selected \<and> rtp_key_epoch p = sel_key_epoch selected \<and>
     next_position previous = Inr (rtp_parent p, rtp_sequence p)"

lemma ref_transition_verify_Inr_iff [results]:
  "ref_transition_verify E t repository binding selected previous = Inr s \<longleftrightarrow>
     binding_authentic E binding \<and> selects binding selected \<and>
     names_position (rtr_payload t) repository selected previous \<and>
     valid_refs (rtp_refs (rtr_payload t)) \<and>
     (\<exists>frame. signature_frame E (rtr_payload t) = Inr frame \<and>
        verify_strict E (sel_repository_key selected) frame (rtr_signature t) = Inr ()) \<and>
     (\<exists>d. transition_id E t = Inr d \<and>
        s = \<lparr>rs_repository = repository, rs_publisher = rtp_publisher (rtr_payload t),
             rs_transition = d, rs_sequence = rtp_sequence (rtr_payload t),
             rs_refs = rtp_refs (rtr_payload t)\<rparr>)"
  unfolding ref_transition_verify_def Let_def bindE_Inr_iff case_prod_unfold if_Inl_else_Inr_iff
    binding_verify_selected_Inr_iff validate_refs_Inr_iff names_position_def verifying_key_Inr_iff
    de_Morgan_disj not_not sum.inject
  by (rule iffI; (elim conjE exE)?; simp add: verify_strict_valid_key)

lemma ref_transition_verify_facts:
  assumes "ref_transition_verify E t repository binding selected previous = Inr s"
  shows "rs_repository s = repository" and "rs_publisher s = sel_identity selected"
    and "rs_refs s = rtp_refs (rtr_payload t)" and "valid_refs (rs_refs s)"
    and "transition_id E t = Inr (rs_transition s)"
    and "next_position previous = Inr (rtp_parent (rtr_payload t), rs_sequence s)"
    and "rtp_sequence (rtr_payload t) = rs_sequence s"
proof -
  obtain d where "names_position (rtr_payload t) repository selected previous"
    "valid_refs (rtp_refs (rtr_payload t))" "transition_id E t = Inr d"
    "s = \<lparr>rs_repository = repository, rs_publisher = rtp_publisher (rtr_payload t),
          rs_transition = d, rs_sequence = rtp_sequence (rtr_payload t),
          rs_refs = rtp_refs (rtr_payload t)\<rparr>"
    using assms unfolding ref_transition_verify_Inr_iff by blast
  then show "rs_repository s = repository" "rs_publisher s = sel_identity selected"
    "rs_refs s = rtp_refs (rtr_payload t)" "valid_refs (rs_refs s)"
    "transition_id E t = Inr (rs_transition s)"
    "next_position previous = Inr (rtp_parent (rtr_payload t), rs_sequence s)"
    "rtp_sequence (rtr_payload t) = rs_sequence s"
    by (simp_all add: names_position_def)
qed

text \<open>The position of a state in its publisher's history; \<open>None\<close> is before the first.\<close>

definition position :: "ref_state option \<Rightarrow> nat" where
  "position previous = (case previous of None \<Rightarrow> 0 | Some s \<Rightarrow> unat (rs_sequence s) + 1)"

lemma next_position_sequence:
  "next_position previous = Inr (parent, sequence) \<Longrightarrow> unat sequence = position previous"
  by (auto simp: results position_def unat_checked_add_one split: option.splits)

text \<open>The histories of one publisher in one repository, under any selected bindings.\<close>

inductive ref_history ::
  "('z) refs_env_scheme \<Rightarrow> repository_id \<Rightarrow> ref_state option \<Rightarrow> ref_state option \<Rightarrow> bool" for E repository where
  here: "ref_history E repository s s"
| there: "ref_history E repository s s' \<Longrightarrow>
    ref_transition_verify E t repository binding selected s' = Inr s'' \<Longrightarrow>
    ref_history E repository s (Some s'')"

lemma ref_history_position: "ref_history E repository s s' \<Longrightarrow> position s \<le> position s'"
proof (induction rule: ref_history.induct)
  case (there s s' t binding selected s'')
  then have "unat (rs_sequence s'') = position s'"
    by (metis next_position_sequence ref_transition_verify_facts(6))
  then show ?case using there by (simp add: position_def)
qed simp

lemma accepted_context_unique:
  assumes "ref_transition_verify E t repository binding selected previous = Inr s"
    and "ref_transition_verify E t repository' binding' selected' previous' = Inr s'"
  shows "repository = repository' \<and> sel_identity selected = sel_identity selected' \<and>
    sel_key_epoch selected = sel_key_epoch selected' \<and>
    map_option rs_transition previous = map_option rs_transition previous' \<and>
    position previous = position previous' \<and> s = s'"
proof -
  have p: "names_position (rtr_payload t) repository selected previous"
    and p': "names_position (rtr_payload t) repository' selected' previous'"
    using assms unfolding ref_transition_verify_Inr_iff by blast+
  have parent: "map_option rs_transition q = rtp_parent (rtr_payload t)"
    if "next_position q = Inr (rtp_parent (rtr_payload t), n)" for q n
    using that by (auto simp: results split: option.splits)
  have pos: "position q = unat n" if "next_position q = Inr (m, n)" for q m n
    using next_position_sequence [OF that] by simp
  have "s = s'"
    using assms p p' unfolding ref_transition_verify_Inr_iff names_position_def by auto
  then show ?thesis
    using p p' pos parent unfolding names_position_def by metis
qed

section \<open>Looking up a reference\<close>

lemma map_of_sorted_nth:
  assumes "sorted_wrt (<) (map rt_name refs)" "i < length refs"
  shows "map_of (map (\<lambda>r. (rt_name r, rt_target r)) refs) (rt_name (refs ! i)) = Some (rt_target (refs ! i))"
  using strict_sorted_distinct [OF assms(1)] assms(2)
  by (intro map_of_is_SomeI) (auto simp: comp_def)

text \<open>C2: a reference transition is accepted only on the publisher's authority. Acceptance means
  that the supplied binding is authentic and is the selected one, that the selected repository
  key signed the domain-separated frame of exactly this payload, that the payload names this
  repository, publisher, epoch, parent and next sequence number, and that the resulting reference
  map is sorted, duplicate-free and valid.\<close>

theorem ref_transition_authority:
  assumes "ref_transition_verify E t repository binding selected previous = Inr s"
  shows "binding_authentic E binding \<and> selects binding selected \<and>
    (\<exists>bs. canonical_bytes (ref_payload_codec E) (rtr_payload t) = Inr bs \<and>
       verify_strict E (sel_repository_key selected) (ref_signature_domain @ bs) (rtr_signature t) = Inr ()) \<and>
    names_position (rtr_payload t) repository selected previous \<and>
    rs_repository s = repository \<and> rs_publisher s = sel_identity selected \<and>
    unat (rs_sequence s) = position previous \<and>
    rs_refs s = rtp_refs (rtr_payload t) \<and> valid_refs (rs_refs s)"
proof -
  have "unat (rs_sequence s) = position previous"
    using ref_transition_verify_facts(6) [OF assms] by (rule next_position_sequence)
  then show ?thesis
    using assms ref_transition_verify_facts(1-4) [OF assms]
    unfolding ref_transition_verify_Inr_iff signature_frame_Inr_iff by auto
qed

lemma signed_accepted:
  assumes "signatures_ok E" "refs_codecs_ok E" "selects binding selected"
    and "ref_transition_signed E repository binding k previous refs = Inr t"
  shows "\<exists>s. ref_transition_verify E t repository binding selected previous = Inr s \<and>
    rs_refs s = sort_key rt_name refs \<and> mset (rs_refs s) = mset refs"
proof -
  obtain parent sequence frame where auth: "binding_authentic E binding"
    and key: "public_key_of E k = binding_repository_key binding"
    and refs: "valid_refs (sort_key rt_name refs)"
    and pos: "next_position previous = Inr (parent, sequence)"
    and frame: "signature_frame E (rtr_payload t) = Inr frame"
    and payload: "rtr_payload t = \<lparr>rtp_version = 1, rtp_repository = repository,
        rtp_publisher = binding_identity binding, rtp_key_epoch = binding_key_epoch binding,
        rtp_parent = parent, rtp_sequence = sequence, rtp_refs = sort_key rt_name refs\<rparr>"
    and sig: "rtr_signature t = sign_bytes E k frame"
    using assms(4) unfolding ref_transition_signed_def Let_def bindE_Inr_iff if_Inl_else_Inr_iff
      binding_verify_Inr_iff validate_refs_Inr_iff not_not sum.inject
    by (elim conjE exE) (auto split: prod.splits simp: bindE_Inr_iff)
  obtain d where d: "transition_id E t = Inr d"
    using assms(2) canonical_bytes_total [of "ref_transition_codec E" t]
    unfolding refs_codecs_ok_def transition_id_Inr_iff by blast
  have "verify_strict E (sel_repository_key selected) frame (rtr_signature t) = Inr ()"
    using verify_strict_sign [OF assms(1), of k frame] key assms(3) by (simp add: sig selects_def)
  then have "ref_transition_verify E t repository binding selected previous =
      Inr \<lparr>rs_repository = repository, rs_publisher = rtp_publisher (rtr_payload t),
           rs_transition = d, rs_sequence = rtp_sequence (rtr_payload t),
           rs_refs = rtp_refs (rtr_payload t)\<rparr>"
    unfolding ref_transition_verify_Inr_iff names_position_def
    using auth assms(3) refs pos frame d payload by (simp add: selects_def)
  then show ?thesis using payload by simp
qed

text \<open>C27: what a publisher signs is accepted. A transition signed over any previous state
  verifies against that state under the signing binding's own selection, and the state it leaves
  holds the given references sorted by name.\<close>

theorem ref_transition_sign_verify:
  assumes "signatures_ok E" "refs_codecs_ok E" "selects binding selected"
    and "ref_transition_signed E repository binding k previous refs = Inr t"
  shows "\<exists>s. ref_transition_verify E t repository binding selected previous = Inr s \<and>
    rs_refs s = sort_key rt_name refs \<and> mset (rs_refs s) = mset refs"
  using assms by (rule signed_accepted)

text \<open>C28: a signed transition cannot be moved. If one transition is accepted in two contexts,
  the contexts agree on the repository, the publisher, the epoch, the parent transition and the
  sequence number.\<close>

theorem ref_transition_no_transplant:
  assumes "ref_transition_verify E t repository binding selected previous = Inr s"
    and "ref_transition_verify E t repository' binding' selected' previous' = Inr s'"
  shows "repository = repository' \<and> sel_identity selected = sel_identity selected' \<and>
    sel_key_epoch selected = sel_key_epoch selected' \<and>
    map_option rs_transition previous = map_option rs_transition previous' \<and>
    position previous = position previous' \<and> s = s'"
  using assms by (rule accepted_context_unique)

text \<open>C17: no replay of reference transitions. Once a transition has been accepted, it is
  rejected in every later state of that publisher's history, whatever binding and selection are
  presented with it.\<close>

theorem ref_transition_no_replay:
  assumes "ref_transition_verify E t repository binding selected previous = Inr s"
    and "ref_history E repository (Some s) later"
  shows "\<not> is_ok (ref_transition_verify E t repository' binding' selected' later)"
proof
  assume "is_ok (ref_transition_verify E t repository' binding' selected' later)"
  then obtain x where x: "ref_transition_verify E t repository' binding' selected' later = Inr x"
    by (auto simp: is_ok_iff)
  have "position previous = position later"
    using accepted_context_unique [OF assms(1) x] by blast
  moreover have "position previous < position (Some s)"
    using next_position_sequence [OF ref_transition_verify_facts(6) [OF assms(1)]]
    by (simp add: position_def)
  ultimately show False using ref_history_position [OF assms(2)] by simp
qed

text \<open>At sequence \<open>u64::MAX\<close> neither signing nor verifying yields a transition.\<close>

lemma ref_sequence_exhausted:
  assumes "rs_sequence state = - 1"
  shows "\<not> is_ok (ref_transition_signed E repository binding k (Some state) refs) \<and>
    \<not> is_ok (ref_transition_verify E t repository binding selected (Some state))"
  using assms
  by (auto simp: is_ok_iff ref_transition_signed_def ref_transition_verify_def bindE_Inr_iff
      next_position_def checked_add_one_def Let_def split: if_splits)

text \<open>C29: the binary search of \<open>RefState::target\<close> is a lookup. In the state an accepted
  transition leaves, it finds exactly the target the reference map gives the name; in any state
  whatever, a target it returns is one listed under that name.\<close>

theorem ref_state_target_lookup:
  "(ref_transition_verify E t repository binding selected previous = Inr s \<longrightarrow>
      ref_state_target s name = map_of (map (\<lambda>r. (rt_name r, rt_target r)) (rs_refs s)) name) \<and>
   (ref_state_target s name = Some object \<longrightarrow> (\<exists>r \<in> set (rs_refs s). rt_name r = name \<and> rt_target r = object))"
proof (intro conjI impI)
  assume "ref_transition_verify E t repository binding selected previous = Inr s"
  then have sorted: "sorted_wrt (<) (map rt_name (rs_refs s))"
    using ref_transition_verify_facts(4) valid_refs_def by blast
  show "ref_state_target s name = map_of (map (\<lambda>r. (rt_name r, rt_target r)) (rs_refs s)) name"
  proof (cases "\<exists>i < length (rs_refs s). rt_name (rs_refs s ! i) = name")
    case True
    then obtain i where i: "i < length (rs_refs s)" "rt_name (rs_refs s ! i) = name" by blast
    then have "binary_search_by (\<lambda>r. cmp (rt_name r) name) (rs_refs s) = Inr i"
      using binary_search_iff [OF sorted] by blast
    then show ?thesis
      using map_of_sorted_nth [OF sorted i(1)] i(2) by (simp add: ref_state_target_def)
  next
    case False
    then have "ref_state_target s name = None"
      using binary_search_sound by (fastforce simp: ref_state_target_def split: sum.splits)
    moreover have "name \<notin> rt_name ` set (rs_refs s)"
      using False by (auto simp: in_set_conv_nth)
    moreover from this have "map_of (map (\<lambda>r. (rt_name r, rt_target r)) (rs_refs s)) name = None"
      by (simp add: map_of_eq_None_iff image_image)
    ultimately show ?thesis by simp
  qed
next
  assume "ref_state_target s name = Some object"
  then show "\<exists>r \<in> set (rs_refs s). rt_name r = name \<and> rt_target r = object"
    using binary_search_sound
    by (fastforce simp: ref_state_target_def split: sum.splits)
qed

text \<open>Git object identifiers and their text: a parsed identifier is valid and its hexadecimal form
  is the text in lowercase; a valid identifier is recovered from its text.\<close>

lemma object_from_hex_valid:
  assumes "hex_ok E" "object_from_hex E alg text = Inr x"
  shows "object_validate x = Inr () \<and> algorithm x = alg \<and> object_hex E x = map to_lower text"
  using assms
  by (auto simp: object_from_hex_def results object_sha1_def object_sha256_def valid_object_def
      object_hex_def hex_ok_def split: if_splits)

lemma object_from_hex_hex:
  assumes "hex_ok E" "object_validate x = Inr ()"
  shows "object_from_hex E (algorithm x) (object_hex E x) = Inr x"
  using assms
  by (cases x) (auto simp: results valid_object_def object_from_hex_def object_hex_def hex_ok_def
      object_sha1_def object_sha256_def try_fixed_def)

end
