(* ===== verification/Canonical.thy ===== *)
theory Canonical
  imports Publishing
begin

text \<open>
  \<open>crates/styrene-git-core/src/canonical.rs\<close>: the canonical head of the default branch, derived
  from the states that the current delegates published, with the properties of that decision.
\<close>

section \<open>The derivation\<close>

datatype canonical_decision =
    Advance git_object_id
  | Retain
  | NoAgreement
  | Diverged git_object_id

text \<open>The voting loop: \<open>*votes.entry(target).or_default() += 1\<close> on \<open>u16\<close> counters.\<close>

definition add_vote :: "git_object_id \<Rightarrow> (git_object_id, u16) btree_map \<Rightarrow> (git_object_id, u16) btree_map" where
  "add_vote target votes =
     btree_insert target ((case btree_get votes target of None \<Rightarrow> 0 | Some n \<Rightarrow> n) + 1) votes"

fun collect_votes ::
  "(styrene_identity, ref_state) btree_map \<Rightarrow> string \<Rightarrow> (git_object_id, u16) btree_map
     \<Rightarrow> styrene_identity list \<Rightarrow> (git_object_id, u16) btree_map" where
  "collect_votes states branch votes [] = votes"
| "collect_votes states branch votes (delegate # delegates) =
     collect_votes states branch
       (case Option.bind (btree_get states delegate) (\<lambda>state. ref_state_target state branch) of
          Some target \<Rightarrow> add_vote target votes
        | None \<Rightarrow> votes)
       delegates"

definition derive_canonical_head ::
  "identity_document \<Rightarrow> (styrene_identity, ref_state) btree_map \<Rightarrow> git_object_id option
     \<Rightarrow> (git_object_id \<Rightarrow> git_object_id \<Rightarrow> bool) \<Rightarrow> canonical_decision" where
  "derive_canonical_head document states previous is_descendant =
     (let branch = ''refs/heads/'' @ doc_default_branch document;
          votes = collect_votes states branch [] (doc_delegates document);
          qualifying = map fst (filter (\<lambda>(target, n). doc_threshold document \<le> n) votes)
      in case qualifying of
           [candidate] \<Rightarrow>
             (if previous = Some candidate then Retain
              else case previous of
                     Some p \<Rightarrow>
                       if \<not> is_descendant p candidate then Diverged candidate else Advance candidate
                   | None \<Rightarrow> Advance candidate)
         | _ \<Rightarrow> if previous \<noteq> None then Retain else NoAgreement)"

section \<open>Counting votes\<close>

definition default_ref :: "identity_document \<Rightarrow> string" where
  "default_ref document = ''refs/heads/'' @ doc_default_branch document"

definition vote_of ::
  "(styrene_identity, ref_state) btree_map \<Rightarrow> string \<Rightarrow> styrene_identity \<Rightarrow> git_object_id option" where
  "vote_of states branch d = Option.bind (btree_get states d) (\<lambda>s. ref_state_target s branch)"

definition tally ::
  "(styrene_identity, ref_state) btree_map \<Rightarrow> string \<Rightarrow> styrene_identity list \<Rightarrow> git_object_id \<Rightarrow> nat" where
  "tally states branch ds c = length (filter (\<lambda>d. vote_of states branch d = Some c) ds)"

definition voters ::
  "identity_document \<Rightarrow> (styrene_identity, ref_state) btree_map \<Rightarrow> git_object_id \<Rightarrow> styrene_identity set" where
  "voters document states c =
     {d \<in> set (doc_delegates document). vote_of states (default_ref document) d = Some c}"

lemma btree_get_add_vote:
  "btree_invar votes \<Longrightarrow> btree_get (add_vote t votes) c =
     (if c = t then Some ((case btree_get votes t of None \<Rightarrow> 0 | Some n \<Rightarrow> n) + 1) else btree_get votes c)"
  by (simp add: add_vote_def btree_get_insert)

definition count_of :: "('k, u16) btree_map \<Rightarrow> 'k \<Rightarrow> u16" where
  "count_of votes c = (case btree_get votes c of None \<Rightarrow> 0 | Some n \<Rightarrow> n)"

lemma count_of_add_vote:
  "btree_invar votes \<Longrightarrow> count_of (add_vote t votes) c = count_of votes c + (if t = c then 1 else 0)"
  by (simp add: count_of_def btree_get_add_vote)

lemma tally_simps [simp]:
  "tally states branch [] c = 0"
  "tally states branch (d # ds) c =
     (if vote_of states branch d = Some c then 1 else 0) + tally states branch ds c"
  by (simp_all add: tally_def)

lemma collect_votes_Cons:
  "collect_votes states branch votes (d # ds) =
     collect_votes states branch
       (case vote_of states branch d of Some t \<Rightarrow> add_vote t votes | None \<Rightarrow> votes) ds"
  by (simp add: vote_of_def)

lemma add_vote_invar: "btree_invar votes \<Longrightarrow> btree_invar (add_vote t votes)"
  by (simp add: add_vote_def btree_invar_insert)

declare collect_votes.simps(2) [simp del]

lemma collect_votes_invar:
  "btree_invar votes \<Longrightarrow> btree_invar (collect_votes states branch votes ds)"
  by (induction ds arbitrary: votes)
    (auto simp: collect_votes_Cons add_vote_invar split: option.splits)

lemma collect_votes_count:
  "btree_invar votes \<Longrightarrow> count_of (collect_votes states branch votes ds) c =
     count_of votes c + of_nat (tally states branch ds c)"
  by (induction ds arbitrary: votes)
    (auto simp: collect_votes_Cons add_vote_invar count_of_add_vote split: option.splits)

lemma collect_votes_present:
  "btree_invar votes \<Longrightarrow> btree_get (collect_votes states branch votes ds) c = None \<longleftrightarrow>
     btree_get votes c = None \<and> tally states branch ds c = 0"
  by (induction ds arbitrary: votes)
    (auto simp: collect_votes_Cons add_vote_invar btree_get_add_vote split: option.splits)

text \<open>The targets that qualify, in the order of the map.\<close>

definition qualifying :: "identity_document \<Rightarrow> (styrene_identity, ref_state) btree_map \<Rightarrow> git_object_id list" where
  "qualifying document states =
     map fst (filter (\<lambda>(target, n). doc_threshold document \<le> n)
       (collect_votes states (default_ref document) [] (doc_delegates document)))"

lemma derive_canonical_head_qualifying:
  "derive_canonical_head document states previous is_descendant =
     (case qualifying document states of
        [candidate] \<Rightarrow>
          (if previous = Some candidate then Retain
           else case previous of
                  Some p \<Rightarrow> if is_descendant p candidate then Advance candidate else Diverged candidate
                | None \<Rightarrow> Advance candidate)
      | _ \<Rightarrow> if previous = None then NoAgreement else Retain)"
  by (simp add: derive_canonical_head_def qualifying_def default_ref_def Let_def split: list.splits option.splits)

lemma qualifying_mem:
  "c \<in> set (qualifying document states) \<longleftrightarrow>
     0 < tally states (default_ref document) (doc_delegates document) c \<and>
     doc_threshold document \<le> of_nat (tally states (default_ref document) (doc_delegates document) c)"
proof -
  define votes where
    "votes = collect_votes states (default_ref document) [] (doc_delegates document)"
  have inv: "btree_invar votes" by (simp add: votes_def collect_votes_invar btree.invar_empty)
  have cnt: "count_of votes c = of_nat (tally states (default_ref document) (doc_delegates document) c)"
    using collect_votes_count [OF btree.invar_empty] by (simp add: votes_def count_of_def btree_get_def)
  have pres: "btree_get votes c = None \<longleftrightarrow> tally states (default_ref document) (doc_delegates document) c = 0"
    using collect_votes_present [OF btree.invar_empty] by (simp add: votes_def btree_get_def)
  have "c \<in> set (qualifying document states) \<longleftrightarrow> (\<exists>n. (c, n) \<in> set votes \<and> doc_threshold document \<le> n)"
    by (force simp: qualifying_def votes_def)
  also have "\<dots> \<longleftrightarrow> (\<exists>n. btree_get votes c = Some n \<and> doc_threshold document \<le> n)"
    using btree.mem_entries_iff [OF inv] by simp
  also have "\<dots> \<longleftrightarrow> btree_get votes c \<noteq> None \<and> doc_threshold document \<le> count_of votes c"
    by (auto simp: count_of_def)
  finally show ?thesis by (simp add: cnt pres)
qed

lemma qualifying_distinct: "distinct (qualifying document states)"
proof -
  have "btree_invar (collect_votes states (default_ref document) [] (doc_delegates document))"
    by (simp add: collect_votes_invar btree.invar_empty)
  then show ?thesis
    unfolding qualifying_def by (intro distinct_map_filter strict_sorted_distinct) (simp add: btree_invar_def)
qed

lemma tally_voters:
  "distinct (doc_delegates document) \<Longrightarrow>
     tally states (default_ref document) (doc_delegates document) c = card (voters document states c)"
  unfolding tally_def voters_def by (simp add: distinct_length_filter Collect_conj_eq Int_commute)

lemma qualifying_threshold:
  assumes "valid_document document" "c \<in> set (qualifying document states)"
  shows "unat (doc_threshold document) \<le> card (voters document states c)"
proof -
  let ?n = "tally states (default_ref document) (doc_delegates document) c"
  have "unat (doc_threshold document) \<le> unat (of_nat ?n :: u16)"
    using assms(2) by (simp add: qualifying_mem word_le_nat_alt)
  also have "\<dots> \<le> ?n" by (simp add: unat_of_nat)
  also have "?n = card (voters document states c)"
    using assms(1) by (intro tally_voters) (simp add: valid_document_def strict_sorted_distinct)
  finally show ?thesis .
qed

lemma qualifying_iff:
  assumes "valid_document document" "length (doc_delegates document) < 2 ^ 16"
  shows "c \<in> set (qualifying document states) \<longleftrightarrow>
    unat (doc_threshold document) \<le> card (voters document states c)"
proof
  assume *: "unat (doc_threshold document) \<le> card (voters document states c)"
  have eq: "tally states (default_ref document) (doc_delegates document) c = card (voters document states c)"
    using assms(1) by (intro tally_voters) (simp add: valid_document_def strict_sorted_distinct)
  have "tally states (default_ref document) (doc_delegates document) c \<le> length (doc_delegates document)"
    by (simp add: tally_def)
  then have "unat (of_nat (card (voters document states c)) :: u16) = card (voters document states c)"
    using assms(2) eq by (simp add: unat_of_nat)
  moreover have "0 < card (voters document states c)"
    using assms(1) * by (simp add: valid_document_def)
  ultimately show "c \<in> set (qualifying document states)"
    using * eq by (simp add: qualifying_mem word_le_nat_alt)
qed (rule qualifying_threshold [OF assms(1)])

lemma singleton_qualifying:
  "qualifying document states = [c] \<longleftrightarrow> set (qualifying document states) = {c}"
  using qualifying_distinct [of document states]
  by (metis distinct_card card.insert empty_iff empty_set finite.emptyI length_0_conv length_Suc_conv
      One_nat_def card.empty list.set(2) singletonI list.set_intros(1) singletonD)

text \<open>The commits that a threshold of delegates published as the head of the default branch.\<close>

definition agreed :: "identity_document \<Rightarrow> (styrene_identity, ref_state) btree_map \<Rightarrow> git_object_id set" where
  "agreed document states = {c. unat (doc_threshold document) \<le> card (voters document states c)}"

lemma agreed_qualifying:
  assumes "valid_document document" "length (doc_delegates document) < 2 ^ 16"
  shows "agreed document states = set (qualifying document states)"
  using qualifying_iff [OF assms] by (auto simp: agreed_def)

lemma derive_from_agreed:
  assumes "valid_document document" "length (doc_delegates document) < 2 ^ 16"
  shows "derive_canonical_head document states previous is_descendant =
    (if is_singleton (agreed document states)
     then let c = the_elem (agreed document states) in
       (case previous of
          None \<Rightarrow> Advance c
        | Some p \<Rightarrow> if p = c then Retain else if is_descendant p c then Advance c else Diverged c)
     else if previous = None then NoAgreement else Retain)"
proof (cases "is_singleton (agreed document states)")
  case True
  then obtain c where c: "agreed document states = {c}" by (auto simp: is_singleton_def)
  then have "qualifying document states = [c]"
    by (simp add: singleton_qualifying agreed_qualifying [OF assms])
  then show ?thesis using c
    by (auto simp: derive_canonical_head_qualifying split: option.splits)
next
  case False
  then have "qualifying document states \<noteq> [c]" for c
    by (auto simp: agreed_qualifying [OF assms] is_singleton_def singleton_qualifying)
  then show ?thesis using False
    by (auto simp: derive_canonical_head_qualifying split: list.splits)
qed

section \<open>Properties\<close>

lemma derive_names_agreed:
  assumes "valid_document document"
    and "derive_canonical_head document states previous is_descendant = decision"
    and "decision \<in> {Advance c, Diverged c}"
  shows "unat (doc_threshold document) \<le> card (voters document states c) \<and>
    previous \<noteq> Some c \<and>
    (decision = Advance c \<longleftrightarrow> (\<forall>p. previous = Some p \<longrightarrow> is_descendant p c))"
proof -
  have q: "qualifying document states = [c]"
    using assms(2,3)
    by (auto simp: derive_canonical_head_qualifying split: list.splits if_splits option.splits)
  then have "unat (doc_threshold document) \<le> card (voters document states c)"
    using qualifying_threshold [OF assms(1), of c states] by simp
  then show ?thesis
    using assms(2,3) q
    by (auto simp: derive_canonical_head_qualifying split: if_splits option.splits)
qed

text \<open>C5: the canonical head only moves with a threshold of delegates, and only forward. When the
  derivation names a commit, at least the threshold of distinct delegates published that commit as
  their default branch; it advances from an accepted head only to a different commit that the
  descent test confirms, and reports a divergence only when the test denies it.\<close>

theorem canonical_head_safety:
  assumes "valid_document document"
    and "derive_canonical_head document states previous is_descendant = decision"
    and "decision \<in> {Advance c, Diverged c}"
  shows "unat (doc_threshold document) \<le> card (voters document states c) \<and>
    previous \<noteq> Some c \<and>
    (decision = Advance c \<longleftrightarrow> (\<forall>p. previous = Some p \<longrightarrow> is_descendant p c))"
  by (rule derive_names_agreed [OF assms])

text \<open>C16: the derivation computes agreement. For a valid document with fewer than \<open>2 ^ 16\<close>
  delegates, the decision depends only on the set of commits that reach the threshold: with exactly
  one the head advances to it, stays or has diverged from it; with none or several the accepted
  head is retained, or there is no agreement yet.\<close>

theorem canonical_head_agreement:
  assumes "valid_document document" "length (doc_delegates document) < 2 ^ 16"
  shows "derive_canonical_head document states previous is_descendant =
    (if is_singleton (agreed document states)
     then let c = the_elem (agreed document states) in
       (case previous of
          None \<Rightarrow> Advance c
        | Some p \<Rightarrow> if p = c then Retain else if is_descendant p c then Advance c else Diverged c)
     else if previous = None then NoAgreement else Retain)"
  by (rule derive_from_agreed [OF assms])

text \<open>C30: with a majority threshold two commits never both qualify, so as soon as some commit has
  the threshold's votes the derivation decides about that commit and no other.\<close>

theorem canonical_head_majority:
  assumes "valid_document document" "length (doc_delegates document) < 2 ^ 16"
    and "length (doc_delegates document) < 2 * unat (doc_threshold document)"
    and "unat (doc_threshold document) \<le> card (voters document states c)"
  shows "derive_canonical_head document states previous is_descendant =
    (case previous of
       None \<Rightarrow> Advance c
     | Some p \<Rightarrow> if p = c then Retain else if is_descendant p c then Advance c else Diverged c)"
proof -
  have only: "c' = c" if "unat (doc_threshold document) \<le> card (voters document states c')" for c'
  proof (rule ccontr)
    assume "c' \<noteq> c"
    then have disj: "voters document states c' \<inter> voters document states c = {}"
      by (auto simp: voters_def)
    have fin: "finite (voters document states x)" for x by (simp add: voters_def)
    have "card (voters document states c') + card (voters document states c) =
        card (voters document states c' \<union> voters document states c)"
      using disj fin by (simp add: card_Un_disjoint)
    also have "\<dots> \<le> card (set (doc_delegates document))"
      by (rule card_mono) (auto simp: voters_def)
    also have "\<dots> \<le> length (doc_delegates document)" by (rule card_length)
    finally show False using assms(3,4) that by linarith
  qed
  have "agreed document states = {c}"
    unfolding agreed_def by (intro set_eqI iffI) (use only assms(4) in blast)+
  then show ?thesis
    by (simp add: derive_from_agreed [OF assms(1,2)])
qed

text \<open>Only delegates are heard. Publisher states of identities outside the delegate set, and
  references other than the default branch, do not influence the decision.\<close>

lemma canonical_head_noninterference:
  assumes "\<And>d. d \<in> set (doc_delegates document) \<Longrightarrow>
      vote_of states (default_ref document) d = vote_of states' (default_ref document) d"
  shows "derive_canonical_head document states previous is_descendant =
         derive_canonical_head document states' previous is_descendant"
proof -
  have "collect_votes states b votes ds = collect_votes states' b votes ds"
    if "\<And>d. d \<in> set ds \<Longrightarrow> vote_of states b d = vote_of states' b d" for b votes ds
    using that by (induction ds arbitrary: votes) (simp_all add: collect_votes_Cons)
  then show ?thesis
    using assms by (simp add: derive_canonical_head_qualifying qualifying_def)
qed

end
