(* ===== verification/Instances.thy ===== *)
theory Instances
  imports Refs
begin

text \<open>
  Concrete functions for the third-party code that the model takes as arguments, with proofs that
  they satisfy the documented behaviour the properties assume: hexadecimal and base32 text, a
  self-delimiting byte format for every message type, and a signature scheme and hash that are
  lawful though of course not secure. They show that the assumptions can hold together, and the
  witnesses evaluate the model on them.
\<close>

section \<open>Numbers in a base\<close>

text \<open>The digits of a number, least significant first, padded to a length.\<close>

fun digits :: "nat \<Rightarrow> nat \<Rightarrow> nat \<Rightarrow> nat list" where
  "digits b 0 n = []"
| "digits b (Suc k) n = (n mod b) # digits b k (n div b)"

fun undigits :: "nat \<Rightarrow> nat list \<Rightarrow> nat" where
  "undigits b [] = 0"
| "undigits b (d # ds) = d + b * undigits b ds"

lemma length_digits [simp]: "length (digits b k n) = k"
  by (induction b k n rule: digits.induct) auto

lemma digits_less: "0 < b \<Longrightarrow> d \<in> set (digits b k n) \<Longrightarrow> d < b"
  by (induction b k n rule: digits.induct) auto

lemma undigits_digits: "0 < b \<Longrightarrow> n < b ^ k \<Longrightarrow> undigits b (digits b k n) = n"
proof (induction b k n rule: digits.induct)
  case (2 b k n)
  then have "n div b < b ^ k" by (simp add: div_less_iff_less_mult mult.commute)
  then show ?case using 2 by simp
qed simp

lemma digits_undigits:
  "0 < b \<Longrightarrow> (\<forall>d \<in> set ds. d < b) \<Longrightarrow> length ds = k \<Longrightarrow> digits b k (undigits b ds) = ds"
  by (induction b k "undigits b ds" arbitrary: ds rule: digits.induct) (auto simp: length_Suc_conv)

lemma undigits_less: "0 < b \<Longrightarrow> (\<forall>d \<in> set ds. d < b) \<Longrightarrow> undigits b ds < b ^ length ds"
proof (induction ds)
  case (Cons d ds)
  then have "undigits b ds + 1 \<le> b ^ length ds" by simp
  then have "b * (undigits b ds + 1) \<le> b * b ^ length ds" by (rule mult_le_mono2)
  then show ?case using Cons.prems by simp
qed simp

section \<open>Text encodings\<close>

definition hex_value :: "char \<Rightarrow> nat option" where
  "hex_value c = map_of (zip (hex_digits @ ''ABCDEF'') ([0..<16] @ [10..<16])) c"

definition hex_of_byte :: "u8 \<Rightarrow> string" where
  "hex_of_byte b = [hex_digits ! (unat b div 16), hex_digits ! (unat b mod 16)]"

fun hex_parse :: "string \<Rightarrow> bytes option" where
  "hex_parse [] = Some []"
| "hex_parse [c] = None"
| "hex_parse (c # d # s) =
     (case (hex_value c, hex_value d, hex_parse s) of
        (Some h, Some l, Some bs) \<Rightarrow> Some (of_nat (16 * h + l) # bs)
      | _ \<Rightarrow> None)"

lemma hex_digits_nth:
  "n < 16 \<Longrightarrow> hex_value (hex_digits ! n) = Some n \<and> hex_digits ! n \<in> set hex_digits"
  by (simp add: hex_digits_def hex_value_def upt_rec nth_Cons' numeral_eq_Suc less_Suc_eq) auto

lemma hex_value_Some: "hex_value c = Some n \<Longrightarrow> n < 16 \<and> hex_digits ! n = to_lower c"
  by (auto simp: hex_value_def hex_digits_def upt_rec to_lower_def is_ascii_uppercase_def
      less_eq_char_def char_of_def bit_0 split: if_splits)

lemma hex_parse_encode: "hex_parse (concat (map hex_of_byte bs)) = Some bs"
proof (induction bs)
  case (Cons b bs)
  have "unat b < 256" using unsigned_less [of b] by simp
  then have "unat b div 16 < 16" "unat b mod 16 < 16" by auto
  then show ?case using Cons hex_digits_nth by (simp add: hex_of_byte_def)
qed simp

lemma hex_parse_lower: "hex_parse s = Some bs \<Longrightarrow> concat (map hex_of_byte bs) = map to_lower s"
proof (induction s arbitrary: bs rule: hex_parse.induct)
  case (3 c d s)
  then obtain h l bs' where *: "hex_value c = Some h" "hex_value d = Some l" "hex_parse s = Some bs'"
    "bs = of_nat (16 * h + l) # bs'"
    by (auto split: option.splits)
  then have "h < 16" "l < 16" "hex_digits ! h = to_lower c" "hex_digits ! l = to_lower d"
    using hex_value_Some by blast+
  moreover from this have "unat (of_nat (16 * h + l) :: u8) = 16 * h + l"
    by (subst unat_of_nat) (simp, linarith?)
  ultimately show ?case using 3 * by (simp add: hex_of_byte_def)
qed auto

text \<open>Base32 of the bytes read as one number, shifted to a whole number of five-bit groups.\<close>

definition base32_value :: "char \<Rightarrow> nat option" where
  "base32_value c = map_of (zip base32_alphabet [0..<32]) c"

definition base32_print :: "bytes \<Rightarrow> string" where
  "base32_print bs =
     (let k = (8 * length bs + 4) div 5;
          n = undigits 256 (rev (map unat bs)) * 2 ^ (5 * k - 8 * length bs)
      in map (\<lambda>d. base32_alphabet ! d) (rev (digits 32 k n)))"

definition base32_read :: "nat list \<Rightarrow> bytes" where
  "base32_read ds =
     (let k = 5 * length ds div 8
      in map of_nat (rev (digits 256 k (undigits 32 (rev ds) div 2 ^ (5 * length ds - 8 * k)))))"

definition base32_parse :: "string \<Rightarrow> bytes option" where
  "base32_parse s =
     (if list_all (\<lambda>c. base32_value c \<noteq> None) s
      then let bs = base32_read (map (\<lambda>c. the (base32_value c)) s)
           in if base32_print bs = s then Some bs else None
      else None)"

lemma base32_alphabet_nth:
  "n < 32 \<Longrightarrow> base32_value (base32_alphabet ! n) = Some n \<and> base32_alphabet ! n \<in> set base32_alphabet"
  by (simp add: base32_alphabet_def base32_value_def upt_rec nth_Cons' numeral_eq_Suc less_Suc_eq) auto

lemma base32_print_ok:
  assumes "length bs = 32"
  shows "base32_parse (base32_print bs) = Some bs" and "length (base32_print bs) = 52"
    and "set (base32_print bs) \<subseteq> set base32_alphabet"
proof -
  define n where "n = undigits 256 (rev (map unat bs))"
  have byte: "unat b < 256" for b :: u8 using unsigned_less [of b] by simp
  have n: "n < 256 ^ 32"
    using undigits_less [of 256 "rev (map unat bs)"] byte assms by (auto simp: n_def)
  define ds where "ds = digits 32 52 (n * 16)"
  have ds: "d < 32" if "d \<in> set ds" for d using that digits_less by (simp add: ds_def)
  have print: "base32_print bs = map (\<lambda>d. base32_alphabet ! d) (rev ds)"
    by (simp add: base32_print_def assms n_def ds_def)
  then show "length (base32_print bs) = 52" by (simp add: ds_def)
  show "set (base32_print bs) \<subseteq> set base32_alphabet"
    unfolding print using ds base32_alphabet_nth by auto
  have vals: "map (\<lambda>c. the (base32_value c)) (base32_print bs) = rev ds"
    unfolding print map_map using ds base32_alphabet_nth by (intro map_idI) (simp add: comp_def)
  have "n * 16 < 32 ^ 52" using n by simp
  then have "undigits 32 ds = n * 16" unfolding ds_def by (intro undigits_digits) simp_all
  moreover have "length ds = 52" by (simp add: ds_def)
  moreover have "digits 256 32 n = rev (map unat bs)"
    unfolding n_def using byte assms by (intro digits_undigits) auto
  ultimately have "base32_read (rev ds) = bs"
    by (simp add: base32_read_def rev_map [symmetric] comp_def)
  moreover have "list_all (\<lambda>c. base32_value c \<noteq> None) (base32_print bs)"
    unfolding print using ds base32_alphabet_nth by (auto simp: list_all_iff)
  ultimately show "base32_parse (base32_print bs) = Some bs"
    by (simp add: base32_parse_def vals Let_def)
qed

lemma base32_parse_print: "base32_parse s = Some bs \<Longrightarrow> base32_print bs = s"
  by (auto simp: base32_parse_def Let_def split: if_splits)

section \<open>A self-delimiting byte format\<close>

record 'a serial =
  ser :: "'a \<Rightarrow> bytes"
  des :: "bytes \<Rightarrow> ('a \<times> bytes) option"

definition serial_ok :: "'a serial \<Rightarrow> bool" where
  "serial_ok s \<longleftrightarrow> (\<forall>x r. des s (ser s x @ r) = Some (x, r))"

named_theorems serials \<open>the combinators of the byte format are lawful\<close>

definition codec_of :: "'a serial \<Rightarrow> 'a codec" where
  "codec_of s = \<lparr>to_vec = \<lambda>v. Inr (ser s v),
     decode_at = \<lambda>bs. (case des s bs of
         None \<Rightarrow> Inl ''end of input bytes''
       | Some (v, r) \<Rightarrow> Inr (v, length bs - length r))\<rparr>"

lemma codec_of_ok:
  assumes "serial_ok s" shows "codec_ok (codec_of s)"
proof -
  have "des s (ser s v) = Some (v, [])" for v
    using assms unfolding serial_ok_def by (metis append_Nil2)
  then show ?thesis by (simp add: codec_ok_def codec_of_def)
qed

text \<open>Through a one-to-one reading of the values of one type as values of another.\<close>

definition via :: "('a \<Rightarrow> 'b) \<Rightarrow> ('b \<Rightarrow> 'a) \<Rightarrow> 'b serial \<Rightarrow> 'a serial" where
  "via f g s = \<lparr>ser = \<lambda>x. ser s (f x), des = \<lambda>bs. map_option (\<lambda>(y, r). (g y, r)) (des s bs)\<rparr>"

lemma via_ok [serials]: "serial_ok s \<Longrightarrow> (\<And>x. g (f x) = x) \<Longrightarrow> serial_ok (via f g s)"
  by (simp add: serial_ok_def via_def)

fun nat_bytes :: "nat \<Rightarrow> bytes" where
  "nat_bytes n = (if n = 0 then [0] else 1 # of_nat (n mod 256) # nat_bytes (n div 256))"

fun nat_parse :: "bytes \<Rightarrow> (nat \<times> bytes) option" where
  "nat_parse [] = None"
| "nat_parse [b] = (if b = 0 then Some (0, []) else None)"
| "nat_parse (b # c # bs) =
     (if b = 0 then Some (0, c # bs)
      else map_option (\<lambda>(n, r). (unat c + 256 * n, r)) (nat_parse bs))"

declare nat_bytes.simps [simp del]

lemma nat_parse_bytes: "nat_parse (nat_bytes n @ r) = Some (n, r)"
proof (induction n rule: nat_bytes.induct)
  case (1 n)
  show ?case
  proof (cases "n = 0")
    case True then show ?thesis by (cases r) (simp_all add: nat_bytes.simps [of 0])
  next
    case False
    then show ?thesis using 1 by (simp add: nat_bytes.simps [of n] unat_of_nat)
  qed
qed

definition s_nat :: "nat serial" where
  "s_nat = \<lparr>ser = nat_bytes, des = nat_parse\<rparr>"

lemma s_nat_ok [serials]: "serial_ok s_nat"
  by (simp add: serial_ok_def s_nat_def nat_parse_bytes)

definition s_pair :: "'a serial \<Rightarrow> 'b serial \<Rightarrow> ('a \<times> 'b) serial" where
  "s_pair s t = \<lparr>ser = \<lambda>(x, y). ser s x @ ser t y,
     des = \<lambda>bs. Option.bind (des s bs) (\<lambda>(x, r). map_option (\<lambda>(y, r'). ((x, y), r')) (des t r))\<rparr>"

lemma s_pair_ok [serials]: "serial_ok s \<Longrightarrow> serial_ok t \<Longrightarrow> serial_ok (s_pair s t)"
  by (simp add: serial_ok_def s_pair_def)

text \<open>A list is each element after a one, and a final zero.\<close>

fun list_bytes :: "'a serial \<Rightarrow> 'a list \<Rightarrow> bytes" where
  "list_bytes s [] = [0]"
| "list_bytes s (x # xs) = 1 # ser s x @ list_bytes s xs"

fun list_parse :: "'a serial \<Rightarrow> nat \<Rightarrow> bytes \<Rightarrow> ('a list \<times> bytes) option" where
  "list_parse s (Suc fuel) (b # bs) =
     (if b = 0 then Some ([], bs)
      else Option.bind (des s bs) (\<lambda>(x, r). map_option (\<lambda>(xs, r'). (x # xs, r')) (list_parse s fuel r)))"
| "list_parse s _ _ = None"

lemma list_parse_bytes:
  "serial_ok s \<Longrightarrow> length xs < fuel \<Longrightarrow> list_parse s fuel (list_bytes s xs @ r) = Some (xs, r)"
  by (induction xs arbitrary: fuel) (auto simp: serial_ok_def Suc_less_eq2 gr0_conv_Suc)

lemma length_list_bytes: "length xs < length (list_bytes s xs)"
  by (induction xs) auto

definition s_list :: "'a serial \<Rightarrow> 'a list serial" where
  "s_list s = \<lparr>ser = list_bytes s, des = \<lambda>bs. list_parse s (length bs) bs\<rparr>"

lemma s_list_ok [serials]:
  assumes "serial_ok s" shows "serial_ok (s_list s)"
proof -
  have "list_parse s (length (list_bytes s xs @ r)) (list_bytes s xs @ r) = Some (xs, r)" for xs r
    using length_list_bytes [of xs s] by (intro list_parse_bytes [OF assms]) simp
  then show ?thesis by (simp add: serial_ok_def s_list_def)
qed

definition s_word :: "('n::len word) serial" where
  "s_word = via unat of_nat s_nat"

definition s_string :: "string serial" where
  "s_string = s_list (via of_char char_of s_nat)"

definition s_fixed :: "('n::len fixed) serial" where
  "s_fixed = via as_bytes array_of (s_list s_word)"

definition s_option :: "'a serial \<Rightarrow> 'a option serial" where
  "s_option s = via (\<lambda>x. case x of None \<Rightarrow> [] | Some y \<Rightarrow> [y])
     (\<lambda>xs. case xs of [] \<Rightarrow> None | y # _ \<Rightarrow> Some y) (s_list s)"

lemma s_word_ok [serials]: "serial_ok s_word"
  unfolding s_word_def by (intro serials) simp

lemma s_string_ok [serials]: "serial_ok s_string"
  unfolding s_string_def by (intro serials) simp

lemma s_fixed_ok [serials]: "serial_ok s_fixed"
  unfolding s_fixed_def by (intro serials) simp

lemma s_option_ok [serials]: "serial_ok s \<Longrightarrow> serial_ok (s_option s)"
  unfolding s_option_def by (intro serials) (simp_all split: option.splits)

section \<open>The formats of the core's types\<close>

definition s_visibility :: "visibility serial" where
  "s_visibility = via (\<lambda>v. if v = Public then 0 else 1) (\<lambda>n. if n = 0 then Public else Private) s_nat"

definition s_digest :: "digest serial" where
  "s_digest = via digest_array Digest s_fixed"

definition s_repository :: "repository_id serial" where
  "s_repository = via repository_digest RepositoryId s_digest"

definition s_identity :: "styrene_identity serial" where
  "s_identity = via identity_array StyreneIdentity s_fixed"

definition s_key :: "public_key serial" where
  "s_key = via public_key_array PublicKey s_fixed"

definition s_signature :: "signature_bytes serial" where
  "s_signature = via signature_array SignatureBytes s_fixed"

definition s_document :: "identity_document serial" where
  "s_document = via
     (\<lambda>d. (doc_version d, doc_name d, doc_description d, doc_default_branch d, doc_visibility d,
           doc_delegates d, doc_threshold d))
     (\<lambda>(a, b, c, d, e, f, g). \<lparr>doc_version = a, doc_name = b, doc_description = c,
        doc_default_branch = d, doc_visibility = e, doc_delegates = f, doc_threshold = g\<rparr>)
     (s_pair s_word (s_pair s_string (s_pair s_string (s_pair s_string (s_pair s_visibility
       (s_pair (s_list s_identity) s_word))))))"

definition s_binding_payload :: "signer_binding_payload serial" where
  "s_binding_payload = via
     (\<lambda>p. (sbp_version p, sbp_purpose p, sbp_identity p, sbp_identity_key p, sbp_repository_key p,
           sbp_key_epoch p))
     (\<lambda>(a, b, c, d, e, f). \<lparr>sbp_version = a, sbp_purpose = b, sbp_identity = c,
        sbp_identity_key = d, sbp_repository_key = e, sbp_key_epoch = f\<rparr>)
     (s_pair s_word (s_pair s_string (s_pair s_identity (s_pair s_key (s_pair s_key s_word)))))"

definition s_binding :: "signer_binding serial" where
  "s_binding = via (\<lambda>b. (sb_payload b, sb_signature b))
     (\<lambda>(a, b). \<lparr>sb_payload = a, sb_signature = b\<rparr>) (s_pair s_binding_payload s_signature)"

definition s_identity_payload :: "identity_transition_payload serial" where
  "s_identity_payload = via
     (\<lambda>p. (itp_version p, itp_repository p, itp_parent p, itp_sequence p, itp_document p))
     (\<lambda>(a, b, c, d, e). \<lparr>itp_version = a, itp_repository = b, itp_parent = c, itp_sequence = d,
        itp_document = e\<rparr>)
     (s_pair s_word (s_pair s_repository (s_pair s_digest (s_pair s_word s_document))))"

definition s_approval :: "approval serial" where
  "s_approval = via (\<lambda>a. (appr_identity a, appr_key_epoch a, appr_signature a))
     (\<lambda>(a, b, c). \<lparr>appr_identity = a, appr_key_epoch = b, appr_signature = c\<rparr>)
     (s_pair s_identity (s_pair s_word s_signature))"

definition s_identity_transition :: "identity_transition serial" where
  "s_identity_transition = via (\<lambda>t. (it_payload t, it_approvals t))
     (\<lambda>(a, b). \<lparr>it_payload = a, it_approvals = b\<rparr>) (s_pair s_identity_payload (s_list s_approval))"

definition s_object :: "git_object_id serial" where
  "s_object = via (\<lambda>x. (algorithm x, object_bytes x)) (\<lambda>(a, b). GitObjectId a b)
     (s_pair s_string (s_list s_word))"

definition s_ref_target :: "ref_target serial" where
  "s_ref_target = via (\<lambda>r. (rt_name r, rt_target r)) (\<lambda>(a, b). \<lparr>rt_name = a, rt_target = b\<rparr>)
     (s_pair s_string s_object)"

definition s_ref_payload :: "ref_transition_payload serial" where
  "s_ref_payload = via
     (\<lambda>p. (rtp_version p, rtp_repository p, rtp_publisher p, rtp_key_epoch p, rtp_parent p,
           rtp_sequence p, rtp_refs p))
     (\<lambda>(a, b, c, d, e, f, g). \<lparr>rtp_version = a, rtp_repository = b, rtp_publisher = c,
        rtp_key_epoch = d, rtp_parent = e, rtp_sequence = f, rtp_refs = g\<rparr>)
     (s_pair s_word (s_pair s_repository (s_pair s_identity (s_pair s_word
       (s_pair (s_option s_digest) (s_pair s_word (s_list s_ref_target)))))))"

definition s_ref_transition :: "ref_transition serial" where
  "s_ref_transition = via (\<lambda>t. (rtr_payload t, rtr_signature t))
     (\<lambda>(a, b). \<lparr>rtr_payload = a, rtr_signature = b\<rparr>) (s_pair s_ref_payload s_signature)"

definition s_ref_state :: "ref_state serial" where
  "s_ref_state = via
     (\<lambda>s. (rs_repository s, rs_publisher s, rs_transition s, rs_sequence s, rs_refs s))
     (\<lambda>(a, b, c, d, e). \<lparr>rs_repository = a, rs_publisher = b, rs_transition = c,
        rs_sequence = d, rs_refs = e\<rparr>)
     (s_pair s_repository (s_pair s_identity (s_pair s_digest (s_pair s_word (s_list s_ref_target)))))"

lemma s_visibility_ok [serials]: "serial_ok s_visibility"
  unfolding s_visibility_def by (intro serials) (metis visibility.exhaust zero_neq_one)

lemma s_fixed_types_ok [serials]:
  "serial_ok s_digest" "serial_ok s_identity" "serial_ok s_key" "serial_ok s_signature"
  unfolding s_digest_def s_identity_def s_key_def s_signature_def by ((intro serials, simp)+)

lemma s_repository_ok [serials]: "serial_ok s_repository"
  unfolding s_repository_def by (intro serials) simp

lemma s_document_ok [serials]: "serial_ok s_document"
  unfolding s_document_def by (intro serials) simp

lemma s_binding_payload_ok [serials]: "serial_ok s_binding_payload"
  unfolding s_binding_payload_def by (intro serials) simp

lemma s_binding_ok [serials]: "serial_ok s_binding"
  unfolding s_binding_def by (intro serials) simp

lemma s_identity_payload_ok [serials]: "serial_ok s_identity_payload"
  unfolding s_identity_payload_def by (intro serials) simp

lemma s_approval_ok [serials]: "serial_ok s_approval"
  unfolding s_approval_def by (intro serials) simp

lemma s_identity_transition_ok [serials]: "serial_ok s_identity_transition"
  unfolding s_identity_transition_def by (intro serials) simp

lemma s_object_ok [serials]: "serial_ok s_object"
  unfolding s_object_def by (intro serials) simp

lemma s_ref_target_ok [serials]: "serial_ok s_ref_target"
  unfolding s_ref_target_def by (intro serials) simp

lemma s_ref_payload_ok [serials]: "serial_ok s_ref_payload"
  unfolding s_ref_payload_def by (intro serials) simp

lemma s_ref_transition_ok [serials]: "serial_ok s_ref_transition"
  unfolding s_ref_transition_def by (intro serials) simp

lemma s_ref_state_ok [serials]: "serial_ok s_ref_state"
  unfolding s_ref_state_def by (intro serials) simp

section \<open>An environment\<close>

text \<open>
  The secret key is its own public key, and a signature is the key followed by the end of the
  message: strict verification recomputes it, so it accepts nothing else.
\<close>

definition sample_sign :: "32 fixed \<Rightarrow> bytes \<Rightarrow> 64 fixed" where
  "sample_sign k m = array_of (as_bytes k @ rev (take 32 (rev m)))"

definition sample_hash :: "bytes \<Rightarrow> 32 fixed" where
  "sample_hash m = array_of m"

definition sample :: refs_env where
  "sample = \<lparr>blake3 = sample_hash, sha256 = sample_hash,
     ed_verifying_key = \<lambda>k. k, ed_valid_key = \<lambda>k. True,
     ed_sign = sample_sign, ed_verify_strict = \<lambda>k m s. s = sample_sign k m,
     hex_encode = \<lambda>bs. concat (map hex_of_byte bs), hex_decode = hex_parse,
     base32_encode = base32_print, base32_decode = base32_parse,
     document_codec = codec_of s_document, binding_payload_codec = codec_of s_binding_payload,
     binding_codec = codec_of s_binding, identity_payload_codec = codec_of s_identity_payload,
     identity_transition_codec = codec_of s_identity_transition,
     ref_payload_codec = codec_of s_ref_payload, ref_transition_codec = codec_of s_ref_transition,
     ref_state_codec = codec_of s_ref_state\<rparr>"

lemma sample_signatures_ok: "signatures_ok sample"
  by (simp add: signatures_ok_def sample_def)

lemma hex_of_byte_ok: "length (hex_of_byte b) = 2 \<and> set (hex_of_byte b) \<subseteq> set hex_digits"
proof -
  have "unat b < 256" using unsigned_less [of b] by simp
  then have "unat b div 16 < 16" "unat b mod 16 < 16" by auto
  then show ?thesis using hex_digits_nth by (simp add: hex_of_byte_def)
qed

lemma sample_hex_ok: "hex_ok sample"
proof -
  have "length (concat (map hex_of_byte bs)) = 2 * length bs" for bs
    by (induction bs) (simp_all add: hex_of_byte_ok)
  moreover have "set (concat (map hex_of_byte bs)) \<subseteq> set hex_digits" for bs
    using hex_of_byte_ok by (auto simp: subset_iff)
  ultimately show ?thesis by (simp add: hex_ok_def sample_def hex_parse_encode hex_parse_lower)
qed

lemma sample_base32_ok: "base32_ok sample"
  by (simp add: base32_ok_def sample_def base32_print_ok base32_parse_print)

lemma sample_identity_codecs_ok: "identity_codecs_ok sample"
  by (simp add: identity_codecs_ok_def sample_def codec_of_ok serials)

lemma sample_refs_codecs_ok: "refs_codecs_ok sample"
  by (simp add: refs_codecs_ok_def sample_def codec_of_ok serials)

lemmas sample_ok = sample_signatures_ok sample_hex_ok sample_base32_ok
  sample_identity_codecs_ok sample_refs_codecs_ok

end
