(* ===== verification/Core_Witnesses.thy ===== *)
theory Core_Witnesses
  imports Governance Publishing Canonical Instances
begin

text \<open>
  A worked example of the core: three delegates with a threshold of two replace the identity
  document, one of them publishes references, and the canonical head is derived. Each property of
  the theories Governance, Publishing and Canonical is applied to it, which shows that the
  hypotheses of the property hold together on a concrete input.
\<close>

declare count_approvals.simps [simp del]
declare collect_votes.simps(2) [simp del]

section \<open>Keys, identities and bindings\<close>

definition sample_id :: "u8 \<Rightarrow> styrene_identity" where
  "sample_id n = StyreneIdentity (repeat_byte n)"

definition sample_secret :: "u8 \<Rightarrow> signing_key" where
  "sample_secret n = repeat_byte n"

lemma sample_id_simps [simp]:
  "sample_id a = sample_id b \<longleftrightarrow> a = b" "sample_id a < sample_id b \<longleftrightarrow> a < b"
  by (simp_all add: sample_id_def less_styrene_identity_def)

lemma sample_secret_inject [simp]: "sample_secret a = sample_secret b \<longleftrightarrow> a = b"
  by (simp add: sample_secret_def)

lemma sample_public [simp]: "public_key_of sample k = PublicKey k"
  by (simp add: public_key_of_def sample_def)

lemma sample_from_key [simp]: "from_signing_key sample (sample_secret n) = sample_id n"
proof -
  have "sha256 sample bs = array_of bs" for bs
    by (simp add: sample_def sample_hash_def)
  then show ?thesis
    by (simp add: from_signing_key_def from_public_key_def sample_id_def sample_secret_def)
qed

text \<open>Delegate \<open>n\<close> signs in the repository with the key \<open>100 + n\<close>.\<close>

definition sample_binding :: "u8 \<Rightarrow> signer_binding" where
  "sample_binding n =
     projr (binding_issue sample (sample_secret n) (PublicKey (sample_secret (100 + n))) 7)"

definition sample_selection :: "u8 \<Rightarrow> signer_selection" where
  "sample_selection n = \<lparr>sel_identity = sample_id n,
     sel_repository_key = PublicKey (sample_secret (100 + n)), sel_key_epoch = 7\<rparr>"

lemma sample_binding_issued:
  "binding_issue sample (sample_secret n) (PublicKey (sample_secret (100 + n))) 7 = Inr (sample_binding n)"
proof -
  have "codec_ok (binding_payload_codec sample)"
    using sample_ok by (simp add: identity_codecs_ok_def)
  then show ?thesis
    using binding_issue_total by (metis sample_binding_def sum.sel(2))
qed

lemma sample_binding_facts [simp]:
  "binding_authentic sample (sample_binding n)"
  "binding_identity (sample_binding n) = sample_id n"
  "binding_repository_key (sample_binding n) = PublicKey (sample_secret (100 + n))"
  "binding_key_epoch (sample_binding n) = 7"
  using binding_issue_authentic [OF sample_signatures_ok sample_binding_issued] by simp_all

lemma sample_selects [simp]: "selects (sample_binding n) (sample_selection n)"
  by (simp add: selects_def sample_selection_def)

section \<open>An identity and its replacement\<close>

definition sample_document :: identity_document where
  "sample_document = \<lparr>doc_version = 1, doc_name = ''demo'', doc_description = '''',
     doc_default_branch = ''main'', doc_visibility = Public,
     doc_delegates = [sample_id 1, sample_id 2, sample_id 3], doc_threshold = 2\<rparr>"

lemma sample_document_valid: "valid_document sample_document"
  by (simp add: valid_document_def sample_document_def valid_branch_name_def starts_with_def
      ends_with_def contains_any_def ref_specials_def)

definition sample_state :: identity_state where
  "sample_state = projr (identity_initial sample sample_document)"

lemma sample_initial: "identity_initial sample sample_document = Inr sample_state"
proof -
  have "\<exists>s. identity_initial sample sample_document = Inr s"
    using identity_codecs_total(3) [OF sample_identity_codecs_ok] sample_document_valid
    unfolding identity_initial_Inr_iff by blast
  then show ?thesis by (auto simp: sample_state_def)
qed

lemma sample_state_facts [simp]:
  "ids_sequence sample_state = 0" "ids_document sample_state = sample_document"
proof -
  obtain bs where s: "sample_state = \<lparr>ids_repository = RepositoryId (domain_digest sample repository_id_domain bs),
      ids_transition = domain_digest sample identity_root_domain bs,
      ids_sequence = 0, ids_document = sample_document\<rparr>"
    using sample_initial unfolding identity_initial_Inr_iff by blast
  show "ids_sequence sample_state = 0" by (subst s) simp
  show "ids_document sample_state = sample_document" by (subst s) simp
qed

definition sample_proposal :: identity_transition where
  "sample_proposal = projr (transition_proposed sample_state sample_document)"

lemma sample_proposed: "transition_proposed sample_state sample_document = Inr sample_proposal"
  by (simp add: sample_proposal_def transition_proposed_def checked_add_one_def)

definition sample_signers :: "(signer_binding \<times> signing_key) list" where
  "sample_signers = [(sample_binding 2, sample_secret 102), (sample_binding 1, sample_secret 101)]"

definition sample_transition :: identity_transition where
  "sample_transition = projr (approve_all sample sample_proposal sample_signers)"

definition sample_selections :: "(styrene_identity, signer_selection) btree_map" where
  "sample_selections = map (\<lambda>n. (sample_id n, sample_selection n)) [1, 2, 3]"

lemma approve_all_total:
  assumes "identity_codecs_ok E" "\<forall>(b, k) \<in> set signers. public_key_of E k = binding_repository_key b"
  shows "\<exists>t'. approve_all E t signers = Inr t'"
  using assms(2)
proof (induction signers arbitrary: t)
  case (Cons x signers)
  obtain b k where x: "x = (b, k)" by (cases x)
  obtain u where "transition_approve E t b k = Inr u"
    using Cons.prems identity_codecs_total(1) [OF assms(1), of "it_payload t"]
    unfolding x transition_approve_Inr_iff by auto
  then show ?case using Cons x by simp
qed simp

lemma sample_approved: "approve_all sample sample_proposal sample_signers = Inr sample_transition"
proof -
  have "\<exists>t'. approve_all sample sample_proposal sample_signers = Inr t'"
    by (rule approve_all_total [OF sample_identity_codecs_ok]) (simp add: sample_signers_def)
  then show ?thesis by (auto simp: sample_transition_def)
qed

lemma sample_signers_selected:
  "\<forall>(b, k) \<in> set sample_signers. \<exists>s. btree_get sample_selections (binding_identity b) = Some s \<and> selects b s"
  by (simp add: sample_signers_def sample_selections_def btree_get_def)

lemma sample_enough:
  "signer_identities sample_signers \<inter> delegates_of sample_state = {sample_id 1, sample_id 2}"
  by (auto simp: sample_signers_def sample_document_def)

definition sample_next :: identity_state where
  "sample_next = projr (transition_verify sample sample_transition sample_state sample_selections)"

lemma sample_accepted:
  "transition_verify sample sample_transition sample_state sample_selections = Inr sample_next"
proof -
  have "\<exists>s. transition_verify sample sample_transition sample_state sample_selections = Inr s \<and>
      ids_document s = sample_document"
    using sample_enough
    by (intro enough_approvals_accepted [OF sample_signatures_ok sample_identity_codecs_ok
          sample_proposed sample_document_valid sample_approved sample_signers_selected])
      (simp_all add: sample_document_def)
  then show ?thesis by (auto simp: sample_next_def)
qed

section \<open>Witnesses for the identity properties\<close>

lemma transition_authority_witness:
  "continues (it_payload sample_transition) sample_state \<and>
    (\<exists>bs. canonical_bytes (identity_payload_codec sample) (it_payload sample_transition) = Inr bs \<and>
      unat (doc_threshold (ids_document sample_state)) \<le>
        card {i \<in> delegates_of sample_state. \<exists>a \<in> set (it_approvals sample_transition).
                appr_identity a = i \<and> approval_ok sample sample_selections bs a})"
  by (rule transition_authority [OF sample_accepted])

lemma transition_no_replay_witness:
  "\<not> is_ok (transition_verify sample sample_transition sample_next sample_selections)"
  by (rule transition_no_replay [OF sample_accepted identity_history.here])

lemma history_invariant_witness:
  "document_repository_id sample sample_document = Inr (ids_repository sample_next) \<and>
    unat (ids_sequence sample_next) = 1 \<and> (1 :: nat) < 2 ^ 64 \<and> valid_document (ids_document sample_next)"
proof -
  have "identity_history sample sample_state (Suc 0) sample_next"
    by (rule identity_history.there [OF identity_history.here identity_step.accept [OF sample_accepted]])
  from history_invariant [OF sample_initial this] show ?thesis by simp
qed

lemma transition_completeness_witness:
  "\<exists>s. transition_verify sample sample_transition sample_state sample_selections = Inr s \<and>
     ids_document s = sample_document"
  using sample_enough
  by (intro transition_completeness [OF sample_signatures_ok sample_identity_codecs_ok
        sample_proposed sample_document_valid sample_approved sample_signers_selected])
    (simp_all add: sample_document_def)

lemma approval_order_irrelevant_witness:
  "approve_all sample sample_proposal (rev sample_signers) = Inr sample_transition"
proof -
  obtain t where t: "approve_all sample sample_proposal (rev sample_signers) = Inr t"
    using approve_all_total [OF sample_identity_codecs_ok, of "rev sample_signers"]
    by (auto simp: sample_signers_def)
  obtain bs where bs: "canonical_bytes (identity_payload_codec sample) (it_payload sample_proposal) = Inr bs"
    using identity_codecs_total(1) [OF sample_identity_codecs_ok] by blast
  have "approvals_sorted sample_proposal"
    by (simp add: approvals_sorted_def sample_proposal_def transition_proposed_def checked_add_one_def)
  then have "sample_transition = t"
    by (rule approval_order_irrelevant [OF _ _ _ sample_approved t bs]) (simp_all add: sample_signers_def)
  then show ?thesis using t by simp
qed

text \<open>Delegates 1 and 2 both selected the repository key of delegate 1.\<close>

lemma approval_relabelling_counts_witness:
  "let a = new_approval sample [1, 2, 3] (sample_binding 1) (sample_secret 101);
       selections = [(sample_id 1, sample_selection 1),
         (sample_id 2, (sample_selection 1)\<lparr>sel_identity := sample_id 2\<rparr>)]
   in count_approvals sample [sample_id 1, sample_id 2] selections [1, 2, 3] 0
        [a, a\<lparr>appr_identity := sample_id 2, appr_key_epoch := 7\<rparr>] = Inr 2"
proof -
  define a where "a = new_approval sample [1, 2, 3] (sample_binding 1) (sample_secret 101)"
  define selections where "selections = [(sample_id 1, sample_selection 1),
         (sample_id 2, (sample_selection 1)\<lparr>sel_identity := sample_id 2\<rparr>)]"
  have id: "appr_identity a = sample_id 1" by (simp add: a_def new_approval_def)
  have "verify_strict sample (PublicKey (sample_secret 101)) [1, 2, 3] (appr_signature a) = Inr ()"
    using verify_strict_sign [OF sample_signatures_ok, of "sample_secret 101" "[1, 2, 3]"]
    by (simp add: a_def new_approval_def)
  then have "approval_ok sample selections [1, 2, 3] a"
    by (simp add: id approval_ok_def selections_def btree_get_def)
      (simp add: sample_selection_def a_def new_approval_def)
  then have "count_approvals sample [sample_id 1, sample_id 2] selections [1, 2, 3] 0 [a] = Inr 1"
    by (simp add: count_approvals_Inr_iff id)
  from approval_relabelling_counts [OF this, of "sample_selection 1" "sample_id 2"
      "(sample_selection 1)\<lparr>sel_identity := sample_id 2\<rparr>"]
  have "count_approvals sample [sample_id 1, sample_id 2] selections [1, 2, 3] 0
      [a, a\<lparr>appr_identity := sample_id 2, appr_key_epoch := 7\<rparr>] = Inr 2"
    by (simp add: id selections_def btree_get_def) (simp add: sample_selection_def)
  then show ?thesis by (simp add: Let_def a_def selections_def)
qed

definition sample_repository :: repository_id where
  "sample_repository = RepositoryId (Digest (repeat_byte 0xAB))"

lemma sample_hex: "hex_encode sample bs = concat (map hex_of_byte bs)"
  by (simp add: sample_def)

section \<open>Published references\<close>

definition sample_object :: "u8 \<Rightarrow> git_object_id" where
  "sample_object n = object_sha1 (repeat_byte n)"

definition sample_refs :: "u8 \<Rightarrow> ref_target list" where
  "sample_refs n =
     [\<lparr>rt_name = ''refs/tags/v1'', rt_target = sample_object 1\<rparr>,
      \<lparr>rt_name = ''refs/heads/main'', rt_target = sample_object n\<rparr>]"

lemma sample_object_simps [simp]:
  "valid_object (sample_object n)" "sample_object a = sample_object b \<longleftrightarrow> a = b"
  by (auto simp: valid_object_def sample_object_def object_sha1_def)

lemma sample_refs_sorted:
  "sort_key rt_name (sample_refs n) = rev (sample_refs n)"
  by (simp add: sample_refs_def less_eq_char_def)

lemma sample_refs_valid: "valid_refs (sort_key rt_name (sample_refs n))"
  unfolding sample_refs_sorted
  by (simp add: sample_refs_def valid_refs_def valid_ref_name_def starts_with_def ref_specials_def
      less_char_def)

definition sample_signed :: "ref_state option \<Rightarrow> u8 \<Rightarrow> ref_transition" where
  "sample_signed previous n =
     projr (ref_transition_signed sample sample_repository (sample_binding 1) (sample_secret 101)
       previous (sample_refs n))"

lemma ref_transition_signed_total:
  assumes "refs_codecs_ok E" "binding_authentic E b" "public_key_of E k = binding_repository_key b"
    and "valid_refs (sort_key rt_name refs)" "next_position previous = Inr (parent, sequence)"
  shows "\<exists>t. ref_transition_signed E repository b k previous refs = Inr t"
proof -
  have "\<exists>frame. signature_frame E p = Inr frame" for p
    using assms(1) canonical_bytes_total [of "ref_payload_codec E" p]
    unfolding refs_codecs_ok_def signature_frame_Inr_iff by blast
  then obtain frame where "\<And>p. signature_frame E p = Inr (frame p)" by metis
  moreover have "validate_refs (sort_key rt_name refs) = Inr ()" "binding_verify E b = Inr ()"
    using assms(2,4) by (simp_all add: results)
  ultimately show ?thesis using assms(3,5) by (simp add: ref_transition_signed_def Let_def)
qed

lemma sample_signed_ok:
  assumes "previous = None \<or> rs_sequence (the previous) \<noteq> - 1"
  shows "ref_transition_signed sample sample_repository (sample_binding 1) (sample_secret 101)
    previous (sample_refs n) = Inr (sample_signed previous n)"
proof -
  have "\<exists>parent sequence. next_position previous = Inr (parent, sequence)"
    using assms by (cases previous) (auto simp: next_position_def checked_add_one_def)
  then have "\<exists>t. ref_transition_signed sample sample_repository (sample_binding 1) (sample_secret 101)
      previous (sample_refs n) = Inr t"
    using ref_transition_signed_total [OF sample_refs_codecs_ok] sample_refs_valid by fastforce
  then show ?thesis by (auto simp: sample_signed_def)
qed

definition sample_published :: "ref_state option \<Rightarrow> u8 \<Rightarrow> ref_state" where
  "sample_published previous n =
     projr (ref_transition_verify sample (sample_signed previous n) sample_repository
       (sample_binding 1) (sample_selection 1) previous)"

lemma sample_published_ok:
  assumes "previous = None \<or> rs_sequence (the previous) \<noteq> - 1"
  shows "ref_transition_verify sample (sample_signed previous n) sample_repository
      (sample_binding 1) (sample_selection 1) previous = Inr (sample_published previous n)"
    and "rs_refs (sample_published previous n) = rev (sample_refs n)"
  using signed_accepted [OF sample_signatures_ok sample_refs_codecs_ok sample_selects
      sample_signed_ok [OF assms, of n]]
  by (auto simp: sample_published_def sample_refs_sorted)

abbreviation sample_first :: ref_state where
  "sample_first \<equiv> sample_published None 1"

lemmas sample_first_ok = sample_published_ok [OF disjI1 [OF refl], of 1]

section \<open>Witnesses for the reference properties\<close>

lemma ref_transition_authority_witness:
  "binding_authentic sample (sample_binding 1) \<and> selects (sample_binding 1) (sample_selection 1) \<and>
    (\<exists>bs. canonical_bytes (ref_payload_codec sample) (rtr_payload (sample_signed None 1)) = Inr bs \<and>
       verify_strict sample (sel_repository_key (sample_selection 1)) (ref_signature_domain @ bs)
         (rtr_signature (sample_signed None 1)) = Inr ()) \<and>
    names_position (rtr_payload (sample_signed None 1)) sample_repository (sample_selection 1) None \<and>
    rs_repository sample_first = sample_repository \<and>
    rs_publisher sample_first = sel_identity (sample_selection 1) \<and>
    unat (rs_sequence sample_first) = position None \<and>
    rs_refs sample_first = rtp_refs (rtr_payload (sample_signed None 1)) \<and>
    valid_refs (rs_refs sample_first)"
  by (rule ref_transition_authority [OF sample_first_ok(1)])

lemma ref_transition_sign_verify_witness:
  "\<exists>s. ref_transition_verify sample (sample_signed None 1) sample_repository (sample_binding 1)
      (sample_selection 1) None = Inr s \<and>
    rs_refs s = sort_key rt_name (sample_refs 1) \<and> mset (rs_refs s) = mset (sample_refs 1)"
  by (rule ref_transition_sign_verify [OF sample_signatures_ok sample_refs_codecs_ok sample_selects
        sample_signed_ok [OF disjI1 [OF refl]]])

text \<open>The first transition cannot be presented for another repository.\<close>

lemma ref_transition_no_transplant_witness:
  "\<not> is_ok (ref_transition_verify sample (sample_signed None 1) (RepositoryId (Digest (repeat_byte 0xCD)))
      (sample_binding 1) (sample_selection 1) None)"
proof
  assume "is_ok (ref_transition_verify sample (sample_signed None 1)
      (RepositoryId (Digest (repeat_byte 0xCD))) (sample_binding 1) (sample_selection 1) None)"
  then obtain s where "ref_transition_verify sample (sample_signed None 1)
      (RepositoryId (Digest (repeat_byte 0xCD))) (sample_binding 1) (sample_selection 1) None = Inr s"
    by (auto simp: is_ok_iff)
  from ref_transition_no_transplant [OF sample_first_ok(1) this]
  show False by (simp add: sample_repository_def)
qed

lemma ref_transition_no_replay_witness:
  "\<not> is_ok (ref_transition_verify sample (sample_signed None 1) sample_repository
      (sample_binding 1) (sample_selection 1) (Some sample_first))"
  by (rule ref_transition_no_replay [OF sample_first_ok(1) ref_history.here])

lemma ref_state_target_lookup_witness:
  "ref_state_target sample_first ''refs/heads/main'' = Some (sample_object 1)"
proof -
  have "ref_state_target sample_first ''refs/heads/main'' =
      map_of (map (\<lambda>r. (rt_name r, rt_target r)) (rs_refs sample_first)) ''refs/heads/main''"
    using ref_state_target_lookup sample_first_ok(1) by blast
  then show ?thesis by (simp add: sample_first_ok(2)) (simp add: sample_refs_def)
qed

section \<open>Witnesses for the canonical head\<close>

text \<open>Delegates 1 and 2 publish object 1, delegate 3 publishes object 2.\<close>

definition sample_states :: "(styrene_identity, ref_state) btree_map" where
  "sample_states = [(sample_id 1, sample_first), (sample_id 2, sample_first),
     (sample_id 3, sample_published None 2)]"

lemma sample_target:
  "ref_state_target (sample_published None n) ''refs/heads/main'' = Some (sample_object n)"
proof -
  have "sorted_wrt (<) (map rt_name (rs_refs (sample_published None n)))"
    using ref_transition_verify_facts(4) [OF sample_published_ok(1) [OF disjI1 [OF refl]]]
    by (simp add: valid_refs_def)
  then have "binary_search_by (\<lambda>r. cmp (rt_name r) ''refs/heads/main'')
      (rs_refs (sample_published None n)) = Inr 0"
    by (subst binary_search_iff)
      (simp_all add: sample_published_ok(2) [OF disjI1 [OF refl]], simp_all add: sample_refs_def)
  then show ?thesis
    by (simp add: ref_state_target_def sample_published_ok(2) [OF disjI1 [OF refl]])
      (simp add: sample_refs_def)
qed

lemma sample_branch: "default_ref sample_document = ''refs/heads/main''"
  by (simp add: default_ref_def sample_document_def)

lemma sample_votes:
  "vote_of sample_states ''refs/heads/main'' (sample_id 1) = Some (sample_object 1)"
  "vote_of sample_states ''refs/heads/main'' (sample_id 2) = Some (sample_object 1)"
  "vote_of sample_states ''refs/heads/main'' (sample_id 3) = Some (sample_object 2)"
  by (simp_all add: vote_of_def sample_states_def btree_get_def sample_target)

lemma sample_voters: "voters sample_document sample_states (sample_object 1) = {sample_id 1, sample_id 2}"
  unfolding voters_def sample_branch by (auto simp: sample_document_def sample_votes)

lemma sample_agreed: "agreed sample_document sample_states = {sample_object 1}"
proof -
  have "voters sample_document sample_states c = {}" if "c \<noteq> sample_object 1" "c \<noteq> sample_object 2" for c
    using that unfolding voters_def sample_branch by (auto simp: sample_document_def sample_votes)
  moreover have "voters sample_document sample_states (sample_object 2) = {sample_id 3}"
    unfolding voters_def sample_branch by (auto simp: sample_document_def sample_votes)
  ultimately have "2 \<le> card (voters sample_document sample_states c) \<longleftrightarrow> c = sample_object 1" for c
    using sample_voters by (cases "c = sample_object 1"; cases "c = sample_object 2") auto
  then show ?thesis by (auto simp: agreed_def sample_document_def)
qed

lemma sample_delegates_few: "length (doc_delegates sample_document) < 2 ^ 16"
  by (simp add: sample_document_def)

lemma sample_advance:
  "derive_canonical_head sample_document sample_states (Some (sample_object 3)) (\<lambda>_ _. True) =
     Advance (sample_object 1)"
  by (simp add: derive_from_agreed [OF sample_document_valid sample_delegates_few] sample_agreed)

lemma canonical_head_safety_witness:
  "unat (doc_threshold sample_document) \<le> card (voters sample_document sample_states (sample_object 1))"
  using canonical_head_safety [OF sample_document_valid sample_advance] by simp

lemma canonical_head_agreement_witness:
  "derive_canonical_head sample_document sample_states (Some (sample_object 3)) (\<lambda>_ _. False) =
     Diverged (sample_object 1) \<and>
   derive_canonical_head sample_document [] None (\<lambda>_ _. True) = NoAgreement"
proof -
  have "voters sample_document [] c = {}" for c
    by (simp add: voters_def vote_of_def btree_get_def)
  then have "\<not> is_singleton (agreed sample_document [])"
    by (simp add: agreed_def sample_document_def is_singleton_def)
  then show ?thesis
    by (simp add: canonical_head_agreement [OF sample_document_valid sample_delegates_few] sample_agreed)
qed

lemma canonical_head_majority_witness:
  "derive_canonical_head sample_document sample_states None (\<lambda>_ _. False) = Advance (sample_object 1)"
proof -
  have "unat (doc_threshold sample_document) \<le> card (voters sample_document sample_states (sample_object 1))"
    by (simp add: sample_voters) (simp add: sample_document_def)
  from canonical_head_majority [OF sample_document_valid sample_delegates_few _ this]
  show ?thesis by (simp add: sample_document_def)
qed

text \<open>A stranger's state is not heard.\<close>

end
