(* ===== verification/Text.thy ===== *)
theory Text
  imports Prelude
begin

text \<open>
  The text functions of Rust's standard library that the store and the remote helper use on bytes
  and strings: UTF-8 validation and lossy conversion, \<open>str::trim\<close>, and decimal numbers.
\<close>

section \<open>UTF-8\<close>

definition in_range :: "u8 \<Rightarrow> u8 \<Rightarrow> u8 \<Rightarrow> bool" where
  "in_range lo hi b \<longleftrightarrow> lo \<le> b \<and> b \<le> hi"

definition nth_byte :: "bytes \<Rightarrow> nat \<Rightarrow> u8" where
  "nth_byte bs n = (if n < length bs then bs ! n else 0)"

definition continuation :: "bytes \<Rightarrow> nat \<Rightarrow> bool" where
  "continuation bs n \<longleftrightarrow> in_range 0x80 0xBF (nth_byte bs n)"

text \<open>
  One step of the standard decoder at the start of a nonempty input: whether a character starts
  there, and the length of that character or of the invalid sequence to skip.
\<close>

definition utf8_step :: "bytes \<Rightarrow> bool \<times> nat" where
  "utf8_step bs =
     (let a = nth_byte bs 0; b = nth_byte bs 1 in
      if a < 0x80 then (True, 1)
      else if in_range 0xC2 0xDF a then (if continuation bs 1 then (True, 2) else (False, 1))
      else if in_range 0xE0 0xEF a then
        (if (a = 0xE0 \<and> in_range 0xA0 0xBF b) \<or> (a = 0xED \<and> in_range 0x80 0x9F b) \<or>
            (a \<noteq> 0xE0 \<and> a \<noteq> 0xED \<and> continuation bs 1)
         then (if continuation bs 2 then (True, 3) else (False, 2))
         else (False, 1))
      else if in_range 0xF0 0xF4 a then
        (if (a = 0xF0 \<and> in_range 0x90 0xBF b) \<or> (a = 0xF4 \<and> in_range 0x80 0x8F b) \<or>
            (a \<noteq> 0xF0 \<and> a \<noteq> 0xF4 \<and> continuation bs 1)
         then (if continuation bs 2
               then (if continuation bs 3 then (True, 4) else (False, 3))
               else (False, 2))
         else (False, 1))
      else (False, 1))"

lemma utf8_step_pos: "0 < snd (utf8_step bs)"
  by (simp add: utf8_step_def Let_def)

function utf8_valid :: "bytes \<Rightarrow> bool" where
  "utf8_valid bs \<longleftrightarrow>
     (if bs = [] then True
      else if fst (utf8_step bs) then utf8_valid (drop (snd (utf8_step bs)) bs)
      else False)"
  by pat_completeness auto
termination
  by (relation "measure length") (simp_all add: diff_less utf8_step_pos)

declare utf8_valid.simps [simp del]

definition text_of :: "bytes \<Rightarrow> string" where
  "text_of bs = map (\<lambda>b. char_of (unat b)) bs"

definition from_utf8 :: "bytes \<Rightarrow> string option" where
  "from_utf8 bs = (if utf8_valid bs then Some (text_of bs) else None)"

definition replacement_character :: string where
  "replacement_character = [CHR 0xEF, CHR 0xBF, CHR 0xBD]"

function from_utf8_lossy :: "bytes \<Rightarrow> string" where
  "from_utf8_lossy bs =
     (if bs = [] then []
      else (if fst (utf8_step bs) then text_of (take (snd (utf8_step bs)) bs)
            else replacement_character)
           @ from_utf8_lossy (drop (snd (utf8_step bs)) bs))"
  by pat_completeness auto
termination
  by (relation "measure length") (simp_all add: diff_less utf8_step_pos)

declare from_utf8_lossy.simps [simp del]

lemma unat_of_char: "unat (of_char c :: u8) = of_char c"
proof -
  have "(of_char c :: u8) = of_nat (of_char c)" by (simp add: of_nat_of_char)
  moreover have "(of_char c :: nat) < 256" by (rule nat_of_char_less_256)
  ultimately show ?thesis by (simp add: unat_of_nat)
qed

lemma of_char_char_of_unat: "(of_char (char_of (unat b)) :: u8) = b"
proof -
  have lt: "unat b < 256" using unsigned_less [of b] by simp
  have "(of_char (char_of (unat b)) :: u8) = of_nat (of_char (char_of (unat b) :: char))"
    by (simp only: of_nat_of_char)
  also have "\<dots> = of_nat (unat b)"
    using lt by (simp add: of_char_of)
  finally show ?thesis by simp
qed

lemma text_of_str_bytes [simp]: "text_of (str_bytes s) = s"
  by (induction s) (auto simp: text_of_def str_bytes_def unat_of_char)

lemma str_bytes_text_of [simp]: "str_bytes (text_of bs) = bs"
  by (simp add: text_of_def str_bytes_def map_idI of_char_char_of_unat)

lemma from_utf8_Some_iff [results]: "from_utf8 bs = Some s \<longleftrightarrow> utf8_valid bs \<and> bs = str_bytes s"
  by (auto simp: from_utf8_def)

lemma utf8_step_ascii: "b < 0x80 \<Longrightarrow> utf8_step (b # bs) = (True, 1)"
  by (simp add: utf8_step_def nth_byte_def)

lemma utf8_valid_ascii: "(\<forall>b \<in> set bs. b < 0x80) \<Longrightarrow> utf8_valid bs"
proof (induction bs)
  case (Cons b bs)
  then have "utf8_step (b # bs) = (True, 1)" by (intro utf8_step_ascii) simp
  then show ?case using Cons by (simp add: utf8_valid.simps [of "b # bs"])
qed (simp add: utf8_valid.simps [of "[]"])

lemma from_utf8_lossy_ascii: "(\<forall>b \<in> set bs. b < 0x80) \<Longrightarrow> from_utf8_lossy bs = text_of bs"
proof (induction bs)
  case (Cons b bs)
  then have "utf8_step (b # bs) = (True, 1)" by (intro utf8_step_ascii) simp
  then show ?case using Cons by (simp add: from_utf8_lossy.simps [of "b # bs"] text_of_def)
qed (simp add: from_utf8_lossy.simps [of "[]"] text_of_def)

section \<open>Trimming\<close>

text \<open>The UTF-8 encodings of the characters with the property \<open>White_Space\<close>.\<close>

definition white_space :: "string list" where
  "white_space =
     map (\<lambda>c. [c]) [CHR 0x09, CHR 0x0A, CHR 0x0B, CHR 0x0C, CHR 0x0D, CHR 0x20] @
     map (\<lambda>c. [CHR 0xC2, c]) [CHR 0x85, CHR 0xA0] @
     [[CHR 0xE1, CHR 0x9A, CHR 0x80]] @
     map (\<lambda>c. [CHR 0xE2, CHR 0x80, c])
       [CHR 0x80, CHR 0x81, CHR 0x82, CHR 0x83, CHR 0x84, CHR 0x85, CHR 0x86, CHR 0x87, CHR 0x88,
        CHR 0x89, CHR 0x8A, CHR 0xA8, CHR 0xA9, CHR 0xAF] @
     [[CHR 0xE2, CHR 0x81, CHR 0x9F], [CHR 0xE3, CHR 0x80, CHR 0x80]]"

function trim_start_of :: "string list \<Rightarrow> string \<Rightarrow> string" where
  "trim_start_of ws s =
     (case find (\<lambda>w. w \<noteq> [] \<and> starts_with s w) ws of
        None \<Rightarrow> s
      | Some w \<Rightarrow> trim_start_of ws (drop (length w) s))"
  by pat_completeness auto
termination
proof (relation "measure (\<lambda>(ws, s). length s)")
  fix ws s w assume "find (\<lambda>w. w \<noteq> [] \<and> starts_with s w) ws = Some w"
  then have "w \<noteq> []" "starts_with s w" by (auto simp: find_Some_iff)
  then show "((ws, drop (length w) s), ws, s) \<in> measure (\<lambda>(ws, s). length s)"
    by (cases s) (auto simp: starts_with_def)
qed simp

declare trim_start_of.simps [simp del]

definition trim_end :: "string \<Rightarrow> string" where
  "trim_end s = rev (trim_start_of (map rev white_space) (rev s))"

definition trim :: "string \<Rightarrow> string" where
  "trim s = trim_end (trim_start_of white_space s)"

text \<open>The ASCII white space, and the only bytes that can start or end another one.\<close>

definition plain_char :: "char \<Rightarrow> bool" where
  "plain_char c \<longleftrightarrow> CHR 0x21 \<le> c \<and> c \<le> CHR 0x7E"

lemma white_space_ends: "w \<in> set white_space \<Longrightarrow> w \<noteq> [] \<and> \<not> plain_char (hd w) \<and> \<not> plain_char (last w)"
  by (auto simp: white_space_def plain_char_def less_eq_char_def upt_rec)

lemma trim_start_of_id:
  "(\<forall>w \<in> set ws. \<not> starts_with s w \<or> w = []) \<Longrightarrow> trim_start_of ws s = s"
  by (subst trim_start_of.simps) (auto split: option.splits simp: find_Some_iff)

lemma trim_start_plain: "s = [] \<or> plain_char (hd s) \<Longrightarrow> trim_start_of white_space s = s"
  by (rule trim_start_of_id) (auto simp: starts_with_iff dest: white_space_ends)

lemma trim_end_plain: "s = [] \<or> plain_char (last s) \<Longrightarrow> trim_end s = s"
proof -
  assume *: "s = [] \<or> plain_char (last s)"
  have "trim_start_of (map rev white_space) (rev s) = rev s"
  proof (rule trim_start_of_id, intro ballI)
    fix w assume "w \<in> set (map rev white_space)"
    then obtain v where v: "v \<in> set white_space" "w = rev v" by auto
    show "\<not> starts_with (rev s) w \<or> w = []"
    proof (cases "s = []")
      case False
      then have "hd (rev s) \<noteq> hd w" using * white_space_ends [OF v(1)] v(2) by (auto simp: hd_rev)
      then show ?thesis using white_space_ends [OF v(1)] v(2) by (auto simp: starts_with_iff)
    qed (use v in \<open>auto simp: starts_with_iff\<close>)
  qed
  then show ?thesis by (simp add: trim_end_def)
qed

lemma trim_end_newline: "s = [] \<or> plain_char (last s) \<Longrightarrow> trim_end (s @ [CHR 0x0A]) = s"
proof -
  assume *: "s = [] \<or> plain_char (last s)"
  have "find (\<lambda>w. w \<noteq> [] \<and> starts_with (CHR 0x0A # rev s) w) (map rev white_space) = Some [CHR 0x0A]"
    by (simp add: white_space_def starts_with_def)
  then have "trim_start_of (map rev white_space) (CHR 0x0A # rev s) =
      trim_start_of (map rev white_space) (rev s)"
    by (subst trim_start_of.simps) simp
  then have "trim_end (s @ [CHR 0x0A]) = trim_end s" by (simp add: trim_end_def)
  then show ?thesis using trim_end_plain [OF *] by simp
qed

lemma trim_plain: "(\<forall>c \<in> set s. plain_char c) \<Longrightarrow> trim s = s"
  using trim_start_plain [of s] trim_end_plain [of s] by (cases "s = []") (auto simp: trim_def)

lemma trim_line: "s \<noteq> [] \<Longrightarrow> (\<forall>c \<in> set s. plain_char c) \<Longrightarrow> trim (s @ [CHR 0x0A]) = s"
  using trim_start_plain [of "s @ [CHR 0x0A]"] trim_end_newline [of s] by (simp add: trim_def)

lemma ascii_char: "c \<le> CHR 0x7E \<Longrightarrow> (of_char c :: u8) < 0x80"
  by (simp add: word_less_nat_alt unat_of_char less_eq_char_def)

lemma from_utf8_ascii: "(\<forall>c \<in> set s. c \<le> CHR 0x7E) \<Longrightarrow> from_utf8 (str_bytes s) = Some s"
  by (auto simp: from_utf8_def str_bytes_def intro!: utf8_valid_ascii ascii_char)
    (simp flip: str_bytes_def)

section \<open>Decimal numbers\<close>

text \<open>\<open>Display\<close> of an unsigned integer.\<close>

definition digit_char :: "nat \<Rightarrow> char" where
  "digit_char d = char_of (48 + d)"

fun decimal :: "nat \<Rightarrow> string" where
  "decimal n = (if n < 10 then [digit_char n] else decimal (n div 10) @ [digit_char (n mod 10)])"

declare decimal.simps [simp del]

end
