(* ===== verification/Effects.thy ===== *)
theory Effects
  imports Prelude
begin

text \<open>
  Fallible code with effects: a function from the state to a result and the next state. The
  question mark operator is \<open>bindS\<close>, a \<open>match\<close> on a result is \<open>catchS\<close>, \<open>let _ =\<close> drops a result
  with \<open>ignoreS\<close>, and \<open>map_err\<close> is \<open>errS\<close>. Errors never undo the effects made before them.
\<close>

type_synonym ('s, 'e, 'a) io = "'s \<Rightarrow> ('e, 'a) result \<times> 's"

definition okS :: "'a \<Rightarrow> ('s, 'e, 'a) io" where
  "okS x s = (Inr x, s)"

definition failS :: "'e \<Rightarrow> ('s, 'e, 'a) io" where
  "failS e s = (Inl e, s)"

definition liftS :: "('e, 'a) result \<Rightarrow> ('s, 'e, 'a) io" where
  "liftS r s = (r, s)"

definition bindS :: "('s, 'e, 'a) io \<Rightarrow> ('a \<Rightarrow> ('s, 'e, 'b) io) \<Rightarrow> ('s, 'e, 'b) io" where
  "bindS m f s = (case m s of (Inl e, s') \<Rightarrow> (Inl e, s') | (Inr x, s') \<Rightarrow> f x s')"

definition catchS :: "('s, 'e, 'a) io \<Rightarrow> (('e, 'a) result \<Rightarrow> ('s, 'f, 'b) io) \<Rightarrow> ('s, 'f, 'b) io" where
  "catchS m f s = (case m s of (r, s') \<Rightarrow> f r s')"

definition ignoreS :: "('s, 'e, 'a) io \<Rightarrow> ('s, 'f, unit) io" where
  "ignoreS m s = (Inr (), snd (m s))"

definition errS :: "('e \<Rightarrow> 'f) \<Rightarrow> ('s, 'e, 'a) io \<Rightarrow> ('s, 'f, 'a) io" where
  "errS f m s = (case m s of (r, s') \<Rightarrow> (map_err f r, s'))"

definition getS :: "('s \<Rightarrow> 'a) \<Rightarrow> ('s, 'e, 'a) io" where
  "getS f s = (Inr (f s), s)"

fun forS :: "('a \<Rightarrow> ('s, 'e, unit) io) \<Rightarrow> 'a list \<Rightarrow> ('s, 'e, unit) io" where
  "forS f [] s = (Inr (), s)"
| "forS f (x # xs) s = (case f x s of (Inl e, s') \<Rightarrow> (Inl e, s') | (Inr _, s') \<Rightarrow> forS f xs s')"

named_theorems effects \<open>facts that invert a run of an effectful step\<close>

lemma okS_iff [effects]: "okS x s = (r, s') \<longleftrightarrow> r = Inr x \<and> s' = s"
  by (auto simp: okS_def)

lemma failS_iff [effects]: "failS e s = (r, s') \<longleftrightarrow> r = Inl e \<and> s' = s"
  by (auto simp: failS_def)

lemma liftS_iff [effects]: "liftS r s = (r', s') \<longleftrightarrow> r' = r \<and> s' = s"
  by (auto simp: liftS_def)

lemma getS_iff [effects]: "getS f s = (r, s') \<longleftrightarrow> r = Inr (f s) \<and> s' = s"
  by (auto simp: getS_def)

lemma bindS_Inr_iff [effects]:
  "bindS m f s = (Inr y, s') \<longleftrightarrow> (\<exists>x t. m s = (Inr x, t) \<and> f x t = (Inr y, s'))"
  by (auto simp: bindS_def split: prod.splits sum.splits)

lemma bindS_Inl_iff:
  "bindS m f s = (Inl e, s') \<longleftrightarrow>
     m s = (Inl e, s') \<or> (\<exists>x t. m s = (Inr x, t) \<and> f x t = (Inl e, s'))"
  by (auto simp: bindS_def split: prod.splits sum.splits)

lemma catchS_iff: "catchS m f s = (r, s') \<longleftrightarrow> (\<exists>q t. m s = (q, t) \<and> f q t = (r, s'))"
  by (auto simp: catchS_def split: prod.splits)

lemma errS_iff: "errS f m s = (r, s') \<longleftrightarrow> (\<exists>q. m s = (q, s') \<and> r = map_err f q)"
  by (auto simp: errS_def split: prod.splits)

lemma ignoreS_iff: "ignoreS m s = (r, s') \<longleftrightarrow> r = Inr () \<and> s' = snd (m s)"
  by (auto simp: ignoreS_def)

section \<open>Relations every run respects\<close>

text \<open>
  \<open>runs_in R m\<close>: every run of \<open>m\<close>, successful or not, takes a state to a related one. For a
  reflexive and transitive relation it is inherited by every composition of steps.
\<close>

definition runs_in :: "('s \<Rightarrow> 's \<Rightarrow> bool) \<Rightarrow> ('s, 'e, 'a) io \<Rightarrow> bool" where
  "runs_in R m \<longleftrightarrow> (\<forall>s. R s (snd (m s)))"

named_theorems runs \<open>compositions of steps that respect a relation\<close>

lemma runs_inI: "(\<And>s r s'. m s = (r, s') \<Longrightarrow> R s s') \<Longrightarrow> runs_in R m"
  by (metis prod.collapse runs_in_def)

lemma runs_inD: "runs_in R m \<Longrightarrow> m s = (r, s') \<Longrightarrow> R s s'"
  by (metis runs_in_def snd_conv)

lemma runs_inS: "runs_in R m \<Longrightarrow> R s (snd (m s))"
  by (simp add: runs_in_def)

lemma if_keeps [runs]:
  "(b \<Longrightarrow> runs_in R m) \<Longrightarrow> (\<not> b \<Longrightarrow> runs_in R m') \<Longrightarrow> runs_in R (if b then m else m')"
  by simp

lemma option_keeps [runs]:
  "(x = None \<Longrightarrow> runs_in R m) \<Longrightarrow> (\<And>y. x = Some y \<Longrightarrow> runs_in R (f y)) \<Longrightarrow>
     runs_in R (case x of None \<Rightarrow> m | Some y \<Rightarrow> f y)"
  by (cases x) simp_all

lemma result_keeps [runs]:
  "(\<And>e. r = Inl e \<Longrightarrow> runs_in R (g e)) \<Longrightarrow> (\<And>y. r = Inr y \<Longrightarrow> runs_in R (f y)) \<Longrightarrow>
     runs_in R (case r of Inl e \<Rightarrow> g e | Inr y \<Rightarrow> f y)"
  by (cases r) simp_all

lemma prod_keeps [runs]:
  "(\<And>a b. x = (a, b) \<Longrightarrow> runs_in R (f a b)) \<Longrightarrow> runs_in R (case x of (a, b) \<Rightarrow> f a b)"
  by (cases x) simp_all

locale run_relation =
  fixes R :: "'s \<Rightarrow> 's \<Rightarrow> bool"
  assumes refl: "R s s" and trans: "R s t \<Longrightarrow> R t u \<Longrightarrow> R s u"
begin

lemma pure [runs]: "runs_in R (okS x)" "runs_in R (failS e)" "runs_in R (liftS r)" "runs_in R (getS f)"
  by (simp_all add: runs_in_def okS_def failS_def liftS_def getS_def refl)

lemma bind [runs]:
  assumes "runs_in R m" and "\<And>x. runs_in R (f x)"
  shows "runs_in R (bindS m f)"
  unfolding runs_in_def
proof
  fix s
  have m: "R s (snd (m s))" using assms(1) by (simp add: runs_in_def)
  have "R t (snd (f x t))" for x t using assms(2) by (simp add: runs_in_def)
  then show "R s (snd (bindS m f s))"
    using m trans by (auto simp: bindS_def split: prod.splits sum.splits)
qed

lemma catch [runs]:
  assumes "runs_in R m" and "\<And>r. runs_in R (f r)"
  shows "runs_in R (catchS m f)"
  unfolding runs_in_def
proof
  fix s
  have m: "R s (snd (m s))" using assms(1) by (simp add: runs_in_def)
  have "R t (snd (f r t))" for r t using assms(2) by (simp add: runs_in_def)
  then show "R s (snd (catchS m f s))"
    using m trans by (auto simp: catchS_def split: prod.splits)
qed

lemma err [runs]: "runs_in R m \<Longrightarrow> runs_in R (errS g m)"
  by (auto simp: runs_in_def errS_def split: prod.splits) (metis snd_conv)

lemma ignore [runs]: "runs_in R m \<Longrightarrow> runs_in R (ignoreS m)"
  by (simp add: runs_in_def ignoreS_def)

lemma for_loop [runs]:
  assumes "\<And>x. runs_in R (f x)" shows "runs_in R (forS f xs)"
proof -
  have "R s (snd (forS f xs s))" for s
    using assms
  proof (induction f xs s rule: forS.induct)
    case (2 f x xs s)
    have step: "R s (snd (f x s))" using "2.prems" by (simp add: runs_in_def)
    then show ?case
      using 2 trans by (auto split: prod.splits sum.splits)
  qed (simp add: refl)
  then show ?thesis by (simp add: runs_in_def)
qed

end

section \<open>The errors a step can end with\<close>

definition errors_in :: "('e \<Rightarrow> bool) \<Rightarrow> ('s, 'e, 'a) io \<Rightarrow> bool" where
  "errors_in Q m \<longleftrightarrow> (\<forall>s e s'. m s = (Inl e, s') \<longrightarrow> Q e)"

named_theorems errors \<open>compositions of steps whose errors satisfy a predicate\<close>

lemma errors_inD: "errors_in Q m \<Longrightarrow> m s = (Inl e, s') \<Longrightarrow> Q e"
  by (auto simp: errors_in_def)

lemma errors_in_pure [errors]:
  "errors_in Q (okS x)" "errors_in Q (getS f)" "Q e \<Longrightarrow> errors_in Q (failS e)"
  "(\<And>e. r = Inl e \<Longrightarrow> Q e) \<Longrightarrow> errors_in Q (liftS r)"
  by (auto simp: errors_in_def okS_def getS_def failS_def liftS_def)

lemma errors_in_bind [errors]:
  assumes "errors_in Q m" and "\<And>x s s'. m s = (Inr x, s') \<Longrightarrow> errors_in Q (f x)"
  shows "errors_in Q (bindS m f)"
  using assms unfolding errors_in_def bindS_Inl_iff by blast

lemma errors_in_catch [errors]:
  assumes "\<And>r s s'. m s = (r, s') \<Longrightarrow> errors_in Q (f r)"
  shows "errors_in Q (catchS m f)"
  using assms unfolding errors_in_def catchS_iff by blast

lemma errors_in_if [errors]:
  "(b \<Longrightarrow> errors_in Q m) \<Longrightarrow> (\<not> b \<Longrightarrow> errors_in Q m') \<Longrightarrow> errors_in Q (if b then m else m')"
  by simp

lemma errors_in_option [errors]:
  "(x = None \<Longrightarrow> errors_in Q m) \<Longrightarrow> (\<And>y. x = Some y \<Longrightarrow> errors_in Q (f y)) \<Longrightarrow>
     errors_in Q (case x of None \<Rightarrow> m | Some y \<Rightarrow> f y)"
  by (cases x) simp_all

lemma errors_in_prod [errors]:
  "(\<And>a b. x = (a, b) \<Longrightarrow> errors_in Q (f a b)) \<Longrightarrow> errors_in Q (case x of (a, b) \<Rightarrow> f a b)"
  by (cases x) simp_all

end
