(* ===== verification/Store.thy ===== *)
theory Store
  imports Refs Text Effects
begin

text \<open>
  \<open>crates/styrene-git-store/src/{lib,git,error}.rs\<close>: bare Git repositories with one namespace of
  references per publisher, object quarantine, and the commit of a verified transition.

  The operating system, its file system and the \<open>git\<close> executable are the argument \<open>host\<close>: how one
  process run or one file system call changes the host's state and what it answers. A path is the
  list of its components. The program's own state is the counter \<open>QUARANTINE_SEQUENCE\<close>.
\<close>

section \<open>The host\<close>

type_synonym path = "string list"

datatype io_kind = Already_Exists | Other_Kind
datatype io_error = Io_Error (error_kind: io_kind) (error_text: string)

record git_call =
  gc_git_dir :: "path option"
  gc_object_directory :: "path option"
  gc_alternates :: "path option"
  gc_args :: "string list"
  gc_input :: "bytes option"

text \<open>
  A process could not be started, written to or waited for (with the place the source names), or
  it exited with its success flag, standard output and standard error.
\<close>

datatype git_answer = Git_Io path io_error | Git_Exit bool bytes bytes

text \<open>An entry of a directory: its name, and whether it is a directory.\<close>

type_synonym dir_entry = "(io_error, string \<times> (io_error, bool) result) result"

record 's host =
  h_pid :: u32
  h_path_limit :: nat
  h_git :: "git_call \<Rightarrow> 's \<Rightarrow> git_answer \<times> 's"
  h_exists :: "path \<Rightarrow> 's \<Rightarrow> bool"
  h_is_dir :: "path \<Rightarrow> 's \<Rightarrow> bool"
  h_create_dir_all :: "path \<Rightarrow> 's \<Rightarrow> (io_error, unit) result \<times> 's"
  h_create_dir :: "path \<Rightarrow> 's \<Rightarrow> (io_error, unit) result \<times> 's"
  h_write :: "path \<Rightarrow> string \<Rightarrow> 's \<Rightarrow> (io_error, unit) result \<times> 's"
  h_read_to_string :: "path \<Rightarrow> 's \<Rightarrow> (io_error, string) result \<times> 's"
  h_rename :: "path \<Rightarrow> path \<Rightarrow> 's \<Rightarrow> (io_error, unit) result \<times> 's"
  h_remove_dir_all :: "path \<Rightarrow> 's \<Rightarrow> (io_error, unit) result \<times> 's"
  h_read_dir :: "path \<Rightarrow> 's \<Rightarrow> (io_error, dir_entry list) result \<times> 's"
  h_hard_link :: "path \<Rightarrow> path \<Rightarrow> 's \<Rightarrow> (io_error, unit) result \<times> 's"

record 's world =
  os :: 's
  quarantine_sequence :: u64

datatype store_error =
    RepositoryNotFound repository_id
  | RepositoryMismatch repository_id
  | UnsupportedObjectFormat string
  | InvalidObjectKind string
  | ObjectIdMismatch
  | PackTooLarge u64
  | InvalidPublisherState
  | Git string string
  | InvalidGitOutput string
  | InvalidObjectId string
  | Io path io_error
  | Core core_error

type_synonym ('s, 'a) store_io = "('s world, store_error, 'a) io"

text \<open>A call of the host, and one whose I/O error is reported at a path (\<open>io_error\<close>).\<close>

definition on_os :: "('s \<Rightarrow> ('e, 'a) result \<times> 's) \<Rightarrow> ('s world, 'e, 'a) io" where
  "on_os f w = (case f (os w) of (r, s) \<Rightarrow> (r, w\<lparr>os := s\<rparr>))"

definition at_path :: "path \<Rightarrow> ('s world, io_error, 'a) io \<Rightarrow> ('s, 'a) store_io" where
  "at_path p m = errS (Io p) m"

definition core_step :: "(core_error, 'a) result \<Rightarrow> ('s, 'a) store_io" where
  "core_step r = liftS (map_err Core r)"

definition next_sequence :: "('s, u64) store_io" where
  "next_sequence w = (Inr (quarantine_sequence w), w\<lparr>quarantine_sequence := quarantine_sequence w + 1\<rparr>)"

section \<open>Running Git\<close>

definition git_config_args :: "string list" where
  "git_config_args = [''-c'', ''core.longpaths=true'', ''-c'', ''core.fsync=loose-object'']"

definition execute_git :: "'s host \<Rightarrow> git_call \<Rightarrow> string \<Rightarrow> ('s, bytes) store_io" where
  "execute_git host call operation w =
     (case h_git host call (os w) of (run, s) \<Rightarrow>
        ((case run of
            Git_Io p e \<Rightarrow> Inl (Io p e)
          | Git_Exit success out err \<Rightarrow>
              if success then Inr out else Inl (Git operation (trim (from_utf8_lossy err)))),
         w\<lparr>os := s\<rparr>))"

definition git_run_call :: "path \<Rightarrow> string list \<Rightarrow> bytes option \<Rightarrow> path option \<Rightarrow> git_call" where
  "git_run_call git_dir args input object_directory =
     \<lparr>gc_git_dir = Some git_dir, gc_object_directory = object_directory,
      gc_alternates = map_option (\<lambda>_. git_dir @ [''objects'']) object_directory,
      gc_args = git_config_args @ args, gc_input = input\<rparr>"

definition git_run ::
  "'s host \<Rightarrow> path \<Rightarrow> string list \<Rightarrow> bytes option \<Rightarrow> path option \<Rightarrow> ('s, bytes) store_io" where
  "git_run host git_dir args input object_directory =
     execute_git host (git_run_call git_dir args input object_directory) (join CHR '' '' args)"

definition git_run_with_path ::
  "'s host \<Rightarrow> string list \<Rightarrow> path \<Rightarrow> string \<Rightarrow> ('s, bytes) store_io" where
  "git_run_with_path host args p operation =
     execute_git host
       \<lparr>gc_git_dir = None, gc_object_directory = None, gc_alternates = None,
        gc_args = git_config_args @ args @ [join CHR ''/'' p], gc_input = None\<rparr> operation"

text \<open>
  \<open>run_bounded\<close> reads at most \<open>max_output + 1\<close> bytes (saturating) and kills the process when it
  produced more than allowed; a process that produced less is judged by its exit status.
\<close>

definition saturating_add_one :: "u64 \<Rightarrow> nat" where
  "saturating_add_one n = (if n = - 1 then unat n else unat n + 1)"

definition git_run_bounded ::
  "'s host \<Rightarrow> path \<Rightarrow> string list \<Rightarrow> bytes \<Rightarrow> u64 \<Rightarrow> ('s, bytes) store_io" where
  "git_run_bounded host git_dir args input max_output w =
     (case h_git host (git_run_call git_dir args (Some input) None) (os w) of (run, s) \<Rightarrow>
        ((case run of
            Git_Io p e \<Rightarrow> Inl (Io p e)
          | Git_Exit success out err \<Rightarrow>
              let output = take (saturating_add_one max_output) out in
              if unat max_output < length output then Inl (PackTooLarge max_output)
              else if success then Inr output
              else Inl (Git (join CHR '' '' args) (trim (from_utf8_lossy err)))),
         w\<lparr>os := s\<rparr>))"

section \<open>Names and parsing\<close>

datatype object_format = LegacySha1 | Sha256

definition format_name :: "object_format \<Rightarrow> string" where
  "format_name f = (case f of LegacySha1 \<Rightarrow> ''sha1'' | Sha256 \<Rightarrow> ''sha256'')"

definition zero_id :: "object_format \<Rightarrow> string" where
  "zero_id f = (case f of LegacySha1 \<Rightarrow> replicate 40 CHR ''0'' | Sha256 \<Rightarrow> replicate 64 CHR ''0'')"

definition validate_object_kind :: "string \<Rightarrow> (store_error, unit) result" where
  "validate_object_kind kind =
     ensure (kind \<in> set [''blob'', ''tree'', ''commit'', ''tag'']) (InvalidObjectKind kind)"

definition parse_utf8 :: "bytes \<Rightarrow> string \<Rightarrow> (store_error, string) result" where
  "parse_utf8 bs operation = ok_or (InvalidGitOutput operation) (from_utf8 bs)"

definition parse_object_id ::
  "('z) env_scheme \<Rightarrow> object_format \<Rightarrow> bytes \<Rightarrow> (store_error, git_object_id) result" where
  "parse_object_id E f output =
     bindE (map_ok trim (parse_utf8 output ''object ID'')) (\<lambda>text.
     bindE (ok_or (InvalidObjectId text) (hex_decode E text)) (\<lambda>bs.
     case f of
       LegacySha1 \<Rightarrow> map_ok object_sha1 (ok_or (InvalidObjectId text) (try_fixed bs))
     | Sha256 \<Rightarrow> map_ok object_sha256 (ok_or (InvalidObjectId text) (try_fixed bs))))"

definition object_id_hex :: "('z) env_scheme \<Rightarrow> git_object_id \<Rightarrow> string" where
  "object_id_hex E object = hex_encode E (object_bytes object)"

definition namespace_ref :: "('z) env_scheme \<Rightarrow> styrene_identity \<Rightarrow> string \<Rightarrow> string" where
  "namespace_ref E publisher reference =
     ''refs/namespaces/'' @ identity_hex E publisher @ ''/'' @ reference"

definition state_ref :: "('z) env_scheme \<Rightarrow> styrene_identity \<Rightarrow> string" where
  "state_ref E publisher = ''refs/styrene/publishers/'' @ identity_hex E publisher @ ''/state''"

definition transition_ref :: "('z) env_scheme \<Rightarrow> styrene_identity \<Rightarrow> ref_state \<Rightarrow> string" where
  "transition_ref E publisher state =
     ''refs/styrene/publishers/'' @ identity_hex E publisher @ ''/transitions/''
       @ digest_base32 E (rs_transition state)"

section \<open>The repository store\<close>

text \<open>\<open>Path::with_extension\<close> replaces what follows the last dot of the file name.\<close>

definition rsplit_once :: "char \<Rightarrow> string \<Rightarrow> (string \<times> string) option" where
  "rsplit_once d s = map_option (\<lambda>(b, a). (rev a, rev b)) (split_once d (rev s))"

definition with_extension :: "path \<Rightarrow> string \<Rightarrow> path" where
  "with_extension p extension =
     (let name = last p;
          stem = (case rsplit_once CHR ''.'' name of
                    Some (before, _) \<Rightarrow> if before = [] then name else before
                  | None \<Rightarrow> name)
      in butlast p @ [stem @ ''.'' @ extension])"

record repository_store =
  store_root :: path

record repository =
  repo_id :: repository_id
  repo_path :: path
  repo_format :: object_format

definition store_new :: "'s host \<Rightarrow> path \<Rightarrow> ('s, repository_store) store_io" where
  "store_new host root =
     bindS (at_path root (on_os (h_create_dir_all host (root @ [''repositories''])))) (\<lambda>_.
     okS \<lparr>store_root = root\<rparr>)"

definition repository_path :: "('z) env_scheme \<Rightarrow> repository_store \<Rightarrow> repository_id \<Rightarrow> path" where
  "repository_path E st r =
     store_root st @ [''repositories'', digest_base32 E (repository_digest r) @ ''.git'']"

definition store_open ::
  "('z) env_scheme \<Rightarrow> 's host \<Rightarrow> repository_store \<Rightarrow> repository_id \<Rightarrow> ('s, repository) store_io" where
  "store_open E host st r =
     (let p = repository_path E st r; metadata_path = p @ [''styrene'', ''repository-id''] in
      bindS (getS (\<lambda>w. h_is_dir host p (os w))) (\<lambda>is_dir.
      if \<not> is_dir then failS (RepositoryNotFound r)
      else bindS (at_path metadata_path (on_os (h_read_to_string host metadata_path))) (\<lambda>metadata.
      if metadata \<noteq> repository_to_string E r then failS (RepositoryMismatch r)
      else bindS (git_run host p [''rev-parse'', ''--show-object-format''] None None) (\<lambda>output.
      bindS (liftS (map_ok trim (parse_utf8 output ''rev-parse --show-object-format''))) (\<lambda>object_format.
      if object_format = ''sha1''
      then okS \<lparr>repo_id = r, repo_path = p, repo_format = LegacySha1\<rparr>
      else if object_format = ''sha256''
      then okS \<lparr>repo_id = r, repo_path = p, repo_format = Sha256\<rparr>
      else failS (UnsupportedObjectFormat object_format))))))"

definition discard :: "'s host \<Rightarrow> path \<Rightarrow> ('s world, 'e, unit) io" where
  "discard host p = ignoreS (on_os (h_remove_dir_all host p))"

text \<open>The cleanup of \<open>create\<close>: on failure the temporary directory is removed and the error returned.\<close>

definition or_discard :: "'s host \<Rightarrow> path \<Rightarrow> ('s, 'a) store_io \<Rightarrow> ('s, 'a) store_io" where
  "or_discard host p m =
     catchS m (\<lambda>r. case r of Inr x \<Rightarrow> okS x | Inl e \<Rightarrow> bindS (discard host p) (\<lambda>_. failS e))"

definition store_create ::
  "('z) env_scheme \<Rightarrow> 's host \<Rightarrow> repository_store \<Rightarrow> repository_id \<Rightarrow> object_format
     \<Rightarrow> ('s, repository) store_io" where
  "store_create E host st r f =
     (let p = repository_path E st r in
      bindS (getS (\<lambda>w. h_exists host p (os w))) (\<lambda>exists.
      if exists then store_open E host st r
      else bindS next_sequence (\<lambda>n.
      let temporary = with_extension p (''git.creating-'' @ decimal (unat (h_pid host)) @ ''-'' @ decimal (unat n));
          metadata = temporary @ [''styrene'']; metadata_path = metadata @ [''repository-id''] in
      bindS (or_discard host temporary
        (git_run_with_path host [''init'', ''--bare'', ''--object-format='' @ format_name f]
           temporary ''init --bare'')) (\<lambda>_.
      bindS (or_discard host temporary
        (at_path metadata (on_os (h_create_dir_all host metadata)))) (\<lambda>_.
      bindS (or_discard host temporary
        (at_path metadata_path (on_os (h_write host metadata_path (repository_to_string E r))))) (\<lambda>_.
      bindS (catchS (on_os (h_rename host temporary p)) (\<lambda>renamed.
        case renamed of
          Inr _ \<Rightarrow> okS ()
        | Inl source \<Rightarrow>
            bindS (discard host temporary) (\<lambda>_.
            bindS (getS (\<lambda>w. h_exists host p (os w))) (\<lambda>exists.
            if \<not> exists then failS (Io p source) else okS ())))) (\<lambda>_.
      store_open E host st r)))))))"

section \<open>Quarantine\<close>

record quarantine =
  q_repository :: repository
  q_path :: path
  q_objects :: path

text \<open>The loop over fresh names, at most \<open>attempts\<close> times.\<close>

fun allocate_quarantine ::
  "'s host \<Rightarrow> repository \<Rightarrow> path \<Rightarrow> nat \<Rightarrow> ('s, quarantine) store_io" where
  "allocate_quarantine host repo root 0 =
     failS (Io root (Io_Error Already_Exists ''could not allocate a unique quarantine''))"
| "allocate_quarantine host repo root (Suc attempts) =
     bindS next_sequence (\<lambda>n.
     let p = root @ [decimal (unat (h_pid host)) @ ''-'' @ decimal (unat n)] in
     catchS (on_os (h_create_dir host p)) (\<lambda>created.
     case created of
       Inr _ \<Rightarrow>
         bindS (at_path (p @ [''objects'']) (on_os (h_create_dir host (p @ [''objects''])))) (\<lambda>_.
         okS \<lparr>q_repository = repo, q_path = p, q_objects = p @ [''objects'']\<rparr>)
     | Inl e \<Rightarrow>
         if error_kind e = Already_Exists then allocate_quarantine host repo root attempts
         else failS (Io p e)))"

definition begin_quarantine :: "'s host \<Rightarrow> repository \<Rightarrow> ('s, quarantine) store_io" where
  "begin_quarantine host repo =
     (let root = repo_path repo @ [''q''] in
      bindS (at_path root (on_os (h_create_dir_all host root))) (\<lambda>_.
      allocate_quarantine host repo root 100))"

definition drop_quarantine :: "'s host \<Rightarrow> quarantine \<Rightarrow> ('s world, 'e, unit) io" where
  "drop_quarantine host q = discard host (q_path q)"

definition import_pack :: "'s host \<Rightarrow> quarantine \<Rightarrow> bytes \<Rightarrow> u64 \<Rightarrow> ('s, unit) store_io" where
  "import_pack host q pack max_bytes =
     (if unat max_bytes < length pack then failS (PackTooLarge max_bytes)
      else bindS (git_run host (repo_path (q_repository q)) [''index-pack'', ''--stdin'', ''--fix-thin'']
             (Some pack) (Some (q_objects q))) (\<lambda>_. okS ()))"

definition write_verified_object ::
  "('z) env_scheme \<Rightarrow> 's host \<Rightarrow> quarantine \<Rightarrow> string \<Rightarrow> bytes \<Rightarrow> git_object_id \<Rightarrow> ('s, unit) store_io" where
  "write_verified_object E host q kind bs expected =
     bindS (liftS (validate_object_kind kind)) (\<lambda>_.
     bindS (core_step (object_validate expected)) (\<lambda>_.
     if algorithm expected \<noteq> format_name (repo_format (q_repository q)) then failS ObjectIdMismatch
     else bindS (git_run host (repo_path (q_repository q))
            [''hash-object'', ''-w'', ''--stdin'', ''-t'', kind] (Some bs) (Some (q_objects q))) (\<lambda>output.
     bindS (liftS (parse_object_id E (repo_format (q_repository q)) output)) (\<lambda>object.
     if object \<noteq> expected then failS ObjectIdMismatch else okS ()))))"

text \<open>\<open>roots\<close> accumulates one line per target while each target is looked up.\<close>

fun verify_each_target ::
  "('z) env_scheme \<Rightarrow> 's host \<Rightarrow> quarantine \<Rightarrow> string \<Rightarrow> git_object_id list \<Rightarrow> ('s, string) store_io" where
  "verify_each_target E host q roots [] = okS roots"
| "verify_each_target E host q roots (target # targets) =
     bindS (core_step (object_validate target)) (\<lambda>_.
     if algorithm target \<noteq> format_name (repo_format (q_repository q)) then failS ObjectIdMismatch
     else bindS (git_run host (repo_path (q_repository q))
            [''cat-file'', ''-e'', object_id_hex E target @ ''^{object}''] None (Some (q_objects q))) (\<lambda>_.
     verify_each_target E host q (roots @ object_id_hex E target @ [CHR 0x0A]) targets))"

definition verify_targets ::
  "('z) env_scheme \<Rightarrow> 's host \<Rightarrow> quarantine \<Rightarrow> git_object_id list \<Rightarrow> ('s, unit) store_io" where
  "verify_targets E host q targets =
     (let repo = repo_path (q_repository q) in
      bindS (verify_each_target E host q [] targets) (\<lambda>roots.
      bindS (git_run host repo [''rev-list'', ''--objects'', ''--stdin'', ''--missing=error'']
               (Some (str_bytes roots)) (Some (q_objects q))) (\<lambda>_.
      bindS (git_run host repo [''fsck'', ''--strict'', ''--connectivity-only'', ''--no-dangling'']
               None (Some (q_objects q))) (\<lambda>_.
      okS ()))))"

text \<open>
  \<open>promote_objects\<close> descends into real directories only. The file system refuses paths of more
  than \<open>h_path_limit\<close> components, which ends the descent.
\<close>

function promote_objects :: "'s host \<Rightarrow> path \<Rightarrow> path \<Rightarrow> ('s, unit) store_io"
  and promote_entries :: "'s host \<Rightarrow> path \<Rightarrow> path \<Rightarrow> dir_entry list \<Rightarrow> ('s, unit) store_io" where
  "promote_objects host source destination w =
     (if h_path_limit host < length source
      then (Inl (Io source (Io_Error Other_Kind ''File name too long'')), w)
      else case at_path source (on_os (h_read_dir host source)) w of
             (Inl e, w') \<Rightarrow> (Inl e, w')
           | (Inr entries, w') \<Rightarrow> promote_entries host source destination entries w')"
| "promote_entries host source destination [] w = (Inr (), w)"
| "promote_entries host source destination (entry # entries) w =
     (if h_path_limit host < length source
      then (Inl (Io source (Io_Error Other_Kind ''File name too long'')), w)
      else case entry of
        Inl e \<Rightarrow> (Inl (Io source e), w)
      | Inr (name, file_type) \<Rightarrow>
          (let source_path = source @ [name]; destination_path = destination @ [name] in
           case file_type of
             Inl e \<Rightarrow> (Inl (Io source_path e), w)
           | Inr is_dir \<Rightarrow>
               if is_dir
               then case at_path destination_path (on_os (h_create_dir_all host destination_path)) w of
                      (Inl e, w') \<Rightarrow> (Inl e, w')
                    | (Inr _, w') \<Rightarrow>
                        (case promote_objects host source_path destination_path w' of
                           (Inl e, w'') \<Rightarrow> (Inl e, w'')
                         | (Inr _, w'') \<Rightarrow> promote_entries host source destination entries w'')
               else if \<not> h_exists host destination_path (os w)
               then case on_os (h_hard_link host source_path destination_path) w of
                      (Inr _, w') \<Rightarrow> promote_entries host source destination entries w'
                    | (Inl e, w') \<Rightarrow>
                        if error_kind e = Already_Exists
                        then promote_entries host source destination entries w'
                        else (Inl (Io destination_path e), w')
               else promote_entries host source destination entries w))"
  by pat_completeness auto
termination
  by (relation "measures
      [\<lambda>x. case x of Inl (host, source, _) \<Rightarrow> 2 * (h_path_limit host + 1 - length source) + 1
                  | Inr (host, source, _) \<Rightarrow> 2 * (h_path_limit host + 1 - length source),
       \<lambda>x. case x of Inl _ \<Rightarrow> 0 | Inr (_, _, _, entries, _) \<Rightarrow> length entries]") auto

declare promote_objects.simps [simp del] promote_entries.simps [simp del]

section \<open>Repositories\<close>

definition require_object_format :: "repository \<Rightarrow> git_object_id \<Rightarrow> (store_error, unit) result" where
  "require_object_format repo object =
     bindE (map_err Core (object_validate object)) (\<lambda>_.
     ensure (algorithm object = format_name (repo_format repo)) ObjectIdMismatch)"

definition object_id ::
  "('z) env_scheme \<Rightarrow> 's host \<Rightarrow> repository \<Rightarrow> string \<Rightarrow> bytes \<Rightarrow> ('s, git_object_id) store_io" where
  "object_id E host repo kind bs =
     bindS (liftS (validate_object_kind kind)) (\<lambda>_.
     bindS (git_run host (repo_path repo) [''hash-object'', ''--stdin'', ''-t'', kind] (Some bs) None) (\<lambda>output.
     liftS (parse_object_id E (repo_format repo) output)))"

text \<open>The lines \<open>export_pack\<close> feeds to Git, each object checked before its line is added.\<close>

fun revision_lines ::
  "('z) env_scheme \<Rightarrow> repository \<Rightarrow> string \<Rightarrow> git_object_id list \<Rightarrow> (store_error, string) result" where
  "revision_lines E repo mark [] = Inr []"
| "revision_lines E repo mark (object # objects) =
     bindE (require_object_format repo object) (\<lambda>_.
     bindE (revision_lines E repo mark objects) (\<lambda>rest.
     Inr (mark @ object_id_hex E object @ [CHR 0x0A] @ rest)))"

definition export_pack ::
  "('z) env_scheme \<Rightarrow> 's host \<Rightarrow> repository \<Rightarrow> git_object_id list \<Rightarrow> git_object_id list \<Rightarrow> u64
     \<Rightarrow> ('s, bytes) store_io" where
  "export_pack E host repo wants prerequisites max_bytes =
     bindS (liftS (revision_lines E repo [] wants)) (\<lambda>wanted.
     bindS (liftS (revision_lines E repo ''^'' prerequisites)) (\<lambda>excluded.
     git_run_bounded host (repo_path repo) [''pack-objects'', ''--stdout'', ''--revs'']
       (str_bytes (wanted @ excluded)) max_bytes))"

text \<open>A run whose Git failure is an answer: \<open>None\<close> when Git exits unsuccessfully.\<close>

definition unless_git_fails :: "('s, 'a) store_io \<Rightarrow> ('s, 'a option) store_io" where
  "unless_git_fails m =
     catchS m (\<lambda>r. case r of
       Inr x \<Rightarrow> okS (Some x)
     | Inl e \<Rightarrow> (case e of Git _ _ \<Rightarrow> okS None | _ \<Rightarrow> failS e))"

definition resolve_ref :: "'s host \<Rightarrow> repository \<Rightarrow> string \<Rightarrow> ('s, string option) store_io" where
  "resolve_ref host repo reference =
     bindS (unless_git_fails
       (git_run host (repo_path repo) [''show-ref'', ''--verify'', ''--hash'', reference] None None)) (\<lambda>output.
     case output of
       None \<Rightarrow> okS None
     | Some bs \<Rightarrow> liftS (map_ok (\<lambda>text. Some (trim text)) (parse_utf8 bs ''show-ref'')))"

definition publisher_state_with_object ::
  "('z) refs_env_scheme \<Rightarrow> 's host \<Rightarrow> repository \<Rightarrow> styrene_identity
     \<Rightarrow> ('s, (string \<times> ref_state) option) store_io" where
  "publisher_state_with_object E host repo publisher =
     bindS (resolve_ref host repo (state_ref E publisher)) (\<lambda>resolved.
     case resolved of
       None \<Rightarrow> okS None
     | Some object \<Rightarrow>
         bindS (git_run host (repo_path repo) [''cat-file'', ''blob'', object] None None) (\<lambda>bs.
         bindS (core_step (from_canonical_bytes (ref_state_codec E) bs)) (\<lambda>state.
         if rs_repository state \<noteq> repo_id repo \<or> rs_publisher state \<noteq> publisher
         then failS InvalidPublisherState
         else okS (Some (object, state)))))"

definition publisher_state ::
  "('z) refs_env_scheme \<Rightarrow> 's host \<Rightarrow> repository \<Rightarrow> styrene_identity \<Rightarrow> ('s, ref_state option) store_io" where
  "publisher_state E host repo publisher =
     bindS (publisher_state_with_object E host repo publisher) (\<lambda>s. okS (map_option snd s))"

definition publisher_refs ::
  "('z) refs_env_scheme \<Rightarrow> 's host \<Rightarrow> repository \<Rightarrow> styrene_identity \<Rightarrow> ('s, ref_target list) store_io" where
  "publisher_refs E host repo publisher =
     bindS (publisher_state E host repo publisher) (\<lambda>s.
     okS (case s of None \<Rightarrow> [] | Some state \<Rightarrow> rs_refs state))"

definition publisher_ref_target ::
  "('z) env_scheme \<Rightarrow> 's host \<Rightarrow> repository \<Rightarrow> styrene_identity \<Rightarrow> string
     \<Rightarrow> ('s, git_object_id option) store_io" where
  "publisher_ref_target E host repo publisher reference =
     (if \<not> starts_with reference ''refs/'' then failS InvalidPublisherState
      else bindS (resolve_ref host repo (namespace_ref E publisher reference)) (\<lambda>resolved.
      case resolved of
        None \<Rightarrow> okS None
      | Some object \<Rightarrow>
          liftS (map_ok Some (parse_object_id E (repo_format repo) (str_bytes object)))))"

definition has_object ::
  "('z) env_scheme \<Rightarrow> 's host \<Rightarrow> repository \<Rightarrow> git_object_id \<Rightarrow> ('s, bool) store_io" where
  "has_object E host repo object =
     bindS (liftS (require_object_format repo object)) (\<lambda>_.
     bindS (unless_git_fails
       (git_run host (repo_path repo) [''cat-file'', ''-e'', object_id_hex E object @ ''^{object}''] None None)) (\<lambda>found.
     okS (found \<noteq> None)))"

definition is_ancestor ::
  "('z) env_scheme \<Rightarrow> 's host \<Rightarrow> repository \<Rightarrow> git_object_id \<Rightarrow> git_object_id \<Rightarrow> ('s, bool) store_io" where
  "is_ancestor E host repo ancestor descendant =
     bindS (liftS (require_object_format repo ancestor)) (\<lambda>_.
     bindS (liftS (require_object_format repo descendant)) (\<lambda>_.
     bindS (unless_git_fails
       (git_run host (repo_path repo)
          [''merge-base'', ''--is-ancestor'', object_id_hex E ancestor, object_id_hex E descendant] None None)) (\<lambda>found.
     okS (found \<noteq> None))))"

definition store_fsck :: "'s host \<Rightarrow> repository \<Rightarrow> ('s, unit) store_io" where
  "store_fsck host repo =
     bindS (git_run host (repo_path repo) [''fsck'', ''--strict''] None None) (\<lambda>_. okS ())"

definition write_blob :: "'s host \<Rightarrow> repository \<Rightarrow> bytes \<Rightarrow> ('s, string) store_io" where
  "write_blob host repo bs =
     bindS (git_run host (repo_path repo) [''hash-object'', ''-w'', ''--stdin'', ''-t'', ''blob''] (Some bs) None) (\<lambda>output.
     liftS (map_ok trim (parse_utf8 output ''hash-object'')))"

section \<open>Commit\<close>

definition refs_map :: "ref_target list \<Rightarrow> (string, git_object_id) btree_map" where
  "refs_map refs = btree_of_list (map (\<lambda>r. (rt_name r, rt_target r)) refs)"

text \<open>The input of \<open>git update-ref --stdin\<close>, built by the two loops and the closing lines.\<close>

definition delete_lines ::
  "('z) env_scheme \<Rightarrow> styrene_identity \<Rightarrow> (string, git_object_id) btree_map
     \<Rightarrow> (string, git_object_id) btree_map \<Rightarrow> string" where
  "delete_lines E publisher old_refs new_refs =
     concat (map (\<lambda>(name, old_target).
       if btree_get new_refs name = None
       then ''delete '' @ namespace_ref E publisher name @ '' '' @ object_id_hex E old_target @ [CHR 0x0A]
       else []) old_refs)"

definition update_lines ::
  "('z) env_scheme \<Rightarrow> object_format \<Rightarrow> styrene_identity \<Rightarrow> (string, git_object_id) btree_map
     \<Rightarrow> (string, git_object_id) btree_map \<Rightarrow> string" where
  "update_lines E f publisher old_refs new_refs =
     concat (map (\<lambda>(name, target).
       let old = (case btree_get old_refs name of None \<Rightarrow> zero_id f | Some o' \<Rightarrow> object_id_hex E o')
       in ''update '' @ namespace_ref E publisher name @ '' '' @ object_id_hex E target @ '' '' @ old
            @ [CHR 0x0A]) new_refs)"

definition update_transaction ::
  "('z) env_scheme \<Rightarrow> object_format \<Rightarrow> styrene_identity \<Rightarrow> (string \<times> ref_state) option \<Rightarrow> ref_state
     \<Rightarrow> string \<Rightarrow> string \<Rightarrow> string" where
  "update_transaction E f publisher previous next state_object transition_object =
     (let old_refs = refs_map (case previous of None \<Rightarrow> [] | Some (_, state) \<Rightarrow> rs_refs state);
          new_refs = refs_map (rs_refs next);
          current_state = (case previous of None \<Rightarrow> zero_id f | Some (object, _) \<Rightarrow> object)
      in ''start'' @ [CHR 0x0A] @ delete_lines E publisher old_refs new_refs
         @ update_lines E f publisher old_refs new_refs
         @ ''update '' @ state_ref E publisher @ '' '' @ state_object @ '' '' @ current_state @ [CHR 0x0A]
         @ ''create '' @ transition_ref E publisher next @ '' '' @ transition_object @ [CHR 0x0A]
         @ ''prepare'' @ [CHR 0x0A] @ ''commit'' @ [CHR 0x0A])"

definition update_publisher_refs ::
  "('z) env_scheme \<Rightarrow> 's host \<Rightarrow> repository \<Rightarrow> styrene_identity \<Rightarrow> (string \<times> ref_state) option
     \<Rightarrow> ref_state \<Rightarrow> string \<Rightarrow> string \<Rightarrow> ('s, unit) store_io" where
  "update_publisher_refs E host repo publisher previous next state_object transition_object =
     bindS (git_run host (repo_path repo) [''update-ref'', ''--stdin'']
       (Some (str_bytes (update_transaction E (repo_format repo) publisher previous next
          state_object transition_object))) None) (\<lambda>_.
     okS ())"

datatype commit_outcome = Applied ref_state | AlreadyPresent ref_state

definition outcome_state :: "commit_outcome \<Rightarrow> ref_state" where
  "outcome_state c = (case c of Applied s \<Rightarrow> s | AlreadyPresent s \<Rightarrow> s)"

text \<open>
  The parts of \<open>commit\<close> after the check for a transition that is already accepted, from its end:
  the reference update with its second look when it fails, the two blobs, and verification.
\<close>

definition update_or_reread ::
  "('z) refs_env_scheme \<Rightarrow> 's host \<Rightarrow> repository \<Rightarrow> signer_selection \<Rightarrow> digest
     \<Rightarrow> (string \<times> ref_state) option \<Rightarrow> ref_state \<Rightarrow> string \<Rightarrow> string \<Rightarrow> ('s, commit_outcome) store_io" where
  "update_or_reread E host repo selected tid previous next state_object transition_object =
     catchS (update_publisher_refs E host repo (sel_identity selected) previous next
               state_object transition_object) (\<lambda>update.
     case update of
       Inr _ \<Rightarrow> okS (Applied next)
     | Inl e \<Rightarrow>
         bindS (publisher_state E host repo (sel_identity selected)) (\<lambda>current.
         case current of
           Some state \<Rightarrow> if rs_transition state = tid then okS (AlreadyPresent state) else failS e
         | None \<Rightarrow> failS e))"

definition write_and_update ::
  "('z) refs_env_scheme \<Rightarrow> 's host \<Rightarrow> repository \<Rightarrow> ref_transition \<Rightarrow> signer_selection \<Rightarrow> digest
     \<Rightarrow> (string \<times> ref_state) option \<Rightarrow> ref_state \<Rightarrow> ('s, commit_outcome) store_io" where
  "write_and_update E host repo t selected tid previous next =
     bindS (core_step (canonical_bytes (ref_state_codec E) next)) (\<lambda>state_bytes.
     bindS (write_blob host repo state_bytes) (\<lambda>state_object.
     bindS (core_step (canonical_bytes (ref_transition_codec E) t)) (\<lambda>transition_bytes.
     bindS (write_blob host repo transition_bytes) (\<lambda>transition_object.
     update_or_reread E host repo selected tid previous next state_object transition_object))))"

definition commit_next ::
  "('z) refs_env_scheme \<Rightarrow> 's host \<Rightarrow> repository \<Rightarrow> quarantine \<Rightarrow> ref_transition \<Rightarrow> signer_binding
     \<Rightarrow> signer_selection \<Rightarrow> digest \<Rightarrow> (string \<times> ref_state) option \<Rightarrow> ('s, commit_outcome) store_io" where
  "commit_next E host repo q t binding selected tid previous =
     bindS (core_step (ref_transition_verify E t (repo_id repo) binding selected (map_option snd previous))) (\<lambda>next.
     bindS (verify_targets E host q (map rt_target (rs_refs next))) (\<lambda>_.
     bindS (promote_objects host (q_objects q) (repo_path repo @ [''objects''])) (\<lambda>_.
     write_and_update E host repo t selected tid previous next)))"

definition commit ::
  "('z) refs_env_scheme \<Rightarrow> 's host \<Rightarrow> repository \<Rightarrow> quarantine \<Rightarrow> ref_transition \<Rightarrow> signer_binding
     \<Rightarrow> signer_selection \<Rightarrow> ('s, commit_outcome) store_io" where
  "commit E host repo q t binding selected =
     (if repo_path (q_repository q) \<noteq> repo_path repo then failS (RepositoryMismatch (repo_id repo))
      else bindS (core_step (binding_verify_selected E binding selected)) (\<lambda>_.
      bindS (core_step (transition_id E t)) (\<lambda>tid.
      bindS (publisher_state_with_object E host repo (sel_identity selected)) (\<lambda>previous.
      case previous of
        Some (_, state) \<Rightarrow>
          if rs_transition state = tid then okS (AlreadyPresent state)
          else commit_next E host repo q t binding selected tid previous
      | None \<Rightarrow> commit_next E host repo q t binding selected tid previous))))"

end
