(* ===== verification/Protocol.thy ===== *)
theory Protocol
  imports Store
begin

text \<open>
  \<open>crates/styrene-git-protocol/src/lib.rs\<close>: state summaries, transfer manifests, and the
  application of a transfer to a repository.
\<close>

section \<open>Messages\<close>

record publisher_summary =
  ps_publisher :: styrene_identity
  ps_transition :: digest
  ps_sequence :: u64

record state_summary =
  ss_version :: u8
  ss_repository :: repository_id
  ss_publishers :: "publisher_summary list"

record state_want =
  sw_version :: u8
  sw_repository :: repository_id
  sw_publisher :: styrene_identity
  sw_after :: "digest option"

datatype prerequisite = PublisherTransition digest | ObjectPresent git_object_id

text \<open>The derived order: the variants in order, then their fields.\<close>

fun prerequisite_less :: "prerequisite \<Rightarrow> prerequisite \<Rightarrow> bool" where
  "prerequisite_less (PublisherTransition a) (PublisherTransition b) \<longleftrightarrow> a < b"
| "prerequisite_less (PublisherTransition a) (ObjectPresent b) \<longleftrightarrow> True"
| "prerequisite_less (ObjectPresent a) (PublisherTransition b) \<longleftrightarrow> False"
| "prerequisite_less (ObjectPresent a) (ObjectPresent b) \<longleftrightarrow> a < b"

instantiation prerequisite :: linorder
begin

definition less_prerequisite :: "prerequisite \<Rightarrow> prerequisite \<Rightarrow> bool" where
  "less_prerequisite = prerequisite_less"

definition less_eq_prerequisite :: "prerequisite \<Rightarrow> prerequisite \<Rightarrow> bool" where
  "less_eq_prerequisite a b \<longleftrightarrow> a = b \<or> prerequisite_less a b"

instance
proof
  fix a b c :: prerequisite
  show "a < b \<longleftrightarrow> a \<le> b \<and> \<not> b \<le> a"
    by (cases a; cases b) (auto simp: less_prerequisite_def less_eq_prerequisite_def)
  show "a \<le> a" by (simp add: less_eq_prerequisite_def)
  show "a \<le> b \<Longrightarrow> b \<le> c \<Longrightarrow> a \<le> c"
    by (cases a; cases b; cases c) (auto simp: less_eq_prerequisite_def)
  show "a \<le> b \<Longrightarrow> b \<le> a \<Longrightarrow> a = b"
    by (cases a; cases b) (auto simp: less_eq_prerequisite_def)
  show "a \<le> b \<or> b \<le> a"
    by (cases a; cases b) (auto simp: less_eq_prerequisite_def)
qed

end

datatype payload_kind = GitPack

record payload_descriptor =
  pd_kind :: payload_kind
  pd_length :: u64
  pd_digest :: digest

record transfer_manifest =
  tm_version :: u8
  tm_repository :: repository_id
  tm_publisher :: styrene_identity
  tm_prerequisites :: "prerequisite list"
  tm_resulting_transition :: digest
  tm_binding_digest :: digest
  tm_transition_digest :: digest
  tm_payload :: payload_descriptor

record transfer =
  tr_manifest :: transfer_manifest
  tr_binding :: bytes
  tr_transition :: bytes
  tr_payload :: bytes

datatype protocol_error =
    UnsupportedVersion u8
  | PayloadTooLarge u64
  | IntegrityMismatch
  | NonCanonicalPrerequisites
  | TransferRepositoryMismatch
  | ProtocolCore core_error
  | ProtocolStore store_error

definition transfer_binding_domain :: bytes where
  "transfer_binding_domain = domain_bytes ''styrene/git/transfer-binding/v1''"

definition transfer_transition_domain :: bytes where
  "transfer_transition_domain = domain_bytes ''styrene/git/transfer-transition/v1''"

definition transfer_payload_domain :: bytes where
  "transfer_payload_domain = domain_bytes ''styrene/git/transfer-payload/v1''"

section \<open>Making and checking a transfer\<close>

definition protocol_core :: "(core_error, 'a) result \<Rightarrow> (protocol_error, 'a) result" where
  "protocol_core r = map_err ProtocolCore r"

definition transfer_binding_identity ::
  "('z) refs_env_scheme \<Rightarrow> bytes \<Rightarrow> (protocol_error, styrene_identity) result" where
  "transfer_binding_identity E bs =
     protocol_core (map_ok binding_identity (from_canonical_bytes (binding_codec E) bs))"

definition transfer_new ::
  "('z) refs_env_scheme \<Rightarrow> repository_id \<Rightarrow> signer_binding \<Rightarrow> ref_transition \<Rightarrow> digest option
     \<Rightarrow> git_object_id list \<Rightarrow> bytes \<Rightarrow> (protocol_error, transfer) result" where
  "transfer_new E repository binding t prerequisite_transition prerequisite_objects payload =
     (let prerequisites =
        (case prerequisite_transition of Some parent \<Rightarrow> [PublisherTransition parent] | None \<Rightarrow> [])
        @ map ObjectPresent (dedup (sort prerequisite_objects)) in
      bindE (protocol_core (canonical_bytes (binding_codec E) binding)) (\<lambda>binding_bytes.
      bindE (protocol_core (canonical_bytes (ref_transition_codec E) t)) (\<lambda>transition_bytes.
      bindE (transfer_binding_identity E binding_bytes) (\<lambda>publisher.
      bindE (protocol_core (transition_id E t)) (\<lambda>resulting.
      Inr \<lparr>tr_manifest = \<lparr>tm_version = 1, tm_repository = repository, tm_publisher = publisher,
             tm_prerequisites = prerequisites, tm_resulting_transition = resulting,
             tm_binding_digest = domain_digest E transfer_binding_domain binding_bytes,
             tm_transition_digest = domain_digest E transfer_transition_domain transition_bytes,
             tm_payload = \<lparr>pd_kind = GitPack, pd_length = of_nat (length payload),
               pd_digest = domain_digest E transfer_payload_domain payload\<rparr>\<rparr>,
           tr_binding = binding_bytes, tr_transition = transition_bytes, tr_payload = payload\<rparr>)))))"

definition transfer_validate ::
  "('z) env_scheme \<Rightarrow> transfer \<Rightarrow> u64 \<Rightarrow> (protocol_error, unit) result" where
  "transfer_validate E x max_payload_bytes =
     (let m = tr_manifest x; len = of_nat (length (tr_payload x)) in
      if tm_version m \<noteq> 1 then Inl (UnsupportedVersion (tm_version m))
      else if max_payload_bytes < len then Inl (PayloadTooLarge max_payload_bytes)
      else if pd_length (tm_payload m) \<noteq> len \<or>
              tm_binding_digest m \<noteq> domain_digest E transfer_binding_domain (tr_binding x) \<or>
              tm_transition_digest m \<noteq> domain_digest E transfer_transition_domain (tr_transition x) \<or>
              pd_digest (tm_payload m) \<noteq> domain_digest E transfer_payload_domain (tr_payload x)
      then Inl IntegrityMismatch
      else if \<not> windows2_all (<) (tm_prerequisites m) then Inl NonCanonicalPrerequisites
      else Inr ())"

section \<open>Exporting and applying\<close>

type_synonym ('s, 'a) protocol_io = "('s world, protocol_error, 'a) io"

datatype apply_outcome =
    TransferApplied ref_state
  | TransferPresent ref_state
  | MissingPrerequisites "prerequisite list"

record signer_authorization =
  sa_binding :: signer_binding
  sa_selected :: signer_selection

definition store_step :: "('s, 'a) store_io \<Rightarrow> ('s, 'a) protocol_io" where
  "store_step m = errS ProtocolStore m"

definition pure_step :: "(protocol_error, 'a) result \<Rightarrow> ('s, 'a) protocol_io" where
  "pure_step r = liftS r"

definition export_transfer ::
  "('z) refs_env_scheme \<Rightarrow> 's host \<Rightarrow> repository \<Rightarrow> signer_authorization \<Rightarrow> ref_transition
     \<Rightarrow> ref_state option \<Rightarrow> git_object_id list \<Rightarrow> git_object_id list \<Rightarrow> u64 \<Rightarrow> ('s, transfer) protocol_io" where
  "export_transfer E host repo signer t previous wants prerequisite_objects max_payload_bytes =
     bindS (pure_step (protocol_core (ref_transition_verify E t (repo_id repo)
              (sa_binding signer) (sa_selected signer) previous))) (\<lambda>_.
     bindS (store_step (export_pack E host repo wants prerequisite_objects max_payload_bytes)) (\<lambda>payload.
     pure_step (transfer_new E (repo_id repo) (sa_binding signer) t (map_option rs_transition previous)
       prerequisite_objects payload)))"

definition prerequisite_present ::
  "('z) refs_env_scheme \<Rightarrow> 's host \<Rightarrow> repository \<Rightarrow> ref_state option \<Rightarrow> prerequisite \<Rightarrow> ('s, bool) protocol_io" where
  "prerequisite_present E host repo current prerequisite =
     (case prerequisite of
        PublisherTransition d \<Rightarrow> okS (map_option rs_transition current = Some d)
      | ObjectPresent object \<Rightarrow> store_step (has_object E host repo object))"

fun missing_prerequisites ::
  "('z) refs_env_scheme \<Rightarrow> 's host \<Rightarrow> repository \<Rightarrow> ref_state option \<Rightarrow> prerequisite list
     \<Rightarrow> ('s, prerequisite list) protocol_io" where
  "missing_prerequisites E host repo current [] = okS []"
| "missing_prerequisites E host repo current (p # ps) =
     bindS (prerequisite_present E host repo current p) (\<lambda>present.
     bindS (missing_prerequisites E host repo current ps) (\<lambda>missing.
     okS (if present then missing else p # missing)))"

text \<open>
  The quarantined part of \<open>apply_transfer\<close>: the quarantine is dropped when the function returns,
  whatever it returns.
\<close>

definition import_and_commit ::
  "('z) refs_env_scheme \<Rightarrow> 's host \<Rightarrow> repository \<Rightarrow> bytes \<Rightarrow> u64 \<Rightarrow> ref_transition \<Rightarrow> signer_binding
     \<Rightarrow> signer_selection \<Rightarrow> ('s, apply_outcome) protocol_io" where
  "import_and_commit E host repo payload max_payload_bytes t binding selected =
     bindS (store_step (begin_quarantine host repo)) (\<lambda>q.
     catchS
       (bindS (store_step (import_pack host q payload max_payload_bytes)) (\<lambda>_.
        bindS (store_step (commit E host repo q t binding selected)) (\<lambda>outcome.
        okS (case outcome of
               Applied state \<Rightarrow> TransferApplied state
             | AlreadyPresent state \<Rightarrow> TransferPresent state))))
       (\<lambda>r. bindS (drop_quarantine host q) (\<lambda>_. liftS r)))"

definition apply_transfer ::
  "('z) refs_env_scheme \<Rightarrow> 's host \<Rightarrow> repository \<Rightarrow> transfer \<Rightarrow> signer_selection \<Rightarrow> u64
     \<Rightarrow> ('s, apply_outcome) protocol_io" where
  "apply_transfer E host repo x selected max_payload_bytes =
     (let m = tr_manifest x in
      bindS (pure_step (transfer_validate E x max_payload_bytes)) (\<lambda>_.
      if tm_repository m \<noteq> repo_id repo then failS TransferRepositoryMismatch
      else
      bindS (pure_step (protocol_core (from_canonical_bytes (binding_codec E) (tr_binding x)))) (\<lambda>binding.
      bindS (pure_step (protocol_core (from_canonical_bytes (ref_transition_codec E) (tr_transition x)))) (\<lambda>t.
      bindS (pure_step (protocol_core (binding_verify_selected E binding selected))) (\<lambda>_.
      bindS (pure_step (if sel_identity selected \<noteq> tm_publisher m then Inl IntegrityMismatch
                else bindE (protocol_core (transition_id E t)) (\<lambda>tid.
                     if tid \<noteq> tm_resulting_transition m then Inl IntegrityMismatch else Inr ()))) (\<lambda>_.
      bindS (store_step (publisher_state E host repo (binding_identity binding))) (\<lambda>current.
      let continue =
        bindS (missing_prerequisites E host repo current (tm_prerequisites m)) (\<lambda>missing.
        if missing \<noteq> [] then okS (MissingPrerequisites missing)
        else import_and_commit E host repo (tr_payload x) max_payload_bytes t binding selected) in
      case current of
        Some state \<Rightarrow>
          if rs_transition state = tm_resulting_transition m then okS (TransferPresent state) else continue
      | None \<Rightarrow> continue)))))))"

end
