(* ===== verification/Store_Facts.thy ===== *)
theory Store_Facts
  imports Store Publishing
begin

text \<open>
  What \<open>git\<close> promises about the references and objects of one repository, and what follows for
  every operation of the store: which of them keep the references, what reading a publisher's
  state returns, and what the reference transaction of a commit does.
\<close>

section \<open>The documented behaviour of Git\<close>

text \<open>
  Two views of the host's state: the references of a repository (name to object identifier) and
  the blobs in its object database.
\<close>

record 's views =
  v_refs :: "'s \<Rightarrow> path \<Rightarrow> string \<Rightarrow> string option"
  v_blobs :: "'s \<Rightarrow> path \<Rightarrow> string \<Rightarrow> bytes option"

definition keeps_os :: "'s views \<Rightarrow> path \<Rightarrow> 's \<Rightarrow> 's \<Rightarrow> bool" where
  "keeps_os V p s s' \<longleftrightarrow>
     v_refs V s' p = v_refs V s p \<and>
     (\<forall>i b. v_blobs V s p i = Some b \<longrightarrow> v_blobs V s' p i = Some b)"

definition keeps :: "'s views \<Rightarrow> path \<Rightarrow> 's world \<Rightarrow> 's world \<Rightarrow> bool" where
  "keeps V p w w' \<longleftrightarrow> keeps_os V p (os w) (os w')"

definition word_text :: "string \<Rightarrow> bool" where
  "word_text s \<longleftrightarrow> s \<noteq> [] \<and> (\<forall>c \<in> set s. plain_char c)"

definition line_word :: "string \<Rightarrow> bool" where
  "line_word s \<longleftrightarrow> s \<noteq> [] \<and> (\<forall>c \<in> set s. c \<notin> {CHR 0x00, CHR 0x0A, CHR 0x20})"

text \<open>The commands of a reference transaction.\<close>

datatype ref_command = Delete string string | Update string string string | Create string string

fun command_name :: "ref_command \<Rightarrow> string" where
  "command_name (Delete n old) = n"
| "command_name (Update n new old) = n"
| "command_name (Create n new) = n"

fun command_words :: "ref_command \<Rightarrow> string list" where
  "command_words (Delete n old) = [''delete'', n, old]"
| "command_words (Update n new old) = [''update'', n, new, old]"
| "command_words (Create n new) = [''create'', n, new]"

definition command_line :: "ref_command \<Rightarrow> string" where
  "command_line c = join CHR '' '' (command_words c) @ [CHR 0x0A]"

definition transaction_text :: "ref_command list \<Rightarrow> string" where
  "transaction_text cs =
     ''start'' @ [CHR 0x0A] @ concat (map command_line cs) @
     ''prepare'' @ [CHR 0x0A] @ ''commit'' @ [CHR 0x0A]"

text \<open>
  An all-zero old identifier requires that the reference does not exist, an all-zero new one
  deletes it.
\<close>

definition zero_text :: "string \<Rightarrow> bool" where
  "zero_text s \<longleftrightarrow> list_all (\<lambda>c. c = CHR ''0'') s"

fun command_holds :: "(string \<Rightarrow> string option) \<Rightarrow> ref_command \<Rightarrow> bool" where
  "command_holds refs (Delete n old) \<longleftrightarrow> refs n = Some old"
| "command_holds refs (Update n new old) \<longleftrightarrow> refs n = (if zero_text old then None else Some old)"
| "command_holds refs (Create n new) \<longleftrightarrow> refs n = None"

fun command_effect :: "ref_command \<Rightarrow> (string \<Rightarrow> string option) \<Rightarrow> string \<Rightarrow> string option" where
  "command_effect (Delete n old) refs = refs(n := None)"
| "command_effect (Update n new old) refs = refs(n := if zero_text new then None else Some new)"
| "command_effect (Create n new) refs = refs(n := Some new)"

definition commands_ok :: "ref_command list \<Rightarrow> bool" where
  "commands_ok cs \<longleftrightarrow>
     distinct (map command_name cs) \<and>
     (\<forall>c \<in> set cs. \<forall>w \<in> set (command_words c). line_word w) \<and>
     (\<forall>n new. Create n new \<in> set cs \<longrightarrow> \<not> zero_text new)"

text \<open>
  Reading: \<open>show-ref --verify --hash\<close>, \<open>cat-file blob\<close>, and \<open>cat-file -e\<close>, which finds no object
  named by the all-zero identifier.
\<close>

definition git_reads :: "'s host \<Rightarrow> 's views \<Rightarrow> path \<Rightarrow> bool" where
  "git_reads host V p \<longleftrightarrow>
     (\<forall>r s ok out err s'.
        h_git host (git_run_call p [''show-ref'', ''--verify'', ''--hash'', r] None None) s
          = (Git_Exit ok out err, s') \<longrightarrow>
        (if ok then \<exists>i. v_refs V s p r = Some i \<and> word_text i \<and> out = str_bytes (i @ [CHR 0x0A])
         else v_refs V s p r = None)) \<and>
     (\<forall>i s out err s'.
        h_git host (git_run_call p [''cat-file'', ''blob'', i] None None) s
          = (Git_Exit True out err, s') \<longrightarrow> v_blobs V s p i = Some out) \<and>
     (\<forall>i d s out err s'.
        h_git host (git_run_call p [''cat-file'', ''-e'', i @ ''^{object}''] None d) s
          = (Git_Exit True out err, s') \<longrightarrow> \<not> zero_text i)"

text \<open>Writing: \<open>hash-object -w --stdin -t blob\<close> and the atomic \<open>update-ref --stdin\<close>.\<close>

definition git_writes :: "'s host \<Rightarrow> 's views \<Rightarrow> path \<Rightarrow> bool" where
  "git_writes host V p \<longleftrightarrow>
     (\<forall>bs s out err s'.
        h_git host (git_run_call p [''hash-object'', ''-w'', ''--stdin'', ''-t'', ''blob''] (Some bs) None) s
          = (Git_Exit True out err, s') \<longrightarrow>
        (\<exists>i. word_text i \<and> \<not> zero_text i \<and> out = str_bytes (i @ [CHR 0x0A]) \<and>
             v_blobs V s' p i = Some bs)) \<and>
     (\<forall>cs s run s'.
        commands_ok cs \<longrightarrow>
        h_git host (git_run_call p [''update-ref'', ''--stdin'']
            (Some (str_bytes (transaction_text cs))) None) s = (run, s') \<longrightarrow>
        (\<forall>i b. v_blobs V s p i = Some b \<longrightarrow> v_blobs V s' p i = Some b) \<and>
        ((\<forall>c \<in> set cs. command_holds (v_refs V s p) c) \<and>
           v_refs V s' p = fold command_effect cs (v_refs V s p) \<or>
         v_refs V s' p = v_refs V s p \<and> (\<forall>out err. run \<noteq> Git_Exit True out err)))"

text \<open>
  Every other command, with or without an alternative object directory, keeps the references and
  loses no object; so do directory creation and hard links below the object directory, and
  everything below the quarantine directory.
\<close>

definition git_keeps :: "'s host \<Rightarrow> 's views \<Rightarrow> path \<Rightarrow> bool" where
  "git_keeps host V p \<longleftrightarrow>
     (\<forall>args input d s. args \<noteq> [] \<and> hd args \<noteq> ''update-ref'' \<longrightarrow>
        keeps_os V p s (snd (h_git host (git_run_call p args input d) s)))"

definition fs_keeps :: "'s host \<Rightarrow> 's views \<Rightarrow> path \<Rightarrow> bool" where
  "fs_keeps host V p \<longleftrightarrow>
     (\<forall>d s. prefix (p @ [''objects'']) d \<or> prefix (p @ [''q'']) d \<longrightarrow>
        keeps_os V p s (snd (h_create_dir_all host d s)) \<and>
        keeps_os V p s (snd (h_create_dir host d s)) \<and>
        (\<forall>src. keeps_os V p s (snd (h_hard_link host src d s)))) \<and>
     (\<forall>d s. keeps_os V p s (snd (h_read_dir host d s))) \<and>
     (\<forall>d s. prefix (p @ [''q'']) d \<longrightarrow> keeps_os V p s (snd (h_remove_dir_all host d s)))"

definition git_ok :: "'s host \<Rightarrow> 's views \<Rightarrow> path \<Rightarrow> bool" where
  "git_ok host V p \<longleftrightarrow> git_reads host V p \<and> git_writes host V p \<and> git_keeps host V p \<and> fs_keeps host V p"

section \<open>What keeps the references\<close>

lemma keeps_os_refl [simp]: "keeps_os V p s s"
  by (simp add: keeps_os_def)

interpretation kept: run_relation "keeps V p" for V p
  by unfold_locales (auto simp: keeps_def keeps_os_def)

lemma keeps_refs: "keeps V p w w' \<Longrightarrow> v_refs V (os w') p = v_refs V (os w) p"
  by (simp add: keeps_def keeps_os_def)

lemma on_os_keeps [runs]: "(\<And>s. keeps_os V p s (snd (f s))) \<Longrightarrow> runs_in (keeps V p) (on_os f)"
  by (auto simp: runs_in_def on_os_def keeps_def split: prod.splits) (metis snd_conv)

lemma at_path_keeps [runs]: "runs_in (keeps V p) m \<Longrightarrow> runs_in (keeps V p) (at_path d m)"
  by (simp add: at_path_def kept.err)

lemma core_step_keeps [runs]: "runs_in (keeps V p) (core_step r)"
  by (simp add: core_step_def kept.pure)

lemma next_sequence_keeps [runs]: "runs_in (keeps V p) next_sequence"
  by (simp add: runs_in_def next_sequence_def keeps_def)

lemma git_run_keeps [runs]:
  assumes "git_ok host V p" "args \<noteq> []" "hd args \<noteq> ''update-ref''"
  shows "runs_in (keeps V p) (git_run host p args input d)"
proof -
  have "keeps_os V p s (snd (h_git host (git_run_call p args input d) s))" for s
    using assms by (simp add: git_ok_def git_keeps_def)
  then show ?thesis
    by (auto simp: runs_in_def git_run_def execute_git_def keeps_def split: prod.splits) (metis snd_conv)
qed

lemma unless_git_fails_keeps [runs]:
  "runs_in (keeps V p) m \<Longrightarrow> runs_in (keeps V p) (unless_git_fails m)"
  unfolding unless_git_fails_def
  by (intro kept.catch) (auto split: sum.split store_error.split intro: kept.pure)

lemma resolve_ref_keeps [runs]:
  "git_ok host V (repo_path repo) \<Longrightarrow> runs_in (keeps V (repo_path repo)) (resolve_ref host repo r)"
  unfolding resolve_ref_def by (intro runs) simp_all

lemma publisher_state_with_object_keeps [runs]:
  "git_ok host V (repo_path repo) \<Longrightarrow>
     runs_in (keeps V (repo_path repo)) (publisher_state_with_object E host repo publisher)"
  unfolding publisher_state_with_object_def by (intro runs) simp_all

lemma publisher_state_keeps [runs]:
  "git_ok host V (repo_path repo) \<Longrightarrow>
     runs_in (keeps V (repo_path repo)) (publisher_state E host repo publisher)"
  unfolding publisher_state_def by (intro runs)

lemma has_object_keeps [runs]:
  "git_ok host V (repo_path repo) \<Longrightarrow> runs_in (keeps V (repo_path repo)) (has_object E host repo object)"
  unfolding has_object_def by (intro runs) simp_all

lemma write_blob_keeps [runs]:
  "git_ok host V (repo_path repo) \<Longrightarrow> runs_in (keeps V (repo_path repo)) (write_blob host repo bs)"
  unfolding write_blob_def by (intro runs) simp_all

lemma verify_each_target_keeps:
  "git_ok host V (repo_path (q_repository q)) \<Longrightarrow>
     runs_in (keeps V (repo_path (q_repository q))) (verify_each_target E host q roots targets)"
  by (induction targets arbitrary: roots) (auto intro!: runs)

lemma verify_targets_keeps [runs]:
  "git_ok host V (repo_path (q_repository q)) \<Longrightarrow>
     runs_in (keeps V (repo_path (q_repository q))) (verify_targets E host q targets)"
  unfolding verify_targets_def Let_def by (intro runs verify_each_target_keeps) simp_all

lemma import_pack_keeps [runs]:
  "git_ok host V (repo_path (q_repository q)) \<Longrightarrow>
     runs_in (keeps V (repo_path (q_repository q))) (import_pack host q pack n)"
  unfolding import_pack_def by (intro runs) simp_all

lemma git_ok_fs:
  assumes "git_ok host V p"
  shows "prefix (p @ [''objects'']) d \<or> prefix (p @ [''q'']) d \<Longrightarrow> keeps_os V p s (snd (h_create_dir_all host d s))"
    and "prefix (p @ [''objects'']) d \<or> prefix (p @ [''q'']) d \<Longrightarrow> keeps_os V p s (snd (h_create_dir host d s))"
    and "prefix (p @ [''objects'']) d \<or> prefix (p @ [''q'']) d \<Longrightarrow> keeps_os V p s (snd (h_hard_link host src d s))"
    and "keeps_os V p s (snd (h_read_dir host d s))"
    and "prefix (p @ [''q'']) d \<Longrightarrow> keeps_os V p s (snd (h_remove_dir_all host d s))"
  using assms unfolding git_ok_def fs_keeps_def by blast+

text \<open>A step that keeps the references, followed by a match on its result.\<close>

lemma case_keeps:
  assumes "keeps V p w (snd m)"
    and "\<And>e w'. m = (Inl e, w') \<Longrightarrow> keeps V p w' (snd (f e w'))"
    and "\<And>x w'. m = (Inr x, w') \<Longrightarrow> keeps V p w' (snd (g x w'))"
  shows "keeps V p w (snd (case m of (Inl e, w') \<Rightarrow> f e w' | (Inr x, w') \<Rightarrow> g x w'))"
proof -
  obtain r w' where m: "m = (r, w')" by (cases m)
  then have step: "keeps V p w w'" using assms(1) by simp
  show ?thesis
  proof (cases r)
    case (Inl e)
    then have "keeps V p w' (snd (f e w'))" using assms(2) m by blast
    then show ?thesis using kept.trans [OF step] Inl m by simp
  next
    case (Inr x)
    then have "keeps V p w' (snd (g x w'))" using assms(3) m by blast
    then show ?thesis using kept.trans [OF step] Inr m by simp
  qed
qed

lemma promote_keeps:
  "prefix (p @ [''objects'']) destination \<Longrightarrow> git_ok host V p \<Longrightarrow>
      keeps V p w (snd (promote_objects host source destination w))"
  "prefix (p @ [''objects'']) destination \<Longrightarrow> git_ok host V p \<Longrightarrow>
      keeps V p w (snd (promote_entries host source destination entries w))"
proof (induction host source destination w and host source destination entries w
    rule: promote_objects_promote_entries.induct)
  case (1 host source destination w)
  have read: "keeps V p w (snd (at_path source (on_os (h_read_dir host source)) w))"
    by (rule runs_inS, intro runs git_ok_fs(4)) (rule "1.prems"(2))
  have "keeps V p w (snd (case at_path source (on_os (h_read_dir host source)) w of
      (Inl e, w') \<Rightarrow> (Inl e, w')
    | (Inr entries, w') \<Rightarrow> promote_entries host source destination entries w'))"
    if "\<not> h_path_limit host < length source"
  proof (rule case_keeps [OF read])
    fix entries w' assume "at_path source (on_os (h_read_dir host source)) w = (Inr entries, w')"
    from "1.IH" [OF that this [symmetric] refl] "1.prems"
    show "keeps V p w' (snd (promote_entries host source destination entries w'))" by blast
  qed (simp add: kept.refl)
  then show ?case by (subst promote_objects.simps) (simp add: kept.refl)
next
  case (2 host source destination w)
  then show ?case by (simp add: promote_entries.simps kept.refl)
next
  case (3 host source destination entry entries w)
  have dest: "prefix (p @ [''objects'']) (destination @ [name])" for name
    using "3.prems"(1) by simp
  have mk: "keeps V p w (snd (at_path (destination @ [name])
      (on_os (h_create_dir_all host (destination @ [name]))) w))" for name
    by (rule runs_inS, intro runs git_ok_fs(1)) (use "3.prems"(2) dest in auto)
  have ln: "keeps V p w (snd (on_os (h_hard_link host src (destination @ [name])) w))" for name src
    by (rule runs_inS, intro runs git_ok_fs(3)) (use "3.prems"(2) dest in auto)
  show ?case
  proof (cases "h_path_limit host < length source \<or> (\<exists>e. entry = Inl e) \<or> (\<exists>n e. entry = Inr (n, Inl e))")
    case True
    then show ?thesis by (subst promote_entries.simps) (auto simp: kept.refl)
  next
    case False
    then obtain name is_dir where entry: "entry = Inr (name, Inr is_dir)"
      by (metis prod.exhaust sum.exhaust)
    have lim: "\<not> h_path_limit host < length source" using False by simp
    note IH = "3.IH" [OF lim entry refl refl refl refl]
    let ?dst = "destination @ [name]"
    show ?thesis
    proof (cases is_dir)
      case True
      have "promote_entries host source destination (entry # entries) w =
        (case at_path ?dst (on_os (h_create_dir_all host ?dst)) w of
           (Inl e, w') \<Rightarrow> (Inl e, w')
         | (Inr _, w') \<Rightarrow>
             (case promote_objects host (source @ [name]) ?dst w' of
                (Inl e, w'') \<Rightarrow> (Inl e, w'')
              | (Inr _, w'') \<Rightarrow> promote_entries host source destination entries w''))"
        using lim True by (subst promote_entries.simps) (simp add: entry Let_def)
      moreover have "keeps V p w (snd \<dots>)"
      proof (rule case_keeps [OF mk])
        fix u w' assume made: "at_path ?dst (on_os (h_create_dir_all host ?dst)) w = (Inr u, w')"
        note down = IH(1) [OF True made [symmetric] refl dest "3.prems"(2)]
        show "keeps V p w' (snd (case promote_objects host (source @ [name]) ?dst w' of
            (Inl e, w'') \<Rightarrow> (Inl e, w'')
          | (Inr _, w'') \<Rightarrow> promote_entries host source destination entries w''))"
        proof (rule case_keeps [OF down])
          fix u w'' assume "promote_objects host (source @ [name]) ?dst w' = (Inr u, w'')"
          from IH(2) [OF True made [symmetric] refl this [symmetric] refl "3.prems"]
          show "keeps V p w'' (snd (promote_entries host source destination entries w''))" .
        qed (simp add: kept.refl)
      qed (simp add: kept.refl)
      ultimately show ?thesis by simp
    next
      case False
      have "promote_entries host source destination (entry # entries) w =
        (if \<not> h_exists host ?dst (os w)
         then case on_os (h_hard_link host (source @ [name]) ?dst) w of
                (Inl e, w') \<Rightarrow>
                  if error_kind e = Already_Exists
                  then promote_entries host source destination entries w'
                  else (Inl (Io ?dst e), w')
              | (Inr _, w') \<Rightarrow> promote_entries host source destination entries w'
         else promote_entries host source destination entries w)"
        using lim False
        by (subst promote_entries.simps) (simp add: entry Let_def split: prod.split sum.split)
      moreover have "keeps V p w (snd \<dots>)"
      proof (cases "h_exists host ?dst (os w)")
        case True
        then show ?thesis using IH(5) [OF False _ "3.prems"] by simp
      next
        case fresh: False
        have "keeps V p w (snd (case on_os (h_hard_link host (source @ [name]) ?dst) w of
            (Inl e, w') \<Rightarrow>
              if error_kind e = Already_Exists
              then promote_entries host source destination entries w'
              else (Inl (Io ?dst e), w')
          | (Inr _, w') \<Rightarrow> promote_entries host source destination entries w'))"
        proof (rule case_keeps [OF ln])
          fix e w' assume "on_os (h_hard_link host (source @ [name]) ?dst) w = (Inl e, w')"
          from IH(3) [OF False fresh this [symmetric] refl _ "3.prems"]
          show "keeps V p w' (snd (if error_kind e = Already_Exists
              then promote_entries host source destination entries w'
              else (Inl (Io ?dst e), w')))" by (simp add: kept.refl)
        next
          fix u w' assume "on_os (h_hard_link host (source @ [name]) ?dst) w = (Inr u, w')"
          from IH(4) [OF False fresh this [symmetric] refl "3.prems"]
          show "keeps V p w' (snd (promote_entries host source destination entries w'))" .
        qed
        then show ?thesis using fresh by simp
      qed
      ultimately show ?thesis by simp
    qed
  qed
qed

end
