(* ===== verification/Commit.thy ===== *)
theory Commit
  imports Store_Facts
begin

text \<open>
  The commit of a publisher's transition to the store: the reference transaction it builds, the
  consistency of a repository's references with its stored publisher states, and the properties of
  \<open>Repository::commit\<close> under the documented behaviour of Git.
\<close>

section \<open>The transaction as commands\<close>

definition previous_refs :: "(string \<times> ref_state) option \<Rightarrow> (string, git_object_id) btree_map" where
  "previous_refs previous = refs_map (case previous of None \<Rightarrow> [] | Some (_, state) \<Rightarrow> rs_refs state)"

definition transaction_commands ::
  "('z) env_scheme \<Rightarrow> object_format \<Rightarrow> styrene_identity \<Rightarrow> (string \<times> ref_state) option \<Rightarrow> ref_state
     \<Rightarrow> string \<Rightarrow> string \<Rightarrow> ref_command list" where
  "transaction_commands E f P previous next state_object transition_object =
     map (\<lambda>(n, t). Delete (namespace_ref E P n) (object_id_hex E t))
       (filter (\<lambda>(n, t). btree_get (refs_map (rs_refs next)) n = None) (previous_refs previous)) @
     map (\<lambda>(n, t). Update (namespace_ref E P n) (object_id_hex E t)
            (case btree_get (previous_refs previous) n of None \<Rightarrow> zero_id f | Some x \<Rightarrow> object_id_hex E x))
       (refs_map (rs_refs next)) @
     [Update (state_ref E P) state_object (case previous of None \<Rightarrow> zero_id f | Some (i, _) \<Rightarrow> i),
      Create (transition_ref E P next) transition_object]"

lemma delete_lines_commands:
  "delete_lines E P old new =
     concat (map command_line (map (\<lambda>(n, t). Delete (namespace_ref E P n) (object_id_hex E t))
       (filter (\<lambda>(n, t). btree_get new n = None) old)))"
  by (induction old) (auto simp: delete_lines_def command_line_def)

lemma update_lines_commands:
  "update_lines E f P old new =
     concat (map command_line (map (\<lambda>(n, t). Update (namespace_ref E P n) (object_id_hex E t)
       (case btree_get old n of None \<Rightarrow> zero_id f | Some x \<Rightarrow> object_id_hex E x)) new))"
  by (induction new) (auto simp: update_lines_def command_line_def Let_def split: option.splits)

lemma update_transaction_commands:
  "update_transaction E f P previous next so to =
     transaction_text (transaction_commands E f P previous next so to)"
  by (simp add: update_transaction_def transaction_text_def transaction_commands_def Let_def
      delete_lines_commands update_lines_commands command_line_def previous_refs_def
      split: option.splits prod.splits)

section \<open>Reference names of different publishers\<close>

lemma identity_hex_inject [simp]:
  assumes "hex_ok E" shows "identity_hex E P = identity_hex E Q \<longleftrightarrow> P = Q"
  using identity_from_hex_hex [OF assms, of P] identity_from_hex_hex [OF assms, of Q]
  by (metis sum.inject(2))

lemma ref_names_distinct:
  assumes "hex_ok E"
  shows "namespace_ref E P n = namespace_ref E Q m \<longleftrightarrow> P = Q \<and> n = m"
    and "state_ref E P = state_ref E Q \<longleftrightarrow> P = Q"
    and "namespace_ref E P n \<noteq> state_ref E Q" "namespace_ref E P n \<noteq> transition_ref E Q st"
    and "state_ref E P \<noteq> transition_ref E Q st"
  using assms by (auto simp: namespace_ref_def state_ref_def transition_ref_def append_eq_append_conv)

lemma hex_line_word:
  assumes "hex_ok E" "bs \<noteq> []" shows "line_word (hex_encode E bs)"
proof -
  have "set (hex_encode E bs) \<subseteq> set hex_digits" "length (hex_encode E bs) = 2 * length bs"
    using assms by (auto simp: hex_ok_def)
  then show ?thesis using assms(2) by (auto simp: line_word_def hex_digits_def)
qed

lemma word_line_word: "word_text s \<Longrightarrow> line_word s"
  by (auto simp: word_text_def line_word_def plain_char_def less_eq_char_def)

lemma line_word_append: "(\<forall>c \<in> set a. c \<notin> {CHR 0x00, CHR 0x0A, CHR 0x20}) \<Longrightarrow> line_word b \<Longrightarrow> line_word (a @ b)"
  by (auto simp: line_word_def)

lemma ref_names_line_word:
  assumes "hex_ok E" "base32_ok E"
  shows "line_word n \<Longrightarrow> line_word (namespace_ref E P n)"
    and "line_word (state_ref E P)" and "line_word (transition_ref E P st)"
proof -
  have hex: "set (identity_hex E P) \<subseteq> set hex_digits" by (rule identity_hex_chars [OF assms(1)])
  have b32: "set (digest_base32 E d) \<subseteq> to_lower ` set base32_alphabet" for d
    by (rule digest_base32_chars [OF assms(2)])
  have alpha: "c \<in> to_lower ` set base32_alphabet \<Longrightarrow> c \<notin> {CHR 0x00, CHR 0x0A, CHR 0x20}" for c
    by (auto simp: base32_alphabet_def to_lower_def is_ascii_uppercase_def less_eq_char_def
        char_of_def bit_0)
  show "line_word (namespace_ref E P n)" if "line_word n"
    using hex that by (auto simp: namespace_ref_def line_word_def hex_digits_def)
  show "line_word (state_ref E P)"
    using hex by (auto simp: state_ref_def line_word_def hex_digits_def)
  show "line_word (transition_ref E P st)"
    using hex b32 [of "rs_transition st"] alpha
    by (auto simp: transition_ref_def line_word_def hex_digits_def)
qed

section \<open>The effect of a transaction\<close>

fun command_value :: "ref_command \<Rightarrow> string option" where
  "command_value (Delete n old) = None"
| "command_value (Update n new old) = (if zero_text new then None else Some new)"
| "command_value (Create n new) = Some new"

lemma command_effect_value: "command_effect c refs = refs(command_name c := command_value c)"
  by (cases c) auto

lemma fold_effect_other:
  "n \<notin> command_name ` set cs \<Longrightarrow> fold command_effect cs refs n = refs n"
  by (induction cs arbitrary: refs) (auto simp: command_effect_value)

lemma fold_effect_mem:
  "distinct (map command_name cs) \<Longrightarrow> c \<in> set cs \<Longrightarrow>
     fold command_effect cs refs (command_name c) = command_value c"
proof (induction cs arbitrary: refs)
  case (Cons d cs)
  show ?case
  proof (cases "c = d")
    case True
    then have "fold command_effect cs (command_effect d refs) (command_name c) =
        command_effect d refs (command_name c)"
      using Cons.prems(1) by (intro fold_effect_other) auto
    then show ?thesis using True by (simp add: command_effect_value [of d])
  qed (use Cons in auto)
qed simp

section \<open>Stored states and consistency\<close>

definition ref_targets :: "ref_target list \<Rightarrow> string \<Rightarrow> git_object_id option" where
  "ref_targets refs = map_of (map (\<lambda>r. (rt_name r, rt_target r)) refs)"

definition stored ::
  "('z) refs_env_scheme \<Rightarrow> 's views \<Rightarrow> path \<Rightarrow> 's \<Rightarrow> styrene_identity \<Rightarrow> (string \<times> ref_state) option" where
  "stored E V p s P =
     (case v_refs V s p (state_ref E P) of
        None \<Rightarrow> None
      | Some i \<Rightarrow>
          (case v_blobs V s p i of
             None \<Rightarrow> None
           | Some bs \<Rightarrow>
               (case from_canonical_bytes (ref_state_codec E) bs of
                  Inl _ \<Rightarrow> None
                | Inr st \<Rightarrow> Some (i, st))))"

text \<open>The names and targets that line-based transactions can carry.\<close>

definition plain_refs :: "('z) env_scheme \<Rightarrow> ref_target list \<Rightarrow> bool" where
  "plain_refs E refs \<longleftrightarrow>
     (\<forall>r \<in> set refs. line_word (rt_name r) \<and> \<not> zero_text (object_id_hex E (rt_target r)))"

text \<open>A publisher's namespace shows exactly the references of its stored state.\<close>

definition mirrors :: "('z) env_scheme \<Rightarrow> 's views \<Rightarrow> path \<Rightarrow> 's \<Rightarrow> styrene_identity \<Rightarrow> ref_target list \<Rightarrow> bool" where
  "mirrors E V p s P refs \<longleftrightarrow>
     (\<forall>n. v_refs V s p (namespace_ref E P n) = map_option (object_id_hex E) (ref_targets refs n))"

definition publisher_consistent ::
  "('z) refs_env_scheme \<Rightarrow> 's views \<Rightarrow> repository \<Rightarrow> 's \<Rightarrow> styrene_identity \<Rightarrow> bool" where
  "publisher_consistent E V repo s P \<longleftrightarrow>
     (let p = repo_path repo in
      case v_refs V s p (state_ref E P) of
        None \<Rightarrow> mirrors E V p s P []
      | Some i \<Rightarrow> word_text i \<and> \<not> zero_text i \<and>
          (\<exists>st. stored E V p s P = Some (i, st) \<and>
             rs_repository st = repo_id repo \<and> rs_publisher st = P \<and>
             valid_refs (rs_refs st) \<and> plain_refs E (rs_refs st) \<and> mirrors E V p s P (rs_refs st)))"

definition store_consistent ::
  "('z) refs_env_scheme \<Rightarrow> 's views \<Rightarrow> repository \<Rightarrow> 's \<Rightarrow> bool" where
  "store_consistent E V repo s \<longleftrightarrow> (\<forall>P. publisher_consistent E V repo s P)"

lemma refs_map_get: "valid_refs refs \<Longrightarrow> btree_get (refs_map refs) = ref_targets refs"
  unfolding refs_map_def ref_targets_def
  by (rule btree_get_of_list_distinct) (auto simp: valid_refs_def comp_def dest: strict_sorted_distinct)

lemma refs_map_Nil [simp]: "refs_map [] = []"
  by (simp add: refs_map_def btree_of_list_def)

lemma refs_map_entries:
  "valid_refs refs \<Longrightarrow> (n, t) \<in> set (refs_map refs) \<longleftrightarrow> ref_targets refs n = Some t"
  using btree.mem_entries_iff [of "refs_map refs" n t] by (simp add: refs_map_get) (simp add: refs_map_def)

lemma refs_map_keys: "valid_refs refs \<Longrightarrow> distinct (map fst (refs_map refs))"
  using btree_invar_of_list [of "map (\<lambda>r. (rt_name r, rt_target r)) refs"]
  by (auto simp: refs_map_def btree_invar_def dest: strict_sorted_distinct)

lemma ref_targets_mem: "ref_targets refs n = Some t \<Longrightarrow> \<exists>r \<in> set refs. rt_name r = n \<and> rt_target r = t"
  unfolding ref_targets_def by (auto dest!: map_of_SomeD)

text \<open>One publisher's part of the references is the same in two states.\<close>

definition same_publisher ::
  "('z) env_scheme \<Rightarrow> 's views \<Rightarrow> path \<Rightarrow> styrene_identity \<Rightarrow> 's \<Rightarrow> 's \<Rightarrow> bool" where
  "same_publisher E V p P s s' \<longleftrightarrow>
     v_refs V s' p (state_ref E P) = v_refs V s p (state_ref E P) \<and>
     (\<forall>n. v_refs V s' p (namespace_ref E P n) = v_refs V s p (namespace_ref E P n)) \<and>
     (\<forall>i b. v_blobs V s p i = Some b \<longrightarrow> v_blobs V s' p i = Some b)"

lemma keeps_same_publisher: "keeps V p w w' \<Longrightarrow> same_publisher E V p P (os w) (os w')"
  by (simp add: keeps_def keeps_os_def same_publisher_def)

lemma stored_mono:
  assumes "same_publisher E V p P s s'" "stored E V p s P = Some x"
  shows "stored E V p s' P = Some x"
  using assms by (auto simp: same_publisher_def stored_def split: option.splits sum.splits)

lemma stored_same:
  assumes "same_publisher E V (repo_path repo) P s s'" "publisher_consistent E V repo s P"
  shows "stored E V (repo_path repo) s' P = stored E V (repo_path repo) s P"
proof (cases "stored E V (repo_path repo) s P")
  case None
  then have "v_refs V s (repo_path repo) (state_ref E P) = None"
    using assms(2) by (auto simp: publisher_consistent_def Let_def split: option.splits)
  then show ?thesis using None assms(1) by (simp add: stored_def same_publisher_def)
next
  case (Some x)
  then show ?thesis using stored_mono [OF assms(1)] by simp
qed

lemma consistent_same:
  assumes "same_publisher E V (repo_path repo) P s s'" "publisher_consistent E V repo s P"
  shows "publisher_consistent E V repo s' P"
proof -
  have "v_refs V s' (repo_path repo) (state_ref E P) = v_refs V s (repo_path repo) (state_ref E P)"
    and "mirrors E V (repo_path repo) s' P refs = mirrors E V (repo_path repo) s P refs" for refs
    using assms(1) by (simp_all add: same_publisher_def mirrors_def)
  then show ?thesis
    using assms(2) stored_same [OF assms]
    by (simp add: publisher_consistent_def Let_def split: option.splits)
qed

section \<open>The transaction of a commit\<close>

lemma valid_object_hex:
  assumes "hex_ok E" "valid_object x" shows "line_word (object_id_hex E x)"
proof -
  have "object_bytes x \<noteq> []" using assms(2) by (auto simp: valid_object_def)
  then show ?thesis using assms(1) by (simp add: object_id_hex_def hex_line_word)
qed

lemma zero_id_text: "line_word (zero_id f) \<and> zero_text (zero_id f)"
  by (cases f) (auto simp: zero_id_def line_word_def zero_text_def list_all_iff)

lemma command_names:
  "map command_name (transaction_commands E f P previous next so to) =
     map (namespace_ref E P) (map fst (filter (\<lambda>(n, t). btree_get (refs_map (rs_refs next)) n = None) (previous_refs previous))
       @ map fst (refs_map (rs_refs next)))
     @ [state_ref E P, transition_ref E P next]"
  by (simp add: transaction_commands_def comp_def case_prod_unfold)

lemma transaction_commands_ok:
  assumes "hex_ok E" "base32_ok E"
    and "valid_refs (rs_refs next)" "plain_refs E (rs_refs next)"
    and "\<And>i st. previous = Some (i, st) \<Longrightarrow> word_text i \<and> valid_refs (rs_refs st) \<and> plain_refs E (rs_refs st)"
    and "word_text so" "word_text to" "\<not> zero_text to"
  shows "commands_ok (transaction_commands E f P previous next so to)"
proof -
  define old where "old = (case previous of None \<Rightarrow> [] | Some (_, state) \<Rightarrow> rs_refs state)"
  have old: "valid_refs old" "plain_refs E old" "previous_refs previous = refs_map old"
    using assms(5) by (auto simp: old_def previous_refs_def valid_refs_def plain_refs_def split: option.splits)
  have entry: "line_word n \<and> line_word (object_id_hex E t)"
    if "(n, t) \<in> set (refs_map refs)" "valid_refs refs" "plain_refs E refs" for n t refs
    using that ref_targets_mem [of refs n t] valid_object_hex [OF assms(1)]
    by (auto simp: refs_map_entries plain_refs_def valid_refs_def)
  have target: "line_word (object_id_hex E x)" if "btree_get (refs_map old) n = Some x" for n x
    using that entry old refs_map_entries [OF old(1)] refs_map_get [OF old(1)] by metis
  let ?new = "refs_map (rs_refs next)"
  define names where "names =
    map fst (filter (\<lambda>(n, t). btree_get ?new n = None) (refs_map old)) @ map fst ?new"
  have "distinct names"
    using refs_map_keys [OF old(1)] refs_map_keys [OF assms(3)] unfolding names_def
    by (auto simp: distinct_map_filter btree_get_def map_of_eq_None_iff) (metis fst_conv image_eqI)
  moreover have "inj (namespace_ref E P)"
    by (simp add: inj_def ref_names_distinct [OF assms(1)])
  ultimately have "distinct (map (namespace_ref E P) names)"
    by (simp add: distinct_map inj_on_def)
  then have "distinct (map command_name (transaction_commands E f P previous next so to))"
    unfolding command_names old(3) names_def [symmetric]
    by auto (metis ref_names_distinct(3-5) [OF assms(1)])+
  moreover have "line_word w" if "c \<in> set (transaction_commands E f P previous next so to)"
    "w \<in> set (command_words c)" for c w
  proof -
    have kw: "line_word ''delete''" "line_word ''update''" "line_word ''create''"
      by (simp_all add: line_word_def)
    have prev: "line_word (case previous of None \<Rightarrow> zero_id f | Some (i, _) \<Rightarrow> i)"
      using assms(5) zero_id_text word_line_word by (auto split: option.splits)
    show ?thesis
      using that kw prev entry old assms(3,4,6,7) target zero_id_text word_line_word
        ref_names_line_word [OF assms(1,2)]
      unfolding transaction_commands_def old(3)
      by (auto split: option.splits)
  qed
  moreover have "Create n v \<in> set (transaction_commands E f P previous next so to) \<Longrightarrow> \<not> zero_text v" for n v
    using assms(8) by (auto simp: transaction_commands_def)
  ultimately show ?thesis by (auto simp: commands_ok_def)
qed

section \<open>Reading and writing\<close>

lemma git_run_cases:
  assumes "git_run host p args input d w = (r, w')"
  obtains run where "h_git host (git_run_call p args input d) (os w) = (run, os w')"
    and "\<And>out. r = Inr out \<longleftrightarrow> (\<exists>err. run = Git_Exit True out err)"
    and "\<And>op text. r = Inl (Git op text) \<Longrightarrow> \<exists>out err. run = Git_Exit False out err"
proof -
  obtain run s where *: "h_git host (git_run_call p args input d) (os w) = (run, s)"
    by (cases "h_git host (git_run_call p args input d) (os w)")
  then show thesis
    using assms by (intro that [of run]) (auto simp: git_run_def execute_git_def split: git_answer.splits if_splits)
qed

lemma git_run_Inr:
  "git_run host p args input d w = (Inr out, w') \<Longrightarrow>
     \<exists>err. h_git host (git_run_call p args input d) (os w) = (Git_Exit True out err, os w')"
  by (auto simp: git_run_def execute_git_def split: prod.splits git_answer.splits if_splits)

lemma trim_word_line: "word_text i \<Longrightarrow> trim (i @ [CHR 0x0A]) = i"
  by (simp add: word_text_def trim_line)

lemma utf8_word_line: "word_text i \<Longrightarrow> from_utf8 (str_bytes (i @ [CHR 0x0A])) = Some (i @ [CHR 0x0A])"
  by (rule from_utf8_ascii) (auto simp: word_text_def plain_char_def less_eq_char_def)

lemma parse_word_line: "word_text i \<Longrightarrow> parse_utf8 (str_bytes (i @ [CHR 0x0A])) op = Inr (i @ [CHR 0x0A])"
  by (simp add: parse_utf8_def utf8_word_line)

lemma resolve_ref_reads:
  assumes "git_ok host V (repo_path repo)" and "resolve_ref host repo r w = (Inr x, w')"
  shows "v_refs V (os w) (repo_path repo) r = x" and "keeps V (repo_path repo) w w'"
    and "\<And>i. x = Some i \<Longrightarrow> word_text i"
proof -
  show keeps: "keeps V (repo_path repo) w w'"
    using runs_inD [OF resolve_ref_keeps [OF assms(1)] assms(2)] .
  let ?run = "git_run host (repo_path repo) [''show-ref'', ''--verify'', ''--hash'', r] None None"
  obtain q t where q: "?run w = (q, t)" by (cases "?run w")
  obtain run where run: "h_git host (git_run_call (repo_path repo)
        [''show-ref'', ''--verify'', ''--hash'', r] None None) (os w) = (run, os t)"
    and ok: "\<And>out. q = Inr out \<longleftrightarrow> (\<exists>err. run = Git_Exit True out err)"
    and fail: "\<And>op text. q = Inl (Git op text) \<Longrightarrow> \<exists>out err. run = Git_Exit False out err"
    using git_run_cases [OF q] by metis
  note reads = assms(1) [unfolded git_ok_def git_reads_def, THEN conjunct1, THEN conjunct1, rule_format]
  have "v_refs V (os w) (repo_path repo) r = x \<and> (\<forall>i. x = Some i \<longrightarrow> word_text i)"
  proof (cases q)
    case (Inr out)
    then obtain err where "run = Git_Exit True out err" using ok by blast
    then obtain i where "v_refs V (os w) (repo_path repo) r = Some i" "word_text i"
      "out = str_bytes (i @ [CHR 0x0A])"
      using reads [of r "os w" True out err "os t"] run by auto
    then show ?thesis
      using assms(2) q Inr
      by (auto simp: resolve_ref_def unless_git_fails_def bindS_def catchS_def okS_def liftS_def
          parse_word_line trim_word_line)
  next
    case (Inl e)
    then obtain op msg where e: "e = Git op msg" "x = None"
      using assms(2) q
      by (auto simp: resolve_ref_def unless_git_fails_def bindS_def catchS_def okS_def failS_def
          split: store_error.splits)
    then obtain out err where "run = Git_Exit False out err" using fail Inl by blast
    then show ?thesis using reads [of r "os w" False out err "os t"] run e by auto
  qed
  then show "v_refs V (os w) (repo_path repo) r = x" "\<And>i. x = Some i \<Longrightarrow> word_text i" by blast+
qed

lemma publisher_state_reads:
  assumes "git_ok host V (repo_path repo)"
    and "publisher_state_with_object E host repo P w = (Inr x, w')"
  shows "stored E V (repo_path repo) (os w') P = x" and "keeps V (repo_path repo) w w'"
    and "\<And>i st. x = Some (i, st) \<Longrightarrow> rs_repository st = repo_id repo \<and> rs_publisher st = P"
proof -
  let ?p = "repo_path repo"
  show keeps: "keeps V ?p w w'"
    using runs_inD [OF publisher_state_with_object_keeps [OF assms(1)] assms(2)] .
  obtain y w1 where y: "resolve_ref host repo (state_ref E P) w = (Inr y, w1)"
    and rest: "(case y of
       None \<Rightarrow> okS None
     | Some object \<Rightarrow>
         bindS (git_run host ?p [''cat-file'', ''blob'', object] None None) (\<lambda>bs.
         bindS (core_step (from_canonical_bytes (ref_state_codec E) bs)) (\<lambda>state.
         if rs_repository state \<noteq> repo_id repo \<or> rs_publisher state \<noteq> P
         then failS InvalidPublisherState
         else okS (Some (object, state))))) w1 = (Inr x, w')"
    using assms(2) unfolding publisher_state_with_object_def bindS_Inr_iff by blast
  have ref: "v_refs V (os w') ?p (state_ref E P) = y"
    using resolve_ref_reads(1) [OF assms(1) y] keeps_refs [OF keeps] by simp
  have "stored E V ?p (os w') P = x \<and>
      (\<forall>i st. x = Some (i, st) \<longrightarrow> rs_repository st = repo_id repo \<and> rs_publisher st = P)"
  proof (cases y)
    case None
    then show ?thesis using rest ref by (simp add: okS_iff stored_def)
  next
    case (Some i)
    then obtain bs w2 st where cat: "git_run host ?p [''cat-file'', ''blob'', i] None None w1 = (Inr bs, w2)"
      and st: "from_canonical_bytes (ref_state_codec E) bs = Inr st" "w' = w2"
      "rs_repository st = repo_id repo" "rs_publisher st = P" "x = Some (i, st)"
      using rest by (auto simp: bindS_Inr_iff core_step_def liftS_iff okS_iff failS_iff
          map_err_Inr_iff split: if_splits dest!: sym [of "Inr _"])
    obtain err where "h_git host (git_run_call ?p [''cat-file'', ''blob'', i] None None) (os w1)
        = (Git_Exit True bs err, os w2)"
      using git_run_Inr [OF cat] by blast
    then have "v_blobs V (os w1) ?p i = Some bs"
      using assms(1) by (simp add: git_ok_def git_reads_def)
    moreover have "keeps V ?p w1 w2"
      using runs_inD [OF git_run_keeps [OF assms(1)] cat] by simp
    ultimately have "v_blobs V (os w2) ?p i = Some bs" by (simp add: keeps_def keeps_os_def)
    then show ?thesis using ref Some st by (simp add: stored_def)
  qed
  then show "stored E V ?p (os w') P = x"
    "\<And>i st. x = Some (i, st) \<Longrightarrow> rs_repository st = repo_id repo \<and> rs_publisher st = P" by blast+
qed

lemma write_blob_writes:
  assumes "git_ok host V (repo_path repo)" and "write_blob host repo bs w = (Inr i, w')"
  shows "word_text i" "\<not> zero_text i" "v_blobs V (os w') (repo_path repo) i = Some bs"
    and "keeps V (repo_path repo) w w'"
proof -
  let ?args = "[''hash-object'', ''-w'', ''--stdin'', ''-t'', ''blob'']"
  show "keeps V (repo_path repo) w w'"
    using runs_inD [OF write_blob_keeps [OF assms(1)] assms(2)] .
  obtain out w1 where run: "git_run host (repo_path repo) ?args (Some bs) None w = (Inr out, w1)"
    and rest: "map_ok trim (parse_utf8 out ''hash-object'') = Inr i" "w' = w1"
    using assms(2) by (auto simp: write_blob_def bindS_Inr_iff liftS_iff)
  obtain err where "h_git host (git_run_call (repo_path repo) ?args (Some bs) None) (os w)
      = (Git_Exit True out err, os w1)"
    using git_run_Inr [OF run] by blast
  then obtain j where j: "word_text j" "\<not> zero_text j" "out = str_bytes (j @ [CHR 0x0A])"
    "v_blobs V (os w1) (repo_path repo) j = Some bs"
    using assms(1) unfolding git_ok_def git_writes_def by blast
  moreover from j have "i = j" using rest(1) by (simp add: parse_word_line trim_word_line)
  ultimately show "word_text i" "\<not> zero_text i" "v_blobs V (os w') (repo_path repo) i = Some bs"
    using rest(2) by simp_all
qed

lemma verify_each_target_nonzero:
  "git_ok host V (repo_path (q_repository q)) \<Longrightarrow>
     verify_each_target E host q roots targets w = (Inr out, w') \<Longrightarrow>
     \<forall>t \<in> set targets. \<not> zero_text (object_id_hex E t)"
proof (induction targets arbitrary: roots w)
  case (Cons t targets)
  let ?args = "[''cat-file'', ''-e'', object_id_hex E t @ ''^{object}'']"
  obtain bs w1 w2 where
    run: "git_run host (repo_path (q_repository q)) ?args None (Some (q_objects q)) w1 = (Inr bs, w2)"
    and rest: "verify_each_target E host q (roots @ object_id_hex E t @ [CHR 0x0A]) targets w2 = (Inr out, w')"
    using Cons.prems(2) by (auto simp: bindS_Inr_iff failS_iff split: if_splits)
  obtain err where "h_git host (git_run_call (repo_path (q_repository q)) ?args None (Some (q_objects q)))
      (os w1) = (Git_Exit True bs err, os w2)"
    using git_run_Inr [OF run] by blast
  then have "\<not> zero_text (object_id_hex E t)"
    using Cons.prems(1) unfolding git_ok_def git_reads_def by blast
  then show ?case using Cons.IH [OF Cons.prems(1) rest] by simp
qed simp

lemma verify_targets_nonzero:
  assumes "git_ok host V (repo_path (q_repository q))" "verify_targets E host q targets w = (Inr out, w')"
  shows "\<forall>t \<in> set targets. \<not> zero_text (object_id_hex E t)"
proof -
  obtain roots w1 where "verify_each_target E host q [] targets w = (Inr roots, w1)"
    using assms(2) unfolding verify_targets_def Let_def bindS_Inr_iff by blast
  then show ?thesis by (rule verify_each_target_nonzero [OF assms(1)])
qed

section \<open>The step a commit makes\<close>

lemma transaction_effect:
  assumes "hex_ok E" and ok: "commands_ok (transaction_commands E f P previous next so to)"
    and new: "valid_refs (rs_refs next)" "plain_refs E (rs_refs next)"
    and old: "valid_refs (case previous of None \<Rightarrow> [] | Some (_, st) \<Rightarrow> rs_refs st)"
    and mirror: "\<And>n. refs (namespace_ref E P n) = map_option (object_id_hex E)
        (ref_targets (case previous of None \<Rightarrow> [] | Some (_, st) \<Rightarrow> rs_refs st) n)"
    and "\<not> zero_text so"
    and after: "refs' = fold command_effect (transaction_commands E f P previous next so to) refs"
  shows "refs' (namespace_ref E P n) = map_option (object_id_hex E) (ref_targets (rs_refs next) n)"
    and "refs' (state_ref E P) = Some so"
    and "(\<forall>m. r \<noteq> namespace_ref E P m) \<Longrightarrow> r \<noteq> state_ref E P \<Longrightarrow> r \<noteq> transition_ref E P next \<Longrightarrow> refs' r = refs r"
proof -
  let ?cs = "transaction_commands E f P previous next so to"
  define before where "before = (case previous of None \<Rightarrow> [] | Some (_, st) \<Rightarrow> rs_refs st)"
  have prev: "previous_refs previous = refs_map before"
    by (simp add: previous_refs_def before_def split: option.splits prod.splits)
  have val: "refs' (command_name c) = command_value c" if "c \<in> set ?cs" for c
    using that ok unfolding after commands_ok_def by (intro fold_effect_mem) auto
  have other: "refs' x = refs x" if "x \<notin> command_name ` set ?cs" for x
    using that unfolding after by (rule fold_effect_other)
  have names: "command_name ` set ?cs =
      namespace_ref E P ` (fst ` set (filter (\<lambda>(n, t). btree_get (refs_map (rs_refs next)) n = None) (refs_map before))
        \<union> fst ` set (refs_map (rs_refs next))) \<union> {state_ref E P, transition_ref E P next}"
    using arg_cong [OF command_names [of E f P previous "next" so to], of set]
    by (simp add: prev image_Un Un_assoc image_image)
  note entries = refs_map_entries [OF new(1)] refs_map_entries [OF old [folded before_def]]
    refs_map_get [OF new(1)]
  show "refs' (namespace_ref E P n) = map_option (object_id_hex E) (ref_targets (rs_refs next) n)"
  proof (cases "ref_targets (rs_refs next) n")
    case (Some t)
    define c where "c = Update (namespace_ref E P n) (object_id_hex E t)
      (case btree_get (previous_refs previous) n of None \<Rightarrow> zero_id f | Some x \<Rightarrow> object_id_hex E x)"
    have "c \<in> set ?cs"
      using Some by (force simp: transaction_commands_def entries c_def)
    moreover have "\<not> zero_text (object_id_hex E t)"
      using ref_targets_mem [OF Some] new(2) by (auto simp: plain_refs_def)
    ultimately show ?thesis using val [of c] Some by (simp add: c_def)
  next
    case None
    show ?thesis
    proof (cases "ref_targets before n")
      case old: (Some t)
      have "Delete (namespace_ref E P n) (object_id_hex E t) \<in> set ?cs"
        using old None by (force simp: transaction_commands_def entries prev)
      from val [OF this] show ?thesis using None by simp
    next
      case gone: None
      have "namespace_ref E P n \<notin> command_name ` set ?cs"
        using gone None unfolding names
        by (auto simp: entries ref_names_distinct [OF assms(1)])
      from other [OF this] show ?thesis using mirror [of n] gone None by (simp flip: before_def)
    qed
  qed
  have "Update (state_ref E P) so (case previous of None \<Rightarrow> zero_id f | Some (i, _) \<Rightarrow> i) \<in> set ?cs"
    by (simp add: transaction_commands_def)
  from val [OF this] show "refs' (state_ref E P) = Some so" using assms(7) by simp
  show "refs' r = refs r" if "\<forall>m. r \<noteq> namespace_ref E P m" "r \<noteq> state_ref E P" "r \<noteq> transition_ref E P next"
    using that by (intro other) (auto simp: names)
qed

text \<open>
  From one state of the host to another, the selected publisher has published the transition: it
  verified against the stored state, the resulting state is stored and mirrored in the publisher's
  namespace, and no other reference changed.
\<close>

definition publishes ::
  "('z) refs_env_scheme \<Rightarrow> 's views \<Rightarrow> repository \<Rightarrow> ref_transition \<Rightarrow> signer_binding \<Rightarrow> signer_selection
     \<Rightarrow> ref_state \<Rightarrow> 's \<Rightarrow> 's \<Rightarrow> bool" where
  "publishes E V repo t binding selected next s s' \<longleftrightarrow>
     (let p = repo_path repo; P = sel_identity selected in
      ref_transition_verify E t (repo_id repo) binding selected (map_option snd (stored E V p s P)) = Inr next \<and>
      (\<exists>i. stored E V p s' P = Some (i, next)) \<and>
      publisher_consistent E V repo s' P \<and>
      (\<forall>r. (\<forall>m. r \<noteq> namespace_ref E P m) \<and> r \<noteq> state_ref E P \<and> r \<noteq> transition_ref E P next \<longrightarrow>
           v_refs V s' p r = v_refs V s p r) \<and>
      (\<forall>i b. v_blobs V s p i = Some b \<longrightarrow> v_blobs V s' p i = Some b))"

lemma publishes_others:
  assumes "hex_ok E" "publishes E V repo t binding selected next s s'" "Q \<noteq> sel_identity selected"
  shows "same_publisher E V (repo_path repo) Q s s'"
  using assms(2,3) ref_names_distinct [OF assms(1)]
  unfolding publishes_def same_publisher_def Let_def by (intro conjI) metis+

lemma publishes_consistent:
  assumes "hex_ok E" "publishes E V repo t binding selected next s s'" "store_consistent E V repo s"
  shows "store_consistent E V repo s'"
  unfolding store_consistent_def
proof
  fix Q
  show "publisher_consistent E V repo s' Q"
  proof (cases "Q = sel_identity selected")
    case True
    then show ?thesis using assms(2) by (simp add: publishes_def Let_def)
  next
    case False
    then show ?thesis
      using consistent_same [OF publishes_others [OF assms(1,2)]] assms(3) by (simp add: store_consistent_def)
  qed
qed

lemma update_publishes:
  assumes "hex_ok E" "base32_ok E" "refs_codecs_ok E" and git: "git_ok host V (repo_path repo)"
    and w: "publisher_consistent E V repo (os w) (sel_identity selected)"
    and prev: "stored E V (repo_path repo) (os w) (sel_identity selected) = previous"
    and verified: "ref_transition_verify E t (repo_id repo) binding selected (map_option snd previous) = Inr next"
    and plain: "plain_refs E (rs_refs next)"
    and state: "canonical_bytes (ref_state_codec E) next = Inr bs" "word_text so" "\<not> zero_text so"
      "v_blobs V (os w) (repo_path repo) so = Some bs"
    and transition: "word_text to" "\<not> zero_text to"
    and run: "update_publisher_refs E host repo (sel_identity selected) previous next so to w = (r, w')"
  shows "publishes E V repo t binding selected next (os w) (os w') \<or>
    keeps V (repo_path repo) w w' \<and> r \<noteq> Inr ()"
proof -
  let ?P = "sel_identity selected" and ?p = "repo_path repo"
  let ?cs = "transaction_commands E (repo_format repo) ?P previous next so to"
  let ?old = "case previous of None \<Rightarrow> [] | Some (_, st) \<Rightarrow> rs_refs st"
  note facts = ref_transition_verify_facts [OF verified]
  have old: "valid_refs ?old" "\<And>i st. previous = Some (i, st) \<Longrightarrow> word_text i \<and> valid_refs (rs_refs st) \<and> plain_refs E (rs_refs st)"
    and mirror: "mirrors E V ?p (os w) ?P ?old"
    using w prev by (auto simp: publisher_consistent_def Let_def valid_refs_def stored_def split: option.splits sum.splits)
  have ok: "commands_ok ?cs"
    using assms(1,2) state(2) transition facts(4) plain old(2) by (intro transaction_commands_ok)
  obtain q where q: "git_run host ?p [''update-ref'', ''--stdin'']
      (Some (str_bytes (transaction_text ?cs))) None w = (q, w')" "r = map_ok (\<lambda>_. ()) q"
    using run by (cases r) (auto simp: update_publisher_refs_def bindS_Inr_iff bindS_Inl_iff okS_iff
        update_transaction_commands)
  obtain run where run: "h_git host (git_run_call ?p [''update-ref'', ''--stdin'']
      (Some (str_bytes (transaction_text ?cs))) None) (os w) = (run, os w')"
    and success: "\<And>out. q = Inr out \<longleftrightarrow> (\<exists>err. run = Git_Exit True out err)"
    using git_run_cases [OF q(1)] by metis
  have blobs: "\<forall>i b. v_blobs V (os w) ?p i = Some b \<longrightarrow> v_blobs V (os w') ?p i = Some b"
    and alt: "(\<forall>c \<in> set ?cs. command_holds (v_refs V (os w) ?p) c) \<and>
        v_refs V (os w') ?p = fold command_effect ?cs (v_refs V (os w) ?p) \<or>
      v_refs V (os w') ?p = v_refs V (os w) ?p \<and> (\<forall>out err. run \<noteq> Git_Exit True out err)"
    using git [unfolded git_ok_def git_writes_def, THEN conjunct2, THEN conjunct1, THEN conjunct2,
        rule_format, OF ok run] by blast+
  from alt show ?thesis
  proof
    assume "(\<forall>c \<in> set ?cs. command_holds (v_refs V (os w) ?p) c) \<and>
        v_refs V (os w') ?p = fold command_effect ?cs (v_refs V (os w) ?p)"
    then have after: "v_refs V (os w') ?p = fold command_effect ?cs (v_refs V (os w) ?p)" by blast
    note effect = transaction_effect [OF assms(1) ok facts(4) plain old(1) _ state(3) after]
    have mirror': "mirrors E V ?p (os w') ?P (rs_refs next)"
      using effect(1) mirror by (simp add: mirrors_def)
    have ref: "v_refs V (os w') ?p (state_ref E ?P) = Some so"
      using effect(2) mirror by (simp add: mirrors_def)
    have "from_canonical_bytes (ref_state_codec E) bs = Inr next"
      using assms(3) state(1) by (simp add: refs_codecs_ok_def canonical_bytes_iff)
    then have stored: "stored E V ?p (os w') ?P = Some (so, next)"
      using ref blobs state(4) by (simp add: stored_def)
    have "publisher_consistent E V repo (os w') ?P"
      using ref stored state(2,3) facts(1,2,4) plain mirror' by (simp add: publisher_consistent_def)
    moreover have "v_refs V (os w') ?p x = v_refs V (os w) ?p x"
      if "\<forall>m. x \<noteq> namespace_ref E ?P m" "x \<noteq> state_ref E ?P" "x \<noteq> transition_ref E ?P next" for x
      using effect(3) [of x] mirror that by (simp add: mirrors_def)
    ultimately show ?thesis
      using verified prev stored blobs by (simp add: publishes_def Let_def)
  next
    assume "v_refs V (os w') ?p = v_refs V (os w) ?p \<and> (\<forall>out err. run \<noteq> Git_Exit True out err)"
    then show ?thesis
      using blobs q(2) success by (auto simp: keeps_def keeps_os_def map_ok_Inr_iff)
  qed
qed

text \<open>A step that keeps the references either ends the run, or the rest of the run follows it.\<close>

lemma bindS_keepsE:
  assumes "bindS m f w = (r, w')" "runs_in (keeps V p) m"
  obtains (stop) e where "m w = (Inl e, w')" "r = Inl e" "keeps V p w w'"
    | (continue) x w1 where "m w = (Inr x, w1)" "f x w1 = (r, w')" "keeps V p w w1"
proof -
  obtain q w1 where q: "m w = (q, w1)" by (cases "m w")
  then have "keeps V p w w1" using runs_inD [OF assms(2)] by blast
  then show thesis
    using assms(1) q stop continue by (cases q) (auto simp: bindS_def)
qed

text \<open>What a run of \<open>commit\<close> may do to the host, and with which answer.\<close>

definition commit_effect ::
  "('z) refs_env_scheme \<Rightarrow> 's views \<Rightarrow> repository \<Rightarrow> ref_transition \<Rightarrow> signer_binding \<Rightarrow> signer_selection
     \<Rightarrow> 's world \<Rightarrow> (store_error, commit_outcome) result \<Rightarrow> 's world \<Rightarrow> bool" where
  "commit_effect E V repo t binding selected w r w' \<longleftrightarrow>
     keeps V (repo_path repo) w w' \<and> (\<forall>st. r \<noteq> Inr (Applied st)) \<or>
     (\<exists>next. publishes E V repo t binding selected next (os w) (os w') \<and> (\<forall>st. r = Inr (Applied st) \<longrightarrow> st = next))"

lemma publishes_before:
  assumes "keeps V (repo_path repo) w w1" "publishes E V repo t binding selected next (os w1) s"
    and "publisher_consistent E V repo (os w) (sel_identity selected)"
  shows "publishes E V repo t binding selected next (os w) s"
  using assms(2) stored_same [OF keeps_same_publisher [OF assms(1)] assms(3)] keeps_refs [OF assms(1)] assms(1)
  by (simp add: publishes_def Let_def keeps_def keeps_os_def)

lemma publishes_after:
  assumes "publishes E V repo t binding selected next s (os w1)" "keeps V (repo_path repo) w1 w'"
  shows "publishes E V repo t binding selected next s (os w')"
proof -
  have "publisher_consistent E V repo (os w1) (sel_identity selected)"
    using assms(1) by (simp add: publishes_def Let_def)
  note this = consistent_same [OF keeps_same_publisher [OF assms(2)] this]
    stored_same [OF keeps_same_publisher [OF assms(2)] this]
  then show ?thesis
    using assms(1) keeps_refs [OF assms(2)] assms(2)
    by (simp add: publishes_def Let_def keeps_def keeps_os_def)
qed

lemma commit_effect_before:
  assumes "keeps V (repo_path repo) w w1" "commit_effect E V repo t binding selected w1 r w'"
    and "publisher_consistent E V repo (os w) (sel_identity selected)"
  shows "commit_effect E V repo t binding selected w r w'"
  using assms publishes_before kept.trans unfolding commit_effect_def by metis

lemma commit_effect_stop: "keeps V (repo_path repo) w w' \<Longrightarrow> commit_effect E V repo t binding selected w (Inl e) w'"
  by (simp add: commit_effect_def)

lemma update_or_reread_effect:
  assumes env: "hex_ok E" "base32_ok E" "refs_codecs_ok E" and git: "git_ok host V (repo_path repo)"
    and w: "publisher_consistent E V repo (os w) (sel_identity selected)"
    and prev: "stored E V (repo_path repo) (os w) (sel_identity selected) = previous"
    and verified: "ref_transition_verify E t (repo_id repo) binding selected (map_option snd previous) = Inr next"
    and plain: "plain_refs E (rs_refs next)"
    and state: "canonical_bytes (ref_state_codec E) next = Inr bs" "word_text so" "\<not> zero_text so"
      "v_blobs V (os w) (repo_path repo) so = Some bs"
    and transition: "word_text to" "\<not> zero_text to"
    and run: "update_or_reread E host repo selected tid previous next so to w = (r, w')"
  shows "commit_effect E V repo t binding selected w r w'"
proof -
  obtain q w1 where q: "update_publisher_refs E host repo (sel_identity selected) previous next so to w = (q, w1)"
    and rest: "(case q of
         Inr _ \<Rightarrow> okS (Applied next)
       | Inl e \<Rightarrow>
           bindS (publisher_state E host repo (sel_identity selected)) (\<lambda>current.
           case current of
             Some state \<Rightarrow> if rs_transition state = tid then okS (AlreadyPresent state) else failS e
           | None \<Rightarrow> failS e)) w1 = (r, w')"
    using run unfolding update_or_reread_def catchS_iff by blast
  note step = update_publishes [OF env git w prev verified plain state transition q]
  show ?thesis
  proof (cases q)
    case (Inr u)
    then show ?thesis using step rest by (auto simp: okS_iff commit_effect_def)
  next
    case (Inl e)
    have "runs_in (keeps V (repo_path repo)) (bindS (publisher_state E host repo (sel_identity selected)) (\<lambda>current.
           case current of
             Some state \<Rightarrow> if rs_transition state = tid then okS (AlreadyPresent state) else failS e
           | None \<Rightarrow> failS e))"
      using git by (intro runs)
    then have after: "keeps V (repo_path repo) w1 w'"
      using rest Inl by (auto dest: runs_inD)
    have "\<forall>st. r \<noteq> Inr (Applied st)"
      using rest Inl by (auto simp: bindS_Inr_iff okS_iff failS_iff split: option.splits if_splits)
    then show ?thesis
      using step publishes_after [OF _ after] kept.trans [OF _ after] unfolding commit_effect_def by blast
  qed
qed

text \<open>A step that keeps the references, followed by the rest of a run.\<close>

lemma effect_bind:
  assumes "bindS m f w = (r, w')" "runs_in (keeps V (repo_path repo)) m"
    and "publisher_consistent E V repo (os w) (sel_identity selected)"
    and "\<And>x w1. m w = (Inr x, w1) \<Longrightarrow> keeps V (repo_path repo) w w1 \<Longrightarrow> f x w1 = (r, w') \<Longrightarrow>
      publisher_consistent E V repo (os w1) (sel_identity selected) \<Longrightarrow>
      commit_effect E V repo t binding selected w1 r w'"
  shows "commit_effect E V repo t binding selected w r w'"
  using assms(1,2)
proof (cases rule: bindS_keepsE)
  case (stop e)
  then show ?thesis by (simp add: commit_effect_stop)
next
  case (continue x w1)
  have "publisher_consistent E V repo (os w1) (sel_identity selected)"
    using consistent_same [OF keeps_same_publisher [OF continue(3)] assms(3)] .
  from assms(4) [OF continue(1,3,2) this]
  show ?thesis using commit_effect_before [OF continue(3) _ assms(3)] by blast
qed

lemma core_step_Inr: "core_step x w = (Inr y, w') \<Longrightarrow> x = Inr y"
  by (auto simp: core_step_def liftS_iff map_err_Inr_iff dest: sym)

text \<open>Writing the state and the transition, and updating the references.\<close>

lemma write_and_update_effect:
  assumes env: "hex_ok E" "base32_ok E" "refs_codecs_ok E" and git: "git_ok host V (repo_path repo)"
    and w: "publisher_consistent E V repo (os w) (sel_identity selected)"
    and prev: "stored E V (repo_path repo) (os w) (sel_identity selected) = previous"
    and verified: "ref_transition_verify E t (repo_id repo) binding selected (map_option snd previous) = Inr next"
    and plain: "plain_refs E (rs_refs next)"
    and run: "write_and_update E host repo t selected tid previous next w = (r, w')"
  shows "commit_effect E V repo t binding selected w r w'"
proof (rule effect_bind [OF run [unfolded write_and_update_def] core_step_keeps w],
    rule effect_bind [OF _ write_blob_keeps [OF git]], assumption+,
    rule effect_bind [OF _ core_step_keeps], assumption+,
    rule effect_bind [OF _ write_blob_keeps [OF git]], assumption+)
  fix bs w1 so w2 tbs w3 to w4
  assume bs: "core_step (canonical_bytes (ref_state_codec E) next) w = (Inr bs, w1)"
    and so: "write_blob host repo bs w1 = (Inr so, w2)"
    and to: "write_blob host repo tbs w3 = (Inr to, w4)"
    and k: "keeps V (repo_path repo) w w1" "keeps V (repo_path repo) w1 w2"
      "keeps V (repo_path repo) w2 w3" "keeps V (repo_path repo) w3 w4"
    and c4: "publisher_consistent E V repo (os w4) (sel_identity selected)"
    and r4: "update_or_reread E host repo selected tid previous next so to w4 = (r, w')"
  have k24: "keeps V (repo_path repo) w2 w4" by (rule kept.trans [OF k(3,4)])
  have "keeps V (repo_path repo) w w4" by (rule kept.trans [OF kept.trans [OF k(1,2)] k24])
  then have prev4: "stored E V (repo_path repo) (os w4) (sel_identity selected) = previous"
    using stored_same [OF keeps_same_publisher w] prev by blast
  have "v_blobs V (os w4) (repo_path repo) so = Some bs"
    using write_blob_writes(3) [OF git so] k24 by (simp add: keeps_def keeps_os_def)
  then show "commit_effect E V repo t binding selected w4 r w'"
    by (rule update_or_reread_effect [OF env git c4 prev4 verified plain core_step_Inr [OF bs]
          write_blob_writes(1,2) [OF git so] _ write_blob_writes(1,2) [OF git to] r4])
qed

text \<open>
  Names that the lines of the transaction can carry. Verification does not ensure it: a name with
  a line break passes \<open>validate_refs\<close>, and its line in the transaction is cut in two.
\<close>

definition plain_names :: "ref_transition \<Rightarrow> bool" where
  "plain_names t \<longleftrightarrow> (\<forall>r \<in> set (rtp_refs (rtr_payload t)). line_word (rt_name r))"

lemma line_break_name_accepted:
  fixes name defines "name \<equiv> ''refs/a'' @ [CHR 0x0A] @ ''b''"
  assumes "object_validate x = Inr ()"
  shows "validate_refs [\<lparr>rt_name = name, rt_target = x\<rparr>] = Inr () \<and> \<not> line_word name \<and>
    update_lines E f P [] [(name, x)] =
      ''update '' @ namespace_ref E P ''refs/a'' @ [CHR 0x0A] @ ''b '' @ object_id_hex E x @ '' '' @ zero_id f @ [CHR 0x0A]"
  using assms(2)
  by (simp add: validate_refs_def validate_ref_def name_def line_word_def starts_with_def contains_any_def
      ref_specials_def update_lines_def namespace_ref_def btree_get_def)

text \<open>Every run of \<open>commit\<close> has one of the allowed effects.\<close>

lemma commit_next_effect:
  assumes env: "hex_ok E" "base32_ok E" "refs_codecs_ok E" and git: "git_ok host V (repo_path repo)"
    and path: "repo_path (q_repository q) = repo_path repo"
    and names: "plain_names t"
    and w: "publisher_consistent E V repo (os w) (sel_identity selected)"
    and prev: "stored E V (repo_path repo) (os w) (sel_identity selected) = previous"
    and run: "commit_next E host repo q t binding selected tid previous w = (r, w')"
  shows "commit_effect E V repo t binding selected w r w'"
proof (rule effect_bind [OF run [unfolded commit_next_def] core_step_keeps w],
    rule effect_bind [OF _ verify_targets_keeps [where q = q and V = V and host = host, unfolded path, OF git]],
    assumption+)
  fix "next" w1 u w2
  assume verified: "core_step (ref_transition_verify E t (repo_id repo) binding selected
      (map_option snd previous)) w = (Inr next, w1)"
    and targets: "verify_targets E host q (map rt_target (rs_refs next)) w1 = (Inr u, w2)"
    and k: "keeps V (repo_path repo) w w1" "keeps V (repo_path repo) w1 w2"
    and c2: "publisher_consistent E V repo (os w2) (sel_identity selected)"
    and r2: "bindS (promote_objects host (q_objects q) (repo_path repo @ [''objects''])) (\<lambda>_.
      write_and_update E host repo t selected tid previous next) w2 = (r, w')"
  note v = core_step_Inr [OF verified]
  have plain: "plain_refs E (rs_refs next)"
    using verify_targets_nonzero [where q = q and V = V and host = host, unfolded path, OF git targets]
      names ref_transition_verify_facts(3) [OF v]
    by (auto simp: plain_refs_def plain_names_def)
  have promote: "runs_in (keeps V (repo_path repo)) (promote_objects host (q_objects q) (repo_path repo @ [''objects'']))"
    using promote_keeps(1) [OF _ git] by (simp add: runs_in_def)
  show "commit_effect E V repo t binding selected w2 r w'"
  proof (rule effect_bind [OF r2 promote c2])
    fix u w3
    assume k3: "keeps V (repo_path repo) w2 w3"
      and c3: "publisher_consistent E V repo (os w3) (sel_identity selected)"
      and r3: "write_and_update E host repo t selected tid previous next w3 = (r, w')"
    have "keeps V (repo_path repo) w w3" by (rule kept.trans [OF kept.trans [OF k] k3])
    then have "stored E V (repo_path repo) (os w3) (sel_identity selected) = previous"
      using stored_same [OF keeps_same_publisher w] prev by blast
    then show "commit_effect E V repo t binding selected w3 r w'"
      by (rule write_and_update_effect [OF env git c3 _ v plain r3])
  qed
qed

lemma commit_has_effect:
  assumes env: "hex_ok E" "base32_ok E" "refs_codecs_ok E" and git: "git_ok host V (repo_path repo)"
    and names: "plain_names t"
    and w: "publisher_consistent E V repo (os w) (sel_identity selected)"
    and run: "commit E host repo q t binding selected w = (r, w')"
  shows "commit_effect E V repo t binding selected w r w'"
proof (cases "repo_path (q_repository q) = repo_path repo")
  case False
  then show ?thesis
    using run by (simp add: commit_def failS_iff commit_effect_stop kept.refl)
next
  case path: True
  let ?rest = "\<lambda>tid previous. case previous of
        Some (_, state) \<Rightarrow>
          if rs_transition state = tid then okS (AlreadyPresent state)
          else commit_next E host repo q t binding selected tid previous
      | None \<Rightarrow> commit_next E host repo q t binding selected tid previous"
  have run': "bindS (core_step (binding_verify_selected E binding selected)) (\<lambda>_.
      bindS (core_step (transition_id E t)) (\<lambda>tid.
      bindS (publisher_state_with_object E host repo (sel_identity selected)) (?rest tid))) w = (r, w')"
    using run path by (simp add: commit_def)
  show ?thesis
  proof (rule effect_bind [OF run' core_step_keeps w], rule effect_bind [OF _ core_step_keeps], assumption+,
      rule effect_bind [OF _ publisher_state_with_object_keeps [OF git]], assumption+)
    fix tid w2 previous w3
    assume read: "publisher_state_with_object E host repo (sel_identity selected) w2 = (Inr previous, w3)"
      and c3: "publisher_consistent E V repo (os w3) (sel_identity selected)"
      and r3: "?rest tid previous w3 = (r, w')"
    note prev = publisher_state_reads(1) [OF git read]
    note go = commit_next_effect [OF env git path names c3 prev, where tid = tid]
    show "commit_effect E V repo t binding selected w3 r w'"
      using r3 go
      by (auto split: option.splits prod.splits if_splits simp: okS_iff commit_effect_def kept.refl)
  qed
qed

section \<open>Properties\<close>

lemma commit_effect_history:
  assumes "hex_ok E" "store_consistent E V repo (os w)" "commit_effect E V repo t binding selected w r w'"
  shows "store_consistent E V repo (os w')"
    and "ref_history E (repo_id repo) (map_option snd (stored E V (repo_path repo) (os w) P))
           (map_option snd (stored E V (repo_path repo) (os w') P))"
    and "P \<noteq> sel_identity selected \<Longrightarrow> same_publisher E V (repo_path repo) P (os w) (os w')"
proof -
  have cons: "publisher_consistent E V repo (os w) Q" for Q
    using assms(2) by (simp add: store_consistent_def)
  consider (kept) "keeps V (repo_path repo) w w'"
    | (published) "next" where "publishes E V repo t binding selected next (os w) (os w')"
    using assms(3) unfolding commit_effect_def by blast
  then have "store_consistent E V repo (os w') \<and>
    ref_history E (repo_id repo) (map_option snd (stored E V (repo_path repo) (os w) P))
           (map_option snd (stored E V (repo_path repo) (os w') P)) \<and>
    (P \<noteq> sel_identity selected \<longrightarrow> same_publisher E V (repo_path repo) P (os w) (os w'))"
  proof cases
    case kept
    then show ?thesis
      using consistent_same [OF keeps_same_publisher [OF kept] cons] cons
        stored_same [OF keeps_same_publisher [OF kept] cons]
      by (simp add: store_consistent_def ref_history.here keeps_same_publisher)
  next
    case published
    show ?thesis
    proof (cases "P = sel_identity selected")
      case True
      have "ref_history E (repo_id repo) (map_option snd (stored E V (repo_path repo) (os w) P)) (Some next)"
        using published True
        by (intro ref_history.there [OF ref_history.here]) (auto simp: publishes_def Let_def)
      then show ?thesis
        using published True publishes_consistent [OF assms(1) published assms(2)]
        by (auto simp: publishes_def Let_def)
    next
      case False
      from publishes_others [OF assms(1) published False] show ?thesis
        using stored_same [OF _ cons] publishes_consistent [OF assms(1) published assms(2)]
        by (simp add: ref_history.here)
    qed
  qed
  then show "store_consistent E V repo (os w')"
    "ref_history E (repo_id repo) (map_option snd (stored E V (repo_path repo) (os w) P))
           (map_option snd (stored E V (repo_path repo) (os w') P))"
    "P \<noteq> sel_identity selected \<Longrightarrow> same_publisher E V (repo_path repo) P (os w) (os w')"
    by blast+
qed



lemma commit_applied:
  assumes "hex_ok E" "base32_ok E" "refs_codecs_ok E" "git_ok host V (repo_path repo)" "plain_names t"
    and "publisher_consistent E V repo (os w) (sel_identity selected)"
    and "commit E host repo q t binding selected w = (Inr (Applied s), w')"
  shows "publishes E V repo t binding selected s (os w) (os w')"
  using commit_has_effect [OF assms] by (auto simp: commit_effect_def)

lemma publisher_state_Inr:
  assumes "git_ok host V (repo_path repo)" "publisher_consistent E V repo (os w) P"
    and "publisher_state E host repo P w = (Inr x, w')"
  shows "x = map_option snd (stored E V (repo_path repo) (os w) P)"
proof -
  obtain y where y: "publisher_state_with_object E host repo P w = (Inr y, w')" "x = map_option snd y"
    using assms(3) unfolding publisher_state_def bindS_Inr_iff okS_iff by auto
  then show ?thesis
    using publisher_state_reads(1,2) [OF assms(1) y(1)] stored_same [OF keeps_same_publisher assms(2)]
    by simp
qed

lemma commit_InrE:
  assumes "commit E host repo q t binding selected w = (Inr c, w')"
  obtains tid previous w1 where "transition_id E t = Inr tid"
    and "publisher_state_with_object E host repo (sel_identity selected) w = (Inr previous, w1)"
    and "(case previous of
        Some (_, state) \<Rightarrow>
          if rs_transition state = tid then okS (AlreadyPresent state)
          else commit_next E host repo q t binding selected tid previous
      | None \<Rightarrow> commit_next E host repo q t binding selected tid previous) w1 = (Inr c, w')"
  using assms
  by (auto simp: commit_def failS_iff bindS_Inr_iff core_step_def liftS_iff map_err_Inr_iff
      dest!: sym [of "Inr _"] split: if_splits)


end
