(* ===== verification/Replication.thy ===== *)
theory Replication
  imports Protocol Commit
begin

text \<open>
  Replication of a publisher's state by transfers: what a transfer made by \<open>Transfer::new\<close>
  carries, what \<open>apply_transfer\<close> checks, and what it does to the store.
\<close>

section \<open>Making and checking\<close>

lemma transfer_validate_Inr_iff [results]:
  "transfer_validate E x limit = Inr u \<longleftrightarrow>
     tm_version (tr_manifest x) = 1 \<and> of_nat (length (tr_payload x)) \<le> limit \<and>
     pd_length (tm_payload (tr_manifest x)) = of_nat (length (tr_payload x)) \<and>
     tm_binding_digest (tr_manifest x) = domain_digest E transfer_binding_domain (tr_binding x) \<and>
     tm_transition_digest (tr_manifest x) = domain_digest E transfer_transition_domain (tr_transition x) \<and>
     pd_digest (tm_payload (tr_manifest x)) = domain_digest E transfer_payload_domain (tr_payload x) \<and>
     sorted_wrt (<) (tm_prerequisites (tr_manifest x))"
  by (auto simp: transfer_validate_def Let_def not_less)

lemma protocol_core_Inr_iff [results]: "protocol_core r = Inr x \<longleftrightarrow> r = Inr x"
  by (simp add: protocol_core_def results)

lemma sorted_objects:
  "sorted_wrt (<) (map ObjectPresent (dedup (sort xs)))"
  using dedup_sorted [of "sort xs"] by (simp add: sorted_wrt_map less_prerequisite_def)

lemma prerequisites_sorted:
  "sorted_wrt (<) ((case parent of Some d \<Rightarrow> [PublisherTransition d] | None \<Rightarrow> [])
     @ map ObjectPresent (dedup (sort xs)))"
  using sorted_objects [of xs] by (auto simp: sorted_wrt_append less_prerequisite_def split: option.splits)

lemma transfer_new_Inr:
  assumes "codec_ok (binding_codec E)" "transfer_new E repository binding t parent objects payload = Inr x"
  shows "canonical_bytes (binding_codec E) binding = Inr (tr_binding x)"
    and "canonical_bytes (ref_transition_codec E) t = Inr (tr_transition x)"
    and "transition_id E t = Inr (tm_resulting_transition (tr_manifest x))"
    and "tr_payload x = payload" "tm_repository (tr_manifest x) = repository"
    and "tm_publisher (tr_manifest x) = binding_identity binding"
    and "tm_prerequisites (tr_manifest x) = (case parent of Some d \<Rightarrow> [PublisherTransition d] | None \<Rightarrow> [])
               @ map ObjectPresent (dedup (sort objects))"
    and "of_nat (length payload) \<le> limit \<Longrightarrow> transfer_validate E x limit = Inr ()"
proof -
  obtain b tb publisher tid where *: "canonical_bytes (binding_codec E) binding = Inr b"
    "canonical_bytes (ref_transition_codec E) t = Inr tb" "transition_id E t = Inr tid"
    "transfer_binding_identity E b = Inr publisher"
    "x = \<lparr>tr_manifest = \<lparr>tm_version = 1, tm_repository = repository, tm_publisher = publisher,
             tm_prerequisites = (case parent of Some d \<Rightarrow> [PublisherTransition d] | None \<Rightarrow> [])
               @ map ObjectPresent (dedup (sort objects)),
             tm_resulting_transition = tid,
             tm_binding_digest = domain_digest E transfer_binding_domain b,
             tm_transition_digest = domain_digest E transfer_transition_domain tb,
             tm_payload = \<lparr>pd_kind = GitPack, pd_length = of_nat (length payload),
               pd_digest = domain_digest E transfer_payload_domain payload\<rparr>\<rparr>,
           tr_binding = b, tr_transition = tb, tr_payload = payload\<rparr>"
    using assms(2) unfolding transfer_new_def Let_def bindE_Inr_iff protocol_core_Inr_iff sum.inject
    by (elim exE conjE) blast
  have "from_canonical_bytes (binding_codec E) b = Inr binding"
    using *(1) canonical_bytes_iff [OF assms(1)] by blast
  then have publisher: "publisher = binding_identity binding"
    using *(4) by (simp add: transfer_binding_identity_def protocol_core_def)
  show "canonical_bytes (binding_codec E) binding = Inr (tr_binding x)"
    "canonical_bytes (ref_transition_codec E) t = Inr (tr_transition x)"
    "transition_id E t = Inr (tm_resulting_transition (tr_manifest x))"
    "tr_payload x = payload" "tm_repository (tr_manifest x) = repository"
    "tm_publisher (tr_manifest x) = binding_identity binding"
    "tm_prerequisites (tr_manifest x) = (case parent of Some d \<Rightarrow> [PublisherTransition d] | None \<Rightarrow> [])
       @ map ObjectPresent (dedup (sort objects))"
    using *(1-3) publisher by (simp_all add: *(5))
  show "transfer_validate E x limit = Inr ()" if "of_nat (length payload) \<le> limit"
    using that prerequisites_sorted [of parent objects] unfolding transfer_validate_Inr_iff by (simp add: *(5))
qed

section \<open>Quarantine\<close>

lemma allocate_quarantine_Inr:
  "allocate_quarantine host repo root n w = (Inr q, w') \<Longrightarrow>
     q_repository q = repo \<and> prefix root (q_path q)"
proof (induction n arbitrary: w)
  case (Suc n)
  show ?case
  proof (cases "on_os (h_create_dir host (root @ [decimal (unat (h_pid host)) @ ''-''
      @ decimal (unat (quarantine_sequence w))])) (snd (next_sequence w))")
    case (Pair made w2)
    then show ?thesis
      using Suc.prems Suc.IH [of w2]
      by (cases made) (auto simp: bindS_def next_sequence_def catchS_def Let_def okS_def failS_def
          split: if_splits prod.splits sum.splits)
  qed
qed (simp add: failS_iff)

lemma begin_quarantine_Inr:
  assumes "begin_quarantine host repo w = (Inr q, w')"
  shows "q_repository q = repo" "prefix (repo_path repo @ [''q'']) (q_path q)"
  using assms allocate_quarantine_Inr unfolding begin_quarantine_def Let_def bindS_Inr_iff by blast+

lemma allocate_quarantine_keeps:
  "git_ok host V p \<Longrightarrow> prefix (p @ [''q'']) root \<Longrightarrow>
     runs_in (keeps V p) (allocate_quarantine host repo root n)"
  by (induction n) (auto intro!: runs git_ok_fs(2) simp: Let_def)

lemma begin_quarantine_keeps [runs]:
  "git_ok host V (repo_path repo) \<Longrightarrow> runs_in (keeps V (repo_path repo)) (begin_quarantine host repo)"
  unfolding begin_quarantine_def Let_def
  by (intro runs allocate_quarantine_keeps git_ok_fs(1)) auto

lemma drop_quarantine_keeps:
  "git_ok host V p \<Longrightarrow> prefix (p @ [''q'']) (q_path q) \<Longrightarrow> runs_in (keeps V p) (drop_quarantine host q)"
  unfolding drop_quarantine_def discard_def by (intro runs git_ok_fs(5))

lemma store_step_keeps [runs]: "runs_in (keeps V p) m \<Longrightarrow> runs_in (keeps V p) (store_step m)"
  unfolding store_step_def by (intro runs)

lemma pure_step_keeps [runs]: "runs_in (keeps V p) (pure_step r)"
  unfolding pure_step_def by (intro runs)

lemma missing_prerequisites_keeps [runs]:
  "git_ok host V (repo_path repo) \<Longrightarrow>
     runs_in (keeps V (repo_path repo)) (missing_prerequisites E host repo current ps)"
  by (induction ps) (auto intro!: runs simp: prerequisite_present_def split: prerequisite.split)

section \<open>What applying a transfer does to the store\<close>

text \<open>
  A step of the store that only ever advances the selected publisher: from a consistent store it
  leaves a consistent store, in which every publisher's state is reached by verified transitions.
\<close>

definition advances ::
  "('z) refs_env_scheme \<Rightarrow> 's views \<Rightarrow> repository \<Rightarrow> styrene_identity \<Rightarrow> 's world \<Rightarrow> 's world \<Rightarrow> bool" where
  "advances E V repo P w w' \<longleftrightarrow>
     (store_consistent E V repo (os w) \<longrightarrow>
        store_consistent E V repo (os w') \<and>
        (\<forall>Q. ref_history E (repo_id repo) (map_option snd (stored E V (repo_path repo) (os w) Q))
               (map_option snd (stored E V (repo_path repo) (os w') Q)) \<and>
             (Q \<noteq> P \<longrightarrow> same_publisher E V (repo_path repo) Q (os w) (os w'))))"

lemma ref_history_trans:
  "ref_history E r a b \<Longrightarrow> ref_history E r b c \<Longrightarrow> ref_history E r a c"
  by (rotate_tac, induction rule: ref_history.induct) (auto intro: ref_history.intros)

lemma same_publisher_trans:
  "same_publisher E V p P s s' \<Longrightarrow> same_publisher E V p P s' s'' \<Longrightarrow> same_publisher E V p P s s''"
  by (simp add: same_publisher_def)

interpretation advance: run_relation "advances E V repo P" for E V repo P
  by unfold_locales
    (auto simp: advances_def same_publisher_def intro: ref_history.here ref_history_trans)

lemma keeps_advances:
  assumes "keeps V (repo_path repo) w w'" shows "advances E V repo P w w'"
  by (simp add: advances_def store_consistent_def ref_history.here keeps_same_publisher [OF assms]
      consistent_same [OF keeps_same_publisher [OF assms]] stored_same [OF keeps_same_publisher [OF assms]])

lemma runs_in_weaken: "runs_in R m \<Longrightarrow> (\<And>s s'. R s s' \<Longrightarrow> R' s s') \<Longrightarrow> runs_in R' m"
  by (simp add: runs_in_def)

lemma keeps_runs_advances: "runs_in (keeps V (repo_path repo)) m \<Longrightarrow> runs_in (advances E V repo P) m"
  using keeps_advances runs_in_weaken by blast

lemma commit_advances:
  assumes "hex_ok E" "base32_ok E" "refs_codecs_ok E" "git_ok host V (repo_path repo)" "plain_names t"
  shows "runs_in (advances E V repo (sel_identity selected)) (commit E host repo q t binding selected)"
proof (rule runs_inI)
  fix w r w' assume run: "commit E host repo q t binding selected w = (r, w')"
  show "advances E V repo (sel_identity selected) w w'"
    unfolding advances_def
  proof
    assume w: "store_consistent E V repo (os w)"
    then have "publisher_consistent E V repo (os w) (sel_identity selected)"
      by (simp add: store_consistent_def)
    note effect = commit_effect_history [OF assms(1) w commit_has_effect [OF assms this run]]
    show "store_consistent E V repo (os w') \<and>
        (\<forall>Q. ref_history E (repo_id repo) (map_option snd (stored E V (repo_path repo) (os w) Q))
               (map_option snd (stored E V (repo_path repo) (os w') Q)) \<and>
             (Q \<noteq> sel_identity selected \<longrightarrow> same_publisher E V (repo_path repo) Q (os w) (os w')))"
      using effect by blast
  qed
qed

lemma pure_step_bind_runs:
  assumes "\<And>x w. R w w" "\<And>x. r = Inr x \<Longrightarrow> runs_in R (f x)"
  shows "runs_in R (bindS (pure_step r) f)"
  using assms by (cases r) (auto simp: runs_in_def bindS_def pure_step_def liftS_def)

lemma returned_bind_runs:
  assumes "\<And>w w' w''. R w w' \<Longrightarrow> R w' w'' \<Longrightarrow> R w w''" "runs_in R m"
    and "\<And>x w w'. m w = (Inr x, w') \<Longrightarrow> runs_in R (f x)"
  shows "runs_in R (bindS m f)"
  unfolding runs_in_def
proof
  fix w
  show "R w (snd (bindS m f w))"
    using assms(1) runs_inS [OF assms(2), of w] assms(3) [of w]
    by (auto simp: bindS_def runs_in_def split: prod.splits sum.splits)
qed

lemma store_step_Inr: "store_step m w = (Inr x, w') \<longleftrightarrow> m w = (Inr x, w')"
  by (auto simp: store_step_def errS_iff map_err_Inr_iff dest: sym)

lemma pure_step_Inr: "pure_step r w = (Inr x, w') \<longleftrightarrow> r = Inr x \<and> w' = w"
  by (auto simp: pure_step_def liftS_iff)

lemma import_and_commit_advances:
  assumes "hex_ok E" "base32_ok E" "refs_codecs_ok E" "git_ok host V (repo_path repo)" "plain_names t"
  shows "runs_in (advances E V repo (sel_identity selected))
           (import_and_commit E host repo payload limit t binding selected)"
  unfolding import_and_commit_def
proof (rule returned_bind_runs)
  show "runs_in (advances E V repo (sel_identity selected)) (store_step (begin_quarantine host repo))"
    using assms(4) by (intro keeps_runs_advances runs)
next
  fix q w w' assume "store_step (begin_quarantine host repo) w = (Inr q, w')"
  then have q: "q_repository q = repo" "prefix (repo_path repo @ [''q'']) (q_path q)"
    using begin_quarantine_Inr [of host repo w q w'] by (simp_all add: store_step_Inr)
  have drop: "runs_in (advances E V repo (sel_identity selected)) (drop_quarantine host q)"
    using drop_quarantine_keeps [OF assms(4) q(2)] by (rule keeps_runs_advances)
  have pack: "runs_in (advances E V repo (sel_identity selected)) (import_pack host q payload limit)"
    using import_pack_keeps [of host V q payload limit] assms(4) q(1) by (simp add: keeps_runs_advances)
  show "runs_in (advances E V repo (sel_identity selected))
      (catchS (bindS (store_step (import_pack host q payload limit)) (\<lambda>_.
        bindS (store_step (commit E host repo q t binding selected)) (\<lambda>outcome.
        okS (case outcome of Applied state \<Rightarrow> TransferApplied state
             | AlreadyPresent state \<Rightarrow> TransferPresent state))))
        (\<lambda>r. bindS (drop_quarantine host q) (\<lambda>_. liftS r)))"
    using drop pack commit_advances [OF assms]
    unfolding store_step_def by (intro advance.catch advance.bind advance.err advance.pure)
qed (rule advance.trans)

section \<open>Authentic transfers\<close>

text \<open>All that \<open>apply_transfer\<close> checks before it reads or writes the store.\<close>

definition transfer_authentic ::
  "('z) refs_env_scheme \<Rightarrow> repository \<Rightarrow> transfer \<Rightarrow> signer_selection \<Rightarrow> u64 \<Rightarrow> signer_binding
     \<Rightarrow> ref_transition \<Rightarrow> bool" where
  "transfer_authentic E repo x selected limit binding t \<longleftrightarrow>
     transfer_validate E x limit = Inr () \<and> tm_repository (tr_manifest x) = repo_id repo \<and>
     canonical_bytes (binding_codec E) binding = Inr (tr_binding x) \<and>
     canonical_bytes (ref_transition_codec E) t = Inr (tr_transition x) \<and>
     binding_authentic E binding \<and> selects binding selected \<and>
     tm_publisher (tr_manifest x) = sel_identity selected \<and>
     transition_id E t = Inr (tm_resulting_transition (tr_manifest x))"

text \<open>What remains of \<open>apply_transfer\<close> once the transfer proved authentic.\<close>

definition apply_authentic ::
  "('z) refs_env_scheme \<Rightarrow> 's host \<Rightarrow> repository \<Rightarrow> transfer \<Rightarrow> signer_selection \<Rightarrow> u64
     \<Rightarrow> signer_binding \<Rightarrow> ref_transition \<Rightarrow> ('s, apply_outcome) protocol_io" where
  "apply_authentic E host repo x selected limit binding t =
     bindS (store_step (publisher_state E host repo (sel_identity selected))) (\<lambda>current.
     if map_option rs_transition current = Some (tm_resulting_transition (tr_manifest x))
     then okS (TransferPresent (the current))
     else bindS (missing_prerequisites E host repo current (tm_prerequisites (tr_manifest x))) (\<lambda>missing.
       if missing \<noteq> [] then okS (MissingPrerequisites missing)
       else import_and_commit E host repo (tr_payload x) limit t binding selected))"

lemma pure_step_bind:
  "r = Inr x \<Longrightarrow> bindS (pure_step r) f = f x"
  "r = Inl e \<Longrightarrow> bindS (pure_step r) f = failS e"
  by (auto simp: fun_eq_iff bindS_def pure_step_def liftS_def failS_def)

lemma protocol_core_simps [simp]:
  "protocol_core (Inr x) = Inr x" "protocol_core (Inl e) = Inl (ProtocolCore e)"
  by (simp_all add: protocol_core_def)

lemma current_branch:
  "(case current of None \<Rightarrow> rest | Some state \<Rightarrow> if rs_transition state = d then okS (TransferPresent state) else rest)
    = (if map_option rs_transition current = Some d then okS (TransferPresent (the current)) else rest)"
  by (cases current) simp_all

lemma apply_transfer_authentic:
  assumes "transfer_authentic E repo x selected limit binding t" "refs_codecs_ok E" "codec_ok (binding_codec E)"
  shows "apply_transfer E host repo x selected limit = apply_authentic E host repo x selected limit binding t"
proof -
  have decode: "from_canonical_bytes (binding_codec E) (tr_binding x) = Inr binding"
    "from_canonical_bytes (ref_transition_codec E) (tr_transition x) = Inr t"
    using assms by (simp_all add: canonical_bytes_iff refs_codecs_ok_def transfer_authentic_def)
  have checks: "binding_verify_selected E binding selected = Inr ()"
    "binding_identity binding = sel_identity selected"
    using assms(1) unfolding transfer_authentic_def binding_verify_selected_Inr_iff selects_def by auto
  note a = assms(1) [unfolded transfer_authentic_def]
  have publisher: "(if sel_identity selected \<noteq> tm_publisher (tr_manifest x) then Inl IntegrityMismatch
      else bindE (protocol_core (transition_id E t)) (\<lambda>tid.
           if tid \<noteq> tm_resulting_transition (tr_manifest x) then Inl IntegrityMismatch else Inr ())) = Inr ()"
    using a by simp
  have repository: "tm_repository (tr_manifest x) \<noteq> repo_id repo \<longleftrightarrow> False"
    using a by simp
  show ?thesis
    unfolding apply_transfer_def apply_authentic_def Let_def
    unfolding a [THEN conjunct1] repository if_False decode checks protocol_core_simps
      pure_step_bind(1) [OF refl] publisher current_branch ..
qed

lemma pure_step_not_fails:
  assumes "\<And>e. bindS (pure_step r) f \<noteq> failS e"
  obtains y where "r = Inr y" "\<And>e. f y \<noteq> failS e"
  using assms by (cases r) (auto simp: pure_step_bind)

lemma protocol_core_Inr [dest!]: "protocol_core r = Inr x \<Longrightarrow> r = Inr x"
  by (simp add: protocol_core_Inr_iff)

lemma if_not_fails:
  assumes "\<And>e. (if c then failS e' else m) \<noteq> failS e"
  obtains "\<not> c" "\<And>e. m \<noteq> failS e"
  using assms by (cases c) auto

lemma apply_transfer_rejects:
  assumes "\<nexists>binding t. transfer_authentic E repo x selected limit binding t"
    "refs_codecs_ok E" "codec_ok (binding_codec E)"
  shows "\<exists>e. apply_transfer E host repo x selected limit = failS e"
proof (rule ccontr)
  assume "\<nexists>e. apply_transfer E host repo x selected limit = failS e"
  then have no: "apply_transfer E host repo x selected limit \<noteq> failS e" for e by blast
  show False
    using no unfolding apply_transfer_def Let_def
  proof (rule pure_step_not_fails, elim if_not_fails, elim pure_step_not_fails)
    fix u u' :: unit and u'' and binding t
    assume "transfer_validate E x limit = Inr u"
      "\<not> tm_repository (tr_manifest x) \<noteq> repo_id repo"
      "protocol_core (from_canonical_bytes (binding_codec E) (tr_binding x)) = Inr binding"
      "protocol_core (from_canonical_bytes (ref_transition_codec E) (tr_transition x)) = Inr t"
      "protocol_core (binding_verify_selected E binding selected) = Inr u'"
      "(if sel_identity selected \<noteq> tm_publisher (tr_manifest x) then Inl IntegrityMismatch
        else bindE (protocol_core (transition_id E t)) (\<lambda>tid.
             if tid \<noteq> tm_resulting_transition (tr_manifest x) then Inl IntegrityMismatch else Inr ())) = Inr u''"
    then have "transfer_authentic E repo x selected limit binding t"
      using assms(2,3)
      by (auto simp: transfer_authentic_def refs_codecs_ok_def canonical_bytes_iff bindE_Inr_iff
          binding_verify_selected_Inr_iff split: if_splits)
    then show False using assms(1) by blast
  qed
qed

section \<open>What the answers mean\<close>

lemma publisher_state_stored:
  assumes "git_ok host V (repo_path repo)" "publisher_state E host repo P w = (Inr x, w')"
  shows "x = map_option snd (stored E V (repo_path repo) (os w') P)" "keeps V (repo_path repo) w w'"
proof -
  obtain y where y: "publisher_state_with_object E host repo P w = (Inr y, w')" "x = map_option snd y"
    using assms(2) unfolding publisher_state_def bindS_Inr_iff okS_iff by auto
  show "x = map_option snd (stored E V (repo_path repo) (os w') P)"
    using publisher_state_reads(1) [OF assms(1) y(1)] y(2) by simp
  show "keeps V (repo_path repo) w w'" by (rule publisher_state_reads(2) [OF assms(1) y(1)])
qed

lemma update_or_reread_present:
  assumes "git_ok host V (repo_path repo)"
    and "update_or_reread E host repo selected tid previous next so to w = (Inr (AlreadyPresent s), w')"
  shows "rs_transition s = tid \<and>
    map_option snd (stored E V (repo_path repo) (os w') (sel_identity selected)) = Some s"
proof -
  obtain r :: "(store_error, unit) result" and w1 where "(case r of
       Inr _ \<Rightarrow> okS (Applied next)
     | Inl e \<Rightarrow>
         bindS (publisher_state E host repo (sel_identity selected)) (\<lambda>current.
         case current of
           Some state \<Rightarrow> if rs_transition state = tid then okS (AlreadyPresent state) else failS e
         | None \<Rightarrow> failS e)) w1 = (Inr (AlreadyPresent s), w')"
    using assms(2) unfolding update_or_reread_def catchS_iff by blast
  then obtain current where "publisher_state E host repo (sel_identity selected) w1 = (Inr current, w')"
    "current = Some s" "rs_transition s = tid"
    by (cases r) (auto simp: okS_iff failS_iff bindS_Inr_iff split: option.splits if_splits)
  then show ?thesis using publisher_state_stored(1) [OF assms(1)] by metis
qed

lemma commit_present:
  assumes "git_ok host V (repo_path repo)"
    and "commit E host repo q t binding selected w = (Inr (AlreadyPresent s), w')"
  shows "transition_id E t = Inr (rs_transition s) \<and>
    map_option snd (stored E V (repo_path repo) (os w') (sel_identity selected)) = Some s"
proof -
  obtain tid previous w1 where tid: "transition_id E t = Inr tid"
    and read: "publisher_state_with_object E host repo (sel_identity selected) w = (Inr previous, w1)"
    and rest: "(case previous of
        Some (_, state) \<Rightarrow>
          if rs_transition state = tid then okS (AlreadyPresent state)
          else commit_next E host repo q t binding selected tid previous
      | None \<Rightarrow> commit_next E host repo q t binding selected tid previous) w1
        = (Inr (AlreadyPresent s), w')"
    using assms(2) by (rule commit_InrE)
  consider (accepted) i state where "previous = Some (i, state)" "rs_transition state = tid" "s = state" "w' = w1"
    | (next_one) "commit_next E host repo q t binding selected tid previous w1 = (Inr (AlreadyPresent s), w')"
    using rest by (auto simp: okS_iff split: option.splits prod.splits if_splits)
  then show ?thesis
  proof cases
    case accepted
    then show ?thesis using publisher_state_reads(1) [OF assms(1) read] tid by simp
  next
    case next_one
    then obtain previous' next' so to w2 where
      "update_or_reread E host repo selected tid previous' next' so to w2 = (Inr (AlreadyPresent s), w')"
      unfolding commit_next_def write_and_update_def bindS_Inr_iff by blast
    then show ?thesis using update_or_reread_present [OF assms(1)] tid by blast
  qed
qed

lemma import_and_commit_Inr:
  assumes "git_ok host V (repo_path repo)"
    and "import_and_commit E host repo payload limit t binding selected w = (Inr outcome, w')"
  obtains q c w1 w2 where "keeps V (repo_path repo) w w1"
    and "commit E host repo q t binding selected w1 = (Inr c, w2)" and "keeps V (repo_path repo) w2 w'"
    and "outcome = (case c of Applied s \<Rightarrow> TransferApplied s | AlreadyPresent s \<Rightarrow> TransferPresent s)"
proof -
  obtain q wq r w2 where started: "begin_quarantine host repo w = (Inr q, wq)"
    and middle: "bindS (store_step (import_pack host q payload limit)) (\<lambda>_.
        bindS (store_step (commit E host repo q t binding selected)) (\<lambda>outcome.
        okS (case outcome of Applied state \<Rightarrow> TransferApplied state
             | AlreadyPresent state \<Rightarrow> TransferPresent state))) wq = (r, w2)"
    and finish: "bindS (drop_quarantine host q) (\<lambda>_. liftS r) w2 = (Inr outcome, w')"
    using assms(2) unfolding import_and_commit_def bindS_Inr_iff [of "store_step (begin_quarantine _ _)"]
      catchS_iff store_step_Inr by blast
  note q = begin_quarantine_Inr [OF started]
  obtain u where drop: "drop_quarantine host q w2 = (Inr u :: (protocol_error, unit) result, w')"
    and r: "r = Inr outcome"
    using finish by (auto simp: bindS_Inr_iff liftS_iff)
  obtain u w1 c where pack: "import_pack host q payload limit wq = (Inr u, w1)"
    and c: "commit E host repo q t binding selected w1 = (Inr c, w2)"
    and outcome: "outcome = (case c of Applied s \<Rightarrow> TransferApplied s | AlreadyPresent s \<Rightarrow> TransferPresent s)"
    using middle unfolding r bindS_Inr_iff store_step_Inr okS_iff by auto
  have "keeps V (repo_path repo) w wq" by (rule runs_inD [OF begin_quarantine_keeps [OF assms(1)] started])
  moreover have "keeps V (repo_path repo) wq w1"
    using runs_inD [OF import_pack_keeps pack] assms(1) q(1) by simp
  ultimately have "keeps V (repo_path repo) w w1" by (rule kept.trans)
  moreover have "keeps V (repo_path repo) w2 w'"
    by (rule runs_inD [OF drop_quarantine_keeps [OF assms(1) q(2)] drop])
  ultimately show thesis using that c outcome by blast
qed

text \<open>Whatever \<open>commit\<close> answers, its state is the stored one and is the transition it was given.\<close>

lemma commit_answer:
  assumes "hex_ok E" "base32_ok E" "refs_codecs_ok E" "git_ok host V (repo_path repo)" "plain_names t"
    and "publisher_consistent E V repo (os w) (sel_identity selected)"
    and "commit E host repo q t binding selected w = (Inr c, w')"
  shows "transition_id E t = Inr (rs_transition (outcome_state c)) \<and>
    (\<exists>i. stored E V (repo_path repo) (os w') (sel_identity selected) = Some (i, outcome_state c)) \<and>
    (\<forall>s. c = Applied s \<longrightarrow> rs_refs s = rtp_refs (rtr_payload t))"
proof (cases c)
  case (Applied s)
  have "publishes E V repo t binding selected s (os w) (os w')"
    by (rule commit_applied [OF assms(1-6) assms(7) [unfolded Applied]])
  then show ?thesis
    using Applied ref_transition_verify_facts(3,5) [of E t]
    unfolding publishes_def Let_def outcome_state_def by simp blast
next
  case (AlreadyPresent s)
  have "transition_id E t = Inr (rs_transition s)"
    "map_option snd (stored E V (repo_path repo) (os w') (sel_identity selected)) = Some s"
    using commit_present [OF assms(4) assms(7) [unfolded AlreadyPresent]] by blast+
  then show ?thesis using AlreadyPresent by (auto simp: outcome_state_def)
qed

lemma import_and_commit_answers:
  assumes "hex_ok E" "base32_ok E" "refs_codecs_ok E" "git_ok host V (repo_path repo)" "plain_names t"
    and "import_and_commit E host repo payload limit t binding selected w = (Inr outcome, w')"
    and "publisher_consistent E V repo (os w) (sel_identity selected)"
  shows "\<exists>s i. (outcome = TransferApplied s \<and> rs_refs s = rtp_refs (rtr_payload t) \<or> outcome = TransferPresent s) \<and>
    transition_id E t = Inr (rs_transition s) \<and>
    stored E V (repo_path repo) (os w') (sel_identity selected) = Some (i, s)"
proof -
  let ?p = "repo_path repo" and ?P = "sel_identity selected"
  obtain q c w3 w4 where k3: "keeps V ?p w w3"
    and c: "commit E host repo q t binding selected w3 = (Inr c, w4)" and k4: "keeps V ?p w4 w'"
    and outcome: "outcome = (case c of Applied s \<Rightarrow> TransferApplied s | AlreadyPresent s \<Rightarrow> TransferPresent s)"
    by (rule import_and_commit_Inr [OF assms(4,6)])
  have cons3: "publisher_consistent E V repo (os w3) ?P"
    by (rule consistent_same [OF keeps_same_publisher [OF k3] assms(7)])
  obtain i where c': "transition_id E t = Inr (rs_transition (outcome_state c))"
    "stored E V ?p (os w4) ?P = Some (i, outcome_state c)"
    "\<forall>s. c = Applied s \<longrightarrow> rs_refs s = rtp_refs (rtr_payload t)"
    using commit_answer [OF assms(1-5) cons3 c] by blast
  moreover from c'(2) have "stored E V ?p (os w') ?P = Some (i, outcome_state c)"
    by (rule stored_mono [OF keeps_same_publisher [OF k4]])
  ultimately show ?thesis using outcome by (cases c) (auto simp: outcome_state_def)
qed

lemma present_step_Inr:
  assumes "prerequisite_present E host repo current pr w = (Inr b, w')"
  shows "pr = PublisherTransition d \<Longrightarrow> b \<longleftrightarrow> map_option rs_transition current = Some d"
  using assms by (auto simp: prerequisite_present_def okS_iff)

lemma missing_prerequisites_Inr:
  assumes "missing_prerequisites E host repo current ps w = (Inr missing, w')"
  shows "subseq missing ps \<and>
    (\<forall>d. PublisherTransition d \<in> set missing \<longleftrightarrow>
       PublisherTransition d \<in> set ps \<and> map_option rs_transition current \<noteq> Some d)"
  using assms
proof (induction ps arbitrary: missing w w')
  case (Cons p ps)
  obtain present w1 missing' w2 where p: "prerequisite_present E host repo current p w = (Inr present, w1)"
    and ps: "missing_prerequisites E host repo current ps w1 = (Inr missing', w2)"
    and missing: "missing = (if present then missing' else p # missing')"
    using Cons.prems by (auto simp: bindS_Inr_iff okS_iff)
  show ?case
    using Cons.IH [OF ps] present_step_Inr [OF p] missing
    by (cases p) auto
qed (simp add: okS_iff)

lemma apply_transfer_Inr:
  assumes "refs_codecs_ok E" "codec_ok (binding_codec E)"
    and "apply_transfer E host repo x selected limit w = (Inr outcome, w')"
  obtains binding t current w1 where "transfer_authentic E repo x selected limit binding t"
    and "publisher_state E host repo (sel_identity selected) w = (Inr current, w1)"
    and "(if map_option rs_transition current = Some (tm_resulting_transition (tr_manifest x))
     then okS (TransferPresent (the current))
     else bindS (missing_prerequisites E host repo current (tm_prerequisites (tr_manifest x))) (\<lambda>missing.
       if missing \<noteq> [] then okS (MissingPrerequisites missing)
       else import_and_commit E host repo (tr_payload x) limit t binding selected)) w1 = (Inr outcome, w')"
proof -
  obtain binding t where auth: "transfer_authentic E repo x selected limit binding t"
    using apply_transfer_rejects [OF _ assms(1,2), of repo x selected limit host] assms(3)
    by (metis Pair_inject failS_def sum.distinct(1))
  then show thesis
    using assms(3) that
    unfolding apply_transfer_authentic [OF auth assms(1,2)] apply_authentic_def
      bindS_Inr_iff [of "store_step (publisher_state _ _ _ _)"] store_step_Inr by blast
qed

section \<open>Properties\<close>

text \<open>C13: a transfer that is not authentic never reaches the store. Unless its parts match the
  manifest's digests and length, it is for this repository, and its binding and transition decode,
  belong to the selected signer and have the identity the manifest names, \<open>apply_transfer\<close> fails
  and runs no Git command and no file system call.\<close>

theorem apply_transfer_unauthentic:
  assumes "refs_codecs_ok E" "codec_ok (binding_codec E)"
    and "\<nexists>binding t. transfer_authentic E repo x selected limit binding t"
  shows "\<exists>e. apply_transfer E host repo x selected limit w = (Inl e, w)"
  using apply_transfer_rejects [OF assms(3,1,2)] by (metis failS_def)

lemma apply_transfer_advances:
  assumes "hex_ok E" "base32_ok E" "refs_codecs_ok E" "codec_ok (binding_codec E)"
    and "git_ok host V (repo_path repo)"
    and "\<And>t. canonical_bytes (ref_transition_codec E) t = Inr (tr_transition x) \<Longrightarrow> plain_names t"
  shows "runs_in (advances E V repo (sel_identity selected)) (apply_transfer E host repo x selected limit)"
proof (cases "\<exists>binding t. transfer_authentic E repo x selected limit binding t")
  case False
  then have "snd (apply_transfer E host repo x selected limit w) = w" for w
    using apply_transfer_rejects [OF _ assms(3,4)] by (metis failS_def snd_conv)
  then show ?thesis by (simp add: runs_in_def advance.refl)
next
  case True
  then obtain binding t where auth: "transfer_authentic E repo x selected limit binding t" by blast
  have names: "plain_names t" using auth assms(6) by (simp add: transfer_authentic_def)
  have "runs_in (advances E V repo (sel_identity selected)) (apply_authentic E host repo x selected limit binding t)"
    unfolding apply_authentic_def
    by (intro advance.bind if_keeps advance.pure import_and_commit_advances [OF assms(1-3,5) names]
        keeps_runs_advances store_step_keeps publisher_state_keeps missing_prerequisites_keeps assms(5))
  then show ?thesis unfolding apply_transfer_authentic [OF auth assms(3,4)] .
qed


lemma apply_transfer_answered:
  assumes "refs_codecs_ok E" "codec_ok (binding_codec E)" "hex_ok E" "base32_ok E"
    and "git_ok host V (repo_path repo)"
    and "\<And>t. canonical_bytes (ref_transition_codec E) t = Inr (tr_transition x) \<Longrightarrow> plain_names t"
    and "store_consistent E V repo (os w)"
    and "apply_transfer E host repo x selected limit w = (Inr outcome, w')"
  shows "case outcome of
      TransferApplied s \<Rightarrow> rs_transition s = tm_resulting_transition (tr_manifest x) \<and>
        map_option snd (stored E V (repo_path repo) (os w') (sel_identity selected)) = Some s \<and>
        (\<forall>t. canonical_bytes (ref_transition_codec E) t = Inr (tr_transition x) \<longrightarrow>
           rs_refs s = rtp_refs (rtr_payload t))
    | TransferPresent s \<Rightarrow> rs_transition s = tm_resulting_transition (tr_manifest x) \<and>
        map_option snd (stored E V (repo_path repo) (os w') (sel_identity selected)) = Some s
    | MissingPrerequisites ps \<Rightarrow> keeps V (repo_path repo) w w' \<and> ps \<noteq> [] \<and>
        subseq ps (tm_prerequisites (tr_manifest x)) \<and>
        (\<forall>d. PublisherTransition d \<in> set ps \<longleftrightarrow>
           PublisherTransition d \<in> set (tm_prerequisites (tr_manifest x)) \<and>
           map_option (rs_transition \<circ> snd) (stored E V (repo_path repo) (os w) (sel_identity selected)) \<noteq> Some d)"
proof -
  let ?p = "repo_path repo" and ?P = "sel_identity selected"
  obtain binding t current w1 where auth: "transfer_authentic E repo x selected limit binding t"
    and read: "publisher_state E host repo ?P w = (Inr current, w1)"
    and rest: "(if map_option rs_transition current = Some (tm_resulting_transition (tr_manifest x))
     then okS (TransferPresent (the current))
     else bindS (missing_prerequisites E host repo current (tm_prerequisites (tr_manifest x))) (\<lambda>missing.
       if missing \<noteq> [] then okS (MissingPrerequisites missing)
       else import_and_commit E host repo (tr_payload x) limit t binding selected)) w1 = (Inr outcome, w')"
    using apply_transfer_Inr [OF assms(1,2,8)] by blast
  have cons: "publisher_consistent E V repo (os w) ?P" using assms(7) by (simp add: store_consistent_def)
  note state = publisher_state_stored [OF assms(5) read]
  have current: "current = map_option snd (stored E V ?p (os w) ?P)"
    using publisher_state_Inr [OF assms(5) cons read] .
  have tid: "transition_id E t = Inr (tm_resulting_transition (tr_manifest x))" and names: "plain_names t"
    using auth assms(6) by (simp_all add: transfer_authentic_def)
  have unique: "t' = t" if "canonical_bytes (ref_transition_codec E) t' = Inr (tr_transition x)" for t'
    using canonical_bytes_inject [OF _ that] auth assms(1) by (simp add: transfer_authentic_def refs_codecs_ok_def)
  show ?thesis
  proof (cases "map_option rs_transition current = Some (tm_resulting_transition (tr_manifest x))")
    case True
    then show ?thesis using rest state by (auto simp: okS_iff)
  next
    case False
    then obtain missing w2 where missing:
        "missing_prerequisites E host repo current (tm_prerequisites (tr_manifest x)) w1 = (Inr missing, w2)"
      and final: "(if missing \<noteq> [] then okS (MissingPrerequisites missing)
       else import_and_commit E host repo (tr_payload x) limit t binding selected) w2 = (Inr outcome, w')"
      using rest unfolding if_not_P [OF False] bindS_Inr_iff [of "missing_prerequisites _ _ _ _ _"] by blast
    have k: "keeps V ?p w w2"
      by (rule kept.trans [OF state(2) runs_inD [OF missing_prerequisites_keeps [OF assms(5)] missing]])
    show ?thesis
    proof (cases "missing = []")
      case False
      then show ?thesis
        using final k missing_prerequisites_Inr [OF missing]
        by (auto simp: okS_iff current option.map_comp)
    next
      case True
      then have "import_and_commit E host repo (tr_payload x) limit t binding selected w2 = (Inr outcome, w')"
        using final by simp
      moreover have "publisher_consistent E V repo (os w2) ?P"
        by (rule consistent_same [OF keeps_same_publisher [OF k] cons])
      ultimately obtain s i where "outcome = TransferApplied s \<and> rs_refs s = rtp_refs (rtr_payload t) \<or>
          outcome = TransferPresent s" "transition_id E t = Inr (rs_transition s)"
          "stored E V ?p (os w') ?P = Some (i, s)"
        using import_and_commit_answers [OF assms(3,4,1,5) names] by blast
      then show ?thesis using tid unique by auto
    qed
  qed
qed


lemma transfer_new_is_authentic:
  assumes "codec_ok (binding_codec E)"
    and "transfer_new E (repo_id repo) binding t parent objects payload = Inr x"
    and "binding_authentic E binding" "selects binding selected"
    and "of_nat (length payload) \<le> limit"
  shows "transfer_authentic E repo x selected limit binding t \<and> tr_payload x = payload \<and>
    set (tm_prerequisites (tr_manifest x)) =
      PublisherTransition ` set_option parent \<union> ObjectPresent ` set objects \<and>
    sorted_wrt (<) (tm_prerequisites (tr_manifest x))"
proof -
  note x = transfer_new_Inr [OF assms(1,2)]
  have "set (tm_prerequisites (tr_manifest x)) =
      PublisherTransition ` set_option parent \<union> ObjectPresent ` set objects"
    by (auto simp: x(7) split: option.splits)
  moreover have "sorted_wrt (<) (tm_prerequisites (tr_manifest x))"
    using prerequisites_sorted x(7) by simp
  moreover have "binding_identity binding = sel_identity selected"
    using assms(4) by (simp add: selects_def)
  ultimately show ?thesis
    using x(1-6) x(8) [OF assms(5)] assms(3,4) by (simp add: transfer_authentic_def)
qed

text \<open>C32: a transfer made with \<open>Transfer::new\<close> is authentic for the receiver that selected the
  signer: it validates under any limit that admits the payload, decodes to the binding and the
  transition it was made from, and lists the parent and each required object once, in order.\<close>

theorem transfer_new_authentic:
  assumes "codec_ok (binding_codec E)"
    and "transfer_new E (repo_id repo) binding t parent objects payload = Inr x"
    and "binding_authentic E binding" "selects binding selected"
    and "of_nat (length payload) \<le> limit"
  shows "transfer_authentic E repo x selected limit binding t \<and> tr_payload x = payload \<and>
    set (tm_prerequisites (tr_manifest x)) =
      PublisherTransition ` set_option parent \<union> ObjectPresent ` set objects \<and>
    sorted_wrt (<) (tm_prerequisites (tr_manifest x))"
  by (rule transfer_new_is_authentic [OF assms])

end
