(* ===== verification/Sample_Git.thy ===== *)
theory Sample_Git
  imports Replication Core_Witnesses
begin

text \<open>
  A small Git host that satisfies the documented behaviour assumed of Git: references and blobs of
  one repository, the commands that read and write them, and a file system without files. The
  witnesses of the store's properties run the model on it.
\<close>

section \<open>The host\<close>

record git_state =
  gs_refs :: "string \<Rightarrow> string option"
  gs_blobs :: "bytes list"

definition blob_id :: "bytes \<Rightarrow> string" where
  "blob_id bs = CHR ''b'' # concat (map hex_of_byte bs)"

definition word_refs :: "git_state \<Rightarrow> string \<Rightarrow> string option" where
  "word_refs s r = (case gs_refs s r of Some i \<Rightarrow> if word_text i then Some i else None | None \<Rightarrow> None)"

definition blob_named :: "git_state \<Rightarrow> string \<Rightarrow> bytes option" where
  "blob_named s i = find (\<lambda>b. blob_id b = i) (gs_blobs s)"

definition git_views :: "git_state views" where
  "git_views = \<lparr>v_refs = \<lambda>s p. word_refs s, v_blobs = \<lambda>s p. blob_named s\<rparr>"

text \<open>Reading a transaction back from its lines.\<close>

definition parse_command :: "string \<Rightarrow> ref_command option" where
  "parse_command line =
     (case split_char CHR '' '' line of
        [w, n, a] \<Rightarrow>
          if w = ''delete'' then Some (Delete n a)
          else if w = ''create'' then Some (Create n a) else None
      | [w, n, a, b] \<Rightarrow> if w = ''update'' then Some (Update n a b) else None
      | _ \<Rightarrow> None)"

definition parse_transaction :: "string \<Rightarrow> ref_command list option" where
  "parse_transaction msg =
     (let ls = split_char CHR 0x0A msg in
      those (map parse_command (take (length ls - 4) (tl ls))))"

definition new_words :: "ref_command list \<Rightarrow> bool" where
  "new_words cs \<longleftrightarrow> (\<forall>c \<in> set cs. \<forall>v. command_value c = Some v \<longrightarrow> word_text v)"

definition git_update :: "bytes option \<Rightarrow> git_state \<Rightarrow> git_answer \<times> git_state" where
  "git_update input s =
     (case Option.bind input (\<lambda>bs. parse_transaction (text_of bs)) of
        Some cs \<Rightarrow>
          if (\<forall>c \<in> set cs. command_holds (word_refs s) c) \<and> new_words cs
          then (Git_Exit True [] [], s\<lparr>gs_refs := fold command_effect cs (word_refs s)\<rparr>)
          else (Git_Exit False [] [], s)
      | None \<Rightarrow> (Git_Exit False [] [], s))"

definition line_of :: "string \<Rightarrow> bytes" where
  "line_of s = str_bytes (s @ [CHR 0x0A])"

definition sample_git :: "string list \<Rightarrow> bytes option \<Rightarrow> git_state \<Rightarrow> git_answer \<times> git_state" where
  "sample_git args input s =
     (case args of
        [a, b, c, r] \<Rightarrow>
          if [a, b, c] = [''show-ref'', ''--verify'', ''--hash''] then
            (case word_refs s r of
               Some i \<Rightarrow> (Git_Exit True (line_of i) [], s)
             | None \<Rightarrow> (Git_Exit False [] [], s))
          else (Git_Exit True [] [], s)
      | [a, b, i] \<Rightarrow>
          if [a, b] = [''cat-file'', ''blob''] then
            (case blob_named s i of
               Some bs \<Rightarrow> (Git_Exit True bs [], s)
             | None \<Rightarrow> (Git_Exit False [] [], s))
          else if [a, b] = [''cat-file'', ''-e''] then
            (Git_Exit (\<not> zero_text (take (length i - 9) i)) [] [], s)
          else (Git_Exit True [] [], s)
      | [a, b, c, d, e] \<Rightarrow>
          if args = [''hash-object'', ''-w'', ''--stdin'', ''-t'', ''blob''] then
            (case input of
               Some bs \<Rightarrow> (Git_Exit True (line_of (blob_id bs)) [], s\<lparr>gs_blobs := bs # gs_blobs s\<rparr>)
             | None \<Rightarrow> (Git_Exit False [] [], s))
          else (Git_Exit True [] [], s)
      | [a, b] \<Rightarrow>
          if args = [''update-ref'', ''--stdin''] then git_update input s
          else (Git_Exit True [] [], s)
      | _ \<Rightarrow> (Git_Exit True [] [], s))"

definition sample_host :: "git_state host" where
  "sample_host =
     \<lparr>h_pid = 7, h_path_limit = 100,
      h_git = \<lambda>call. sample_git (drop 4 (gc_args call)) (gc_input call),
      h_exists = \<lambda>p s. False, h_is_dir = \<lambda>p s. True,
      h_create_dir_all = \<lambda>p s. (Inr (), s), h_create_dir = \<lambda>p s. (Inr (), s),
      h_write = \<lambda>p c s. (Inr (), s), h_read_to_string = \<lambda>p s. (Inr [], s),
      h_rename = \<lambda>a b s. (Inr (), s), h_remove_dir_all = \<lambda>p s. (Inr (), s),
      h_read_dir = \<lambda>p s. (Inr [], s), h_hard_link = \<lambda>a b s. (Inr (), s)\<rparr>"

lemma sample_host_git [simp]:
  "h_git sample_host (git_run_call p args input d) s = sample_git args input s"
  by (simp add: sample_host_def git_run_call_def git_config_args_def)

lemma sample_host_fs [simp]:
  "h_create_dir_all sample_host d s = (Inr (), s)" "h_create_dir sample_host d s = (Inr (), s)"
  "h_remove_dir_all sample_host d s = (Inr (), s)" "h_read_dir sample_host d s = (Inr [], s)"
  "h_hard_link sample_host d d' s = (Inr (), s)" "h_path_limit sample_host = 100"
  by (simp_all add: sample_host_def)

section \<open>It behaves as documented\<close>

lemma hex_of_byte_chars: "c \<in> set (hex_of_byte b) \<Longrightarrow> c \<in> set hex_digits"
proof -
  have "unat b < 256" using unsigned_less [of b] by simp
  then have "unat b div 16 < 16" "unat b mod 16 < 16" by auto
  then show "c \<in> set (hex_of_byte b) \<Longrightarrow> c \<in> set hex_digits"
    using hex_digits_nth by (auto simp: hex_of_byte_def)
qed

lemma blob_id_word: "word_text (blob_id bs)" "\<not> zero_text (blob_id bs)"
  using hex_of_byte_chars
  by (fastforce simp: word_text_def blob_id_def hex_digits_def plain_char_def less_eq_char_def)
    (simp add: zero_text_def blob_id_def)

lemma blob_id_inject: "blob_id a = blob_id b \<longleftrightarrow> a = b"
  using hex_parse_encode by (metis blob_id_def list.inject option.inject)

lemma blob_named_iff: "blob_named s i = Some b \<longleftrightarrow> b \<in> set (gs_blobs s) \<and> blob_id b = i"
proof -
  have "find (\<lambda>b. blob_id b = i) xs = Some b \<longleftrightarrow> b \<in> set xs \<and> blob_id b = i" for xs
    by (induction xs) (auto simp: blob_id_inject)
  then show ?thesis by (simp add: blob_named_def)
qed

lemma line_word_seps: "line_word w \<Longrightarrow> CHR 0x0A \<notin> set w \<and> CHR '' '' \<notin> set w"
  by (auto simp: line_word_def)

lemma parse_command_line:
  assumes "\<forall>w \<in> set (command_words c). line_word w"
  shows "parse_command (join CHR '' '' (command_words c)) = Some c"
proof -
  have "command_words c \<noteq> []" by (cases c) simp_all
  then have "split_char CHR '' '' (join CHR '' '' (command_words c)) = command_words c"
    using assms line_word_seps by (intro split_char_join) blast+
  then show ?thesis by (cases c) (simp_all add: parse_command_def del: join.simps)
qed

lemma command_line_no_newline:
  assumes "\<forall>w \<in> set (command_words c). line_word w"
  shows "CHR 0x0A \<notin> set (join CHR '' '' (command_words c))"
proof
  assume "CHR 0x0A \<in> set (join CHR '' '' (command_words c))"
  from join_chars [OF this] show False using assms line_word_seps by auto
qed

lemma split_lines:
  assumes "\<forall>c \<in> set cs. \<forall>w \<in> set (command_words c). line_word w"
  shows "split_char CHR 0x0A (concat (map command_line cs) @ rest) =
    map (\<lambda>c. join CHR '' '' (command_words c)) cs @ split_char CHR 0x0A rest"
  using assms
proof (induction cs)
  case (Cons c cs)
  then show ?case
    using command_line_no_newline [of c]
    by (simp add: command_line_def split_char_append del: command_words.simps)
qed simp

lemma those_map_Some: "(\<And>x. x \<in> set xs \<Longrightarrow> f x = Some (g x)) \<Longrightarrow> those (map f xs) = Some (map g xs)"
  by (induction xs) auto

lemma parse_transaction_text:
  assumes "\<forall>c \<in> set cs. \<forall>w \<in> set (command_words c). line_word w"
  shows "parse_transaction (transaction_text cs) = Some cs"
proof -
  let ?lines = "map (\<lambda>c. join CHR '' '' (command_words c)) cs"
  have "split_char CHR 0x0A (transaction_text cs) = ''start'' # ?lines @ [''prepare'', ''commit'', []]"
    by (simp add: transaction_text_def split_lines [OF assms])
  then have "parse_transaction (transaction_text cs) = those (map parse_command ?lines)"
    by (simp add: parse_transaction_def)
  also have "\<dots> = Some (map (\<lambda>c. c) cs)"
    unfolding map_map by (rule those_map_Some) (use parse_command_line assms in \<open>simp add: comp_def\<close>)
  finally show ?thesis by simp
qed

lemma git_views_simps [simp]:
  "v_refs git_views s p = word_refs s" "v_blobs git_views s p = blob_named s"
  by (simp_all add: git_views_def)

lemma word_refs_word: "word_refs s r = Some i \<Longrightarrow> word_text i"
  by (auto simp: word_refs_def split: option.splits if_splits)

lemma word_refs_fold:
  assumes "new_words cs"
  shows "word_refs (s\<lparr>gs_refs := fold command_effect cs (word_refs s)\<rparr>) = fold command_effect cs (word_refs s)"
proof -
  have "\<forall>r i. fold command_effect cs refs r = Some i \<longrightarrow> word_text i"
    if "new_words cs" "\<forall>r i. refs r = Some i \<longrightarrow> word_text i" for refs
    using that
  proof (induction cs arbitrary: refs)
    case (Cons c cs)
    have "\<forall>r i. command_effect c refs r = Some i \<longrightarrow> word_text i"
      using Cons.prems by (auto simp: command_effect_value new_words_def split: if_splits)
    moreover have "new_words cs" using Cons.prems(1) by (simp add: new_words_def)
    ultimately show ?case using Cons.IH by simp
  qed simp
  then have "\<forall>r i. fold command_effect cs (word_refs s) r = Some i \<longrightarrow> word_text i"
    using assms word_refs_word by blast
  then show ?thesis by (auto simp: word_refs_def fun_eq_iff split: option.splits)
qed

lemma same_refs_keeps: "gs_refs s' = gs_refs s \<Longrightarrow> set (gs_blobs s) \<subseteq> set (gs_blobs s') \<Longrightarrow> keeps_os git_views p s s'"
  by (auto simp: keeps_os_def word_refs_def blob_named_iff fun_eq_iff)

lemma sample_git_keeps:
  assumes "args \<noteq> []" "hd args \<noteq> ''update-ref''"
  shows "keeps_os git_views p s (snd (sample_git args input s))"
  using assms unfolding sample_git_def
  by (intro same_refs_keeps) (auto split: list.split option.split)

lemma git_update_transaction:
  assumes "commands_ok cs"
  shows "sample_git [''update-ref'', ''--stdin''] (Some (str_bytes (transaction_text cs))) s =
    (if (\<forall>c \<in> set cs. command_holds (word_refs s) c) \<and> new_words cs
     then (Git_Exit True [] [], s\<lparr>gs_refs := fold command_effect cs (word_refs s)\<rparr>)
     else (Git_Exit False [] [], s))"
  using parse_transaction_text [of cs] assms by (simp add: sample_git_def git_update_def commands_ok_def)

lemma sample_git_reads: "git_reads sample_host git_views p"
  unfolding git_reads_def
proof (intro conjI allI impI)
  fix r s ok out err s'
  assume "h_git sample_host (git_run_call p [''show-ref'', ''--verify'', ''--hash'', r] None None) s
      = (Git_Exit ok out err, s')"
  then show "if ok then \<exists>i. v_refs git_views s p r = Some i \<and> word_text i \<and> out = str_bytes (i @ [CHR 0x0A])
      else v_refs git_views s p r = None"
    by (auto simp: sample_git_def line_of_def word_refs_word split: option.splits)
next
  fix i s out err s'
  assume "h_git sample_host (git_run_call p [''cat-file'', ''blob'', i] None None) s = (Git_Exit True out err, s')"
  then show "v_blobs git_views s p i = Some out"
    by (auto simp: sample_git_def split: option.splits)
next
  fix i d s out err s'
  assume "h_git sample_host (git_run_call p [''cat-file'', ''-e'', i @ ''^{object}''] None d) s = (Git_Exit True out err, s')"
  then show "\<not> zero_text i" by (auto simp: sample_git_def)
qed

lemma sample_git_writes: "git_writes sample_host git_views p"
  unfolding git_writes_def
proof (intro conjI allI impI)
  fix bs s out err s'
  assume "h_git sample_host (git_run_call p [''hash-object'', ''-w'', ''--stdin'', ''-t'', ''blob''] (Some bs) None) s
      = (Git_Exit True out err, s')"
  then show "\<exists>i. word_text i \<and> \<not> zero_text i \<and> out = str_bytes (i @ [CHR 0x0A]) \<and> v_blobs git_views s' p i = Some bs"
    by (auto simp: sample_git_def line_of_def blob_id_word blob_named_iff intro!: exI [of _ "blob_id bs"])
next
  fix cs s run s'
  assume ok: "commands_ok cs" and run: "h_git sample_host (git_run_call p [''update-ref'', ''--stdin'']
      (Some (str_bytes (transaction_text cs))) None) s = (run, s')"
  note result = run [unfolded sample_host_git git_update_transaction [OF ok]]
  show "v_blobs git_views s' p i = Some b" if "v_blobs git_views s p i = Some b" for i b
    using that result by (auto simp: blob_named_iff split: if_splits)
  show "(\<forall>c \<in> set cs. command_holds (v_refs git_views s p) c) \<and>
      v_refs git_views s' p = fold command_effect cs (v_refs git_views s p) \<or>
      v_refs git_views s' p = v_refs git_views s p \<and> (\<forall>out err. run \<noteq> Git_Exit True out err)"
    using result word_refs_fold by (auto split: if_splits)
qed

lemma sample_git_ok: "git_ok sample_host git_views p"
  unfolding git_ok_def
proof (intro conjI sample_git_reads sample_git_writes)
  show "git_keeps sample_host git_views p"
    unfolding git_keeps_def sample_host_git using sample_git_keeps by blast
  show "fs_keeps sample_host git_views p"
    by (simp add: fs_keeps_def)
qed

section \<open>A repository\<close>

definition sample_repo :: repository where
  "sample_repo = \<lparr>repo_id = sample_repository, repo_path = [''demo.git''], repo_format = LegacySha1\<rparr>"

definition sample_quarantine :: quarantine where
  "sample_quarantine = \<lparr>q_repository = sample_repo, q_path = [''demo.git'', ''q'', ''7-0''],
     q_objects = [''demo.git'', ''q'', ''7-0'', ''objects'']\<rparr>"

definition empty_world :: "git_state world" where
  "empty_world = \<lparr>os = \<lparr>gs_refs = \<lambda>_. None, gs_blobs = []\<rparr>, quarantine_sequence = 0\<rparr>"

lemma empty_world_consistent: "store_consistent sample git_views sample_repo (os empty_world)"
  by (simp add: store_consistent_def publisher_consistent_def Let_def mirrors_def empty_world_def
      word_refs_def ref_targets_def)

lemma sample_signed_refs: "rtp_refs (rtr_payload (sample_signed None n)) = rev (sample_refs n)"
  using ref_transition_verify_facts(3) [OF sample_published_ok(1) [OF disjI1 [OF refl]]]
    sample_published_ok(2) [OF disjI1 [OF refl]] by metis

lemma sample_plain_names: "plain_names (sample_signed None n)"
  by (simp add: plain_names_def sample_signed_refs) (simp add: sample_refs_def line_word_def)

section \<open>A run\<close>

lemma git_run_sample:
  "sample_git args input (os w) = (Git_Exit True out err, s) \<Longrightarrow>
     git_run sample_host p args input d w = (Inr out, w\<lparr>os := s\<rparr>)"
  "sample_git args input (os w) = (Git_Exit False out err, s) \<Longrightarrow>
     git_run sample_host p args input d w =
       (Inl (Git (join CHR '' '' args) (trim (from_utf8_lossy err))), w\<lparr>os := s\<rparr>)"
  by (simp_all add: git_run_def execute_git_def)

lemma resolve_ref_absent:
  assumes "word_refs (os w) r = None" shows "resolve_ref sample_host repo r w = (Inr None, w)"
proof -
  have "sample_git [''show-ref'', ''--verify'', ''--hash'', r] None (os w) = (Git_Exit False [] [], os w)"
    using assms by (simp add: sample_git_def)
  note run = git_run_sample(2) [where w = w, OF this]
  show ?thesis
    by (simp add: resolve_ref_def unless_git_fails_def bindS_def catchS_def run okS_def)
qed

lemma publisher_state_absent:
  assumes "word_refs (os w) (state_ref E P) = None"
  shows "publisher_state_with_object E sample_host repo P w = (Inr None, w)"
    and "publisher_state E sample_host repo P w = (Inr None, w)"
  by (simp_all add: publisher_state_def publisher_state_with_object_def bindS_def okS_def
      resolve_ref_absent [OF assms])

lemma write_blob_sample:
  "write_blob sample_host repo bs w = (Inr (blob_id bs), w\<lparr>os := (os w)\<lparr>gs_blobs := bs # gs_blobs (os w)\<rparr>\<rparr>)"
proof -
  have "sample_git [''hash-object'', ''-w'', ''--stdin'', ''-t'', ''blob''] (Some bs) (os w) =
      (Git_Exit True (line_of (blob_id bs)) [], (os w)\<lparr>gs_blobs := bs # gs_blobs (os w)\<rparr>)"
    by (simp add: sample_git_def)
  note run = git_run_sample(1) [where w = w, OF this]
  show ?thesis
    by (simp add: write_blob_def bindS_def run liftS_def line_of_def parse_word_line trim_word_line blob_id_word)
qed

definition sample_target :: "('z) env_scheme \<Rightarrow> git_object_id \<Rightarrow> bool" where
  "sample_target E x \<longleftrightarrow> object_validate x = Inr () \<and> algorithm x = ''sha1'' \<and> \<not> zero_text (object_id_hex E x)"

lemma verify_each_target_sample:
  assumes "\<forall>x \<in> set xs. sample_target E x" "repo_format (q_repository q) = LegacySha1"
  shows "\<exists>roots'. verify_each_target E sample_host q roots xs w = (Inr roots', w)"
  using assms(1)
proof (induction xs arbitrary: roots)
  case (Cons x xs)
  have "sample_git [''cat-file'', ''-e'', object_id_hex E x @ ''^{object}''] None (os w) =
      (Git_Exit True [] [], os w)"
    using Cons.prems by (simp add: sample_git_def sample_target_def)
  note run = git_run_sample(1) [where w = w, OF this]
  show ?case
    using Cons assms(2) by (simp add: bindS_def core_step_def liftS_def run sample_target_def format_name_def)
qed (simp add: okS_def)

lemma verify_targets_sample:
  assumes "\<forall>x \<in> set xs. sample_target E x" "repo_format (q_repository q) = LegacySha1"
  shows "verify_targets E sample_host q xs w = (Inr (), w)"
proof -
  have "sample_git [''rev-list'', ''--objects'', ''--stdin'', ''--missing=error''] i (os w) = (Git_Exit True [] [], os w)"
    "sample_git [''fsck'', ''--strict'', ''--connectivity-only'', ''--no-dangling''] i (os w) = (Git_Exit True [] [], os w)" for i
    by (simp_all add: sample_git_def)
  note run = this [THEN git_run_sample(1) [where w = w]]
  obtain roots where "verify_each_target E sample_host q [] xs w = (Inr roots, w)"
    using verify_each_target_sample [OF assms] by blast
  then show ?thesis by (simp add: verify_targets_def Let_def bindS_def okS_def run)
qed

lemma promote_sample:
  "length source \<le> 100 \<Longrightarrow> promote_objects sample_host source destination w = (Inr (), w)"
  by (simp add: promote_objects.simps promote_entries.simps at_path_def errS_def on_os_def)

lemma hex_word:
  assumes "hex_ok E" "bs \<noteq> []" shows "word_text (hex_encode E bs)"
proof -
  have "\<forall>c \<in> set hex_digits. plain_char c"
    by (simp add: hex_digits_def plain_char_def less_eq_char_def)
  then have "\<forall>c \<in> set (hex_encode E bs). plain_char c" using assms(1) by (auto simp: hex_ok_def)
  moreover have "hex_encode E bs \<noteq> []"
    using assms by (metis hex_ok_def length_0_conv mult_eq_0_iff zero_neq_numeral)
  ultimately show ?thesis by (simp add: word_text_def)
qed

text \<open>What a first transition must satisfy for the sample host to commit it.\<close>

definition first_commit ::
  "('z) refs_env_scheme \<Rightarrow> repository \<Rightarrow> ref_transition \<Rightarrow> signer_binding \<Rightarrow> signer_selection \<Rightarrow> ref_state \<Rightarrow> bool" where
  "first_commit E repo t b sel st \<longleftrightarrow>
     hex_ok E \<and> base32_ok E \<and> refs_codecs_ok E \<and> repo_format repo = LegacySha1 \<and>
     binding_authentic E b \<and> selects b sel \<and>
     ref_transition_verify E t (repo_id repo) b sel None = Inr st \<and> plain_refs E (rs_refs st) \<and>
     (\<forall>x \<in> set (map rt_target (rs_refs st)). sample_target E x)"

abbreviation first_commands ::
  "('z) env_scheme \<Rightarrow> signer_selection \<Rightarrow> ref_state \<Rightarrow> string \<Rightarrow> string \<Rightarrow> ref_command list" where
  "first_commands E sel st so to \<equiv> transaction_commands E LegacySha1 (sel_identity sel) None st so to"

lemma first_commands_hold:
  assumes "\<forall>r. word_refs s r = None"
  shows "\<forall>c \<in> set (first_commands E sel st so to). command_holds (word_refs s) c"
  using assms zero_id_text
  by (auto simp: transaction_commands_def previous_refs_def btree_get_def)

lemma first_commands_words:
  assumes "hex_ok E" "valid_refs (rs_refs st)" "word_text so" "word_text to"
  shows "new_words (first_commands E sel st so to)"
proof -
  have "word_text (object_id_hex E t)" if "(n, t) \<in> set (refs_map (rs_refs st))" for n t
  proof -
    have "t \<in> rt_target ` set (rs_refs st)"
      using that ref_targets_mem refs_map_entries [OF assms(2)] by blast
    then have "object_bytes t \<noteq> []"
      using assms(2) by (auto simp: valid_refs_def valid_object_def)
    then show ?thesis by (simp add: object_id_hex_def hex_word [OF assms(1)])
  qed
  then show ?thesis
    using assms(3,4) by (auto simp: new_words_def transaction_commands_def previous_refs_def split: if_splits)
qed

lemma first_update:
  assumes "first_commit E repo t b sel st"
    and "\<forall>r. word_refs (os w) r = None" "word_text so" "word_text to" "\<not> zero_text to"
  shows "update_publisher_refs E sample_host repo (sel_identity sel) None st so to w =
    (Inr (), w\<lparr>os := (os w)\<lparr>gs_refs := fold command_effect (first_commands E sel st so to) (word_refs (os w))\<rparr>\<rparr>)"
proof -
  let ?cs = "first_commands E sel st so to"
  have E: "hex_ok E" "base32_ok E" "repo_format repo = LegacySha1" "plain_refs E (rs_refs st)"
    "valid_refs (rs_refs st)"
    using assms(1) ref_transition_verify_facts(4) [of E t] by (auto simp: first_commit_def)
  have msg: "update_transaction E (repo_format repo) (sel_identity sel) None st so to = transaction_text ?cs"
    by (simp add: update_transaction_commands E(3))
  have "commands_ok ?cs"
    by (rule transaction_commands_ok [OF E(1,2,5,4)]) (use assms(3-5) in simp_all)
  then have "sample_git [''update-ref'', ''--stdin''] (Some (str_bytes (transaction_text ?cs))) (os w) =
      (Git_Exit True [] [], (os w)\<lparr>gs_refs := fold command_effect ?cs (word_refs (os w))\<rparr>)"
    using git_update_transaction first_commands_hold [OF assms(2)]
      first_commands_words [OF E(1,5) assms(3,4)] by simp
  note run = git_run_sample(1) [where w = w, OF this]
  show ?thesis by (simp add: update_publisher_refs_def msg bindS_def run okS_def)
qed

text \<open>Such a transition is committed to an empty repository, from any quarantine.\<close>

lemma first_committed:
  assumes "first_commit E repo t b sel st"
    and "\<forall>r. word_refs (os w) r = None" "q_repository q = repo" "length (q_objects q) \<le> 100"
  shows "\<exists>w'. commit E sample_host repo q t b sel w = (Inr (Applied st), w') \<and>
    quarantine_sequence w' = quarantine_sequence w"
proof -
  have E: "refs_codecs_ok E" "repo_format repo = LegacySha1"
    "ref_transition_verify E t (repo_id repo) b sel None = Inr st"
    "binding_verify_selected E b sel = Inr ()" "\<forall>x \<in> set (map rt_target (rs_refs st)). sample_target E x"
    using assms(1) by (auto simp: first_commit_def binding_verify_selected_Inr_iff)
  note tid = ref_transition_verify_facts(5) [OF E(3)]
  obtain sb tb where bytes: "canonical_bytes (ref_state_codec E) st = Inr sb"
    "canonical_bytes (ref_transition_codec E) t = Inr tb"
    using E(1) canonical_bytes_total [of "ref_state_codec E" st]
      canonical_bytes_total [of "ref_transition_codec E" t] by (auto simp: refs_codecs_ok_def)
  have targets: "verify_targets E sample_host q (map rt_target (rs_refs st)) w = (Inr (), w)" for w
    using verify_targets_sample [OF E(5)] assms(3) E(2) by simp
  define so to where "so = blob_id sb" and "to = blob_id tb"
  define w2 where "w2 = w\<lparr>os := (os w)\<lparr>gs_blobs := tb # sb # gs_blobs (os w)\<rparr>\<rparr>"
  have w2: "\<forall>r. word_refs (os w2) r = None" using assms(2) by (simp add: w2_def word_refs_def)
  have blobs: "write_blob sample_host repo sb w = (Inr so, w\<lparr>os := (os w)\<lparr>gs_blobs := sb # gs_blobs (os w)\<rparr>\<rparr>)"
    "write_blob sample_host repo tb (w\<lparr>os := (os w)\<lparr>gs_blobs := sb # gs_blobs (os w)\<rparr>\<rparr>) = (Inr to, w2)"
    by (simp_all add: write_blob_sample so_def to_def w2_def)
  note update = first_update [OF assms(1) w2, of so to]
  show ?thesis
    using assms(3,4) update
    by (simp add: commit_def bindS_def core_step_def liftS_def E(3,4) tid
        publisher_state_absent assms(2) commit_next_def targets promote_sample
        write_and_update_def bytes blobs update_or_reread_def catchS_def okS_def so_def [symmetric]
        blob_id_word [of tb, folded to_def] blob_id_word [of sb, folded so_def])
      (simp add: w2_def)
qed

section \<open>The sample transition\<close>

lemma sample_object_hex: "object_id_hex sample (sample_object n) = concat (replicate 20 (hex_of_byte n))"
  by (simp add: object_id_hex_def sample_object_def object_sha1_def sample_hex)

lemma sample_targets: "\<forall>x \<in> set (map rt_target (rs_refs sample_first)). sample_target sample x"
proof -
  have "hex_of_byte 1 = ''01''" by code_simp
  then have "sample_target sample (sample_object 1)"
    by (simp add: sample_target_def sample_object_hex zero_text_def results numeral_eq_Suc)
      (simp add: sample_object_def object_sha1_def)
  then show ?thesis by (simp add: sample_first_ok(2) sample_refs_def)
qed

lemma sample_first_plain: "plain_refs sample (rs_refs sample_first)"
proof -
  have "\<forall>x \<in> set (rs_refs sample_first). line_word (rt_name x)"
    by (simp add: sample_first_ok(2)) (simp add: sample_refs_def line_word_def)
  then show ?thesis using sample_targets by (auto simp: plain_refs_def sample_target_def)
qed

lemma sample_first_commit:
  "first_commit sample sample_repo (sample_signed None 1) (sample_binding 1) (sample_selection 1) sample_first"
proof -
  have "repo_id sample_repo = sample_repository" by (simp add: sample_repo_def)
  moreover have "repo_format sample_repo = LegacySha1" by (simp add: sample_repo_def)
  ultimately show ?thesis
    using sample_first_ok(1) sample_targets sample_first_plain sample_binding_facts(1) sample_selects [of 1]
    by (simp add: first_commit_def sample_hex_ok sample_base32_ok sample_refs_codecs_ok)
qed

lemmas sample_commit = first_committed [OF sample_first_commit]

end
