(* ===== verification/Quarantine.thy ===== *)
theory Quarantine
  imports Store
begin

text \<open>
  Bounds of the store's operations: how often \<open>begin_quarantine\<close> tries, which directory it gives,
  and how much pack data is read, accepted and returned.
\<close>

section \<open>Allocating a quarantine\<close>

definition quarantine_name :: "'s host \<Rightarrow> u64 \<Rightarrow> string" where
  "quarantine_name host n = decimal (unat (h_pid host)) @ ''-'' @ decimal (unat n)"

lemma on_os_sequence: "on_os f w = (r, w') \<Longrightarrow> quarantine_sequence w' = quarantine_sequence w"
  by (auto simp: on_os_def split: prod.splits)

text \<open>One attempt takes one number of the sequence.\<close>

lemma allocate_quarantine_Suc:
  "allocate_quarantine host repo root (Suc n) w =
     (let p = root @ [quarantine_name host (quarantine_sequence w)] in
      case on_os (h_create_dir host p) (snd (next_sequence w)) of
        (Inr u, w1) \<Rightarrow> bindS (at_path (p @ [''objects'']) (on_os (h_create_dir host (p @ [''objects''])))) (\<lambda>_.
           okS \<lparr>q_repository = repo, q_path = p, q_objects = p @ [''objects'']\<rparr>) w1
      | (Inl e, w1) \<Rightarrow>
           if error_kind e = Already_Exists then allocate_quarantine host repo root n w1
           else (Inl (Io p e), w1))"
  by (simp add: bindS_def next_sequence_def catchS_def Let_def failS_def quarantine_name_def
      split: prod.splits sum.splits)

lemma sequence_next: "quarantine_sequence (snd (next_sequence w)) = quarantine_sequence w + 1"
  by (simp add: next_sequence_def)

lemma objects_step_sequence:
  assumes "bindS (at_path d (on_os f)) (\<lambda>_. okS q) w = (r, w')"
  shows "quarantine_sequence w' = quarantine_sequence w" "r = Inr q' \<Longrightarrow> q' = q"
proof -
  obtain x w1 where f: "on_os f w = (x, w1)" by (cases "on_os f w")
  then have "w' = w1" "r = Inr q' \<Longrightarrow> q' = q"
    using assms by (cases x; auto simp: bindS_def at_path_def errS_def okS_def)+
  then show "quarantine_sequence w' = quarantine_sequence w" "r = Inr q' \<Longrightarrow> q' = q"
    using on_os_sequence [OF f] by simp_all
qed

lemma allocate_quarantine_bounded:
  assumes "allocate_quarantine host repo root n w = (r, w')"
  shows "\<exists>k \<le> n. quarantine_sequence w' = quarantine_sequence w + of_nat k \<and>
    (\<forall>q. r = Inr q \<longrightarrow> (\<exists>j < k. q_repository q = repo \<and>
       q_path q = root @ [quarantine_name host (quarantine_sequence w + of_nat j)] \<and>
       q_objects q = q_path q @ [''objects'']))"
  using assms
proof (induction n arbitrary: w)
  case 0
  then show ?case by (auto simp: failS_iff)
next
  case (Suc n)
  let ?p = "root @ [quarantine_name host (quarantine_sequence w)]"
  obtain made w1 where made: "on_os (h_create_dir host ?p) (snd (next_sequence w)) = (made, w1)"
    by (cases "on_os (h_create_dir host ?p) (snd (next_sequence w))")
  have w1: "quarantine_sequence w1 = quarantine_sequence w + 1"
    using on_os_sequence [OF made] by (simp add: sequence_next)
  note run = Suc.prems [unfolded allocate_quarantine_Suc Let_def made prod.case]
  show ?case
  proof (cases made)
    case (Inr u)
    note step = objects_step_sequence [OF run [unfolded Inr sum.case]]
    show ?thesis
      using step(1) w1 by (intro exI [of _ 1]) (auto dest!: step(2))
  next
    case (Inl e)
    show ?thesis
    proof (cases "error_kind e = Already_Exists")
      case True
      then have "allocate_quarantine host repo root n w1 = (r, w')" using run Inl by simp
      from Suc.IH [OF this] obtain k where k: "k \<le> n"
        "quarantine_sequence w' = quarantine_sequence w1 + of_nat k"
        "\<forall>q. r = Inr q \<longrightarrow> (\<exists>j < k. q_repository q = repo \<and>
           q_path q = root @ [quarantine_name host (quarantine_sequence w1 + of_nat j)] \<and>
           q_objects q = q_path q @ [''objects''])" by blast
      show ?thesis
      proof (rule exI [of _ "Suc k"], intro conjI allI impI)
        show "Suc k \<le> Suc n" "quarantine_sequence w' = quarantine_sequence w + of_nat (Suc k)"
          using k(1,2) w1 by simp_all
      next
        fix q assume "r = Inr q"
        then obtain j where "j < k" "q_repository q = repo"
          "q_path q = root @ [quarantine_name host (quarantine_sequence w + of_nat (Suc j))]"
          "q_objects q = q_path q @ [''objects'']"
          using k(3) w1 by (auto simp: add.assoc)
        then show "\<exists>j < Suc k. q_repository q = repo \<and>
           q_path q = root @ [quarantine_name host (quarantine_sequence w + of_nat j)] \<and>
           q_objects q = q_path q @ [''objects'']"
          by (intro exI [of _ "Suc j"]) simp
      qed
    next
      case False
      then have "r = Inl (Io ?p e)" "w' = w1" using run Inl by simp_all
      then show ?thesis using w1 by (intro exI [of _ 1]) simp
    qed
  qed
qed

text \<open>C33: \<open>begin_quarantine\<close> always returns. It takes at most a hundred numbers of the process-wide
  sequence, whatever the file system answers, and the directory it returns is named by the process
  and one of the numbers taken in this call, so that no later call of the process is given the same
  name before the 64-bit sequence wraps.\<close>

theorem begin_quarantine_bounded:
  assumes "begin_quarantine host repo w = (r, w')"
  shows "\<exists>k \<le> 100. quarantine_sequence w' = quarantine_sequence w + of_nat k \<and>
    (\<forall>q. r = Inr q \<longrightarrow> (\<exists>j < k. q_repository q = repo \<and>
       q_path q = repo_path repo @ [''q'', quarantine_name host (quarantine_sequence w + of_nat j)] \<and>
       q_objects q = q_path q @ [''objects'']))"
proof -
  let ?root = "repo_path repo @ [''q'']"
  obtain made w1 where made: "at_path ?root (on_os (h_create_dir_all host ?root)) w = (made, w1)"
    by (cases "at_path ?root (on_os (h_create_dir_all host ?root)) w")
  then have w1: "quarantine_sequence w1 = quarantine_sequence w"
    by (auto simp: at_path_def errS_iff dest: on_os_sequence)
  show ?thesis
  proof (cases made)
    case (Inl e)
    then show ?thesis using assms made w1
      by (intro exI [of _ 0]) (auto simp: begin_quarantine_def Let_def bindS_def)
  next
    case (Inr u)
    then have "allocate_quarantine host repo ?root 100 w1 = (r, w')"
      using assms made by (simp add: begin_quarantine_def Let_def bindS_def)
    from allocate_quarantine_bounded [OF this] show ?thesis using w1 by simp
  qed
qed

section \<open>Pack data\<close>

lemma git_run_bounded_length:
  assumes "git_run_bounded host p args input limit w = (Inr out, w')"
  shows "length out \<le> unat limit"
  using assms by (auto simp: git_run_bounded_def Let_def split: prod.splits git_answer.splits if_splits)

lemma revision_lines_objects:
  "revision_lines E repo mark objects = Inr lines \<Longrightarrow> x \<in> set objects \<Longrightarrow>
     object_validate x = Inr () \<and> algorithm x = format_name (repo_format repo)"
  by (induction objects arbitrary: lines)
    (auto simp: require_object_format_def bindE_Inr_iff map_err_Inr_iff ensure_Inr_iff)

text \<open>C36: pack data is bounded on both sides. A pack longer than the limit is refused before Git
  runs, and a pack that is exported is at most as long as the limit and was asked for with
  well-formed identifiers of the repository's own object format only.\<close>

theorem pack_bounds:
  "(unat limit < length pack \<longrightarrow> import_pack host q pack limit w = (Inl (PackTooLarge limit), w)) \<and>
   (export_pack E host repo wants prerequisites limit w = (Inr out, w') \<longrightarrow>
      length out \<le> unat limit \<and>
      (\<forall>x \<in> set wants \<union> set prerequisites. object_validate x = Inr () \<and>
         algorithm x = format_name (repo_format repo)))"
proof (intro conjI impI)
  assume "unat limit < length pack"
  then show "import_pack host q pack limit w = (Inl (PackTooLarge limit), w)"
    by (simp add: import_pack_def failS_def)
next
  assume "export_pack E host repo wants prerequisites limit w = (Inr out, w')"
  then obtain wanted excluded where *: "revision_lines E repo [] wants = Inr wanted"
    "revision_lines E repo ''^'' prerequisites = Inr excluded"
    and run: "git_run_bounded host (repo_path repo) [''pack-objects'', ''--stdout'', ''--revs'']
      (str_bytes (wanted @ excluded)) limit w = (Inr out, w')"
    by (auto simp: export_pack_def bindS_Inr_iff liftS_iff dest!: sym [of "Inr _"])
  show "\<forall>x \<in> set wants \<union> set prerequisites. object_validate x = Inr () \<and>
      algorithm x = format_name (repo_format repo)"
    using revision_lines_objects * by blast
  show "length out \<le> unat limit" by (rule git_run_bounded_length [OF run])
qed

end
