(* ===== verification/Store_Witnesses.thy ===== *)
theory Store_Witnesses
  imports Sample_Git Quarantine
begin

text \<open>
  Witnesses for the properties of the store and of replication: the model runs on the sample Git
  host, where a first transition is committed, read back, and received by transfer.
\<close>

section \<open>Commit\<close>

definition sample_quarantine :: quarantine where
  "sample_quarantine = \<lparr>q_repository = sample_repo, q_path = [''demo.git'', ''q'', ''7-0''],
     q_objects = [''demo.git'', ''q'', ''7-0'', ''objects'']\<rparr>"

lemma empty_world_refs: "\<forall>r. word_refs (os empty_world) r = None"
  by (simp add: empty_world_def word_refs_def)

definition committed_world :: "git_state world" where
  "committed_world = snd (commit sample sample_host sample_repo sample_quarantine (sample_signed None 1)
     (sample_binding 1) (sample_selection 1) empty_world)"

lemma sample_committed:
  "commit sample sample_host sample_repo sample_quarantine (sample_signed None 1) (sample_binding 1)
     (sample_selection 1) empty_world = (Inr (Applied sample_first), committed_world)"
  using sample_commit [OF empty_world_refs, of sample_quarantine]
  by (auto simp: committed_world_def sample_quarantine_def)

lemma sample_binding_codec_ok: "codec_ok (binding_codec sample)"
  using sample_identity_codecs_ok by (simp add: identity_codecs_ok_def)

lemmas sample_lawful = sample_hex_ok sample_base32_ok sample_refs_codecs_ok sample_git_ok sample_plain_names

lemma empty_stored: "stored sample git_views p (os empty_world) P = None"
  using empty_world_refs by (simp add: stored_def)



text \<open>The sample host reads what a consistent repository stores.\<close>

lemma publisher_state_sample:
  assumes "publisher_consistent E git_views repo (os w) P"
  shows "publisher_state_with_object E sample_host repo P w = (Inr (stored E git_views (repo_path repo) (os w) P), w)"
proof (cases "word_refs (os w) (state_ref E P)")
  case None
  then show ?thesis by (simp add: publisher_state_absent stored_def)
next
  case (Some i)
  then obtain st where st: "stored E git_views (repo_path repo) (os w) P = Some (i, st)"
    "rs_repository st = repo_id repo" "rs_publisher st = P" and i: "word_text i"
    using assms by (auto simp: publisher_consistent_def Let_def)
  then obtain bs where bs: "blob_named (os w) i = Some bs" "from_canonical_bytes (ref_state_codec E) bs = Inr st"
    using Some by (auto simp: stored_def split: option.splits sum.splits)
  have "sample_git [''show-ref'', ''--verify'', ''--hash'', state_ref E P] None (os w) = (Git_Exit True (line_of i) [], os w)"
    "sample_git [''cat-file'', ''blob'', i] None (os w) = (Git_Exit True bs [], os w)"
    using Some bs(1) by (simp_all add: sample_git_def)
  note run = this [THEN git_run_sample(1) [where w = w]]
  have "resolve_ref sample_host repo (state_ref E P) w = (Inr (Some i), w)"
    by (simp add: resolve_ref_def unless_git_fails_def bindS_def catchS_def okS_def liftS_def run
        line_of_def parse_word_line [OF i] trim_word_line [OF i])
  then show ?thesis
    by (simp add: publisher_state_with_object_def bindS_def run core_step_def liftS_def bs(2) st okS_def)
qed

lemma committed_stored:
  "\<exists>i. stored sample git_views [''demo.git''] (os committed_world) (sample_id 1) = Some (i, sample_first)"
proof -
  have "publisher_consistent sample git_views sample_repo (os empty_world) (sel_identity (sample_selection 1))"
    using empty_world_consistent by (simp add: store_consistent_def)
  from commit_applied [OF sample_lawful this sample_committed]
  show ?thesis by (simp add: publishes_def Let_def sample_repo_def sample_selection_def)
qed

lemma committed_consistent: "publisher_consistent sample git_views sample_repo (os committed_world) P"
proof -
  have "publisher_consistent sample git_views sample_repo (os empty_world) (sel_identity (sample_selection 1))"
    using empty_world_consistent by (simp add: store_consistent_def)
  from commit_effect_history(1) [OF sample_hex_ok empty_world_consistent
      commit_has_effect [OF sample_lawful this sample_committed]]
  show ?thesis by (simp add: store_consistent_def)
qed

lemma sample_recommitted:
  "\<exists>c w. commit sample sample_host sample_repo sample_quarantine (sample_signed None 1) (sample_binding 1)
     (sample_selection 1) committed_world = (Inr c, w)"
proof -
  obtain i where stored: "stored sample git_views [''demo.git''] (os committed_world) (sample_id 1) = Some (i, sample_first)"
    using committed_stored by blast
  have "publisher_state_with_object sample sample_host sample_repo (sel_identity (sample_selection 1)) committed_world
      = (Inr (Some (i, sample_first)), committed_world)"
    using publisher_state_sample [OF committed_consistent, of "sample_id 1"] stored
    by (simp add: sample_selection_def) (simp add: sample_repo_def)
  moreover have "transition_id sample (sample_signed None 1) = Inr (rs_transition sample_first)"
    by (rule ref_transition_verify_facts(5) [OF sample_first_ok(1)])
  moreover have "repo_path (q_repository sample_quarantine) = repo_path sample_repo"
    by (simp add: sample_quarantine_def)
  moreover have "binding_verify_selected sample (sample_binding 1) (sample_selection 1) = Inr ()"
    by (simp add: binding_verify_selected_Inr_iff)
  ultimately show ?thesis by (simp add: commit_def bindS_def core_step_def liftS_def okS_def)
qed


section \<open>Transfers\<close>

definition sample_pack :: bytes where
  "sample_pack = [1, 2, 3]"

definition sample_transfer :: transfer where
  "sample_transfer = projr (transfer_new sample sample_repository (sample_binding 1) (sample_signed None 1)
     None [sample_object 2, sample_object 1, sample_object 2] sample_pack)"

lemma transfer_new_total:
  assumes "refs_codecs_ok E" "codec_ok (binding_codec E)"
  shows "\<exists>x. transfer_new E repository binding t parent objects payload = Inr x"
proof -
  obtain b tb where "canonical_bytes (binding_codec E) binding = Inr b"
    and t: "canonical_bytes (ref_transition_codec E) t = Inr tb"
    using assms canonical_bytes_total [of "binding_codec E" binding]
      canonical_bytes_total [of "ref_transition_codec E" t] by (auto simp: refs_codecs_ok_def)
  moreover from this have "from_canonical_bytes (binding_codec E) b = Inr binding"
    using canonical_bytes_iff [OF assms(2)] by simp
  moreover have "\<exists>d. transition_id E t = Inr d" using t by (simp add: transition_id_def)
  ultimately show ?thesis
    by (auto simp: transfer_new_def Let_def transfer_binding_identity_def)
qed

lemma sample_transfer_made:
  "transfer_new sample (repo_id sample_repo) (sample_binding 1) (sample_signed None 1)
     None [sample_object 2, sample_object 1, sample_object 2] sample_pack = Inr sample_transfer"
proof -
  have "repo_id sample_repo = sample_repository" by (simp add: sample_repo_def)
  then show ?thesis
    using transfer_new_total [OF sample_refs_codecs_ok sample_binding_codec_ok]
    by (metis sample_transfer_def sum.sel(2))
qed

lemma transfer_new_authentic_witness:
  "transfer_authentic sample sample_repo sample_transfer (sample_selection 1) 3 (sample_binding 1) (sample_signed None 1) \<and>
   tr_payload sample_transfer = sample_pack \<and>
   set (tm_prerequisites (tr_manifest sample_transfer)) = {ObjectPresent (sample_object 1), ObjectPresent (sample_object 2)} \<and>
   sorted_wrt (<) (tm_prerequisites (tr_manifest sample_transfer))"
proof -
  have "of_nat (length sample_pack) \<le> (3 :: u64)" by (simp add: sample_pack_def)
  from transfer_new_authentic [OF sample_binding_codec_ok sample_transfer_made sample_binding_facts(1) sample_selects this]
  show ?thesis by auto
qed

lemma apply_transfer_unauthentic_witness:
  "\<exists>e. apply_transfer sample sample_host sample_repo (sample_transfer\<lparr>tr_payload := []\<rparr>)
     (sample_selection 1) 3 empty_world = (Inl e, empty_world)"
proof -
  have "pd_length (tm_payload (tr_manifest sample_transfer)) = 3"
    using transfer_new_Inr(8) [OF sample_binding_codec_ok sample_transfer_made, of 3]
      transfer_new_Inr(4) [OF sample_binding_codec_ok sample_transfer_made]
    by (simp add: transfer_validate_Inr_iff sample_pack_def)
  then have "\<nexists>binding t. transfer_authentic sample sample_repo (sample_transfer\<lparr>tr_payload := []\<rparr>)
      (sample_selection 1) 3 binding t"
    by (simp add: transfer_authentic_def transfer_validate_Inr_iff)
  from apply_transfer_unauthentic [OF sample_refs_codecs_ok sample_binding_codec_ok this]
  show ?thesis by blast
qed

abbreviation fresh_quarantine :: "repository \<Rightarrow> 's world \<Rightarrow> quarantine" where
  "fresh_quarantine repo w \<equiv>
     \<lparr>q_repository = repo,
      q_path = repo_path repo @ [''q'', quarantine_name sample_host (quarantine_sequence w)],
      q_objects = repo_path repo @ [''q'', quarantine_name sample_host (quarantine_sequence w), ''objects'']\<rparr>"

lemma sample_begin:
  "begin_quarantine sample_host repo w =
     (Inr (fresh_quarantine repo w), w\<lparr>quarantine_sequence := quarantine_sequence w + 1\<rparr>)"
proof -
  have alloc: "allocate_quarantine sample_host repo root (Suc n) w =
      (Inr \<lparr>q_repository = repo, q_path = root @ [quarantine_name sample_host (quarantine_sequence w)],
         q_objects = root @ [quarantine_name sample_host (quarantine_sequence w), ''objects'']\<rparr>,
       w\<lparr>quarantine_sequence := quarantine_sequence w + 1\<rparr>)" for root n
    by (simp add: bindS_def allocate_quarantine_Suc Let_def next_sequence_def at_path_def errS_def on_os_def okS_def
        del: allocate_quarantine.simps)
  then show ?thesis
    using alloc [of _ 99] by (simp add: begin_quarantine_def Let_def bindS_def at_path_def errS_def on_os_def)
qed

lemma sample_import:
  "length pack \<le> unat limit \<Longrightarrow> import_pack sample_host q pack limit w = (Inr (), w)"
proof -
  have "sample_git [''index-pack'', ''--stdin'', ''--fix-thin''] i (os w) = (Git_Exit True [] [], os w)" for i
    by (simp add: sample_git_def)
  note run = this [THEN git_run_sample(1) [where w = w]]
  show "length pack \<le> unat limit \<Longrightarrow> ?thesis" by (simp add: import_pack_def bindS_def run okS_def)
qed

lemma sample_drop: "drop_quarantine sample_host q w = (Inr (), w)"
  by (simp add: drop_quarantine_def discard_def ignoreS_def on_os_def)

lemma sample_import_and_commit:
  assumes "\<forall>r. word_refs (os w) r = None"
  shows "\<exists>w'. import_and_commit sample sample_host sample_repo sample_pack 3 (sample_signed None 1)
     (sample_binding 1) (sample_selection 1) w = (Inr (TransferApplied sample_first), w')"
proof -
  let ?q = "fresh_quarantine sample_repo w"
  let ?w = "w\<lparr>quarantine_sequence := quarantine_sequence w + 1\<rparr>"
  obtain w' where "commit sample sample_host sample_repo ?q (sample_signed None 1) (sample_binding 1)
      (sample_selection 1) ?w = (Inr (Applied sample_first), w')"
    using sample_commit [of ?w ?q] assms by (auto simp: sample_repo_def)
  then show ?thesis
    by (simp add: import_and_commit_def bindS_def store_step_def errS_def sample_begin catchS_def
        sample_import sample_pack_def sample_drop okS_def liftS_def)
qed

lemma sample_has_object:
  assumes "sample_target E x" "repo_format repo = LegacySha1"
  shows "has_object E sample_host repo x w = (Inr True, w)"
proof -
  have "sample_git [''cat-file'', ''-e'', object_id_hex E x @ ''^{object}''] None (os w) = (Git_Exit True [] [], os w)"
    using assms by (simp add: sample_git_def sample_target_def)
  note run = git_run_sample(1) [where w = w, OF this]
  show ?thesis
    using assms by (simp add: has_object_def bindS_def require_object_format_def liftS_def run unless_git_fails_def
        catchS_def okS_def sample_target_def format_name_def)
qed

lemma sample_two: "sample_target sample (sample_object 1)" "sample_target sample (sample_object 2)"
proof -
  have hex: "hex_of_byte 1 = ''01''" "hex_of_byte 2 = ''02''" by code_simp+
  show "sample_target sample (sample_object 1)" "sample_target sample (sample_object 2)"
    by (simp_all add: sample_target_def sample_object_hex hex zero_text_def results numeral_eq_Suc)
      (simp_all add: sample_object_def object_sha1_def)
qed

lemma sample_missing:
  assumes "ObjectPresent ` {sample_object 1, sample_object 2} = set ps"
  shows "missing_prerequisites sample sample_host sample_repo current ps w = (Inr [], w)"
proof -
  have "\<forall>p \<in> set ps. p = ObjectPresent (sample_object 1) \<or> p = ObjectPresent (sample_object 2)"
    using assms by auto
  then show ?thesis
    by (induction ps) (auto simp: okS_def bindS_def prerequisite_present_def store_step_def errS_def
        sample_has_object sample_two sample_repo_def)
qed

lemma sample_transfer_authentic:
  "transfer_authentic sample sample_repo sample_transfer (sample_selection 1) 3 (sample_binding 1) (sample_signed None 1)"
  "ObjectPresent ` {sample_object 1, sample_object 2} = set (tm_prerequisites (tr_manifest sample_transfer))"
  "tr_payload sample_transfer = sample_pack"
proof -
  note x = transfer_new_Inr [OF sample_binding_codec_ok sample_transfer_made]
  show "tr_payload sample_transfer = sample_pack" by (rule x(4))
  show "ObjectPresent ` {sample_object 1, sample_object 2} = set (tm_prerequisites (tr_manifest sample_transfer))"
    by (auto simp: x(7))
  show "transfer_authentic sample sample_repo sample_transfer (sample_selection 1) 3 (sample_binding 1) (sample_signed None 1)"
    using x(1-6) x(8) [of 3] sample_selects [of 1]
    by (simp add: transfer_authentic_def sample_pack_def) (simp add: sample_selection_def)
qed

lemma sample_transferred:
  "\<exists>w'. apply_transfer sample sample_host sample_repo sample_transfer (sample_selection 1) 3 empty_world
     = (Inr (TransferApplied sample_first), w')"
proof -
  note a = sample_transfer_authentic
  obtain w' where "import_and_commit sample sample_host sample_repo sample_pack 3 (sample_signed None 1)
     (sample_binding 1) (sample_selection 1) empty_world = (Inr (TransferApplied sample_first), w')"
    using sample_import_and_commit [OF empty_world_refs] by blast
  then show ?thesis
    unfolding apply_transfer_authentic [OF a(1) sample_refs_codecs_ok sample_binding_codec_ok] apply_authentic_def
    by (simp add: bindS_def store_step_def errS_def publisher_state_absent empty_world_refs sample_missing [OF a(2)] a(3))
qed

lemma sample_transfer_plain:
  "canonical_bytes (ref_transition_codec sample) t = Inr (tr_transition sample_transfer) \<Longrightarrow> plain_names t"
proof -
  assume t: "canonical_bytes (ref_transition_codec sample) t = Inr (tr_transition sample_transfer)"
  have "t = sample_signed None 1"
    using canonical_bytes_inject [OF _ t transfer_new_Inr(2) [OF sample_binding_codec_ok sample_transfer_made]]
      sample_refs_codecs_ok by (simp add: refs_codecs_ok_def)
  then show "plain_names t" by (simp add: sample_plain_names)
qed



section \<open>Bounds\<close>

lemma begin_quarantine_bounded_witness:
  "\<exists>q k. fst (begin_quarantine sample_host sample_repo empty_world) = Inr q \<and> k \<le> (100 :: nat) \<and>
     quarantine_sequence (snd (begin_quarantine sample_host sample_repo empty_world)) = of_nat k"
proof -
  have "quarantine_sequence empty_world = 0" by (simp add: empty_world_def)
  then show ?thesis using begin_quarantine_bounded [OF sample_begin [of sample_repo empty_world]] sample_begin [of sample_repo empty_world] by auto
qed

lemma pack_bounds_witness:
  "import_pack sample_host sample_quarantine [1, 2, 3] 2 empty_world = (Inl (PackTooLarge 2), empty_world)"
proof -
  have "unat (2 :: u64) < length [1, 2, 3 :: u8]" by simp
  then show ?thesis
    using pack_bounds [of 2 "[1, 2, 3]" sample_host sample_quarantine empty_world] by blast
qed

end
