(* ===== verification/Ipc.thy ===== *)
theory Ipc
  imports Refs
begin

text \<open>
  \<open>crates/styrene-git-ipc/src/lib.rs\<close>: the requests and responses a Git client exchanges with
  the local daemon. The derived CBOR implementations are the codecs of \<open>ipc_env\<close>.
\<close>

section \<open>Identifiers\<close>

definition ipc_version :: u16 where
  "ipc_version = 1"

text \<open>The instances of \<open>fixed_id!\<close>; the length check is the decoder's.\<close>

datatype request_id = RequestId (request_id_bytes: "16 fixed")
datatype operation_id = OperationId (operation_id_bytes: "16 fixed")

definition decode_ipc_id :: "(string, bytes) result \<Rightarrow> (string, 16 fixed) result" where
  "decode_ipc_id decoded =
     bindE decoded (\<lambda>bs. ok_or ''invalid IPC identifier length'' (try_fixed bs))"

text \<open>\<open>u128::to_be_bytes\<close>\<close>

definition be_bytes :: "u128 \<Rightarrow> 16 fixed" where
  "be_bytes n = array_of (map (\<lambda>i. ucast (drop_bit (8 * (15 - i)) n)) [0..<16])"

section \<open>Requests\<close>

datatype repository_view = CanonicalView | PublisherView styrene_identity

record ref_update =
  ru_name :: string
  ru_expected :: "git_object_id option"
  ru_new :: "git_object_id option"
  ru_force :: bool

datatype request_body =
    GetCapabilities
  | ListRefs repository_id repository_view
  | Fetch repository_id repository_view "git_object_id list" "git_object_id list"
  | Push repository_id "ref_update list" bytes
  | StartSynchronization repository_id repository_view "string list"
  | GetOperation operation_id
  | CancelOperation operation_id
  | ListObservations operation_id "u64 option" u16
  | ListPushRefs repository_id

record request =
  rq_version :: u16
  rq_id :: request_id
  rq_body :: request_body

definition request_new :: "request_id \<Rightarrow> request_body \<Rightarrow> request" where
  "request_new i body = \<lparr>rq_version = ipc_version, rq_id = i, rq_body = body\<rparr>"

section \<open>Capabilities and errors\<close>

datatype capability =
    ReadRepository
  | WriteOwnNamespace
  | StartSynchronizationCap
  | ReadOperations
  | CancelOperations

text \<open>The derived order is the order of the variants.\<close>

fun capability_index :: "capability \<Rightarrow> nat" where
  "capability_index ReadRepository = 0"
| "capability_index WriteOwnNamespace = 1"
| "capability_index StartSynchronizationCap = 2"
| "capability_index ReadOperations = 3"
| "capability_index CancelOperations = 4"

lemma capability_index_inject [simp]: "capability_index a = capability_index b \<longleftrightarrow> a = b"
  by (cases a; cases b) simp_all

instantiation capability :: linorder
begin

definition less_eq_capability :: "capability \<Rightarrow> capability \<Rightarrow> bool" where
  "less_eq_capability a b \<longleftrightarrow> capability_index a \<le> capability_index b"

definition less_capability :: "capability \<Rightarrow> capability \<Rightarrow> bool" where
  "less_capability a b \<longleftrightarrow> capability_index a < capability_index b"

instance
  by standard (auto simp: less_eq_capability_def less_capability_def dest: antisym)

end

record limits =
  li_max_request_bytes :: u64
  li_max_pack_bytes :: u64
  li_max_ref_updates :: u16
  li_max_wants :: u16
  li_max_haves :: u16
  li_max_observations_per_page :: u16

record capability_set =
  cs_protocol_version :: u16
  cs_granted :: "capability list"
  cs_limits :: limits

datatype error_code =
    InvalidRequest | UnsupportedVersionCode | InvalidIdentifier | LimitExceeded
  | RepositoryNotFoundCode | LocalNotAvailable | Unauthorized | SignerUnavailable | Conflict
  | InvalidRepositoryState | InvalidGitData | OperationNotFound | OperationNotCancellable
  | Unavailable | Internal

definition is_retryable :: "error_code \<Rightarrow> bool" where
  "is_retryable code \<longleftrightarrow> (case code of LocalNotAvailable \<Rightarrow> True | Unavailable \<Rightarrow> True | _ \<Rightarrow> False)"

record stable_error =
  se_code :: error_code
  se_detail :: "string option"

section \<open>Operations and observations\<close>

datatype operation_kind = Synchronize repository_view | Publish styrene_identity digest

datatype operation_outcome = Synchronized u32 u32 | Published digest

datatype operation_state =
    OpQueued
  | OpRunning
  | OpSucceeded operation_outcome
  | OpFailed stable_error
  | OpCancelled

record operation =
  op_id :: operation_id
  op_repository :: repository_id
  op_kind :: operation_kind
  op_state :: operation_state
  op_last_observation :: u64

datatype observation_kind =
    ObsQueued
  | ObsStarted u32
  | ObsProgress u64 "u64 option"
  | ObsRepositoryCommitted styrene_identity digest u64
  | ObsRetryScheduled u32
  | ObsSucceeded operation_outcome
  | ObsFailed stable_error
  | ObsCancelled

record observation =
  ob_operation :: operation_id
  ob_sequence :: u64
  ob_kind :: observation_kind

record observation_page =
  pg_operation :: operation_id
  pg_observations :: "observation list"
  pg_next_after :: "u64 option"

section \<open>Responses\<close>

record ref_listing =
  rl_repository :: repository_id
  rl_view :: repository_view
  rl_refs :: "ref_target list"
  rl_head :: "string option"

record push_ref_listing =
  pl_repository :: repository_id
  pl_refs :: "ref_target list"

datatype push_disposition = PushApplied | PushAlreadyPresent

record push_result =
  pr_disposition :: push_disposition
  pr_state :: ref_state
  pr_publication :: operation_id

datatype response_body =
    CapabilitiesBody capability_set
  | RefsBody ref_listing
  | FetchPackBody bytes
  | PushCommittedBody push_result
  | OperationBody operation
  | ObservationsBody observation_page
  | ErrorBody stable_error
  | PushRefsBody push_ref_listing

record response =
  rp_version :: u16
  rp_id :: request_id
  rp_body :: response_body

definition response_new :: "request_id \<Rightarrow> response_body \<Rightarrow> response" where
  "response_new i body = \<lparr>rp_version = ipc_version, rp_id = i, rp_body = body\<rparr>"

record ipc_env = refs_env +
  request_codec :: "request codec"
  response_codec :: "response codec"

definition ipc_codecs_ok :: "('z) ipc_env_scheme \<Rightarrow> bool" where
  "ipc_codecs_ok E \<longleftrightarrow> codec_ok (request_codec E) \<and> codec_ok (response_codec E)"

section \<open>Request identifiers\<close>

lemma bit_be_bytes:
  assumes "n < 128"
  shows "bit (as_bytes (be_bytes v) ! (15 - n div 8)) (n mod 8) = bit v n"
proof -
  have "n div 8 < 16" using assms by (simp add: div_less_iff_less_mult)
  moreover have "[0..<16] ! (15 - n div 8) = 15 - n div 8" by (subst nth_upt) auto
  ultimately have "as_bytes (be_bytes v) ! (15 - n div 8) = ucast (drop_bit (8 * (n div 8)) v)"
    by (simp add: be_bytes_def del: upt_rec_numeral)
  then show ?thesis by (simp add: bit_unsigned_iff bit_drop_bit_eq)
qed

lemma be_bytes_inject [simp]: "be_bytes a = be_bytes b \<longleftrightarrow> a = b"
proof
  assume same: "be_bytes a = be_bytes b"
  show "a = b"
  proof (rule bit_word_eqI)
    fix n :: nat assume "n < LENGTH(128)"
    then have "n < 128" by simp
    from bit_be_bytes [OF this, of a] bit_be_bytes [OF this, of b] same
    show "bit a n = bit b n" by simp
  qed
qed simp

end
