(* ===== verification/Ipc_Instances.thy ===== *)
theory Ipc_Instances
  imports Ipc Instances
begin

text \<open>
  A self-delimiting byte format for every request and response of the daemon, built from the
  combinators of the theory Instances, and the environment that has it as its codecs.
\<close>

section \<open>Alternatives\<close>

definition s_unit :: "unit serial" where
  "s_unit = \<lparr>ser = \<lambda>_. [], des = \<lambda>bs. Some ((), bs)\<rparr>"

definition s_sum :: "'a serial \<Rightarrow> 'b serial \<Rightarrow> ('a + 'b) serial" where
  "s_sum s t = \<lparr>ser = \<lambda>x. (case x of Inl a \<Rightarrow> 0 # ser s a | Inr b \<Rightarrow> 1 # ser t b),
     des = \<lambda>bs. (case bs of
         [] \<Rightarrow> None
       | b # r \<Rightarrow> if b = 0 then map_option (\<lambda>(a, r). (Inl a, r)) (des s r)
                 else map_option (\<lambda>(a, r). (Inr a, r)) (des t r))\<rparr>"

lemma s_unit_ok [serials]: "serial_ok s_unit"
  by (simp add: serial_ok_def s_unit_def)

lemma s_sum_ok [serials]: "serial_ok s \<Longrightarrow> serial_ok t \<Longrightarrow> serial_ok (s_sum s t)"
  by (auto simp: serial_ok_def s_sum_def split: sum.splits)

text \<open>An enumeration, by the position of its values in a list.\<close>

fun position_of :: "'a list \<Rightarrow> 'a \<Rightarrow> nat" where
  "position_of [] x = 0"
| "position_of (y # ys) x = (if x = y then 0 else Suc (position_of ys x))"

lemma nth_position_of: "x \<in> set xs \<Longrightarrow> xs ! position_of xs x = x"
  by (induction xs) auto

definition s_enum :: "'a list \<Rightarrow> 'a serial" where
  "s_enum xs = via (position_of xs) ((!) xs) s_nat"

lemma s_enum_ok: "(\<And>x. x \<in> set xs) \<Longrightarrow> serial_ok (s_enum xs)"
  unfolding s_enum_def by (intro serials) (simp add: nth_position_of)

section \<open>The formats of the messages\<close>

definition s_bool :: "bool serial" where
  "s_bool = s_enum [False, True]"

definition s_operation_id :: "operation_id serial" where
  "s_operation_id = via operation_id_bytes OperationId s_fixed"

definition s_request_id :: "request_id serial" where
  "s_request_id = via request_id_bytes RequestId s_fixed"

definition s_view :: "repository_view serial" where
  "s_view = via (\<lambda>v. case v of CanonicalView \<Rightarrow> None | PublisherView i \<Rightarrow> Some i)
     (\<lambda>x. case x of None \<Rightarrow> CanonicalView | Some i \<Rightarrow> PublisherView i) (s_option s_identity)"

definition s_ref_update :: "ref_update serial" where
  "s_ref_update = via (\<lambda>u. (ru_name u, ru_expected u, ru_new u, ru_force u))
     (\<lambda>(a, b, c, d). \<lparr>ru_name = a, ru_expected = b, ru_new = c, ru_force = d\<rparr>)
     (s_pair s_string (s_pair (s_option s_object) (s_pair (s_option s_object) s_bool)))"

fun body_parts where
  "body_parts GetCapabilities = Inl ()"
| "body_parts (ListRefs r v) = Inr (Inl (r, v))"
| "body_parts (Fetch r v w h) = Inr (Inr (Inl (r, v, w, h)))"
| "body_parts (Push r u p) = Inr (Inr (Inr (Inl (r, u, p))))"
| "body_parts (StartSynchronization r v l) = Inr (Inr (Inr (Inr (Inl (r, v, l)))))"
| "body_parts (GetOperation i) = Inr (Inr (Inr (Inr (Inr (Inl i)))))"
| "body_parts (CancelOperation i) = Inr (Inr (Inr (Inr (Inr (Inr (Inl i))))))"
| "body_parts (ListObservations i a n) = Inr (Inr (Inr (Inr (Inr (Inr (Inr (Inl (i, a, n))))))))"
| "body_parts (ListPushRefs r) = Inr (Inr (Inr (Inr (Inr (Inr (Inr (Inr r)))))))"

fun body_of_parts where
  "body_of_parts (Inl ()) = GetCapabilities"
| "body_of_parts (Inr (Inl (r, v))) = ListRefs r v"
| "body_of_parts (Inr (Inr (Inl (r, v, w, h)))) = Fetch r v w h"
| "body_of_parts (Inr (Inr (Inr (Inl (r, u, p))))) = Push r u p"
| "body_of_parts (Inr (Inr (Inr (Inr (Inl (r, v, l)))))) = StartSynchronization r v l"
| "body_of_parts (Inr (Inr (Inr (Inr (Inr (Inl i)))))) = GetOperation i"
| "body_of_parts (Inr (Inr (Inr (Inr (Inr (Inr (Inl i))))))) = CancelOperation i"
| "body_of_parts (Inr (Inr (Inr (Inr (Inr (Inr (Inr (Inl (i, a, n))))))))) = ListObservations i a n"
| "body_of_parts (Inr (Inr (Inr (Inr (Inr (Inr (Inr (Inr r)))))))) = ListPushRefs r"

definition s_request_body :: "request_body serial" where
  "s_request_body = via body_parts body_of_parts
     (s_sum s_unit (s_sum (s_pair s_repository s_view)
       (s_sum (s_pair s_repository (s_pair s_view (s_pair (s_list s_object) (s_list s_object))))
       (s_sum (s_pair s_repository (s_pair (s_list s_ref_update) (s_list s_word)))
       (s_sum (s_pair s_repository (s_pair s_view (s_list s_string)))
       (s_sum s_operation_id (s_sum s_operation_id
       (s_sum (s_pair s_operation_id (s_pair (s_option s_word) s_word)) s_repository))))))))"

definition s_request :: "request serial" where
  "s_request = via (\<lambda>r. (rq_version r, rq_id r, rq_body r))
     (\<lambda>(a, b, c). \<lparr>rq_version = a, rq_id = b, rq_body = c\<rparr>)
     (s_pair s_word (s_pair s_request_id s_request_body))"

definition s_capability :: "capability serial" where
  "s_capability = s_enum [ReadRepository, WriteOwnNamespace, StartSynchronizationCap, ReadOperations, CancelOperations]"

definition s_limits :: "limits serial" where
  "s_limits = via
     (\<lambda>l. (li_max_request_bytes l, li_max_pack_bytes l, li_max_ref_updates l, li_max_wants l,
           li_max_haves l, li_max_observations_per_page l))
     (\<lambda>(a, b, c, d, e, f). \<lparr>li_max_request_bytes = a, li_max_pack_bytes = b, li_max_ref_updates = c,
        li_max_wants = d, li_max_haves = e, li_max_observations_per_page = f\<rparr>)
     (s_pair s_word (s_pair s_word (s_pair s_word (s_pair s_word (s_pair s_word s_word)))))"

definition s_capability_set :: "capability_set serial" where
  "s_capability_set = via (\<lambda>c. (cs_protocol_version c, cs_granted c, cs_limits c))
     (\<lambda>(a, b, c). \<lparr>cs_protocol_version = a, cs_granted = b, cs_limits = c\<rparr>)
     (s_pair s_word (s_pair (s_list s_capability) s_limits))"

definition s_error_code :: "error_code serial" where
  "s_error_code = s_enum [InvalidRequest, UnsupportedVersionCode, InvalidIdentifier, LimitExceeded,
     RepositoryNotFoundCode, LocalNotAvailable, Unauthorized, SignerUnavailable, Conflict,
     InvalidRepositoryState, InvalidGitData, OperationNotFound, OperationNotCancellable, Unavailable, Internal]"

definition s_stable_error :: "stable_error serial" where
  "s_stable_error = via (\<lambda>e. (se_code e, se_detail e)) (\<lambda>(a, b). \<lparr>se_code = a, se_detail = b\<rparr>)
     (s_pair s_error_code (s_option s_string))"

fun kind_parts where
  "kind_parts (Synchronize v) = Inl v"
| "kind_parts (Publish i d) = Inr (i, d)"

fun outcome_parts where
  "outcome_parts (Synchronized a b) = Inl (a, b)"
| "outcome_parts (Published d) = Inr d"

fun state_parts where
  "state_parts OpQueued = Inl ()"
| "state_parts OpRunning = Inr (Inl ())"
| "state_parts (OpSucceeded x) = Inr (Inr (Inl x))"
| "state_parts (OpFailed e) = Inr (Inr (Inr (Inl e)))"
| "state_parts OpCancelled = Inr (Inr (Inr (Inr ())))"

definition s_operation_kind :: "operation_kind serial" where
  "s_operation_kind = via kind_parts (case_sum Synchronize (\<lambda>(i, d). Publish i d))
     (s_sum s_view (s_pair s_identity s_digest))"

definition s_operation_outcome :: "operation_outcome serial" where
  "s_operation_outcome = via outcome_parts (case_sum (\<lambda>(a, b). Synchronized a b) Published)
     (s_sum (s_pair s_word s_word) s_digest)"

definition s_operation_state :: "operation_state serial" where
  "s_operation_state = via state_parts
     (case_sum (\<lambda>_. OpQueued) (case_sum (\<lambda>_. OpRunning) (case_sum OpSucceeded (case_sum OpFailed (\<lambda>_. OpCancelled)))))
     (s_sum s_unit (s_sum s_unit (s_sum s_operation_outcome (s_sum s_stable_error s_unit))))"

definition s_operation :: "operation serial" where
  "s_operation = via (\<lambda>x. (op_id x, op_repository x, op_kind x, op_state x, op_last_observation x))
     (\<lambda>(a, b, c, d, e). \<lparr>op_id = a, op_repository = b, op_kind = c, op_state = d, op_last_observation = e\<rparr>)
     (s_pair s_operation_id (s_pair s_repository (s_pair s_operation_kind (s_pair s_operation_state s_word))))"

fun observation_parts where
  "observation_parts ObsQueued = Inl ()"
| "observation_parts (ObsStarted n) = Inr (Inl n)"
| "observation_parts (ObsProgress a b) = Inr (Inr (Inl (a, b)))"
| "observation_parts (ObsRepositoryCommitted i d n) = Inr (Inr (Inr (Inl (i, d, n))))"
| "observation_parts (ObsRetryScheduled n) = Inr (Inr (Inr (Inr (Inl n))))"
| "observation_parts (ObsSucceeded x) = Inr (Inr (Inr (Inr (Inr (Inl x)))))"
| "observation_parts (ObsFailed e) = Inr (Inr (Inr (Inr (Inr (Inr (Inl e))))))"
| "observation_parts ObsCancelled = Inr (Inr (Inr (Inr (Inr (Inr (Inr ()))))))"

definition s_observation_kind :: "observation_kind serial" where
  "s_observation_kind = via observation_parts
     (case_sum (\<lambda>_. ObsQueued) (case_sum ObsStarted (case_sum (\<lambda>(a, b). ObsProgress a b)
       (case_sum (\<lambda>(i, d, n). ObsRepositoryCommitted i d n) (case_sum ObsRetryScheduled
       (case_sum ObsSucceeded (case_sum ObsFailed (\<lambda>_. ObsCancelled))))))))
     (s_sum s_unit (s_sum s_word (s_sum (s_pair s_word (s_option s_word))
       (s_sum (s_pair s_identity (s_pair s_digest s_word)) (s_sum s_word
       (s_sum s_operation_outcome (s_sum s_stable_error s_unit)))))))"

definition s_observation :: "observation serial" where
  "s_observation = via (\<lambda>x. (ob_operation x, ob_sequence x, ob_kind x))
     (\<lambda>(a, b, c). \<lparr>ob_operation = a, ob_sequence = b, ob_kind = c\<rparr>)
     (s_pair s_operation_id (s_pair s_word s_observation_kind))"

definition s_page :: "observation_page serial" where
  "s_page = via (\<lambda>x. (pg_operation x, pg_observations x, pg_next_after x))
     (\<lambda>(a, b, c). \<lparr>pg_operation = a, pg_observations = b, pg_next_after = c\<rparr>)
     (s_pair s_operation_id (s_pair (s_list s_observation) (s_option s_word)))"

definition s_ref_listing :: "ref_listing serial" where
  "s_ref_listing = via (\<lambda>x. (rl_repository x, rl_view x, rl_refs x, rl_head x))
     (\<lambda>(a, b, c, d). \<lparr>rl_repository = a, rl_view = b, rl_refs = c, rl_head = d\<rparr>)
     (s_pair s_repository (s_pair s_view (s_pair (s_list s_ref_target) (s_option s_string))))"

definition s_push_ref_listing :: "push_ref_listing serial" where
  "s_push_ref_listing = via (\<lambda>x. (pl_repository x, pl_refs x))
     (\<lambda>(a, b). \<lparr>pl_repository = a, pl_refs = b\<rparr>) (s_pair s_repository (s_list s_ref_target))"

definition s_push_result :: "push_result serial" where
  "s_push_result = via (\<lambda>x. (pr_disposition x, pr_state x, pr_publication x))
     (\<lambda>(a, b, c). \<lparr>pr_disposition = a, pr_state = b, pr_publication = c\<rparr>)
     (s_pair (s_enum [PushApplied, PushAlreadyPresent]) (s_pair s_ref_state s_operation_id))"

fun response_parts where
  "response_parts (CapabilitiesBody c) = Inl c"
| "response_parts (RefsBody l) = Inr (Inl l)"
| "response_parts (FetchPackBody p) = Inr (Inr (Inl p))"
| "response_parts (PushCommittedBody r) = Inr (Inr (Inr (Inl r)))"
| "response_parts (OperationBody x) = Inr (Inr (Inr (Inr (Inl x))))"
| "response_parts (ObservationsBody p) = Inr (Inr (Inr (Inr (Inr (Inl p)))))"
| "response_parts (ErrorBody e) = Inr (Inr (Inr (Inr (Inr (Inr (Inl e))))))"
| "response_parts (PushRefsBody l) = Inr (Inr (Inr (Inr (Inr (Inr (Inr l))))))"

definition s_response_body :: "response_body serial" where
  "s_response_body = via response_parts
     (case_sum CapabilitiesBody (case_sum RefsBody (case_sum FetchPackBody (case_sum PushCommittedBody
       (case_sum OperationBody (case_sum ObservationsBody (case_sum ErrorBody PushRefsBody)))))))
     (s_sum s_capability_set (s_sum s_ref_listing (s_sum (s_list s_word) (s_sum s_push_result
       (s_sum s_operation (s_sum s_page (s_sum s_stable_error s_push_ref_listing)))))))"

definition s_response :: "response serial" where
  "s_response = via (\<lambda>r. (rp_version r, rp_id r, rp_body r))
     (\<lambda>(a, b, c). \<lparr>rp_version = a, rp_id = b, rp_body = c\<rparr>)
     (s_pair s_word (s_pair s_request_id s_response_body))"

lemma s_enums_ok [serials]:
  "serial_ok s_bool" "serial_ok s_capability" "serial_ok s_error_code"
  "serial_ok (s_enum [PushApplied, PushAlreadyPresent])"
  unfolding s_bool_def s_capability_def s_error_code_def
  by (rule s_enum_ok; (case_tac x; simp))+

lemma s_ids_ok [serials]: "serial_ok s_operation_id" "serial_ok s_request_id"
  unfolding s_operation_id_def s_request_id_def by ((intro serials, simp)+)

lemma s_view_ok [serials]: "serial_ok s_view"
  unfolding s_view_def by (intro serials) (simp split: repository_view.split)

lemma s_ref_update_ok [serials]: "serial_ok s_ref_update"
  unfolding s_ref_update_def by (intro serials) simp

lemma s_request_body_ok [serials]: "serial_ok s_request_body"
  unfolding s_request_body_def by (intro serials) (case_tac x; simp)

lemma s_request_ok [serials]: "serial_ok s_request"
  unfolding s_request_def by (intro serials) simp

lemma s_limits_ok [serials]: "serial_ok s_limits"
  unfolding s_limits_def by (intro serials) simp

lemma s_capability_set_ok [serials]: "serial_ok s_capability_set"
  unfolding s_capability_set_def by (intro serials) simp

lemma s_stable_error_ok [serials]: "serial_ok s_stable_error"
  unfolding s_stable_error_def by (intro serials) simp

lemma s_operation_parts_ok [serials]: "serial_ok s_operation_kind" "serial_ok s_operation_outcome"
  unfolding s_operation_kind_def s_operation_outcome_def by ((intro serials, case_tac x; simp)+)

lemma s_operation_state_ok [serials]: "serial_ok s_operation_state"
  unfolding s_operation_state_def by (intro serials) (case_tac x; simp)

lemma s_operation_ok [serials]: "serial_ok s_operation"
  unfolding s_operation_def by (intro serials) simp

lemma s_observation_kind_ok [serials]: "serial_ok s_observation_kind"
  unfolding s_observation_kind_def by (intro serials) (case_tac x; simp)

lemma s_observation_ok [serials]: "serial_ok s_observation"
  unfolding s_observation_def by (intro serials) simp

lemma s_page_ok [serials]: "serial_ok s_page"
  unfolding s_page_def by (intro serials) simp

lemma s_listings_ok [serials]: "serial_ok s_ref_listing" "serial_ok s_push_ref_listing"
  unfolding s_ref_listing_def s_push_ref_listing_def by ((intro serials, simp)+)

lemma s_push_result_ok [serials]: "serial_ok s_push_result"
  unfolding s_push_result_def by (intro serials) simp

lemma s_response_body_ok [serials]: "serial_ok s_response_body"
  unfolding s_response_body_def by (intro serials) (case_tac x; simp)

lemma s_response_ok [serials]: "serial_ok s_response"
  unfolding s_response_def by (intro serials) simp

section \<open>The environment\<close>

definition ipc_sample :: ipc_env where
  "ipc_sample = refs_env.extend sample
     \<lparr>request_codec = codec_of s_request, response_codec = codec_of s_response\<rparr>"

lemma ipc_sample_codecs_ok: "ipc_codecs_ok ipc_sample"
  by (simp add: ipc_codecs_ok_def ipc_sample_def refs_env.defs codec_of_ok serials)

lemma ipc_sample_hex_ok: "hex_ok ipc_sample"
  using sample_hex_ok by (simp add: hex_ok_def ipc_sample_def refs_env.defs)

lemma ipc_sample_base32_ok: "base32_ok ipc_sample"
  using sample_base32_ok by (simp add: base32_ok_def ipc_sample_def refs_env.defs)

end
