(* ===== verification/Client.thy ===== *)
theory Client
  imports Ipc Effects Ordered
begin

text \<open>
  \<open>crates/styrene-git-remote/src/client.rs\<close>: the client of the local daemon. Its state is the
  record \<open>client\<close>; the transport (the trait \<open>AuthenticatedGitTransport\<close>) is its state \<open>'t\<close> with
  the function \<open>exchange\<close>, an argument of the operations.
\<close>

section \<open>State and errors\<close>

datatype transport_error = TransportError string

type_synonym 't exchange = "bytes \<Rightarrow> u64 \<Rightarrow> 't \<Rightarrow> (transport_error, bytes) result \<times> 't"

record client_config =
  cc_initial_request_id :: u128
  cc_max_response_bytes :: u64

definition default_config :: client_config where
  "default_config = \<lparr>cc_initial_request_id = 1, cc_max_response_bytes = 64 * 1024 * 1024\<rparr>"

definition bootstrap_max_request_bytes :: u64 where
  "bootstrap_max_request_bytes = 4096"

record 't client =
  cl_transport :: 't
  cl_next_request_id :: "u128 option"
  cl_max_response_bytes :: u64
  cl_capabilities :: "capability_set option"
  cl_failed :: bool

datatype client_error =
    InvalidConfig
  | RequestIdExhausted
  | NotNegotiated
  | SessionFailed
  | CapabilityDenied capability
  | CountLimitExceeded string nat
  | ByteLimitExceeded string u64
  | RequestTooLarge u64
  | ResponseTooLarge u64
  | EncodeError string
  | DecodeError string
  | UnsupportedIpcVersion u16
  | RequestIdMismatch
  | UnexpectedResponse
  | Remote stable_error
  | TransportFailed transport_error
  | PushIndeterminate client_error
  | InvalidCapabilities

type_synonym ('t, 'a) client_io = "('t client, client_error, 'a) io"

text \<open>The \<open>Display\<close> text of the core's errors.\<close>

fun core_error_text :: "core_error \<Rightarrow> string" where
  "core_error_text (Encode s) = ''CBOR encoding failed: '' @ s"
| "core_error_text (Decode s) = ''CBOR decoding failed: '' @ s"
| "core_error_text NonCanonical = ''signed input is not deterministic canonical CBOR''"
| "core_error_text (InvalidIdentity s) = ''invalid repository identity: '' @ s"
| "core_error_text (InvalidRepositoryId s) = ''invalid repository identifier: '' @ s"
| "core_error_text (InvalidBinding s) = ''invalid signer binding: '' @ s"
| "core_error_text (InvalidIdentityTransition s) = ''invalid identity transition: '' @ s"
| "core_error_text (InvalidRefTransition s) = ''invalid reference transition: '' @ s"
| "core_error_text InvalidSignature = ''signature verification failed''"

definition client_new :: "'t \<Rightarrow> client_config \<Rightarrow> (client_error, 't client) result" where
  "client_new t config =
     (if cc_max_response_bytes config = 0 then Inl InvalidConfig
      else Inr \<lparr>cl_transport = t, cl_next_request_id = Some (cc_initial_request_id config),
                cl_max_response_bytes = cc_max_response_bytes config,
                cl_capabilities = None, cl_failed = False\<rparr>)"

section \<open>Checks\<close>

definition require_capability :: "capability_set \<Rightarrow> capability \<Rightarrow> (client_error, unit) result" where
  "require_capability capabilities required =
     ensure (is_ok (binary_search_by (\<lambda>c. cmp c required) (cs_granted capabilities)))
       (CapabilityDenied required)"

definition require_count :: "string \<Rightarrow> nat \<Rightarrow> nat \<Rightarrow> (client_error, unit) result" where
  "require_count field actual limit = ensure (actual \<le> limit) (CountLimitExceeded field limit)"

definition require_bytes :: "string \<Rightarrow> nat \<Rightarrow> u64 \<Rightarrow> (client_error, unit) result" where
  "require_bytes field actual limit = ensure (of_nat actual \<le> limit) (ByteLimitExceeded field limit)"

fun validate_body :: "capability_set \<Rightarrow> request_body \<Rightarrow> (client_error, unit) result" where
  "validate_body cs GetCapabilities = Inr ()"
| "validate_body cs (ListRefs repository view) = require_capability cs ReadRepository"
| "validate_body cs (ListPushRefs repository) = require_capability cs WriteOwnNamespace"
| "validate_body cs (Fetch repository view wants haves) =
     bindE (require_capability cs ReadRepository) (\<lambda>_.
     bindE (require_count ''wants'' (length wants) (unat (li_max_wants (cs_limits cs)))) (\<lambda>_.
     require_count ''haves'' (length haves) (unat (li_max_haves (cs_limits cs)))))"
| "validate_body cs (Push repository updates pack) =
     bindE (require_capability cs WriteOwnNamespace) (\<lambda>_.
     bindE (require_count ''reference updates'' (length updates) (unat (li_max_ref_updates (cs_limits cs)))) (\<lambda>_.
     require_bytes ''pack'' (length pack) (li_max_pack_bytes (cs_limits cs))))"
| "validate_body cs (StartSynchronization repository view labels) = require_capability cs StartSynchronizationCap"
| "validate_body cs (GetOperation i) = require_capability cs ReadOperations"
| "validate_body cs (ListObservations i after limit) =
     bindE (require_capability cs ReadOperations) (\<lambda>_.
     require_count ''observations'' (unat limit) (unat (li_max_observations_per_page (cs_limits cs))))"
| "validate_body cs (CancelOperation i) = require_capability cs CancelOperations"

definition validate_request :: "'t client \<Rightarrow> request_body \<Rightarrow> (client_error, unit) result" where
  "validate_request c body =
     (if body = GetCapabilities then Inr ()
      else bindE (ok_or NotNegotiated (cl_capabilities c)) (\<lambda>cs. validate_body cs body))"

fun response_matches :: "request_body \<Rightarrow> response_body \<Rightarrow> bool" where
  "response_matches GetCapabilities (CapabilitiesBody _) \<longleftrightarrow> True"
| "response_matches (ListRefs repository view) (RefsBody l) \<longleftrightarrow> rl_repository l = repository \<and> rl_view l = view"
| "response_matches (ListPushRefs repository) (PushRefsBody l) \<longleftrightarrow> pl_repository l = repository"
| "response_matches (Fetch _ _ _ _) (FetchPackBody _) \<longleftrightarrow> True"
| "response_matches (Push repository _ _) (PushCommittedBody r) \<longleftrightarrow> rs_repository (pr_state r) = repository"
| "response_matches (StartSynchronization repository view _) (OperationBody o') \<longleftrightarrow>
     op_repository o' = repository \<and> op_kind o' = Synchronize view"
| "response_matches (GetOperation expected) (OperationBody o') \<longleftrightarrow> op_id o' = expected"
| "response_matches (CancelOperation expected) (OperationBody o') \<longleftrightarrow> op_id o' = expected"
| "response_matches (ListObservations i _ _) (ObservationsBody p) \<longleftrightarrow> pg_operation p = i"
| "response_matches _ _ \<longleftrightarrow> False"

definition validate_response_context :: "request_body \<Rightarrow> response_body \<Rightarrow> (client_error, unit) result" where
  "validate_response_context request response = ensure (response_matches request response) UnexpectedResponse"

definition response_limits :: "'t client \<Rightarrow> response_body \<Rightarrow> (client_error, unit) result" where
  "response_limits c body =
     (case cl_capabilities c of
        None \<Rightarrow> Inr ()
      | Some cs \<Rightarrow>
          (case body of
             FetchPackBody pack \<Rightarrow> require_bytes ''pack'' (length pack) (li_max_pack_bytes (cs_limits cs))
           | ObservationsBody page \<Rightarrow>
               require_count ''observations'' (length (pg_observations page))
                 (unat (li_max_observations_per_page (cs_limits cs)))
           | _ \<Rightarrow> Inr ()))"

definition validate_response ::
  "('z) ipc_env_scheme \<Rightarrow> 't client \<Rightarrow> request \<Rightarrow> bytes \<Rightarrow> (client_error, response_body) result" where
  "validate_response E c request bs =
     (if cl_max_response_bytes c < of_nat (length bs) then Inl (ResponseTooLarge (cl_max_response_bytes c))
      else bindE (map_err (DecodeError \<circ> core_error_text) (from_canonical_bytes (response_codec E) bs)) (\<lambda>response.
      if rp_version response \<noteq> ipc_version then Inl (UnsupportedIpcVersion (rp_version response))
      else if rp_id response \<noteq> rq_id request then Inl RequestIdMismatch
      else case rp_body response of
        ErrorBody error \<Rightarrow> Inl (Remote error)
      | body \<Rightarrow>
          bindE (validate_response_context (rq_body request) body) (\<lambda>_.
          bindE (response_limits c body) (\<lambda>_. Inr body))))"

section \<open>Sending a request\<close>

definition next_id :: "('t, request_id) client_io" where
  "next_id c =
     (case cl_next_request_id c of
        None \<Rightarrow> (Inl RequestIdExhausted, c)
      | Some value \<Rightarrow>
          (Inr (RequestId (be_bytes value)), c\<lparr>cl_next_request_id := checked_add_one value\<rparr>))"

definition max_request_bytes :: "'t client \<Rightarrow> u64" where
  "max_request_bytes c =
     (case cl_capabilities c of
        None \<Rightarrow> bootstrap_max_request_bytes
      | Some cs \<Rightarrow> li_max_request_bytes (cs_limits cs))"

definition fail_session :: "client_error \<Rightarrow> ('t, 'a) client_io" where
  "fail_session e c = (Inl e, c\<lparr>cl_failed := True\<rparr>)"

definition indeterminate :: "bool \<Rightarrow> client_error \<Rightarrow> client_error" where
  "indeterminate mutating e = (if mutating then PushIndeterminate e else e)"

definition do_exchange :: "'t exchange \<Rightarrow> bytes \<Rightarrow> 't client \<Rightarrow> (transport_error, bytes) result \<times> 't client" where
  "do_exchange X request_bytes c =
     (case X request_bytes (cl_max_response_bytes c) (cl_transport c) of
        (r, t) \<Rightarrow> (r, c\<lparr>cl_transport := t\<rparr>))"

text \<open>From the exchange on: the transport's answer and the response's validity decide whether the
  session can go on.\<close>

definition exchange_request ::
  "('z) ipc_env_scheme \<Rightarrow> 't exchange \<Rightarrow> request \<Rightarrow> bytes \<Rightarrow> bool \<Rightarrow> ('t, response_body) client_io" where
  "exchange_request E X request request_bytes mutating =
     catchS (do_exchange X request_bytes) (\<lambda>answer.
     case answer of
       Inl error \<Rightarrow> fail_session (indeterminate mutating (TransportFailed error))
     | Inr response_bytes \<Rightarrow>
         bindS (getS (\<lambda>c. validate_response E c request response_bytes)) (\<lambda>valid.
         case valid of
           Inr body \<Rightarrow> okS body
         | Inl error \<Rightarrow>
             (case error of
                Remote _ \<Rightarrow> failS error
              | _ \<Rightarrow> fail_session (indeterminate mutating error))))"

definition send ::
  "('z) ipc_env_scheme \<Rightarrow> 't exchange \<Rightarrow> request_body \<Rightarrow> bool \<Rightarrow> ('t, response_body) client_io" where
  "send E X body mutating =
     bindS (getS cl_failed) (\<lambda>failed.
     if failed then failS SessionFailed
     else bindS (getS (\<lambda>c. validate_request c body)) (\<lambda>valid.
     bindS (liftS valid) (\<lambda>_.
     bindS next_id (\<lambda>i.
     let request = request_new i body in
     bindS (liftS (map_err (EncodeError \<circ> core_error_text) (canonical_bytes (request_codec E) request))) (\<lambda>request_bytes.
     bindS (getS max_request_bytes) (\<lambda>limit.
     if limit < of_nat (length request_bytes) then failS (RequestTooLarge limit)
     else exchange_request E X request request_bytes mutating))))))"

section \<open>The operations\<close>

definition negotiate :: "('z) ipc_env_scheme \<Rightarrow> 't exchange \<Rightarrow> ('t, capability_set) client_io" where
  "negotiate E X =
     bindS (getS cl_capabilities) (\<lambda>known.
     case known of
       Some capabilities \<Rightarrow> okS capabilities
     | None \<Rightarrow>
         bindS (send E X GetCapabilities False) (\<lambda>body.
         case body of
           CapabilitiesBody capabilities \<Rightarrow>
             if cs_protocol_version capabilities \<noteq> ipc_version \<or> \<not> windows2_all (<) (cs_granted capabilities)
             then fail_session InvalidCapabilities
             else (\<lambda>c. (Inr capabilities, c\<lparr>cl_capabilities := Some capabilities\<rparr>))
         | _ \<Rightarrow> failS UnexpectedResponse))"

definition list_refs ::
  "('z) ipc_env_scheme \<Rightarrow> 't exchange \<Rightarrow> repository_id \<Rightarrow> repository_view \<Rightarrow> ('t, ref_listing) client_io" where
  "list_refs E X repository view =
     bindS (send E X (ListRefs repository view) False) (\<lambda>body.
     case body of RefsBody listing \<Rightarrow> okS listing | _ \<Rightarrow> failS UnexpectedResponse)"

definition list_push_refs ::
  "('z) ipc_env_scheme \<Rightarrow> 't exchange \<Rightarrow> repository_id \<Rightarrow> ('t, push_ref_listing) client_io" where
  "list_push_refs E X repository =
     bindS (send E X (ListPushRefs repository) False) (\<lambda>body.
     case body of PushRefsBody listing \<Rightarrow> okS listing | _ \<Rightarrow> failS UnexpectedResponse)"

definition fetch ::
  "('z) ipc_env_scheme \<Rightarrow> 't exchange \<Rightarrow> repository_id \<Rightarrow> repository_view \<Rightarrow> git_object_id list
     \<Rightarrow> git_object_id list \<Rightarrow> ('t, bytes) client_io" where
  "fetch E X repository view wants haves =
     bindS (send E X (Fetch repository view wants haves) False) (\<lambda>body.
     case body of FetchPackBody pack \<Rightarrow> okS pack | _ \<Rightarrow> failS UnexpectedResponse)"

definition push ::
  "('z) ipc_env_scheme \<Rightarrow> 't exchange \<Rightarrow> repository_id \<Rightarrow> ref_update list \<Rightarrow> bytes
     \<Rightarrow> ('t, push_result) client_io" where
  "push E X repository updates pack =
     bindS (send E X (Push repository updates pack) True) (\<lambda>body.
     case body of PushCommittedBody result \<Rightarrow> okS result | _ \<Rightarrow> failS UnexpectedResponse)"

definition start_synchronization ::
  "('z) ipc_env_scheme \<Rightarrow> 't exchange \<Rightarrow> repository_id \<Rightarrow> repository_view \<Rightarrow> string list
     \<Rightarrow> ('t, operation) client_io" where
  "start_synchronization E X repository view labels =
     bindS (send E X (StartSynchronization repository view labels) False) (\<lambda>body.
     case body of OperationBody o' \<Rightarrow> okS o' | _ \<Rightarrow> failS UnexpectedResponse)"

definition get_operation ::
  "('z) ipc_env_scheme \<Rightarrow> 't exchange \<Rightarrow> operation_id \<Rightarrow> ('t, operation) client_io" where
  "get_operation E X i =
     bindS (send E X (GetOperation i) False) (\<lambda>body.
     case body of OperationBody o' \<Rightarrow> okS o' | _ \<Rightarrow> failS UnexpectedResponse)"

definition cancel_operation ::
  "('z) ipc_env_scheme \<Rightarrow> 't exchange \<Rightarrow> operation_id \<Rightarrow> ('t, operation) client_io" where
  "cancel_operation E X i =
     bindS (send E X (CancelOperation i) False) (\<lambda>body.
     case body of OperationBody o' \<Rightarrow> okS o' | _ \<Rightarrow> failS UnexpectedResponse)"

definition list_observations ::
  "('z) ipc_env_scheme \<Rightarrow> 't exchange \<Rightarrow> operation_id \<Rightarrow> u64 option \<Rightarrow> u16 \<Rightarrow> ('t, observation_page) client_io" where
  "list_observations E X i after limit =
     bindS (send E X (ListObservations i after limit) False) (\<lambda>body.
     case body of ObservationsBody page \<Rightarrow> okS page | _ \<Rightarrow> failS UnexpectedResponse)"

end
