(* ===== verification/Url.thy ===== *)
theory Url
  imports Ipc
begin

text \<open>
  \<open>crates/styrene-git-remote/src/lib.rs\<close>: the URLs Git passes to the remote helper, with the
  repository, the view of it, and routing labels.
\<close>

section \<open>The code\<close>

definition url_prefix :: string where
  "url_prefix = ''styrene:///git/v1/''"

definition max_routing_labels :: nat where
  "max_routing_labels = 16"

definition max_routing_label_bytes :: nat where
  "max_routing_label_bytes = 64"

record remote_url =
  url_repository :: repository_id
  url_view :: repository_view
  url_labels :: "string list"

datatype url_error =
    InvalidSchemeOrPath | AuthorityNotAllowed | InvalidPath | InvalidRepository | InvalidPublisher
  | FragmentNotAllowed | InvalidQuery | UnsupportedQueryKey | InvalidLabel | LabelsNotSortedUnique
  | TooManyLabels

definition synchronization_request :: "remote_url \<Rightarrow> request_body" where
  "synchronization_request u = StartSynchronization (url_repository u) (url_view u) (url_labels u)"

definition valid_label :: "string \<Rightarrow> bool" where
  "valid_label label \<longleftrightarrow>
     label \<noteq> [] \<and> length label \<le> max_routing_label_bytes \<and>
     is_ascii_lowercase (hd label) \<and>
     list_all (\<lambda>b. is_ascii_lowercase b \<or> is_ascii_digit b \<or> b = CHR ''-'') label"

definition parse_label :: "string \<Rightarrow> (url_error, string) result" where
  "parse_label field =
     bindE (ok_or UnsupportedQueryKey (strip_prefix ''label='' field)) (\<lambda>label.
     if \<not> valid_label label then Inl InvalidLabel else Inr label)"

definition parse_labels :: "string option \<Rightarrow> (url_error, string list) result" where
  "parse_labels query =
     (case query of
        None \<Rightarrow> Inr []
      | Some q \<Rightarrow>
          if q = [] then Inl InvalidQuery
          else bindE (collect_ok parse_label (split_char CHR ''&'' q)) (\<lambda>labels.
               if max_routing_labels < length labels then Inl TooManyLabels
               else if \<not> windows2_all (<) labels then Inl LabelsNotSortedUnique
               else Inr labels))"

definition parse_path ::
  "('z) env_scheme \<Rightarrow> string list \<Rightarrow> (url_error, string \<times> repository_view) result" where
  "parse_path E segments =
     (case segments of
        [digest] \<Rightarrow> if digest \<noteq> [] then Inr (digest, CanonicalView) else Inl InvalidPath
      | [digest, word, publisher] \<Rightarrow>
          if word = ''publisher'' \<and> digest \<noteq> [] \<and> publisher \<noteq> []
          then bindE (map_err (\<lambda>_. InvalidPublisher) (identity_from_hex E publisher)) (\<lambda>p.
               Inr (digest, PublisherView p))
          else Inl InvalidPath
      | _ \<Rightarrow> Inl InvalidPath)"

definition url_from_str :: "('z) env_scheme \<Rightarrow> string \<Rightarrow> (url_error, remote_url) result" where
  "url_from_str E value =
     (if CHR 0x23 \<in> set value then Inl FragmentNotAllowed
      else if starts_with value ''styrene://'' \<and> \<not> starts_with value ''styrene:///''
      then Inl AuthorityNotAllowed
      else bindE (ok_or InvalidSchemeOrPath (strip_prefix url_prefix value)) (\<lambda>value.
      let (path, query) = (case split_once CHR ''?'' value of
            None \<Rightarrow> (value, None)
          | Some (path, query) \<Rightarrow> (path, Some query)) in
      bindE (parse_path E (split_char CHR ''/'' path)) (\<lambda>(digest, view).
      bindE (map_err (\<lambda>_. InvalidRepository) (repository_from_str E (''styrene:git:v1:'' @ digest))) (\<lambda>repository.
      bindE (parse_labels query) (\<lambda>labels.
      Inr \<lparr>url_repository = repository, url_view = view, url_labels = labels\<rparr>)))))"

definition label_text :: "nat \<times> string \<Rightarrow> string" where
  "label_text il = (case il of (i, label) \<Rightarrow> (if i = 0 then ''?'' else ''&'') @ ''label='' @ label)"

definition url_to_string :: "('z) env_scheme \<Rightarrow> remote_url \<Rightarrow> string" where
  "url_to_string E u =
     url_prefix @ digest_base32 E (repository_digest (url_repository u)) @
     (case url_view u of
        PublisherView publisher \<Rightarrow> ''/publisher/'' @ identity_hex E publisher
      | CanonicalView \<Rightarrow> []) @
     concat (map label_text (enumerate 0 (url_labels u)))"

section \<open>Labels\<close>

definition valid_labels :: "string list \<Rightarrow> bool" where
  "valid_labels labels \<longleftrightarrow>
     length labels \<le> max_routing_labels \<and> (\<forall>l \<in> set labels. valid_label l) \<and> sorted_wrt (<) labels"

definition label_field :: "string \<Rightarrow> string" where
  "label_field l = ''label='' @ l"

lemma label_text_field: "label_text (i, l) = (if i = 0 then CHR ''?'' else CHR ''&'') # label_field l"
  by (simp add: label_text_def label_field_def)

definition query_of :: "string list \<Rightarrow> string option" where
  "query_of labels = (if labels = [] then None else Some (join CHR ''&'' (map label_field labels)))"

lemma label_char:
  assumes "valid_label l" "c \<in> set l"
  shows "c \<notin> {CHR ''&'', CHR ''?'', CHR ''/'', CHR 0x23}"
  using assms
  by (auto simp: valid_label_def list_all_iff is_ascii_lowercase_def is_ascii_digit_def less_eq_char_def)

lemma parse_label_Inr_iff [results]: "parse_label f = Inr l \<longleftrightarrow> f = label_field l \<and> valid_label l"
  by (auto simp: parse_label_def results label_field_def)

lemma label_field_chars: "valid_label l \<Longrightarrow> c \<in> set (label_field l) \<Longrightarrow> c \<notin> {CHR ''&'', CHR ''?'', CHR ''/'', CHR 0x23}"
  using label_char [of l c] by (auto simp: label_field_def)

lemma collect_labels_iff:
  "collect_ok parse_label parts = Inr labels \<longleftrightarrow>
     parts = map label_field labels \<and> (\<forall>l \<in> set labels. valid_label l)"
  unfolding collect_ok_Inr_iff
  by (induction labels arbitrary: parts) (auto simp: list_all2_Cons2 parse_label_Inr_iff)

lemma split_query:
  assumes "labels \<noteq> []" "\<forall>l \<in> set labels. valid_label l"
  shows "split_char CHR ''&'' (join CHR ''&'' (map label_field labels)) = map label_field labels"
  using assms label_field_chars by (intro split_char_join) auto

lemma parse_labels_Inr_iff [results]:
  "parse_labels query = Inr labels \<longleftrightarrow> valid_labels labels \<and> query = query_of labels"
proof (cases query)
  case None
  then show ?thesis by (auto simp: parse_labels_def query_of_def valid_labels_def)
next
  case (Some q)
  have "parse_labels query = Inr labels \<longleftrightarrow> q \<noteq> [] \<and> valid_labels labels \<and>
      split_char CHR ''&'' q = map label_field labels"
    using Some by (auto simp: parse_labels_def bindE_Inr_iff collect_labels_iff valid_labels_def)
  also have "\<dots> \<longleftrightarrow> valid_labels labels \<and> query = query_of labels"
  proof
    assume *: "q \<noteq> [] \<and> valid_labels labels \<and> split_char CHR ''&'' q = map label_field labels"
    then have "q = join CHR ''&'' (map label_field labels)" "labels \<noteq> []"
      by (metis join_split_char) (use * split_char_neq_Nil in fastforce)
    then show "valid_labels labels \<and> query = query_of labels" using Some * by (simp add: query_of_def)
  next
    assume *: "valid_labels labels \<and> query = query_of labels"
    then have "labels \<noteq> []" "q = join CHR ''&'' (map label_field labels)"
      using Some by (auto simp: query_of_def split: if_splits)
    moreover have "q \<noteq> []" using calculation(1)
      unfolding calculation(2) by (cases labels; cases "tl labels") (auto simp: label_field_def)
    ultimately show "q \<noteq> [] \<and> valid_labels labels \<and> split_char CHR ''&'' q = map label_field labels"
      using * split_query by (simp add: valid_labels_def)
  qed
  finally show ?thesis .
qed

lemma label_texts:
  "0 < n \<Longrightarrow> ws \<noteq> [] \<Longrightarrow>
     concat (map label_text (enumerate n ws)) = CHR ''&'' # join CHR ''&'' (map label_field ws)"
proof (induction ws arbitrary: n)
  case (Cons w ws)
  then show ?case by (cases ws) (simp_all add: label_text_field)
qed simp

lemma query_text:
  "concat (map label_text (enumerate 0 labels)) =
     (case query_of labels of None \<Rightarrow> [] | Some q \<Rightarrow> CHR ''?'' # q)"
proof (cases labels)
  case (Cons w ws)
  then show ?thesis
    using label_texts [of 1 ws] by (cases ws) (simp_all add: query_of_def label_text_field)
qed (simp add: query_of_def)

section \<open>Paths\<close>

definition view_text :: "('z) env_scheme \<Rightarrow> repository_view \<Rightarrow> string" where
  "view_text E view = (case view of
     PublisherView publisher \<Rightarrow> ''/publisher/'' @ identity_hex E publisher
   | CanonicalView \<Rightarrow> [])"

definition url_char :: "char \<Rightarrow> bool" where
  "url_char c \<longleftrightarrow> c \<notin> {CHR ''?'', CHR ''/'', CHR 0x23}"

lemma identity_url_chars:
  assumes "hex_ok E" shows "\<forall>c \<in> set (identity_hex E i). url_char c" "identity_hex E i \<noteq> []"
  using identity_hex_chars [OF assms, of i] identity_from_hex_hex [OF assms, of i]
  by (auto simp: hex_digits_def url_char_def identity_from_hex_def split: if_splits)

lemma digest_url_chars:
  assumes "base32_ok E" shows "\<forall>c \<in> set (digest_base32 E d). url_char c" "digest_base32 E d \<noteq> []"
proof -
  have "c \<in> to_lower ` set base32_alphabet \<Longrightarrow> url_char c" for c
    by (auto simp: base32_alphabet_def to_lower_def is_ascii_uppercase_def less_eq_char_def char_of_def bit_0 url_char_def)
  then show "\<forall>c \<in> set (digest_base32 E d). url_char c"
    using digest_base32_chars [OF assms, of d] by blast
  show "digest_base32 E d \<noteq> []" using digest_base32_length [OF assms, of d] by auto
qed

lemma parse_path_Inr_iff:
  assumes "hex_ok E"
  shows "parse_path E (split_char CHR ''/'' path) = Inr (digest, view) \<longleftrightarrow>
    digest \<noteq> [] \<and> CHR ''/'' \<notin> set digest \<and> path = digest @ view_text E view"
proof
  assume *: "parse_path E (split_char CHR ''/'' path) = Inr (digest, view)"
  have path: "path = join CHR ''/'' (split_char CHR ''/'' path)" by (simp add: join_split_char)
  have segments: "split_char CHR ''/'' path = [digest] \<and> view = CanonicalView \<or>
      (\<exists>i. split_char CHR ''/'' path = [digest, ''publisher'', identity_hex E i] \<and> view = PublisherView i)"
    "digest \<noteq> []"
    using * identity_hex_from_hex [OF assms]
    by (auto simp: parse_path_def bindE_Inr_iff map_err_Inr_iff split: list.splits if_splits)
  then have "digest \<in> set (split_char CHR ''/'' path)" by auto
  then have "CHR ''/'' \<notin> set digest" by (rule split_char_parts)
  moreover have "path = digest @ view_text E view"
    using segments(1) by (subst path) (auto simp: view_text_def)
  ultimately show "digest \<noteq> [] \<and> CHR ''/'' \<notin> set digest \<and> path = digest @ view_text E view"
    using segments(2) by blast
next
  assume *: "digest \<noteq> [] \<and> CHR ''/'' \<notin> set digest \<and> path = digest @ view_text E view"
  show "parse_path E (split_char CHR ''/'' path) = Inr (digest, view)"
  proof (cases view)
    case CanonicalView
    then show ?thesis using * by (simp add: view_text_def split_char_no_sep parse_path_def)
  next
    case (PublisherView i)
    have "CHR ''/'' \<notin> set (identity_hex E i)" using identity_url_chars(1) [OF assms, of i] by (auto simp: url_char_def)
    then have "split_char CHR ''/'' (join CHR ''/'' [digest, ''publisher'', identity_hex E i])
        = [digest, ''publisher'', identity_hex E i]"
      using * by (intro split_char_join) auto
    moreover have "path = join CHR ''/'' [digest, ''publisher'', identity_hex E i]"
      using * PublisherView by (simp add: view_text_def)
    ultimately show ?thesis
      using * PublisherView identity_url_chars(2) [OF assms] identity_from_hex_hex [OF assms]
      by (simp add: parse_path_def)
  qed
qed

lemma repository_digest_text:
  assumes "base32_ok E"
  shows "repository_from_str E (''styrene:git:v1:'' @ digest) = Inr r \<longleftrightarrow> digest = digest_base32 E (repository_digest r)"
proof -
  have "repository_to_string E r = ''styrene:git:v1:'' @ digest_base32 E (repository_digest r)"
    by (simp add: repository_to_string_def repository_prefix_def)
  moreover have "repository_from_str E t = Inr r \<longleftrightarrow> t = repository_to_string E r" for t
    using repository_from_str_to_string [OF assms] repository_to_string_from_str [OF assms] by auto
  ultimately show ?thesis by simp
qed

lemma url_from_str_parts:
  assumes "url_from_str E s = Inr u"
  obtains path query digest where "s = url_prefix @ path @ (case query of None \<Rightarrow> [] | Some q \<Rightarrow> CHR ''?'' # q)"
    and "parse_path E (split_char CHR ''/'' path) = Inr (digest, url_view u)"
    and "repository_from_str E (''styrene:git:v1:'' @ digest) = Inr (url_repository u)"
    and "parse_labels query = Inr (url_labels u)"
proof -
  obtain rest where s: "s = url_prefix @ rest"
    using assms by (auto simp: url_from_str_def bindE_Inr_iff strip_prefix_Some_iff ok_or_Inr_iff split: if_splits)
  define path where "path = (case split_once CHR ''?'' rest of None \<Rightarrow> rest | Some (a, b) \<Rightarrow> a)"
  define query where "query = map_option snd (split_once CHR ''?'' rest)"
  have pq: "(case split_once CHR ''?'' rest of None \<Rightarrow> (rest, None) | Some (a, b) \<Rightarrow> (a, Some b)) = (path, query)"
    by (auto simp: path_def query_def split: option.splits)
  have rest: "rest = path @ (case query of None \<Rightarrow> [] | Some q \<Rightarrow> CHR ''?'' # q)"
    by (auto simp: path_def query_def split_once_Some_iff split: option.splits)
  show thesis
    using assms that [of path query]
    by (auto simp: url_from_str_def s rest [symmetric] strip_prefix_def pq bindE_Inr_iff map_err_Inr_iff split: if_splits)
qed

section \<open>Properties\<close>

text \<open>The part of an URL before its query.\<close>

definition url_path :: "('z) env_scheme \<Rightarrow> remote_url \<Rightarrow> string" where
  "url_path E u = digest_base32 E (repository_digest (url_repository u)) @ view_text E (url_view u)"

lemma url_to_string_parts:
  "url_to_string E u = url_prefix @ url_path E u @
     (case query_of (url_labels u) of None \<Rightarrow> [] | Some q \<Rightarrow> CHR ''?'' # q)"
  by (simp add: url_to_string_def url_path_def view_text_def query_text split: repository_view.split)

lemma url_path_chars:
  assumes "hex_ok E" "base32_ok E" shows "CHR ''?'' \<notin> set (url_path E u)" "CHR 0x23 \<notin> set (url_path E u)"
proof -
  have word: "\<forall>c \<in> set ''/publisher/''. c = CHR ''/'' \<or> url_char c" by (simp add: url_char_def)
  have view: "\<forall>c \<in> set (view_text E (url_view u)). c = CHR ''/'' \<or> url_char c"
  proof (cases "url_view u")
    case (PublisherView i)
    then show ?thesis
      using word identity_url_chars(1) [OF assms(1), of i] unfolding view_text_def PublisherView
      by (simp only: repository_view.case set_append ball_Un) blast
  qed (simp add: view_text_def)
  have chars: "c = CHR ''/'' \<or> url_char c" if "c \<in> set (url_path E u)" for c
    using that view digest_url_chars(1) [OF assms(2)] unfolding url_path_def by (metis Un_iff set_append)
  show "CHR ''?'' \<notin> set (url_path E u)" "CHR 0x23 \<notin> set (url_path E u)"
    using chars [of "CHR ''?''"] chars [of "CHR 0x23"] by (auto simp: url_char_def)
qed

lemma query_chars:
  assumes "valid_labels labels" "query_of labels = Some q" shows "CHR 0x23 \<notin> set q"
proof
  assume "CHR 0x23 \<in> set q"
  then obtain l where "l \<in> set labels" "CHR 0x23 \<in> set (label_field l)"
    using assms(2) join_chars [of "CHR 0x23" "CHR ''&''" "map label_field labels"]
    by (auto simp: query_of_def split: if_splits)
  then show False using assms(1) label_field_chars by (auto simp: valid_labels_def)
qed

lemma split_query_part:
  assumes "CHR ''?'' \<notin> set path"
  shows "(case split_once CHR ''?'' (path @ (case query of None \<Rightarrow> [] | Some q \<Rightarrow> CHR ''?'' # q)) of
       None \<Rightarrow> (path @ (case query of None \<Rightarrow> [] | Some q \<Rightarrow> CHR ''?'' # q), None)
     | Some (a, b) \<Rightarrow> (a, Some b)) = (path, query)"
proof (cases query)
  case None
  then show ?thesis using assms by (simp add: split_once_None_iff [THEN iffD2])
next
  case (Some q)
  then have "split_once CHR ''?'' (path @ CHR ''?'' # q) = Some (path, q)"
    using assms by (simp add: split_once_Some_iff)
  then show ?thesis using Some by simp
qed

text \<open>C40: URLs and their text correspond one to one: a string is accepted as an URL exactly when it
  is the text \<open>Display\<close> writes for that URL and its labels are valid, so that a repository has no
  second spelling.\<close>

theorem url_text:
  assumes "hex_ok E" "base32_ok E"
  shows "url_from_str E s = Inr u \<longleftrightarrow> valid_labels (url_labels u) \<and> s = url_to_string E u"
proof
  assume "url_from_str E s = Inr u"
  then obtain path query digest where "s = url_prefix @ path @ (case query of None \<Rightarrow> [] | Some q \<Rightarrow> CHR ''?'' # q)"
    "parse_path E (split_char CHR ''/'' path) = Inr (digest, url_view u)"
    "repository_from_str E (''styrene:git:v1:'' @ digest) = Inr (url_repository u)"
    "parse_labels query = Inr (url_labels u)"
    by (rule url_from_str_parts)
  then show "valid_labels (url_labels u) \<and> s = url_to_string E u"
    using repository_digest_text [OF assms(2)] parse_path_Inr_iff [OF assms(1)]
    by (simp add: url_to_string_parts url_path_def parse_labels_Inr_iff)
next
  assume u: "valid_labels (url_labels u) \<and> s = url_to_string E u"
  let ?digest = "digest_base32 E (repository_digest (url_repository u))"
  let ?rest = "url_path E u @ (case query_of (url_labels u) of None \<Rightarrow> [] | Some q \<Rightarrow> CHR ''?'' # q)"
  have s: "s = url_prefix @ ?rest" using u by (simp add: url_to_string_parts)
  have "CHR 0x23 \<notin> set q" if "query_of (url_labels u) = Some q" for q
    using query_chars that u by blast
  then have "CHR 0x23 \<notin> set s"
    using url_path_chars(2) [OF assms, of u] unfolding s by (auto simp: url_prefix_def split: option.splits)
  moreover have "starts_with s ''styrene:///''" by (simp add: s url_prefix_def starts_with_def)
  moreover have "parse_path E (split_char CHR ''/'' (url_path E u)) = Inr (?digest, url_view u)"
    using digest_url_chars [OF assms(2), of "repository_digest (url_repository u)"]
    by (auto simp: parse_path_Inr_iff [OF assms(1)] url_path_def url_char_def)
  moreover have "repository_from_str E (''styrene:git:v1:'' @ ?digest) = Inr (url_repository u)"
    by (simp only: repository_digest_text [OF assms(2)])
  moreover have "parse_labels (query_of (url_labels u)) = Inr (url_labels u)"
    using u by (simp add: parse_labels_Inr_iff)
  moreover have "strip_prefix url_prefix s = Some ?rest" by (simp add: s strip_prefix_Some_iff)
  ultimately show "url_from_str E s = Inr u"
    by (simp only: url_from_str_def simp_thms if_False if_True ok_or_simps bindE.simps Let_def
        split_query_part [OF url_path_chars(1) [OF assms]] prod.case map_err.simps) simp
qed

text \<open>The routing information of an accepted URL is bounded: at most 16 labels, strictly
  ascending, each of 1 to 64 characters among lowercase letters, digits and hyphens and starting
  with a letter.\<close>

lemma url_labels_bounded:
  assumes "url_from_str E s = Inr u"
  shows "length (url_labels u) \<le> 16 \<and> sorted_wrt (<) (url_labels u) \<and>
    (\<forall>l \<in> set (url_labels u). l \<noteq> [] \<and> length l \<le> 64 \<and> CHR ''a'' \<le> hd l \<and> hd l \<le> CHR ''z'' \<and>
       (\<forall>c \<in> set l. CHR ''a'' \<le> c \<and> c \<le> CHR ''z'' \<or> CHR ''0'' \<le> c \<and> c \<le> CHR ''9'' \<or> c = CHR ''-''))"
proof -
  obtain query where "parse_labels query = Inr (url_labels u)"
    using assms by (rule url_from_str_parts)
  then show ?thesis
    by (auto simp: parse_labels_Inr_iff valid_labels_def max_routing_labels_def valid_label_def
        max_routing_label_bytes_def is_ascii_lowercase_def is_ascii_digit_def list_all_iff)
qed

end
