(* ===== verification/Remote_Git.thy ===== *)
theory Remote_Git
  imports Store
begin

text \<open>
  \<open>crates/styrene-git-remote/src/git.rs\<close>: the Git plumbing the remote helper runs in the user's
  repository. The trait \<open>GitPlumbing\<close> is the record \<open>plumbing\<close> of its methods over a state \<open>'g\<close>;
  \<open>GitCommand\<close> implements it with processes, which the argument \<open>processes\<close> runs.
\<close>

section \<open>Types\<close>

definition max_metadata_bytes :: u64 where
  "max_metadata_bytes = 4096"

definition max_stderr_bytes :: u64 where
  "max_stderr_bytes = 16 * 1024"

definition max_revision_bytes :: nat where
  "max_revision_bytes = 1024"

datatype git_object_format = FormatSha1 | FormatSha256

definition remote_format_name :: "git_object_format \<Rightarrow> string" where
  "remote_format_name f = (case f of FormatSha1 \<Rightarrow> ''sha1'' | FormatSha256 \<Rightarrow> ''sha256'')"

datatype git_error =
    GitCommandFailed string string
  | GitIo string io_error
  | OutputLimitExceeded string u64
  | InputLimitExceeded u64
  | GitCountLimitExceeded nat
  | InvalidOutput string
  | InvalidRevision
  | InvalidLimit
  | GitInvalidObjectId
  | GitObjectFormatMismatch
  | GitUnsupportedObjectFormat string

type_synonym ('g, 'a) git_io = "('g, git_error, 'a) io"

record 'g plumbing =
  gp_object_format :: "('g, git_object_format) git_io"
  gp_resolve_revision :: "string \<Rightarrow> ('g, git_object_id) git_io"
  gp_has_object :: "git_object_id \<Rightarrow> ('g, bool) git_io"
  gp_local_prerequisites :: "nat \<Rightarrow> ('g, git_object_id list) git_io"
  gp_create_push_pack :: "git_object_id list \<Rightarrow> git_object_id list \<Rightarrow> nat \<Rightarrow> u64 \<Rightarrow> ('g, bytes) git_io"
  gp_install_fetch_pack :: "bytes \<Rightarrow> u64 \<Rightarrow> ('g, unit) git_io"

record git_command =
  gc_dir :: path

text \<open>
  A process run as \<open>run\<close> uses it: an I/O error of starting it, writing to it, reading from it or
  waiting for it; a stream that was not available or a reader thread that panicked, with the text
  of the source; or its success flag with all it wrote to standard output and standard error.
\<close>

datatype helper_run = Run_Io io_error | Run_Broken string | Run_Exit bool bytes bytes

type_synonym 'g processes = "path \<Rightarrow> string list \<Rightarrow> bytes option \<Rightarrow> 'g \<Rightarrow> helper_run \<times> 'g"

section \<open>\<open>GitCommand\<close>\<close>

text \<open>At most one byte more than allowed is read of each stream.\<close>

definition run_result :: "string \<Rightarrow> u64 \<Rightarrow> helper_run \<Rightarrow> (git_error, bytes) result" where
  "run_result operation max_output_bytes run =
     (case run of
        Run_Io e \<Rightarrow> Inl (GitIo operation e)
      | Run_Broken msg \<Rightarrow> Inl (GitCommandFailed operation msg)
      | Run_Exit success out err \<Rightarrow>
          let output = take (saturating_add_one max_output_bytes) out;
              stderr = take (saturating_add_one max_stderr_bytes) err in
          if unat max_output_bytes < length output then Inl (OutputLimitExceeded operation max_output_bytes)
          else if unat max_stderr_bytes < length stderr then Inl (OutputLimitExceeded operation max_stderr_bytes)
          else if \<not> success then Inl (GitCommandFailed operation (trim (from_utf8_lossy stderr)))
          else Inr output)"

definition command_run ::
  "'g processes \<Rightarrow> git_command \<Rightarrow> string list \<Rightarrow> bytes option \<Rightarrow> u64 \<Rightarrow> ('g, bytes) git_io" where
  "command_run processes cmd args input max_output_bytes g =
     (case processes (gc_dir cmd) args input g of
        (run, g') \<Rightarrow> (run_result (join CHR '' '' args) max_output_bytes run, g'))"

definition output_text :: "string \<Rightarrow> bytes \<Rightarrow> (git_error, string) result" where
  "output_text operation bs = ok_or (InvalidOutput operation) (from_utf8 bs)"

definition command_parse_object_id ::
  "('z) env_scheme \<Rightarrow> git_object_format \<Rightarrow> bytes \<Rightarrow> string \<Rightarrow> (git_error, git_object_id) result" where
  "command_parse_object_id E f bs operation =
     bindE (map_ok trim (output_text operation bs)) (\<lambda>value.
     map_err (\<lambda>_. InvalidOutput operation) (object_from_hex E (remote_format_name f) value))"

definition require_format :: "git_object_format \<Rightarrow> git_object_id \<Rightarrow> (git_error, unit) result" where
  "require_format f object =
     bindE (map_err (\<lambda>_. GitInvalidObjectId) (object_validate object)) (\<lambda>_.
     ensure (algorithm object = remote_format_name f) GitObjectFormatMismatch)"

definition command_object_format ::
  "'g processes \<Rightarrow> git_command \<Rightarrow> ('g, git_object_format) git_io" where
  "command_object_format processes cmd =
     bindS (command_run processes cmd [''rev-parse'', ''--show-object-format''] None max_metadata_bytes) (\<lambda>output.
     bindS (liftS (map_ok trim (output_text ''rev-parse --show-object-format'' output))) (\<lambda>name.
     if name = ''sha1'' then okS FormatSha1
     else if name = ''sha256'' then okS FormatSha256
     else failS (GitUnsupportedObjectFormat name)))"

definition command_resolve_revision ::
  "('z) env_scheme \<Rightarrow> 'g processes \<Rightarrow> git_command \<Rightarrow> string \<Rightarrow> ('g, git_object_id) git_io" where
  "command_resolve_revision E processes cmd revision =
     (if revision = [] \<or> max_revision_bytes < length revision \<or>
         contains_any revision [CHR 0x00, CHR 0x0A, CHR 0x0D]
      then failS InvalidRevision
      else bindS (command_object_format processes cmd) (\<lambda>f.
      bindS (command_run processes cmd
        [''rev-parse'', ''--verify'', ''--end-of-options'', revision @ ''^{object}''] None max_metadata_bytes) (\<lambda>output.
      liftS (command_parse_object_id E f output ''rev-parse --verify''))))"

definition command_has_object ::
  "('z) env_scheme \<Rightarrow> 'g processes \<Rightarrow> git_command \<Rightarrow> git_object_id \<Rightarrow> ('g, bool) git_io" where
  "command_has_object E processes cmd object =
     bindS (command_object_format processes cmd) (\<lambda>f.
     bindS (liftS (require_format f object)) (\<lambda>_.
     catchS (command_run processes cmd
       [''rev-parse'', ''--verify'', ''--end-of-options'', object_hex E object @ ''^{object}''] None max_metadata_bytes) (\<lambda>r.
     case r of
       Inr output \<Rightarrow> liftS (map_ok (\<lambda>found. found = object) (command_parse_object_id E f output ''rev-parse --verify''))
     | Inl e \<Rightarrow> (case e of GitCommandFailed _ _ \<Rightarrow> okS False | _ \<Rightarrow> failS e))))"

text \<open>\<open>str::lines\<close>: a line ends at a line feed, with a carriage return before it dropped.\<close>

definition strip_cr :: "string \<Rightarrow> string" where
  "strip_cr line = (if line \<noteq> [] \<and> last line = CHR 0x0D then butlast line else line)"

definition str_lines :: "string \<Rightarrow> string list" where
  "str_lines s =
     (let ws = split_char CHR 0x0A s
      in map strip_cr (butlast ws) @ (if last ws = [] then [] else [last ws]))"

definition bytes_per_line :: "git_object_format \<Rightarrow> nat" where
  "bytes_per_line f = (case f of FormatSha1 \<Rightarrow> 41 | FormatSha256 \<Rightarrow> 65)"

definition command_local_prerequisites ::
  "('z) env_scheme \<Rightarrow> 'g processes \<Rightarrow> git_command \<Rightarrow> nat \<Rightarrow> ('g, git_object_id list) git_io" where
  "command_local_prerequisites E processes cmd max_count =
     (if max_count = 0 then okS []
      else bindS (command_object_format processes cmd) (\<lambda>f.
      if 2 ^ 64 \<le> max_count * bytes_per_line f then failS InvalidLimit
      else bindS (command_run processes cmd [''rev-list'', ''--max-count='' @ decimal max_count, ''--all''] None
             (of_nat (max_count * bytes_per_line f))) (\<lambda>output.
      bindS (liftS (output_text ''rev-list --all'' output)) (\<lambda>msg.
      bindS (liftS (collect_ok (\<lambda>line. map_err (\<lambda>_. InvalidOutput ''rev-list --all'')
                 (object_from_hex E (remote_format_name f) line)) (str_lines msg))) (\<lambda>objects.
      okS (dedup (sort objects)))))))"

fun push_revisions ::
  "('z) env_scheme \<Rightarrow> git_object_format \<Rightarrow> string \<Rightarrow> git_object_id list \<Rightarrow> (git_error, string) result" where
  "push_revisions E f mark [] = Inr []"
| "push_revisions E f mark (object # objects) =
     bindE (require_format f object) (\<lambda>_.
     bindE (push_revisions E f mark objects) (\<lambda>rest.
     Inr (mark @ object_hex E object @ [CHR 0x0A] @ rest)))"

definition command_create_push_pack ::
  "('z) env_scheme \<Rightarrow> 'g processes \<Rightarrow> git_command \<Rightarrow> git_object_id list \<Rightarrow> git_object_id list \<Rightarrow> nat \<Rightarrow> u64
     \<Rightarrow> ('g, bytes) git_io" where
  "command_create_push_pack E processes cmd includes excludes max_revisions max_pack_bytes =
     (let revision_count = length includes + length excludes in
      if 2 ^ 64 \<le> revision_count then failS InvalidLimit
      else if max_revisions < revision_count then failS (GitCountLimitExceeded max_revisions)
      else if includes = [] then okS []
      else bindS (command_object_format processes cmd) (\<lambda>f.
      bindS (liftS (push_revisions E f [] includes)) (\<lambda>wanted.
      bindS (liftS (push_revisions E f ''^'' excludes)) (\<lambda>excluded.
      command_run processes cmd [''pack-objects'', ''--stdout'', ''--revs'']
        (Some (str_bytes (wanted @ excluded))) max_pack_bytes))))"

definition command_install_fetch_pack ::
  "'g processes \<Rightarrow> git_command \<Rightarrow> bytes \<Rightarrow> u64 \<Rightarrow> ('g, unit) git_io" where
  "command_install_fetch_pack processes cmd pack max_pack_bytes =
     (if unat max_pack_bytes < length pack then failS (InputLimitExceeded max_pack_bytes)
      else bindS (command_run processes cmd [''index-pack'', ''--stdin'', ''--fix-thin''] (Some pack)
             max_metadata_bytes) (\<lambda>_. okS ()))"

definition command_plumbing :: "('z) env_scheme \<Rightarrow> 'g processes \<Rightarrow> git_command \<Rightarrow> 'g plumbing" where
  "command_plumbing E processes cmd =
     \<lparr>gp_object_format = command_object_format processes cmd,
      gp_resolve_revision = command_resolve_revision E processes cmd,
      gp_has_object = command_has_object E processes cmd,
      gp_local_prerequisites = command_local_prerequisites E processes cmd,
      gp_create_push_pack = command_create_push_pack E processes cmd,
      gp_install_fetch_pack = command_install_fetch_pack processes cmd\<rparr>"

end
