(* ===== verification/Operations.thy ===== *)
theory Operations
  imports Client Url Remote_Git
begin

text \<open>
  \<open>crates/styrene-git-remote/src/operations.rs\<close>: listing, fetching and pushing for Git. A
  \<open>RemoteSession\<close> is the URL, an argument here, with the state \<open>session\<close> of the client and of
  Git; \<open>X\<close> is the transport's exchange and \<open>G\<close> the plumbing.
\<close>

section \<open>Types\<close>

record fetch_command =
  fc_object :: git_object_id
  fc_reference :: string

record push_command =
  pc_source :: "string option"
  pc_destination :: string
  pc_force :: bool

record ('t, 'g) session =
  sn_client :: "'t client"
  sn_git :: 'g

datatype helper_error =
    EmptyBatch string
  | CommandLimitExceeded string nat
  | InvalidReference string
  | DuplicateDestination string
  | HelperObjectFormatMismatch
  | HelperInvalidObjectId
  | GitResultLimitExceeded string nat
  | InvalidRefListing
  | WantedObjectMissing git_object_id
  | RevisionLimitOverflow
  | HelperClient client_error
  | HelperGit git_error

type_synonym ('t, 'g, 'a) session_io = "(('t, 'g) session, helper_error, 'a) io"

definition on_client :: "('t, 'a) client_io \<Rightarrow> ('t, 'g, 'a) session_io" where
  "on_client m s = (case m (sn_client s) of (r, c) \<Rightarrow> (map_err HelperClient r, s\<lparr>sn_client := c\<rparr>))"

definition on_git :: "('g, 'a) git_io \<Rightarrow> ('t, 'g, 'a) session_io" where
  "on_git m s = (case m (sn_git s) of (r, g) \<Rightarrow> (map_err HelperGit r, s\<lparr>sn_git := g\<rparr>))"

section \<open>Validation\<close>

definition validate_object :: "git_object_format \<Rightarrow> git_object_id \<Rightarrow> (helper_error, unit) result" where
  "validate_object f object =
     bindE (map_err (\<lambda>_. HelperInvalidObjectId) (object_validate object)) (\<lambda>_.
     ensure (algorithm object = remote_format_name f) HelperObjectFormatMismatch)"

definition valid_component :: "string \<Rightarrow> bool" where
  "valid_component component \<longleftrightarrow>
     component \<noteq> [] \<and> \<not> starts_with component ''.'' \<and> \<not> ends_with component ''.'' \<and>
     \<not> ends_with component ''.lock''"

definition components_valid :: "string \<Rightarrow> bool" where
  "components_valid reference \<longleftrightarrow>
     (case strip_prefix ''refs/'' reference of
        None \<Rightarrow> False
      | Some name \<Rightarrow> name \<noteq> [] \<and> list_all valid_component (split_char CHR ''/'' name))"

definition helper_specials :: "char list" where
  "helper_specials = [CHR '' '', CHR ''~'', CHR ''^'', CHR '':'', CHR ''?'', CHR ''*'', CHR ''['', CHR 0x5C]"

definition validate_reference :: "string \<Rightarrow> (helper_error, unit) result" where
  "validate_reference reference =
     ensure (starts_with reference ''refs/'' \<and> \<not> ends_with reference ''/'' \<and>
             components_valid reference \<and> \<not> contains_str reference ''..'' \<and>
             \<not> contains_str reference [CHR ''@'', CHR 0x7B] \<and> \<not> contains_any reference helper_specials \<and>
             \<not> list_ex (\<lambda>c. c < CHR 0x20 \<or> c = CHR 0x7F) reference)
       (InvalidReference reference)"

definition validate_listing :: "git_object_format \<Rightarrow> ref_target list \<Rightarrow> (helper_error, unit) result" where
  "validate_listing f refs =
     (if \<not> windows2_all (\<lambda>a b. rt_name a < rt_name b) refs then Inl InvalidRefListing
      else for_each (\<lambda>r. bindE (validate_reference (rt_name r)) (\<lambda>_. validate_object f (rt_target r))) refs)"

section \<open>Listing\<close>

definition session_list ::
  "('z) ipc_env_scheme \<Rightarrow> 't exchange \<Rightarrow> 'g plumbing \<Rightarrow> remote_url \<Rightarrow> ('t, 'g, ref_listing) session_io" where
  "session_list E X G url =
     bindS (on_client (negotiate E X)) (\<lambda>_.
     bindS (on_git (gp_object_format G)) (\<lambda>f.
     bindS (on_client (list_refs E X (url_repository url) (url_view url))) (\<lambda>listing.
     bindS (liftS (validate_listing f (rl_refs listing))) (\<lambda>_.
     bindS (liftS (case rl_head listing of None \<Rightarrow> Inr () | Some head \<Rightarrow> validate_reference head)) (\<lambda>_.
     okS listing)))))"

definition session_list_for_push ::
  "('z) ipc_env_scheme \<Rightarrow> 't exchange \<Rightarrow> 'g plumbing \<Rightarrow> remote_url \<Rightarrow> ('t, 'g, push_ref_listing) session_io" where
  "session_list_for_push E X G url =
     bindS (on_client (negotiate E X)) (\<lambda>_.
     bindS (on_git (gp_object_format G)) (\<lambda>f.
     bindS (on_client (list_push_refs E X (url_repository url))) (\<lambda>listing.
     bindS (liftS (validate_listing f (pl_refs listing))) (\<lambda>_.
     okS listing))))"

section \<open>Fetching\<close>

definition validate_fetch :: "git_object_format \<Rightarrow> fetch_command \<Rightarrow> (helper_error, unit) result" where
  "validate_fetch f command =
     bindE (validate_reference (fc_reference command)) (\<lambda>_. validate_object f (fc_object command))"

definition require_present :: "'g plumbing \<Rightarrow> git_object_id \<Rightarrow> ('t, 'g, unit) session_io" where
  "require_present G object =
     bindS (on_git (gp_has_object G object)) (\<lambda>present.
     if \<not> present then failS (WantedObjectMissing object) else okS ())"

definition fetch_batch ::
  "('z) ipc_env_scheme \<Rightarrow> 't exchange \<Rightarrow> 'g plumbing \<Rightarrow> remote_url \<Rightarrow> fetch_command list
     \<Rightarrow> ('t, 'g, unit) session_io" where
  "fetch_batch E X G url commands =
     (if commands = [] then failS (EmptyBatch ''fetch'')
      else bindS (on_client (negotiate E X)) (\<lambda>capabilities.
      let max_wants = unat (li_max_wants (cs_limits capabilities));
          max_haves = unat (li_max_haves (cs_limits capabilities)) in
      bindS (on_git (gp_object_format G)) (\<lambda>f.
      bindS (liftS (for_each (validate_fetch f) commands)) (\<lambda>_.
      let wants = btree_set (map fc_object commands) in
      if max_wants < length wants then failS (CommandLimitExceeded ''fetch'' max_wants)
      else bindS (on_git (gp_local_prerequisites G max_haves)) (\<lambda>haves.
      if max_haves < length haves then failS (GitResultLimitExceeded ''prerequisites'' max_haves)
      else bindS (liftS (for_each (validate_object f) haves)) (\<lambda>_.
      bindS (on_client (fetch E X (url_repository url) (url_view url) wants (btree_set haves))) (\<lambda>pack.
      bindS (if pack \<noteq> [] then on_git (gp_install_fetch_pack G pack (li_max_pack_bytes (cs_limits capabilities)))
             else okS ()) (\<lambda>_.
      forS (require_present G) wants))))))))"

section \<open>Pushing\<close>

text \<open>The loop of \<open>push_batch\<close>: the destinations so far, then the updates and the objects to pack.\<close>

fun push_updates ::
  "'g plumbing \<Rightarrow> git_object_format \<Rightarrow> (string, git_object_id) btree_map \<Rightarrow> string list \<Rightarrow> push_command list
     \<Rightarrow> ('t, 'g, ref_update list \<times> git_object_id list) session_io" where
  "push_updates G f current destinations [] = okS ([], [])"
| "push_updates G f current destinations (command # commands) =
     bindS (liftS (validate_reference (pc_destination command))) (\<lambda>_.
     if pc_destination command \<in> set destinations
     then failS (DuplicateDestination (pc_destination command))
     else bindS (case pc_source command of
            None \<Rightarrow> okS None
          | Some source \<Rightarrow> bindS (on_git (gp_resolve_revision G source)) (\<lambda>object. okS (Some object))) (\<lambda>new.
     bindS (liftS (case new of None \<Rightarrow> Inr () | Some object \<Rightarrow> validate_object f object)) (\<lambda>_.
     bindS (push_updates G f current (pc_destination command # destinations) commands) (\<lambda>(updates, includes).
     okS (\<lparr>ru_name = pc_destination command, ru_expected = btree_get current (pc_destination command),
           ru_new = new, ru_force = pc_force command\<rparr> # updates,
          (case new of None \<Rightarrow> [] | Some object \<Rightarrow> [object]) @ includes)))))"

definition push_batch ::
  "('z) ipc_env_scheme \<Rightarrow> 't exchange \<Rightarrow> 'g plumbing \<Rightarrow> remote_url \<Rightarrow> push_command list
     \<Rightarrow> ('t, 'g, push_result) session_io" where
  "push_batch E X G url commands =
     (if commands = [] then failS (EmptyBatch ''push'')
      else bindS (on_client (negotiate E X)) (\<lambda>capabilities.
      let max_updates = unat (li_max_ref_updates (cs_limits capabilities));
          max_haves = unat (li_max_haves (cs_limits capabilities)) in
      if max_updates < length commands then failS (CommandLimitExceeded ''push'' max_updates)
      else bindS (on_git (gp_object_format G)) (\<lambda>f.
      bindS (on_client (list_push_refs E X (url_repository url))) (\<lambda>listing.
      bindS (liftS (validate_listing f (pl_refs listing))) (\<lambda>_.
      let current = btree_of_list (map (\<lambda>r. (rt_name r, rt_target r)) (pl_refs listing)) in
      bindS (push_updates G f current [] commands) (\<lambda>(updates, includes).
      let excludes = take max_haves (btree_set (map rt_target (pl_refs listing)));
          includes = btree_set includes in
      if 2 ^ 64 \<le> max_updates + max_haves then failS RevisionLimitOverflow
      else bindS (on_git (gp_create_push_pack G includes excludes (max_updates + max_haves)
             (li_max_pack_bytes (cs_limits capabilities)))) (\<lambda>pack.
      on_client (push E X (url_repository url) updates pack))))))))"

end
