(* ===== verification/Command_Loop.thy ===== *)
theory Command_Loop
  imports Operations
begin

text \<open>
  \<open>crates/styrene-git-remote/src/command_loop.rs\<close>: the line protocol Git speaks with a remote
  helper. The input is the bytes Git sends, with the I/O error that follows them or the end of
  file; the output is a state \<open>'o\<close> with the functions of the trait \<open>Write\<close>, an argument.
\<close>

section \<open>State and errors\<close>

definition max_command_line_bytes :: nat where
  "max_command_line_bytes = 4096"

datatype loop_error =
    CapabilitiesRequired
  | DuplicateCapabilities
  | UnsupportedCommand
  | MalformedFetch
  | MalformedPush
  | UnexpectedEof string
  | LineTooLong
  | LoopHelper helper_error
  | LoopIo io_error

record 'o writer =
  wr_write_all :: "bytes \<Rightarrow> 'o \<Rightarrow> (io_error, unit) result \<times> 'o"
  wr_flush :: "'o \<Rightarrow> (io_error, unit) result \<times> 'o"

record ('o, 't, 'g) loop_state =
  lp_input :: bytes
  lp_input_error :: "io_error option"
  lp_output :: 'o
  lp_session :: "('t, 'g) session"

type_synonym ('o, 't, 'g, 'a) loop_io = "(('o, 't, 'g) loop_state, loop_error, 'a) io"

definition on_session :: "('t, 'g, 'a) session_io \<Rightarrow> ('o, 't, 'g, 'a) loop_io" where
  "on_session m s =
     (case m (lp_session s) of (r, n) \<Rightarrow> (map_err LoopHelper r, s\<lparr>lp_session := n\<rparr>))"

text \<open>\<open>write_all\<close>, \<open>flush\<close>, and \<open>writeln!\<close>, which writes the pieces of its text one by one.\<close>

definition write_text :: "'o writer \<Rightarrow> string \<Rightarrow> ('o, 't, 'g, unit) loop_io" where
  "write_text W msg s =
     (case wr_write_all W (str_bytes msg) (lp_output s) of
        (r, out) \<Rightarrow> (map_err LoopIo r, s\<lparr>lp_output := out\<rparr>))"

definition flush_output :: "'o writer \<Rightarrow> ('o, 't, 'g, unit) loop_io" where
  "flush_output W s =
     (case wr_flush W (lp_output s) of (r, out) \<Rightarrow> (map_err LoopIo r, s\<lparr>lp_output := out\<rparr>))"

definition write_pieces :: "'o writer \<Rightarrow> string list \<Rightarrow> ('o, 't, 'g, unit) loop_io" where
  "write_pieces W pieces = forS (write_text W) pieces"

definition line_feed :: string where
  "line_feed = [CHR 0x0A]"

definition end_answer :: "'o writer \<Rightarrow> ('o, 't, 'g, unit) loop_io" where
  "end_answer W = bindS (write_text W line_feed) (\<lambda>_. flush_output W)"

section \<open>Reading lines\<close>

text \<open>
  \<open>BufRead::read_line\<close> on at most \<open>n\<close> bytes: up to and including the first line feed, or to the end
  of the bytes or of the limit; text that is not UTF-8 is an error of kind \<open>InvalidData\<close>.
\<close>

fun split_line :: "bytes \<Rightarrow> bytes \<times> bytes" where
  "split_line [] = ([], [])"
| "split_line (b # bs) =
     (if b = 0x0A then ([b], bs) else case split_line bs of (line, rest) \<Rightarrow> (b # line, rest))"

definition invalid_utf8 :: io_error where
  "invalid_utf8 = Io_Error Other_Kind ''stream did not contain valid UTF-8''"

definition read_limited :: "nat \<Rightarrow> ('o, 't, 'g, string) loop_io" where
  "read_limited n s =
     (let line = fst (split_line (take n (lp_input s)));
          s' = s\<lparr>lp_input := drop (length line) (lp_input s)\<rparr> in
      if length line < n \<and> (line = [] \<or> last line \<noteq> 0x0A) \<and> lp_input_error s \<noteq> None
      then (Inl (LoopIo (the (lp_input_error s))), s')
      else case from_utf8 line of
        None \<Rightarrow> (Inl (LoopIo invalid_utf8), s')
      | Some msg \<Rightarrow> (Inr msg, s'))"

definition strip_line_end :: "string \<Rightarrow> string" where
  "strip_line_end line =
     (if line \<noteq> [] \<and> last line = CHR 0x0A then strip_cr (butlast line) else line)"

definition read_line :: "('o, 't, 'g, string option) loop_io" where
  "read_line =
     bindS (read_limited (max_command_line_bytes + 2)) (\<lambda>line.
     if line = [] then okS None
     else if max_command_line_bytes < length (strip_line_end line) then failS LineTooLong
     else okS (Some (strip_line_end line)))"

definition read_batch_line :: "string \<Rightarrow> ('o, 't, 'g, string) loop_io" where
  "read_batch_line operation =
     bindS read_line (\<lambda>line. liftS (ok_or (UnexpectedEof operation) line))"

section \<open>Parsing commands\<close>

definition parse_fetch :: "('z) env_scheme \<Rightarrow> string \<Rightarrow> string \<Rightarrow> (loop_error, fetch_command) result" where
  "parse_fetch E line alg =
     bindE (ok_or MalformedFetch (strip_prefix ''fetch '' line)) (\<lambda>fs.
     bindE (ok_or MalformedFetch (split_once CHR '' '' fs)) (\<lambda>(object, reference).
     if object = [] \<or> reference = [] \<or> CHR '' '' \<in> set reference then Inl MalformedFetch
     else bindE (map_err (\<lambda>_. MalformedFetch) (object_from_hex E alg object)) (\<lambda>object.
     Inr \<lparr>fc_object = object, fc_reference = reference\<rparr>)))"

definition parse_push :: "string \<Rightarrow> (loop_error, push_command) result" where
  "parse_push line =
     bindE (ok_or MalformedPush (strip_prefix ''push '' line)) (\<lambda>fs.
     if fs = [] \<or> CHR '' '' \<in> set fs then Inl MalformedPush
     else let (force, fs) = (case strip_prefix ''+'' fs of None \<Rightarrow> (False, fs) | Some fs \<Rightarrow> (True, fs)) in
     bindE (ok_or MalformedPush (split_once CHR '':'' fs)) (\<lambda>(source, destination).
     if destination = [] \<or> CHR '':'' \<in> set destination then Inl MalformedPush
     else Inr \<lparr>pc_source = (if source \<noteq> [] then Some source else None),
               pc_destination = destination, pc_force = force\<rparr>))"

section \<open>Batches\<close>

lemma length_split_line: "length (fst (split_line bs)) \<le> length bs"
  by (induction bs) (auto split: prod.splits)

lemma read_limited_input:
  assumes "read_limited n s = (Inr line, s')"
  shows "length (lp_input s') + length line = length (lp_input s)"
proof -
  have "length (fst (split_line (take n (lp_input s)))) \<le> length (lp_input s)"
    using length_split_line [of "take n (lp_input s)"] by simp
  then show ?thesis
    using assms
    by (auto simp: read_limited_def Let_def from_utf8_def text_of_def split: if_splits option.splits)
qed

lemma read_line_input:
  "read_line s = (Inr (Some line), s') \<Longrightarrow> length (lp_input s') < length (lp_input s)"
  unfolding read_line_def bindS_Inr_iff
  by (auto simp: okS_iff failS_iff split: if_splits dest!: read_limited_input)
    (metis length_greater_0_conv less_add_same_cancel1)

lemma read_batch_line_input:
  "read_batch_line op s = (Inr line, s') \<Longrightarrow> length (lp_input s') < length (lp_input s)"
  unfolding read_batch_line_def bindS_Inr_iff
  by (auto simp: liftS_iff ok_or_def split: option.splits dest: read_line_input)

text \<open>The rest of a batch: lines of the same command, each parsed, up to an empty line.\<close>

function read_batch ::
  "string \<Rightarrow> loop_error \<Rightarrow> (string \<Rightarrow> (loop_error, 'a) result) \<Rightarrow> ('o, 't, 'g, 'a list) loop_io" where
  "read_batch operation malformed parse s =
     (case read_batch_line operation s of
        (Inl e, s') \<Rightarrow> (Inl e, s')
      | (Inr line, s') \<Rightarrow>
          if line = [] then (Inr [], s')
          else if \<not> starts_with line (operation @ '' '') then (Inl malformed, s')
          else case parse line of
            Inl e \<Rightarrow> (Inl e, s')
          | Inr command \<Rightarrow>
              (case read_batch operation malformed parse s' of
                 (Inl e, s'') \<Rightarrow> (Inl e, s'')
               | (Inr commands, s'') \<Rightarrow> (Inr (command # commands), s'')))"
  by pat_completeness auto
termination
  by (relation "measure (\<lambda>(operation, malformed, parse, s). length (lp_input s))")
    (auto dest: read_batch_line_input [OF sym])

declare read_batch.simps [simp del]

section \<open>The loop\<close>

definition write_ref :: "('z) env_scheme \<Rightarrow> 'o writer \<Rightarrow> ref_target \<Rightarrow> ('o, 't, 'g, unit) loop_io" where
  "write_ref E W r = write_pieces W [object_hex E (rt_target r), '' '', rt_name r, line_feed]"

definition do_list ::
  "('z) ipc_env_scheme \<Rightarrow> 't exchange \<Rightarrow> 'g plumbing \<Rightarrow> 'o writer \<Rightarrow> remote_url \<Rightarrow> ('o, 't, 'g, unit) loop_io" where
  "do_list E X G W url =
     bindS (on_session (session_list E X G url)) (\<lambda>listing.
     bindS (forS (write_ref E W) (rl_refs listing)) (\<lambda>_.
     bindS (case rl_head listing of
              None \<Rightarrow> okS ()
            | Some head \<Rightarrow> write_pieces W [''@'', head, '' HEAD'' @ line_feed]) (\<lambda>_.
     end_answer W)))"

definition do_list_for_push ::
  "('z) ipc_env_scheme \<Rightarrow> 't exchange \<Rightarrow> 'g plumbing \<Rightarrow> 'o writer \<Rightarrow> remote_url \<Rightarrow> ('o, 't, 'g, unit) loop_io" where
  "do_list_for_push E X G W url =
     bindS (on_session (session_list_for_push E X G url)) (\<lambda>listing.
     bindS (forS (write_ref E W) (pl_refs listing)) (\<lambda>_.
     end_answer W))"

definition do_fetch ::
  "('z) ipc_env_scheme \<Rightarrow> 't exchange \<Rightarrow> 'g plumbing \<Rightarrow> 'o writer \<Rightarrow> remote_url \<Rightarrow> string
     \<Rightarrow> ('o, 't, 'g, unit) loop_io" where
  "do_fetch E X G W url line =
     bindS (on_session (on_git (gp_object_format G))) (\<lambda>f.
     bindS (liftS (parse_fetch E line (remote_format_name f))) (\<lambda>first.
     bindS (read_batch ''fetch'' MalformedFetch (\<lambda>line. parse_fetch E line (remote_format_name f))) (\<lambda>rest.
     bindS (on_session (fetch_batch E X G url (first # rest))) (\<lambda>_.
     end_answer W))))"

definition write_oks :: "'o writer \<Rightarrow> push_command list \<Rightarrow> ('o, 't, 'g, unit) loop_io" where
  "write_oks W = forS (\<lambda>c. write_pieces W [''ok '', pc_destination c, line_feed])"

definition write_errors :: "'o writer \<Rightarrow> push_command list \<Rightarrow> ('o, 't, 'g, unit) loop_io" where
  "write_errors W =
     forS (\<lambda>c. write_pieces W [''error '', pc_destination c, '' atomic push failed'' @ line_feed])"

definition do_push ::
  "('z) ipc_env_scheme \<Rightarrow> 't exchange \<Rightarrow> 'g plumbing \<Rightarrow> 'o writer \<Rightarrow> remote_url \<Rightarrow> string
     \<Rightarrow> ('o, 't, 'g, unit) loop_io" where
  "do_push E X G W url line =
     bindS (liftS (parse_push line)) (\<lambda>first.
     bindS (read_batch ''push'' MalformedPush parse_push) (\<lambda>rest.
     catchS (on_session (push_batch E X G url (first # rest))) (\<lambda>answer.
     case answer of
       Inl error \<Rightarrow>
         bindS (write_errors W (first # rest)) (\<lambda>_.
         bindS (end_answer W) (\<lambda>_. failS error))
     | Inr _ \<Rightarrow>
         bindS (write_oks W (first # rest)) (\<lambda>_.
         end_answer W))))"

text \<open>
  What a nonempty line leads to, and one turn of the loop: \<open>None\<close> is its \<open>return Ok(())\<close>,
  \<open>Some advertised\<close> goes on with the flag.
\<close>

definition answer_line ::
  "('z) ipc_env_scheme \<Rightarrow> 't exchange \<Rightarrow> 'g plumbing \<Rightarrow> 'o writer \<Rightarrow> remote_url \<Rightarrow> bool \<Rightarrow> string
     \<Rightarrow> ('o, 't, 'g, bool) loop_io" where
  "answer_line E X G W url advertised line =
     (if \<not> advertised \<and> line \<noteq> ''capabilities'' then failS CapabilitiesRequired
      else if line = ''capabilities'' then
        (if advertised then failS DuplicateCapabilities
         else bindS (write_text W (''fetch'' @ line_feed @ ''push'' @ line_feed @ line_feed)) (\<lambda>_.
              bindS (flush_output W) (\<lambda>_. okS True)))
      else if line = ''list'' then bindS (do_list E X G W url) (\<lambda>_. okS advertised)
      else if line = ''list for-push'' then bindS (do_list_for_push E X G W url) (\<lambda>_. okS advertised)
      else if starts_with line ''fetch '' then bindS (do_fetch E X G W url line) (\<lambda>_. okS advertised)
      else if starts_with line ''push '' then bindS (do_push E X G W url line) (\<lambda>_. okS advertised)
      else failS UnsupportedCommand)"

definition command_turn ::
  "('z) ipc_env_scheme \<Rightarrow> 't exchange \<Rightarrow> 'g plumbing \<Rightarrow> 'o writer \<Rightarrow> remote_url \<Rightarrow> bool
     \<Rightarrow> ('o, 't, 'g, bool option) loop_io" where
  "command_turn E X G W url advertised =
     bindS read_line (\<lambda>read.
     case read of
       None \<Rightarrow> okS None
     | Some line \<Rightarrow>
         if line = [] then okS None
         else bindS (answer_line E X G W url advertised line) (\<lambda>advertised'. okS (Some advertised')))"

text \<open>No step puts input back, and a turn that goes on has read a line.\<close>

definition reads_on :: "('o, 't, 'g) loop_state \<Rightarrow> ('o, 't, 'g) loop_state \<Rightarrow> bool" where
  "reads_on s s' \<longleftrightarrow> length (lp_input s') \<le> length (lp_input s)"

interpretation input: run_relation reads_on
  by unfold_locales (auto simp: reads_on_def)

lemma on_session_input [runs]: "runs_in reads_on (on_session m)"
  by (auto simp: runs_in_def reads_on_def on_session_def split: prod.splits)

lemma write_text_input [runs]: "runs_in reads_on (write_text W msg)"
  by (auto simp: runs_in_def reads_on_def write_text_def split: prod.splits)

lemma flush_output_input [runs]: "runs_in reads_on (flush_output W)"
  by (auto simp: runs_in_def reads_on_def flush_output_def split: prod.splits)

lemma read_limited_runs [runs]: "runs_in reads_on (read_limited n)"
  by (auto simp: runs_in_def reads_on_def read_limited_def Let_def split: option.splits)

lemma read_line_runs [runs]: "runs_in reads_on read_line"
  unfolding read_line_def by (intro runs)

text \<open>Reasoning about a run of \<open>read_batch\<close>: it stops at a line, or goes on after a parsed one.\<close>

lemma read_batch_run_induct:
  assumes "read_batch operation malformed parse s = (r, s')"
    and stop: "\<And>s l s1 r. read_batch_line operation s = (l, s1) \<Longrightarrow> r = Inr [] \<or> (\<exists>e. r = Inl e) \<Longrightarrow> P s r s1"
    and more: "\<And>s line s1 c r s'. read_batch_line operation s = (Inr line, s1) \<Longrightarrow> parse line = Inr c \<Longrightarrow>
      P s1 r s' \<Longrightarrow> P s (map_ok ((#) c) r) s'"
  shows "P s r s'"
  using assms(1)
proof (induction "length (lp_input s)" arbitrary: s r s' rule: less_induct)
  case (less s)
  obtain l s1 where line: "read_batch_line operation s = (l, s1)" by fastforce
  show ?case
  proof (cases "\<exists>line command. l = Inr line \<and> line \<noteq> [] \<and> starts_with line (operation @ '' '') \<and> parse line = Inr command")
    case False
    then have "s' = s1" "r = Inr [] \<or> (\<exists>e. r = Inl e)"
      using less.prems line
      by (subst (asm) read_batch.simps; auto split: sum.splits if_splits)+
    then show ?thesis using stop [OF line] by simp
  next
    case True
    then obtain msg command where msg: "l = Inr msg" "msg \<noteq> []" "starts_with msg (operation @ '' '')"
      "parse msg = Inr command" by blast
    obtain r2 s2 where rest: "read_batch operation malformed parse s1 = (r2, s2)" by fastforce
    have "P s1 r2 s2"
      by (rule less.hyps [OF read_batch_line_input rest]) (use line msg in simp)
    moreover have "s' = s2" "r = map_ok ((#) command) r2"
      using less.prems line msg rest
      by (subst (asm) read_batch.simps; auto split: sum.splits if_splits)+
    ultimately show ?thesis using more [OF line [unfolded msg(1)] msg(4)] by simp
  qed
qed

lemma read_batch_respects:
  fixes R :: "('a, 'b, 'c) loop_state \<Rightarrow> ('a, 'b, 'c) loop_state \<Rightarrow> bool"
  assumes "run_relation R" "runs_in R read_line"
  shows "runs_in R (read_batch operation malformed parse)"
proof (rule runs_inI)
  have line: "runs_in R (read_batch_line op)" for op
    unfolding read_batch_line_def using assms by (intro run_relation.bind run_relation.pure)
  fix s s' :: "('a, 'b, 'c) loop_state" and r :: "(loop_error, 'd list) result"
  assume "read_batch operation malformed parse s = (r, s')"
  then show "R s s'"
    by (rule read_batch_run_induct) (metis assms(1) line run_relation.trans runs_inD)+
qed

lemma read_batch_runs [runs]: "runs_in reads_on (read_batch operation malformed parse)"
  by (rule read_batch_respects [OF input.run_relation_axioms read_line_runs])

lemma do_runs [runs]:
  "runs_in reads_on (end_answer W)"
  "runs_in reads_on (do_list E X G W url)"
  "runs_in reads_on (do_list_for_push E X G W url)"
  "runs_in reads_on (do_fetch E X G W url line)"
  "runs_in reads_on (do_push E X G W url line)"
  unfolding end_answer_def do_list_def do_list_for_push_def do_fetch_def do_push_def write_ref_def
    write_pieces_def write_oks_def write_errors_def
  by (intro runs; simp add: runs split: option.split sum.split; intro allI impI runs)+

lemma answer_line_runs [runs]: "runs_in reads_on (answer_line E X G W url advertised line)"
  unfolding answer_line_def by (simp add: runs)

lemma command_turn_reads:
  assumes "command_turn E X G W url advertised s = (Inr (Some advertised'), s')"
  shows "length (lp_input s') < length (lp_input s)"
proof -
  obtain read s1 where read: "read_line s = (Inr read, s1)"
    and rest: "(case read of None \<Rightarrow> okS None | Some line \<Rightarrow> if line = [] then okS None
      else bindS (answer_line E X G W url advertised line) (\<lambda>a. okS (Some a))) s1 = (Inr (Some advertised'), s')"
    using assms unfolding command_turn_def bindS_Inr_iff by blast
  then obtain line where "read = Some line" "answer_line E X G W url advertised line s1 = (Inr advertised', s')"
    by (auto simp: okS_iff bindS_Inr_iff split: option.splits if_splits)
  with read_line_input read runs_inD [OF answer_line_runs] show ?thesis
    by (fastforce simp: reads_on_def)
qed

function run_loop ::
  "('z) ipc_env_scheme \<Rightarrow> 't exchange \<Rightarrow> 'g plumbing \<Rightarrow> 'o writer \<Rightarrow> remote_url \<Rightarrow> bool
     \<Rightarrow> ('o, 't, 'g, unit) loop_io" where
  "run_loop E X G W url advertised s =
     (case command_turn E X G W url advertised s of
        (Inl e, s') \<Rightarrow> (Inl e, s')
      | (Inr go_on, s') \<Rightarrow>
          (case go_on of
             None \<Rightarrow> (Inr (), s')
           | Some advertised' \<Rightarrow> run_loop E X G W url advertised' s'))"
  by pat_completeness auto
termination
  by (relation "measure (\<lambda>(E, X, G, W, url, advertised, s). length (lp_input s))")
    (simp, simp, metis command_turn_reads)

declare run_loop.simps [simp del]

definition run_command_loop ::
  "('z) ipc_env_scheme \<Rightarrow> 't exchange \<Rightarrow> 'g plumbing \<Rightarrow> 'o writer \<Rightarrow> remote_url \<Rightarrow> ('o, 't, 'g, unit) loop_io" where
  "run_command_loop E X G W url = run_loop E X G W url False"

end
