(* ===== verification/Sample_Daemon.thy ===== *)
theory Sample_Daemon
  imports Ipc_Instances Command_Loop Core_Witnesses
begin

text \<open>
  A daemon that answers the requests it decodes from a script, a user's repository that is a list
  of objects, and a client that has negotiated every capability with unbounded limits. The
  properties of the remote helper are applied to them.
\<close>

section \<open>The daemon\<close>

definition script :: "response_body list exchange" where
  "script bs limit bodies =
     (case (from_canonical_bytes (request_codec ipc_sample) bs, bodies) of
        (Inr request, body # rest) \<Rightarrow>
          (Inr (projr (canonical_bytes (response_codec ipc_sample) (response_new (rq_id request) body))), rest)
      | _ \<Rightarrow> (Inl (TransportError ''connection closed''), bodies))"

definition all_granted :: capability_set where
  "all_granted = \<lparr>cs_protocol_version = 1,
     cs_granted = [ReadRepository, WriteOwnNamespace, StartSynchronizationCap, ReadOperations, CancelOperations],
     cs_limits = \<lparr>li_max_request_bytes = - 1, li_max_pack_bytes = - 1, li_max_ref_updates = - 1,
       li_max_wants = - 1, li_max_haves = - 1, li_max_observations_per_page = - 1\<rparr>\<rparr>"

definition ready_client :: "u128 \<Rightarrow> 't \<Rightarrow> 't client" where
  "ready_client n t = \<lparr>cl_transport = t, cl_next_request_id = Some n, cl_max_response_bytes = - 1,
     cl_capabilities = Some all_granted, cl_failed = False\<rparr>"

lemma ipc_codecs: "codec_ok (request_codec ipc_sample)" "codec_ok (response_codec ipc_sample)"
  using ipc_sample_codecs_ok by (simp_all add: ipc_codecs_ok_def)

lemma not_above_max: "\<not> (- 1 < x)" for x :: "'a::len word"
  by (simp add: not_less word_n1_ge)

lemma codec_both:
  assumes "codec_ok c"
  obtains bs where "canonical_bytes c v = Inr bs" "from_canonical_bytes c bs = Inr v"
  using canonical_bytes_total [OF assms] canonical_bytes_iff [OF assms] by metis

lemma all_granted_simps:
  "cs_protocol_version all_granted = 1" "cs_limits all_granted = \<lparr>li_max_request_bytes = - 1,
       li_max_pack_bytes = - 1, li_max_ref_updates = - 1,
       li_max_wants = - 1, li_max_haves = - 1, li_max_observations_per_page = - 1\<rparr>"
  "require_capability all_granted cap = Inr ()"
proof -
  have "sorted_wrt (<) (cs_granted all_granted)"
    by (simp add: all_granted_def less_capability_def)
  moreover have "cap \<in> set (cs_granted all_granted)" by (cases cap) (simp_all add: all_granted_def)
  ultimately show "require_capability all_granted cap = Inr ()"
    using binary_search_iff [where key = "\<lambda>x. x" and xs = "cs_granted all_granted" and k = cap]
    by (auto simp: require_capability_def ensure_Inr_iff is_ok_iff in_set_conv_nth)
qed (simp_all add: all_granted_def)

text \<open>One request of the ready client, answered from the script or with the connection closed.\<close>

lemma script_send:
  assumes "response_matches body answer" "validate_body all_granted body = Inr ()" "body \<noteq> GetCapabilities"
    "response_limits (ready_client n [] :: response_body list client) answer = Inr ()"
  shows "send ipc_sample script body mutating (ready_client n (answer # rest)) =
    (Inr answer, (ready_client n rest)\<lparr>cl_next_request_id := checked_add_one n\<rparr>)"
proof -
  let ?request = "request_new (RequestId (be_bytes n)) body"
  let ?response = "response_new (RequestId (be_bytes n)) answer"
  obtain bs where bs: "canonical_bytes (request_codec ipc_sample) ?request = Inr bs"
    "from_canonical_bytes (request_codec ipc_sample) bs = Inr ?request" using codec_both [OF ipc_codecs(1)] .
  obtain rb where rb: "canonical_bytes (response_codec ipc_sample) ?response = Inr rb"
    "from_canonical_bytes (response_codec ipc_sample) rb = Inr ?response" using codec_both [OF ipc_codecs(2)] .
  have noerr: "\<forall>e. answer \<noteq> ErrorBody e" using assms(1) by (cases body) auto
  have "script bs (- 1) (answer # rest) = (Inr rb, rest)"
    by (simp add: script_def bs(2) rb(1) request_new_def)
  moreover have "validate_response ipc_sample ((ready_client n rest)\<lparr>cl_next_request_id := checked_add_one n\<rparr>) ?request rb = Inr answer"
    using assms(1,4) noerr
    by (cases answer) (simp_all add: validate_response_def ready_client_def not_above_max rb(2) response_new_def
        request_new_def validate_response_context_def response_limits_def ensure_def)
  ultimately show ?thesis
    using assms(2,3)
    by (simp add: send_def bindS_def getS_def liftS_def validate_request_def next_id_def bs(1) max_request_bytes_def
        ready_client_def all_granted_simps not_above_max exchange_request_def catchS_def do_exchange_def okS_def)
qed

lemma script_closed:
  assumes "validate_body all_granted body = Inr ()" "body \<noteq> GetCapabilities"
  shows "send ipc_sample script body mutating (ready_client n []) =
    (Inl (indeterminate mutating (TransportFailed (TransportError ''connection closed''))),
     (ready_client n [])\<lparr>cl_next_request_id := checked_add_one n, cl_failed := True\<rparr>)"
proof -
  let ?request = "request_new (RequestId (be_bytes n)) body"
  obtain bs where bs: "canonical_bytes (request_codec ipc_sample) ?request = Inr bs"
    "from_canonical_bytes (request_codec ipc_sample) bs = Inr ?request" using codec_both [OF ipc_codecs(1)] .
  show ?thesis
    using assms
    by (simp add: send_def bindS_def getS_def liftS_def validate_request_def next_id_def bs max_request_bytes_def
        ready_client_def all_granted_simps not_above_max exchange_request_def catchS_def do_exchange_def
        fail_session_def script_def)
qed

lemma negotiate_ready [simp]: "negotiate E X (ready_client n t) = (Inr all_granted, ready_client n t)"
  by (simp add: negotiate_def bindS_def getS_def ready_client_def okS_def)

section \<open>The user's repository\<close>

definition object_plumbing :: "git_object_id list plumbing" where
  "object_plumbing = \<lparr>gp_object_format = okS FormatSha1, gp_resolve_revision = \<lambda>_. okS (sample_object 1),
     gp_has_object = \<lambda>x g. (Inr (x \<in> set g), g), gp_local_prerequisites = \<lambda>_. okS [],
     gp_create_push_pack = \<lambda>_ _ _ _. okS [1], gp_install_fetch_pack = \<lambda>_ _ g. (Inr (), sample_object 1 # g)\<rparr>"

definition sample_url :: remote_url where
  "sample_url = \<lparr>url_repository = sample_repository, url_view = CanonicalView, url_labels = []\<rparr>"

definition sample_listing :: ref_listing where
  "sample_listing = \<lparr>rl_repository = sample_repository, rl_view = CanonicalView,
     rl_refs = [\<lparr>rt_name = ''refs/heads/main'', rt_target = sample_object 1\<rparr>],
     rl_head = Some ''refs/heads/main''\<rparr>"

lemma sample_listing_simps [simp]:
  "rl_repository sample_listing = sample_repository" "rl_view sample_listing = CanonicalView"
  "rl_head sample_listing = Some ''refs/heads/main''"
  "rl_refs sample_listing = [\<lparr>rt_name = ''refs/heads/main'', rt_target = sample_object 1\<rparr>]"
  by (simp_all add: sample_listing_def)

definition sample_push_listing :: push_ref_listing where
  "sample_push_listing = \<lparr>pl_repository = sample_repository, pl_refs = rl_refs sample_listing\<rparr>"

definition sample_push_result :: push_result where
  "sample_push_result = \<lparr>pr_disposition = PushApplied,
     pr_state = \<lparr>rs_repository = sample_repository, rs_publisher = sample_id 1,
       rs_transition = Digest (repeat_byte 5), rs_sequence = 1, rs_refs = rl_refs sample_listing\<rparr>,
     pr_publication = OperationId (repeat_byte 9)\<rparr>"

end
