(* ===== verification/Client_Facts.thy ===== *)
theory Client_Facts
  imports Client
begin

text \<open>
  What the client of the daemon guarantees over a whole session: which requests it sends, with
  which identifiers, what its answers mean, and that a broken session stays closed.
\<close>

section \<open>One request\<close>

fun is_remote :: "client_error \<Rightarrow> bool" where
  "is_remote (Remote e) \<longleftrightarrow> True"
| "is_remote _ \<longleftrightarrow> False"

text \<open>What the answer of an exchange leads to: the result, and whether the session failed.\<close>

definition concludes ::
  "('z) ipc_env_scheme \<Rightarrow> 't client \<Rightarrow> request \<Rightarrow> bool \<Rightarrow> (transport_error, bytes) result
     \<Rightarrow> (client_error, response_body) result \<Rightarrow> bool \<Rightarrow> bool" where
  "concludes E c request mutating answer r failed \<longleftrightarrow>
     (case answer of
        Inl te \<Rightarrow> r = Inl (indeterminate mutating (TransportFailed te)) \<and> failed
      | Inr response \<Rightarrow>
          (case validate_response E c request response of
             Inr body \<Rightarrow> r = Inr body \<and> \<not> failed
           | Inl e \<Rightarrow>
               if is_remote e then r = Inl e \<and> \<not> failed
               else r = Inl (indeterminate mutating e) \<and> failed))"

definition exchanges ::
  "('z) ipc_env_scheme \<Rightarrow> 't exchange \<Rightarrow> request_body \<Rightarrow> bool \<Rightarrow> 't client
     \<Rightarrow> (client_error, response_body) result \<Rightarrow> 't client \<Rightarrow> bool" where
  "exchanges E X body mutating c r c' \<longleftrightarrow>
     (\<exists>n bs answer t failed. let request = request_new (RequestId (be_bytes n)) body in
        \<not> cl_failed c \<and> validate_request c body = Inr () \<and> cl_next_request_id c = Some n \<and>
        canonical_bytes (request_codec E) request = Inr bs \<and> of_nat (length bs) \<le> max_request_bytes c \<and>
        X bs (cl_max_response_bytes c) (cl_transport c) = (answer, t) \<and>
        c' = c\<lparr>cl_next_request_id := checked_add_one n, cl_transport := t, cl_failed := failed\<rparr> \<and>
        concludes E c request mutating answer r failed)"

text \<open>A request that is refused before it reaches the transport; it may have used up an identifier.\<close>

definition refuses :: "'t client \<Rightarrow> (client_error, 'a) result \<Rightarrow> 't client \<Rightarrow> bool" where
  "refuses c r c' \<longleftrightarrow>
     (\<exists>e. r = Inl e \<and> \<not> is_remote e \<and> (\<forall>e'. e \<noteq> PushIndeterminate e') \<and>
        (c' = c \<or>
         (\<exists>n. \<not> cl_failed c \<and> cl_next_request_id c = Some n \<and>
            c' = c\<lparr>cl_next_request_id := checked_add_one n\<rparr>)))"

lemma validate_response_cong:
  "cl_max_response_bytes c' = cl_max_response_bytes c \<Longrightarrow> cl_capabilities c' = cl_capabilities c \<Longrightarrow>
     validate_response E c' request bs = validate_response E c request bs"
proof -
  assume same: "cl_max_response_bytes c' = cl_max_response_bytes c" "cl_capabilities c' = cl_capabilities c"
  then have limits: "response_limits c' = response_limits c" by (simp add: response_limits_def fun_eq_iff)
  show ?thesis unfolding validate_response_def same(1) limits ..
qed

lemma max_request_bytes_next [simp]:
  "max_request_bytes (c\<lparr>cl_next_request_id := n\<rparr>) = max_request_bytes c"
  by (simp add: max_request_bytes_def)

lemma exchange_request_concludes:
  assumes "\<not> cl_failed c" "exchange_request E X request bs mutating c = (r, c')"
  shows "\<exists>answer t failed. X bs (cl_max_response_bytes c) (cl_transport c) = (answer, t) \<and>
    c' = c\<lparr>cl_transport := t, cl_failed := failed\<rparr> \<and> concludes E c request mutating answer r failed"
proof -
  obtain answer t where x: "X bs (cl_max_response_bytes c) (cl_transport c) = (answer, t)"
    by (cases "X bs (cl_max_response_bytes c) (cl_transport c)")
  let ?c = "c\<lparr>cl_transport := t\<rparr>"
  have same: "validate_response E ?c request rb = validate_response E c request rb" for rb
    by (rule validate_response_cong) simp_all
  have unfailed: "?c\<lparr>cl_failed := False\<rparr> = ?c" using assms(1) by simp
  show ?thesis
  proof (cases answer)
    case (Inl te)
    then show ?thesis
      using assms x
      by (auto simp: exchange_request_def catchS_def do_exchange_def fail_session_def concludes_def)
  next
    case (Inr rb)
    show ?thesis
    proof (cases "validate_response E c request rb")
      case (Inr body)
      then have "r = Inr body" "c' = ?c"
        using assms x \<open>answer = Inr rb\<close> same
        by (simp_all add: exchange_request_def catchS_def do_exchange_def bindS_def getS_def okS_def)
      then show ?thesis
        using x unfailed Inr \<open>answer = Inr rb\<close>
        by (intro exI [of _ answer] exI [of _ t] exI [of _ False]) (simp add: concludes_def)
    next
      case (Inl e)
      have r: "r = (if is_remote e then Inl e else Inl (indeterminate mutating e))"
        "c' = (if is_remote e then ?c else ?c\<lparr>cl_failed := True\<rparr>)"
        using assms x \<open>answer = Inr rb\<close> same Inl
        by (cases e; simp add: exchange_request_def catchS_def do_exchange_def bindS_def getS_def
            failS_def fail_session_def)+
      then show ?thesis
        using x unfailed Inl \<open>answer = Inr rb\<close>
        by (intro exI [of _ answer] exI [of _ t] exI [of _ "\<not> is_remote e"]) (simp add: concludes_def)
    qed
  qed
qed

lemma validate_request_errors:
  "validate_request c body = Inl e \<Longrightarrow> \<not> is_remote e \<and> (\<forall>e'. e \<noteq> PushIndeterminate e')"
  by (cases body)
    (auto simp: validate_request_def require_capability_def require_count_def require_bytes_def
      bindE_Inl_iff ensure_Inl_iff ok_or_def split: option.splits)

lemma send_cases:
  assumes "send E X body mutating c = (r, c')"
  shows "refuses c r c' \<or> exchanges E X body mutating c r c'"
proof (cases "cl_failed c")
  case True
  then show ?thesis using assms by (auto simp: send_def bindS_def getS_def failS_def refuses_def)
next
  case False
  note alive = False
  show ?thesis
  proof (cases "validate_request c body")
    case (Inl e)
    then show ?thesis
      using assms alive validate_request_errors [OF Inl]
      by (auto simp: send_def bindS_def getS_def liftS_def refuses_def)
  next
    case (Inr u)
    show ?thesis
    proof (cases "cl_next_request_id c")
      case None
      then show ?thesis
        using assms alive Inr
        by (auto simp: send_def bindS_def getS_def liftS_def next_id_def refuses_def)
    next
      case (Some n)
      let ?request = "request_new (RequestId (be_bytes n)) body" and ?c = "c\<lparr>cl_next_request_id := checked_add_one n\<rparr>"
      have run: "(case map_err (EncodeError \<circ> core_error_text) (canonical_bytes (request_codec E) ?request) of
          Inl e \<Rightarrow> (Inl e, ?c)
        | Inr bs \<Rightarrow>
            if max_request_bytes c < of_nat (length bs) then (Inl (RequestTooLarge (max_request_bytes c)), ?c)
            else exchange_request E X ?request bs mutating ?c) = (r, c')"
        using assms alive Inr Some
        by (auto simp: send_def bindS_def getS_def liftS_def next_id_def Let_def failS_def
            split: sum.splits if_splits)
      show ?thesis
      proof (cases "\<exists>bs. canonical_bytes (request_codec E) ?request = Inr bs \<and> of_nat (length bs) \<le> max_request_bytes c")
        case False
        then show ?thesis
          using run alive Some
          by (cases "canonical_bytes (request_codec E) ?request") (auto simp: refuses_def not_le)
      next
        case True
        then obtain bs where bs: "canonical_bytes (request_codec E) ?request = Inr bs"
          "of_nat (length bs) \<le> max_request_bytes c" by blast
        then have "exchange_request E X ?request bs mutating ?c = (r, c')"
          using run by (simp add: leD)
        from exchange_request_concludes [OF _ this] alive obtain answer t failed where
          x: "X bs (cl_max_response_bytes c) (cl_transport c) = (answer, t)"
          and c': "c' = ?c\<lparr>cl_transport := t, cl_failed := failed\<rparr>"
          and conc: "concludes E ?c ?request mutating answer r failed" by auto
        have same: "validate_response E ?c ?request rb = validate_response E c ?request rb" for rb
          by (rule validate_response_cong) simp_all
        have "concludes E c ?request mutating answer r failed"
          using conc unfolding concludes_def same .
        then show ?thesis
          using alive Inr Some bs x c' by (auto simp: exchanges_def Let_def)
      qed
    qed
  qed
qed

section \<open>Sessions\<close>

text \<open>Every call a user of the client can make.\<close>

inductive client_step :: "('z) ipc_env_scheme \<Rightarrow> 't exchange \<Rightarrow> 't client \<Rightarrow> 't client \<Rightarrow> bool" for E X where
  negotiated: "client_step E X c (snd (negotiate E X c))"
| refs_listed: "client_step E X c (snd (list_refs E X repository view c))"
| push_refs_listed: "client_step E X c (snd (list_push_refs E X repository c))"
| fetched: "client_step E X c (snd (fetch E X repository view wants haves c))"
| pushed: "client_step E X c (snd (push E X repository updates pack c))"
| started: "client_step E X c (snd (start_synchronization E X repository view labels c))"
| operation_read: "client_step E X c (snd (get_operation E X i c))"
| operation_cancelled: "client_step E X c (snd (cancel_operation E X i c))"
| observations_read: "client_step E X c (snd (list_observations E X i after limit c))"

inductive client_run :: "('z) ipc_env_scheme \<Rightarrow> 't exchange \<Rightarrow> 't client \<Rightarrow> 't client \<Rightarrow> bool" for E X where
  start: "client_run E X c c"
| continue: "client_run E X c c' \<Longrightarrow> client_step E X c' c'' \<Longrightarrow> client_run E X c c''"

text \<open>Reading the body of an answer does not change the client.\<close>

lemma snd_bind_pure:
  assumes "\<And>x s. snd (f x s) = s" shows "snd (bindS m f c) = snd (m c)"
  using assms by (auto simp: bindS_def split: prod.splits sum.splits)

lemma snd_operations:
  "snd (list_refs E X repository view c) = snd (send E X (ListRefs repository view) False c)"
  "snd (list_push_refs E X repository c) = snd (send E X (ListPushRefs repository) False c)"
  "snd (fetch E X repository view wants haves c) = snd (send E X (Fetch repository view wants haves) False c)"
  "snd (push E X repository updates pack c) = snd (send E X (Push repository updates pack) True c)"
  "snd (start_synchronization E X repository view labels c) =
     snd (send E X (StartSynchronization repository view labels) False c)"
  "snd (get_operation E X i c) = snd (send E X (GetOperation i) False c)"
  "snd (cancel_operation E X i c) = snd (send E X (CancelOperation i) False c)"
  "snd (list_observations E X i after limit c) = snd (send E X (ListObservations i after limit) False c)"
  unfolding list_refs_def list_push_refs_def fetch_def push_def start_synchronization_def
    get_operation_def cancel_operation_def list_observations_def
  by (rule snd_bind_pure; simp add: okS_def failS_def split: response_body.split)+

text \<open>A step is a request that is not \<open>GetCapabilities\<close>, or negotiation.\<close>

lemma client_step_cases:
  assumes "client_step E X c c'"
  shows "(\<exists>body mutating. body \<noteq> GetCapabilities \<and> c' = snd (send E X body mutating c)) \<or>
    c' = snd (negotiate E X c)"
  using assms by cases (auto simp: snd_operations)

lemma negotiate_cases:
  assumes "negotiate E X c = (r, c')"
  shows "(\<exists>cs. cl_capabilities c = Some cs \<and> r = Inr cs \<and> c' = c) \<or>
    (cl_capabilities c = None \<and> (\<exists>r1 c1. send E X GetCapabilities False c = (r1, c1) \<and>
       ((\<exists>e. r = Inl e) \<and> c' \<in> {c1, c1\<lparr>cl_failed := True\<rparr>} \<or>
        (\<exists>cs. r1 = Inr (CapabilitiesBody cs) \<and> r = Inr cs \<and> c' = c1\<lparr>cl_capabilities := Some cs\<rparr> \<and>
           cs_protocol_version cs = ipc_version \<and> sorted_wrt (<) (cs_granted cs)))))"
proof (cases "cl_capabilities c")
  case (Some cs)
  then show ?thesis using assms by (auto simp: negotiate_def bindS_def getS_def okS_def)
next
  case None
  obtain r1 c1 where send: "send E X GetCapabilities False c = (r1, c1)"
    by (cases "send E X GetCapabilities False c")
  show ?thesis
  proof (cases r1)
    case (Inl e)
    then show ?thesis using assms None send by (auto simp: negotiate_def bindS_def getS_def)
  next
    case (Inr body)
    then show ?thesis
      using assms None send
      by (cases body) (auto simp: negotiate_def bindS_def getS_def failS_def fail_session_def split: if_splits)
  qed
qed

text \<open>A failed session stays silent: whatever is called on it, in any order, its state and its
  transport do not change, so nothing more is sent.\<close>

lemma failed_session_silent:
  assumes "cl_failed c" "client_run E X c c'"
  shows "c' = c"
  using assms(2,1)
proof (induction rule: client_run.induct)
  case (continue c c' c'')
  have "snd (send E X body mutating c) = c" for body mutating
    using continue.prems by (simp add: send_def bindS_def getS_def failS_def)
  moreover have "snd (negotiate E X c) = c"
    using continue.prems
    by (auto simp: negotiate_def send_def bindS_def getS_def failS_def okS_def split: option.splits)
  ultimately show ?case
    using client_step_cases [OF continue.hyps(2)] continue.IH [OF continue.prems] by auto
qed simp

section \<open>What is sent\<close>

text \<open>A transport that also keeps the requests it was given, in order.\<close>

definition logged :: "'t exchange \<Rightarrow> ('t \<times> bytes list) exchange" where
  "logged X request limit s = (case X request limit (fst s) of (r, t) \<Rightarrow> (r, (t, snd s @ [request])))"

definition log_of :: "('t \<times> bytes list) client \<Rightarrow> bytes list" where
  "log_of c = snd (cl_transport c)"

text \<open>What the negotiated capabilities allow.\<close>

definition granted_request :: "capability_set \<Rightarrow> request_body \<Rightarrow> bool" where
  "granted_request cs body \<longleftrightarrow>
     (case body of
        GetCapabilities \<Rightarrow> False
      | ListRefs _ _ \<Rightarrow> ReadRepository \<in> set (cs_granted cs)
      | ListPushRefs _ \<Rightarrow> WriteOwnNamespace \<in> set (cs_granted cs)
      | Fetch _ _ wants haves \<Rightarrow> ReadRepository \<in> set (cs_granted cs) \<and>
          length wants \<le> unat (li_max_wants (cs_limits cs)) \<and> length haves \<le> unat (li_max_haves (cs_limits cs))
      | Push _ updates pack \<Rightarrow> WriteOwnNamespace \<in> set (cs_granted cs) \<and>
          length updates \<le> unat (li_max_ref_updates (cs_limits cs)) \<and>
          of_nat (length pack) \<le> li_max_pack_bytes (cs_limits cs)
      | StartSynchronization _ _ _ \<Rightarrow> StartSynchronizationCap \<in> set (cs_granted cs)
      | GetOperation _ \<Rightarrow> ReadOperations \<in> set (cs_granted cs)
      | CancelOperation _ \<Rightarrow> CancelOperations \<in> set (cs_granted cs)
      | ListObservations _ _ limit \<Rightarrow> ReadOperations \<in> set (cs_granted cs) \<and>
          limit \<le> li_max_observations_per_page (cs_limits cs))"

definition request_allowed :: "capability_set option \<Rightarrow> request_body \<Rightarrow> bytes \<Rightarrow> bool" where
  "request_allowed capabilities body bs \<longleftrightarrow>
     body = GetCapabilities \<and> of_nat (length bs) \<le> (4096 :: u64) \<or>
     (\<exists>cs. capabilities = Some cs \<and> granted_request cs body \<and>
        of_nat (length bs) \<le> li_max_request_bytes (cs_limits cs))"

lemma require_capability_Inr: "require_capability cs a = Inr u \<Longrightarrow> a \<in> set (cs_granted cs)"
  using binary_search_sound [where key = "\<lambda>x. x" and k = a and xs = "cs_granted cs"]
  by (auto simp: require_capability_def ensure_Inr_iff is_ok_iff)

lemma validate_body_granted:
  "validate_body cs body = Inr () \<Longrightarrow> body \<noteq> GetCapabilities \<Longrightarrow> granted_request cs body"
  by (cases body)
    (auto simp: granted_request_def bindE_Inr_iff require_count_def require_bytes_def ensure_Inr_iff
      word_le_nat_alt dest: require_capability_Inr)

lemma validate_request_allowed:
  assumes "validate_request c body = Inr ()" "of_nat (length bs) \<le> max_request_bytes c"
    and "body = GetCapabilities \<Longrightarrow> cl_capabilities c = None"
  shows "request_allowed (cl_capabilities c) body bs"
proof (cases "body = GetCapabilities")
  case True
  then show ?thesis using assms
    by (simp add: request_allowed_def max_request_bytes_def bootstrap_max_request_bytes_def)
next
  case False
  then obtain cs where "cl_capabilities c = Some cs" "validate_body cs body = Inr ()"
    using assms(1) by (auto simp: validate_request_def bindE_Inr_iff ok_or_Inr_iff)
  then show ?thesis
    using assms(2) validate_body_granted False by (auto simp: request_allowed_def max_request_bytes_def)
qed

text \<open>
  The log holds requests with strictly increasing numbers from \<open>first\<close> on, all below the next one,
  and each was allowed by the capabilities of the session.
\<close>

definition log_entry ::
  "('z) ipc_env_scheme \<Rightarrow> capability_set option \<Rightarrow> bytes \<Rightarrow> u128 \<Rightarrow> bool" where
  "log_entry E capabilities bs n \<longleftrightarrow>
     (\<exists>body. canonical_bytes (request_codec E) (request_new (RequestId (be_bytes n)) body) = Inr bs \<and>
        request_allowed capabilities body bs)"

definition log_ok :: "('z) ipc_env_scheme \<Rightarrow> u128 \<Rightarrow> ('t \<times> bytes list) client \<Rightarrow> bool" where
  "log_ok E first c \<longleftrightarrow>
     (\<exists>ns. list_all2 (log_entry E (cl_capabilities c)) (log_of c) ns \<and> sorted_wrt (<) ns \<and>
        (\<forall>n \<in> set ns. first \<le> n \<and> (\<forall>m. cl_next_request_id c = Some m \<longrightarrow> n < m)) \<and>
        (\<forall>m. cl_next_request_id c = Some m \<longrightarrow> first \<le> m))"

lemma word_less_next: "checked_add_one n = Some m \<Longrightarrow> n < m" for n :: "'a::len word"
  using unat_checked_add_one [of n m] by (simp add: word_less_nat_alt)

lemma log_ok_skip:
  assumes "log_ok E first c" "cl_next_request_id c = Some n" "c' = c\<lparr>cl_next_request_id := checked_add_one n\<rparr>"
  shows "log_ok E first c'"
proof -
  obtain ns where ns: "list_all2 (log_entry E (cl_capabilities c)) (log_of c) ns" "sorted_wrt (<) ns"
    "\<forall>k \<in> set ns. first \<le> k \<and> k < n" "first \<le> n"
    using assms(1,2) by (auto simp: log_ok_def)
  then show ?thesis
    using word_less_next [of n] unfolding log_ok_def assms(3)
    by (intro exI [of _ ns]) (force simp: log_of_def)
qed

lemma log_ok_exchange:
  assumes "log_ok E first c" "exchanges E (logged X) body mutating c r c'"
    and "body = GetCapabilities \<Longrightarrow> cl_capabilities c = None"
  shows "log_ok E first c' \<and> cl_capabilities c' = cl_capabilities c"
proof -
  obtain n bs answer t failed where x: "validate_request c body = Inr ()" "cl_next_request_id c = Some n"
    "canonical_bytes (request_codec E) (request_new (RequestId (be_bytes n)) body) = Inr bs"
    "of_nat (length bs) \<le> max_request_bytes c"
    "logged X bs (cl_max_response_bytes c) (cl_transport c) = (answer, t)"
    "c' = c\<lparr>cl_next_request_id := checked_add_one n, cl_transport := t, cl_failed := failed\<rparr>"
    using assms(2) unfolding exchanges_def Let_def by blast
  have log: "log_of c' = log_of c @ [bs]"
    using x(5,6) by (auto simp: logged_def log_of_def split: prod.splits)
  have entry: "log_entry E (cl_capabilities c) bs n"
    using x(3) validate_request_allowed [OF x(1,4) assms(3)] by (auto simp: log_entry_def)
  obtain ns where ns: "list_all2 (log_entry E (cl_capabilities c)) (log_of c) ns" "sorted_wrt (<) ns"
    "\<forall>k \<in> set ns. first \<le> k \<and> k < n" "first \<le> n"
    using assms(1) x(2) by (auto simp: log_ok_def)
  have "list_all2 (log_entry E (cl_capabilities c')) (log_of c') (ns @ [n])"
    using ns(1) entry unfolding log by (simp add: x(6) list_all2_appendI)
  moreover have "sorted_wrt (<) (ns @ [n])" using ns(2,3) by (simp add: sorted_wrt_append)
  moreover have "\<forall>m. cl_next_request_id c' = Some m \<longrightarrow> n < m"
    using word_less_next [of n] by (simp add: x(6))
  ultimately show ?thesis
    using ns(3,4) unfolding log_ok_def
    by (intro conjI exI [of _ "ns @ [n]"]) (force simp: x(6))+
qed

lemma log_ok_send:
  assumes "log_ok E first c" "body = GetCapabilities \<Longrightarrow> cl_capabilities c = None"
    and "send E (logged X) body mutating c = (r, c')"
  shows "log_ok E first c' \<and> cl_capabilities c' = cl_capabilities c"
  using send_cases [OF assms(3)]
proof
  assume "refuses c r c'"
  then show ?thesis using assms(1) log_ok_skip [OF assms(1)] by (auto simp: refuses_def)
next
  assume "exchanges E (logged X) body mutating c r c'"
  then show ?thesis using log_ok_exchange [OF assms(1) _ assms(2)] by blast
qed

lemma log_ok_step:
  assumes "log_ok E first c" "client_step E (logged X) c c'"
  shows "log_ok E first c' \<and> (\<forall>cs. cl_capabilities c = Some cs \<longrightarrow> cl_capabilities c' = Some cs)"
  using client_step_cases [OF assms(2)]
proof (elim disjE exE conjE)
  fix body mutating
  assume "body \<noteq> GetCapabilities" "c' = snd (send E (logged X) body mutating c)"
  then show ?thesis
    using log_ok_send [OF assms(1), where body = body and mutating = mutating] by (metis prod.collapse)
next
  assume c': "c' = snd (negotiate E (logged X) c)"
  obtain r where run: "negotiate E (logged X) c = (r, c')" using c' by (cases "negotiate E (logged X) c") auto
  show ?thesis
    using negotiate_cases [OF run]
  proof (elim disjE exE conjE)
    fix cs assume "c' = c" then show ?thesis using assms(1) by simp
  next
    fix r1 c1
    assume none: "cl_capabilities c = None" and send: "send E (logged X) GetCapabilities False c = (r1, c1)"
      and c': "c' \<in> {c1, c1\<lparr>cl_failed := True\<rparr>}"
    have "log_ok E first c1" using log_ok_send [OF assms(1) _ send] none by blast
    then show ?thesis using c' none by (auto simp: log_ok_def log_of_def)
  next
    fix r1 c1 cs
    assume none: "cl_capabilities c = None" and send: "send E (logged X) GetCapabilities False c = (r1, c1)"
      and c': "c' = c1\<lparr>cl_capabilities := Some cs\<rparr>"
    have c1: "log_ok E first c1" "cl_capabilities c1 = None"
      using log_ok_send [OF assms(1) _ send] none by auto
    have "log_entry E None bs n \<Longrightarrow> log_entry E (Some cs) bs n" for bs n
      by (auto simp: log_entry_def request_allowed_def)
    then have "list_all2 (log_entry E None) bss ns \<Longrightarrow> list_all2 (log_entry E (Some cs)) bss ns" for bss ns
      using list_all2_mono by blast
    then have "log_ok E first c'"
      using c1 unfolding log_ok_def c' by (auto simp: log_of_def)
    then show ?thesis using none by simp
  qed
qed

lemma log_ok_run:
  assumes "client_run E (logged X) c c'" "log_ok E first c"
  shows "log_ok E first c'"
  using assms by (induction rule: client_run.induct) (auto dest: log_ok_step)

text \<open>C12: over a whole session with a new client, whatever is called in any order and whatever the
  transport answers, every request sent carries its own identifier, counting up from the configured
  one and never wrapping, and is one the capabilities allow: before negotiation only
  \<open>GetCapabilities\<close> of at most 4096 bytes, afterwards only what was granted and within the
  negotiated limits.\<close>

theorem session_requests_allowed:
  assumes "client_new (t, []) config = Inr c" "client_run E (logged X) c c'"
  shows "\<exists>ns. sorted_wrt (<) ns \<and> (\<forall>n \<in> set ns. cc_initial_request_id config \<le> n) \<and>
    list_all2 (\<lambda>bs n. \<exists>body. canonical_bytes (request_codec E) (request_new (RequestId (be_bytes n)) body) = Inr bs \<and>
        request_allowed (cl_capabilities c') body bs) (snd (cl_transport c')) ns"
proof -
  have "log_ok E (cc_initial_request_id config) c"
    using assms(1) by (auto simp: client_new_def log_ok_def log_of_def split: if_splits)
  from log_ok_run [OF assms(2) this] show ?thesis
    unfolding log_ok_def log_entry_def log_of_def by blast
qed

section \<open>What the answers mean\<close>

lemma concludes_Inr:
  "concludes E c request mutating answer (Inr body) failed \<Longrightarrow>
     (\<exists>response. answer = Inr response \<and> validate_response E c request response = Inr body) \<and> \<not> failed"
  by (auto simp: concludes_def split: sum.splits if_splits)

lemma validate_response_Inr:
  assumes "validate_response E c request bs = Inr body"
  shows "\<exists>response. from_canonical_bytes (response_codec E) bs = Inr response \<and> rp_version response = 1 \<and>
    rp_id response = rq_id request \<and> rp_body response = body \<and> response_matches (rq_body request) body \<and>
    of_nat (length bs) \<le> cl_max_response_bytes c"
proof -
  obtain response where r: "from_canonical_bytes (response_codec E) bs = Inr response"
    "rp_version response = ipc_version" "rp_id response = rq_id request"
    "of_nat (length bs) \<le> cl_max_response_bytes c"
    and rest: "(case rp_body response of
        ErrorBody error \<Rightarrow> Inl (Remote error)
      | body \<Rightarrow> bindE (validate_response_context (rq_body request) body) (\<lambda>_.
          bindE (response_limits c body) (\<lambda>_. Inr body))) = Inr body"
    using assms by (auto simp: validate_response_def bindE_Inr_iff map_err_Inr_iff not_less split: if_splits)
  have "rp_body response = body \<and> response_matches (rq_body request) body"
    using rest by (cases "rp_body response")
      (auto simp: bindE_Inr_iff validate_response_context_def ensure_Inr_iff)
  then show ?thesis using r by (auto simp: ipc_version_def)
qed

text \<open>The answer came in a response to exactly this request.\<close>

definition answered ::
  "('z) ipc_env_scheme \<Rightarrow> 't exchange \<Rightarrow> 't client \<Rightarrow> request_body \<Rightarrow> response_body \<Rightarrow> 't client \<Rightarrow> bool" where
  "answered E X c body answer c' \<longleftrightarrow>
     (\<exists>n bs response_bytes response. cl_next_request_id c = Some n \<and>
        canonical_bytes (request_codec E) (request_new (RequestId (be_bytes n)) body) = Inr bs \<and>
        X bs (cl_max_response_bytes c) (cl_transport c) = (Inr response_bytes, cl_transport c') \<and>
        of_nat (length response_bytes) \<le> cl_max_response_bytes c \<and>
        from_canonical_bytes (response_codec E) response_bytes = Inr response \<and>
        rp_version response = 1 \<and> rp_id response = RequestId (be_bytes n) \<and> rp_body response = answer)"

lemma send_Inr:
  assumes "send E X body mutating c = (Inr answer, c')"
  shows "answered E X c body answer c'" "response_matches body answer"
proof -
  have "exchanges E X body mutating c (Inr answer) c'"
    using send_cases [OF assms] by (auto simp: refuses_def)
  then obtain n bs r t failed where x: "cl_next_request_id c = Some n"
    "canonical_bytes (request_codec E) (request_new (RequestId (be_bytes n)) body) = Inr bs"
    "X bs (cl_max_response_bytes c) (cl_transport c) = (r, t)"
    "c' = c\<lparr>cl_next_request_id := checked_add_one n, cl_transport := t, cl_failed := failed\<rparr>"
    and conc: "concludes E c (request_new (RequestId (be_bytes n)) body) mutating r (Inr answer) failed"
    unfolding exchanges_def Let_def by blast
  obtain rb where rb: "r = Inr rb"
    "validate_response E c (request_new (RequestId (be_bytes n)) body) rb = Inr answer"
    using concludes_Inr [OF conc] by blast
  from validate_response_Inr [OF rb(2)] show "answered E X c body answer c'" "response_matches body answer"
    using x rb(1) by (auto simp: answered_def request_new_def)
qed

text \<open>An operation that keeps one kind of answer.\<close>

lemma keep_answer:
  assumes "bindS (send E X body mutating) f c = (Inr y, c')"
    and "\<And>answer s. f answer s = (Inr y, c') \<Longrightarrow> answer = g y \<and> s = c'"
  shows "answered E X c body (g y) c' \<and> response_matches body (g y)"
proof -
  obtain answer d where *: "send E X body mutating c = (Inr answer, d)" "f answer d = (Inr y, c')"
    using assms(1) by (auto simp: bindS_Inr_iff)
  from assms(2) [OF *(2)] send_Inr [OF *(1)] show ?thesis by simp
qed


text \<open>C22: a failed push is honest about what may have happened. If \<open>push\<close> fails without having
  given the request to the transport, the error is neither \<open>PushIndeterminate\<close> nor the daemon's,
  and the session goes on; if it did, either the daemon refused it, and the session goes on, or the
  error is \<open>PushIndeterminate\<close> and the session has failed.\<close>

theorem push_failure_honest:
  assumes "push E X repository updates pack c = (Inl e, c')"
  shows "(cl_transport c' = cl_transport c \<and> cl_failed c' = cl_failed c \<and>
      \<not> is_remote e \<and> (\<forall>e'. e \<noteq> PushIndeterminate e')) \<or>
    (\<exists>n bs answer. canonical_bytes (request_codec E)
         (request_new (RequestId (be_bytes n)) (Push repository updates pack)) = Inr bs \<and>
       X bs (cl_max_response_bytes c) (cl_transport c) = (answer, cl_transport c') \<and>
       (if is_remote e then \<not> cl_failed c' else cl_failed c' \<and> (\<exists>e'. e = PushIndeterminate e')))"
proof -
  obtain r d where send: "send E X (Push repository updates pack) True c = (r, d)"
    by (cases "send E X (Push repository updates pack) True c")
  have same: "d = c'" and r: "r = Inl e"
  proof -
    show "d = c'" using snd_operations(4) [of E X repository updates pack c] assms send by simp
    show "r = Inl e"
    proof (cases r)
      case (Inr answer)
      from send_Inr(2) [OF send [unfolded Inr]] obtain result where "answer = PushCommittedBody result"
        by (cases answer) auto
      then show ?thesis using assms send Inr by (simp add: push_def bindS_def okS_def)
    qed (use assms send in \<open>simp add: push_def bindS_def\<close>)
  qed
  from send_cases [OF send] show ?thesis
  proof
    assume "refuses c r d"
    then show ?thesis unfolding r same by (auto simp: refuses_def)
  next
    assume "exchanges E X (Push repository updates pack) True c r d"
    then obtain n bs answer t failed where x: "canonical_bytes (request_codec E)
         (request_new (RequestId (be_bytes n)) (Push repository updates pack)) = Inr bs"
      "X bs (cl_max_response_bytes c) (cl_transport c) = (answer, t)"
      "c' = c\<lparr>cl_next_request_id := checked_add_one n, cl_transport := t, cl_failed := failed\<rparr>"
      and conc: "concludes E c (request_new (RequestId (be_bytes n)) (Push repository updates pack)) True answer (Inl e) failed"
      unfolding exchanges_def Let_def r same by blast
    have "if is_remote e then \<not> failed else failed \<and> (\<exists>e'. e = PushIndeterminate e')"
      using conc by (auto simp: concludes_def indeterminate_def split: sum.splits if_splits)
    then show ?thesis using x by auto
  qed
qed

end
