(* ===== verification/Operations_Facts.thy ===== *)
theory Operations_Facts
  imports Operations Publishing Client_Facts
begin

text \<open>
  What the remote helper's operations promise Git: listings that can be printed line by line, a
  fetch that really delivered, and pushes that are atomic and checked against what was listed.
\<close>

section \<open>Steps of a session\<close>

lemma on_client_Inr: "on_client m s = (Inr x, s') \<longleftrightarrow> (\<exists>c. m (sn_client s) = (Inr x, c) \<and> s' = s\<lparr>sn_client := c\<rparr>)"
  by (auto simp: on_client_def map_err_Inr_iff split: prod.splits dest: sym)

lemma on_git_Inr: "on_git m s = (Inr x, s') \<longleftrightarrow> (\<exists>g. m (sn_git s) = (Inr x, g) \<and> s' = s\<lparr>sn_git := g\<rparr>)"
  by (auto simp: on_git_def map_err_Inr_iff split: prod.splits dest: sym)

lemma on_client_Inl: "on_client m s = (Inl e, s') \<Longrightarrow> \<exists>e'. e = HelperClient e'"
  by (auto simp: on_client_def map_err_Inl_iff split: prod.splits dest: sym)

lemma on_git_Inl: "on_git m s = (Inl e, s') \<Longrightarrow> \<exists>e' g. e = HelperGit e' \<and> m (sn_git s) = (Inl e', g)"
  by (auto simp: on_git_def map_err_Inl_iff split: prod.splits dest: sym)

lemma liftS_Inr: "liftS r s = (Inr x, s') \<longleftrightarrow> r = Inr x \<and> s' = s"
  by (auto simp: liftS_def)

section \<open>Names and objects\<close>

text \<open>A reference name that can stand in a line of the helper protocol.\<close>

definition safe_name :: "string \<Rightarrow> bool" where
  "safe_name name \<longleftrightarrow> starts_with name ''refs/'' \<and> \<not> contains_str name ''..'' \<and>
     (\<forall>c \<in> set name. CHR '' '' < c \<and> c \<noteq> CHR 0x7F \<and> c \<notin> {CHR ''~'', CHR ''^'', CHR '':''})"

lemma validate_reference_safe:
  assumes "validate_reference name = Inr u" shows "safe_name name"
proof -
  have facts: "starts_with name ''refs/''" "\<not> contains_str name ''..''"
    "\<not> contains_any name helper_specials" "\<not> list_ex (\<lambda>c. c < CHR 0x20 \<or> c = CHR 0x7F) name"
    using assms by (simp_all add: validate_reference_def ensure_Inr_iff)
  have "CHR '' '' < c \<and> c \<noteq> CHR 0x7F \<and> c \<notin> {CHR ''~'', CHR ''^'', CHR '':''}" if "c \<in> set name" for c
  proof -
    have "c \<notin> set helper_specials" using facts(3) that by (auto simp: contains_any_iff)
    moreover have "c \<noteq> CHR 0x7F" "\<not> c < CHR 0x20" using facts(4) that by (auto simp: list_ex_iff)
    moreover from this(2) have "CHR '' '' \<le> c" by (simp only: not_less)
    ultimately show ?thesis
      using order_le_imp_less_or_eq [of "CHR '' ''" c] by (auto simp: helper_specials_def)
  qed
  then show ?thesis using facts(1,2) by (simp add: safe_name_def)
qed

definition format_object :: "git_object_format \<Rightarrow> git_object_id \<Rightarrow> bool" where
  "format_object f x \<longleftrightarrow> object_validate x = Inr () \<and> algorithm x = remote_format_name f"

lemma validate_object_Inr: "validate_object f x = Inr u \<longleftrightarrow> format_object f x"
  by (auto simp: validate_object_def bindE_Inr_iff map_err_Inr_iff ensure_Inr_iff format_object_def)

definition well_formed_refs :: "git_object_format \<Rightarrow> ref_target list \<Rightarrow> bool" where
  "well_formed_refs f refs \<longleftrightarrow> sorted_wrt (<) (map rt_name refs) \<and>
     (\<forall>r \<in> set refs. safe_name (rt_name r) \<and> format_object f (rt_target r))"

lemma validate_listing_Inr: "validate_listing f refs = Inr u \<Longrightarrow> well_formed_refs f refs"
  by (auto simp: validate_listing_def well_formed_refs_def for_each_Inr_iff bindE_Inr_iff
      validate_object_Inr validate_reference_safe split: if_splits dest: bspec)

lemma session_list_valid:
  fixes s :: "('t, 'g) session"
  assumes "session_list E X G url s = (Inr listing, s')"
  shows "\<exists>f. well_formed_refs f (rl_refs listing)" "rl_head listing = Some head \<Longrightarrow> safe_name head"
    "\<exists>c c' :: 't client. list_refs E X (url_repository url) (url_view url) c = (Inr listing, c')"
proof -
  obtain f and c c' :: "'t client" where
    list: "list_refs E X (url_repository url) (url_view url) c = (Inr listing, c')"
    and refs: "validate_listing f (rl_refs listing) = Inr ()"
    and head: "(case rl_head listing of None \<Rightarrow> Inr () | Some head \<Rightarrow> validate_reference head) = Inr ()"
    using assms unfolding session_list_def bindS_Inr_iff on_client_Inr liftS_Inr okS_iff by auto
  show "\<exists>f. well_formed_refs f (rl_refs listing)" "rl_head listing = Some head \<Longrightarrow> safe_name head"
    using validate_listing_Inr [OF refs] head validate_reference_safe by auto
  show "\<exists>c c' :: 't client. list_refs E X (url_repository url) (url_view url) c = (Inr listing, c')"
    using list by blast
qed

lemma session_list_for_push_valid:
  "session_list_for_push E X G url s = (Inr listing, s') \<Longrightarrow> \<exists>f. well_formed_refs f (pl_refs listing)"
  unfolding session_list_for_push_def bindS_Inr_iff on_client_Inr liftS_Inr okS_iff
  using validate_listing_Inr by blast

text \<open>C38: a listing can be printed. What \<open>list\<close> returns is for the repository and view of the URL,
  its references are sorted without duplicates, every name (also that of the head) starts with
  \<open>refs/\<close> and has no blank, control character or traversal, and every target is a well-formed
  identifier of the object format of the user's repository.\<close>

theorem listing_well_formed:
  assumes "session_list E X G url s = (Inr listing, s')"
  shows "rl_repository listing = url_repository url \<and> rl_view listing = url_view url \<and>
    (\<exists>f. well_formed_refs f (rl_refs listing)) \<and> (\<forall>head. rl_head listing = Some head \<longrightarrow> safe_name head)"
proof -
  note valid = session_list_valid [OF assms]
  from valid(3) obtain c c' where
    list: "list_refs E X (url_repository url) (url_view url) c = (Inr listing, c')" by blast
  have "send E X (ListRefs (url_repository url) (url_view url)) False c = (Inr (RefsBody listing), c')"
    using list unfolding list_refs_def bindS_Inr_iff
    by (elim exE conjE) (auto simp: okS_iff failS_iff split: response_body.splits elim: response_body.exhaust)
  from send_Inr(2) [OF this] show ?thesis
    using valid(1,2) by simp
qed

section \<open>Fetch\<close>

lemma forS_present:
  assumes "\<And>x g b g'. gp_has_object G x g = (Inr b, g') \<Longrightarrow> b = has g x \<and> has g' = has g"
    and "forS (require_present G) xs s = (Inr u, s')"
  shows "has (sn_git s') = has (sn_git s) \<and> (\<forall>x \<in> set xs. has (sn_git s') x)"
  using assms(2)
proof (induction xs arbitrary: s)
  case (Cons x xs)
  obtain s1 where x: "require_present G x s = (Inr (), s1)" and xs: "forS (require_present G) xs s1 = (Inr u, s')"
    using Cons.prems by (auto split: prod.splits sum.splits)
  have "has (sn_git s) x" "has (sn_git s1) = has (sn_git s)"
    using x assms(1) by (auto simp: require_present_def bindS_Inr_iff on_git_Inr okS_iff failS_iff split: if_splits)
  then show ?case using Cons.IH [OF xs] by auto
qed simp

text \<open>C37: a fetch that succeeds delivered. When \<open>fetch_batch\<close> returns \<open>Ok\<close>, the user's repository
  has every object that Git asked for, and each reference named was safe.\<close>

theorem fetch_batch_delivers:
  assumes "\<And>x g b g'. gp_has_object G x g = (Inr b, g') \<Longrightarrow> b = has g x \<and> has g' = has g"
    and "fetch_batch E X G url commands s = (Inr u, s')"
  shows "\<forall>c \<in> set commands. has (sn_git s') (fc_object c) \<and> safe_name (fc_reference c)"
proof -
  obtain f s1 where valid: "for_each (validate_fetch f) commands = Inr ()"
    and present: "forS (require_present G) (btree_set (map fc_object commands)) s1 = (Inr u, s')"
    using assms(2) unfolding fetch_batch_def Let_def
    by (auto simp: bindS_Inr_iff liftS_Inr failS_iff split: if_splits)
  have "safe_name (fc_reference c)" if "c \<in> set commands" for c
    using valid that validate_reference_safe by (auto simp: for_each_Inr_iff validate_fetch_def bindE_Inr_iff)
  moreover have "has (sn_git s') (fc_object c)" if "c \<in> set commands" for c
    using forS_present [where G = G and has = has, OF _ present] assms(1) that by auto
  ultimately show ?thesis by blast
qed

section \<open>Push\<close>

lemma push_updates_Inr:
  assumes "push_updates G f current destinations commands s = (Inr (updates, packed), s')"
  shows "map (\<lambda>u. (ru_name u, ru_force u)) updates = map (\<lambda>c. (pc_destination c, pc_force c)) commands"
    and "distinct (map ru_name updates)" "set (map ru_name updates) \<inter> set destinations = {}"
    and "\<forall>u \<in> set updates. safe_name (ru_name u) \<and> ru_expected u = btree_get current (ru_name u) \<and>
       (\<forall>x. ru_new u = Some x \<longrightarrow> format_object f x)"
    and "packed = concat (map (\<lambda>u. case ru_new u of None \<Rightarrow> [] | Some x \<Rightarrow> [x]) updates)"
    and "list_all2 (\<lambda>u c. (ru_new u = None) = (pc_source c = None)) updates commands"
proof -
  have "map (\<lambda>u. (ru_name u, ru_force u)) updates = map (\<lambda>c. (pc_destination c, pc_force c)) commands \<and>
    distinct (map ru_name updates) \<and> set (map ru_name updates) \<inter> set destinations = {} \<and>
    (\<forall>u \<in> set updates. safe_name (ru_name u) \<and> ru_expected u = btree_get current (ru_name u) \<and>
       (\<forall>x. ru_new u = Some x \<longrightarrow> format_object f x)) \<and>
    packed = concat (map (\<lambda>u. case ru_new u of None \<Rightarrow> [] | Some x \<Rightarrow> [x]) updates) \<and>
    list_all2 (\<lambda>u c. (ru_new u = None) = (pc_source c = None)) updates commands"
    using assms
  proof (induction commands arbitrary: destinations updates packed s s')
    case (Cons command commands)
    obtain new s1 updates' packed' s2 where name: "validate_reference (pc_destination command) = Inr ()"
      and fresh: "pc_destination command \<notin> set destinations"
      and source: "(case pc_source command of
            None \<Rightarrow> okS None
          | Some source \<Rightarrow> bindS (on_git (gp_resolve_revision G source)) (\<lambda>object. okS (Some object))) s = (Inr new, s1)"
      and object: "(case new of None \<Rightarrow> Inr () | Some object \<Rightarrow> validate_object f object) = Inr ()"
      and rest: "push_updates G f current (pc_destination command # destinations) commands s1 = (Inr (updates', packed'), s2)"
      and updates: "updates = \<lparr>ru_name = pc_destination command,
          ru_expected = btree_get current (pc_destination command), ru_new = new, ru_force = pc_force command\<rparr> # updates'"
      and packed: "packed = (case new of None \<Rightarrow> [] | Some object \<Rightarrow> [object]) @ packed'"
      using Cons.prems by (auto simp: bindS_Inr_iff liftS_Inr okS_iff failS_iff split: if_splits)
    have "(new = None) = (pc_source command = None)"
      using source by (auto simp: okS_iff bindS_Inr_iff split: option.splits)
    then show ?case
      using Cons.IH [OF rest] validate_reference_safe [OF name] fresh object
      unfolding updates packed
      by (auto simp: validate_object_Inr split: option.splits)
  qed (auto simp: okS_iff)
  then show "map (\<lambda>u. (ru_name u, ru_force u)) updates = map (\<lambda>c. (pc_destination c, pc_force c)) commands"
    "distinct (map ru_name updates)" "set (map ru_name updates) \<inter> set destinations = {}"
    "\<forall>u \<in> set updates. safe_name (ru_name u) \<and> ru_expected u = btree_get current (ru_name u) \<and>
       (\<forall>x. ru_new u = Some x \<longrightarrow> format_object f x)"
    "packed = concat (map (\<lambda>u. case ru_new u of None \<Rightarrow> [] | Some x \<Rightarrow> [x]) updates)"
    "list_all2 (\<lambda>u c. (ru_new u = None) = (pc_source c = None)) updates commands" by blast+
qed

lemma length_includes: "length (concat (map (\<lambda>u. case ru_new u of None \<Rightarrow> [] | Some x \<Rightarrow> [x]) updates)) \<le> length updates"
  by (induction updates) (auto split: option.splits)


section \<open>Limits\<close>

definition limit_error :: "git_error \<Rightarrow> bool" where
  "limit_error e \<longleftrightarrow> e = InvalidLimit \<or> (\<exists>n. e = GitCountLimitExceeded n)"

definition helper_limit_error :: "helper_error \<Rightarrow> bool" where
  "helper_limit_error e \<longleftrightarrow> e = RevisionLimitOverflow \<or> (\<exists>e'. e = HelperGit e' \<and> limit_error e')"

lemma on_client_errors [errors]: "errors_in (\<lambda>e. \<not> helper_limit_error e) (on_client m)"
  using on_client_Inl unfolding errors_in_def helper_limit_error_def by blast

lemma on_git_errors [errors]:
  "errors_in (\<lambda>e. \<not> limit_error e) m \<Longrightarrow> errors_in (\<lambda>e. \<not> helper_limit_error e) (on_git m)"
  using on_git_Inl unfolding errors_in_def helper_limit_error_def by blast

lemma command_run_errors [errors]: "errors_in (\<lambda>e. \<not> limit_error e) (command_run P cmd args input n)"
  by (auto simp: errors_in_def command_run_def run_result_def limit_error_def Let_def
      split: prod.splits helper_run.splits if_splits)

lemma output_text_error: "output_text op bs = Inl e \<Longrightarrow> \<not> limit_error e"
  by (auto simp: output_text_def ok_or_def limit_error_def split: option.splits)

lemma map_ok_Inl: "map_ok f r = Inl e \<Longrightarrow> r = Inl e"
  by (cases r) auto

lemma object_format_errors [errors]: "errors_in (\<lambda>e. \<not> limit_error e) (command_object_format P cmd)"
  unfolding command_object_format_def
  by (intro errors) (auto dest!: map_ok_Inl output_text_error simp: limit_error_def)

lemma parse_object_id_error: "command_parse_object_id E f bs op = Inl e \<Longrightarrow> \<not> limit_error e"
  by (auto simp: command_parse_object_id_def bindE_Inl_iff map_err_Inl_iff limit_error_def
      dest!: map_ok_Inl dest: output_text_error)

lemma resolve_revision_errors [errors]:
  "errors_in (\<lambda>e. \<not> limit_error e) (command_resolve_revision E P cmd revision)"
  unfolding command_resolve_revision_def
  by (intro errors) (auto simp: limit_error_def dest: parse_object_id_error)

lemma push_revisions_error: "push_revisions E f mark objects = Inl e \<Longrightarrow> \<not> limit_error e"
  by (induction objects)
    (auto simp: bindE_Inl_iff require_format_def map_err_Inl_iff ensure_Inl_iff limit_error_def)

lemma create_push_pack_errors:
  assumes "length a + length b \<le> n" "n < 2 ^ 64"
  shows "errors_in (\<lambda>e. \<not> limit_error e) (command_create_push_pack E P cmd a b n m)"
  unfolding command_create_push_pack_def Let_def
  using assms by (intro errors) (auto simp: limit_error_def dest: push_revisions_error)

lemma validate_errors:
  "validate_reference name = Inl e \<Longrightarrow> \<not> helper_limit_error e"
  "validate_object f x = Inl e \<Longrightarrow> \<not> helper_limit_error e"
  by (auto simp: validate_reference_def validate_object_def bindE_Inl_iff map_err_Inl_iff ensure_Inl_iff
      helper_limit_error_def)

lemma validate_listing_error: "validate_listing f refs = Inl e \<Longrightarrow> \<not> helper_limit_error e"
proof (cases "windows2_all (\<lambda>a b. rt_name a < rt_name b) refs")
  case True
  have "for_each (\<lambda>r. bindE (validate_reference (rt_name r)) (\<lambda>_. validate_object f (rt_target r))) refs = Inl e \<Longrightarrow>
      \<not> helper_limit_error e"
    by (induction refs) (auto simp: bindE_Inl_iff validate_errors)
  then show "validate_listing f refs = Inl e \<Longrightarrow> \<not> helper_limit_error e"
    using True by (simp add: validate_listing_def)
qed (auto simp: validate_listing_def helper_limit_error_def)

lemma push_updates_errors:
  assumes "\<And>r. errors_in (\<lambda>e. \<not> limit_error e) (gp_resolve_revision G r)"
  shows "errors_in (\<lambda>e. \<not> helper_limit_error e) (push_updates G f current destinations commands)"
proof (induction commands arbitrary: destinations)
  case (Cons command commands)
  show ?case
    by (simp only: push_updates.simps, intro errors Cons.IH assms)
      (auto simp: helper_limit_error_def split: option.splits dest: validate_errors)
qed (simp add: errors)

text \<open>C39: the helper never runs into its own pack limit. With Git run as processes, a push that fails
  does not fail because the number of revisions exceeds the limit handed to \<open>create_push_pack\<close> or
  overflows: the batch and the listing were already cut to the negotiated limits.\<close>

theorem push_within_revision_limit:
  assumes "push_batch E X (command_plumbing E' P cmd) url commands s = (Inl e, s')"
  shows "e \<noteq> RevisionLimitOverflow \<and> e \<noteq> HelperGit InvalidLimit \<and>
    (\<forall>n. e \<noteq> HelperGit (GitCountLimitExceeded n))"
proof -
  let ?G = "command_plumbing E' P cmd"
  have small: "unat n + unat m < 2 ^ 64" for n m :: u16
    using unsigned_less [of n, where 'a = nat] unsigned_less [of m, where 'a = nat] by simp
  have capped: "\<not> 18446744073709551616 \<le> unat n + unat m" for n m :: u16
    using small [of n m] by simp
  have pack: "errors_in (\<lambda>e. \<not> limit_error e) (gp_create_push_pack ?G (btree_set packed)
      (take (unat h) (btree_set targets)) (unat u + unat h) limit)"
    if "length packed \<le> unat u" for packed targets and u h :: u16 and limit
  proof -
    have "length (btree_set packed) + length (take (unat h) (btree_set targets)) \<le> unat u + unat h"
      using that length_btree_set [of packed] by simp
    then show ?thesis
      using small by (simp add: command_plumbing_def create_push_pack_errors)
  qed
  have steps: "errors_in (\<lambda>e. \<not> limit_error e) (gp_object_format ?G)"
    "errors_in (\<lambda>e. \<not> limit_error e) (gp_resolve_revision ?G r)" for r
    by (simp_all add: command_plumbing_def errors)
  have packed: "length packed \<le> length commands"
    if "push_updates ?G f current [] commands s1 = (Inr (updates, packed), s2)" for f current s1 updates packed s2
    using push_updates_Inr(1,5) [OF that] length_includes [of updates] by (metis length_map)
  have "errors_in (\<lambda>e. \<not> helper_limit_error e) (push_batch E X ?G url commands)"
    unfolding push_batch_def Let_def
    by (intro errors push_updates_errors pack steps)
      (auto simp: helper_limit_error_def not_less capped
        dest: validate_listing_error dest!: packed)
  from errors_inD [OF this assms] show ?thesis by (auto simp: helper_limit_error_def limit_error_def)
qed

end
