(* ===== verification/Command_Loop_Facts.thy ===== *)
theory Command_Loop_Facts
  imports Command_Loop Operations_Facts
begin

text \<open>
  The byte protocol of the helper refines a protocol of events: what Git reads is the text of the
  operations that the session completed, in order, and never anything else.
\<close>

section \<open>Events and their text\<close>

datatype helper_event =
    Advertised
  | Listed ref_listing
  | ListedForPush push_ref_listing
  | Fetched "fetch_command list"
  | Pushed "push_command list"
  | PushRefused "push_command list" helper_error

definition ref_line :: "('z) env_scheme \<Rightarrow> ref_target \<Rightarrow> string" where
  "ref_line E r = object_hex E (rt_target r) @ '' '' @ rt_name r"

definition event_lines :: "('z) env_scheme \<Rightarrow> helper_event \<Rightarrow> string list" where
  "event_lines E event =
     (case event of
        Advertised \<Rightarrow> [''fetch'', ''push'']
      | Listed listing \<Rightarrow>
          map (ref_line E) (rl_refs listing) @
          (case rl_head listing of None \<Rightarrow> [] | Some head \<Rightarrow> [''@'' @ head @ '' HEAD''])
      | ListedForPush listing \<Rightarrow> map (ref_line E) (pl_refs listing)
      | Fetched commands \<Rightarrow> []
      | Pushed commands \<Rightarrow> map (\<lambda>c. ''ok '' @ pc_destination c) commands
      | PushRefused commands _ \<Rightarrow>
          map (\<lambda>c. ''error '' @ pc_destination c @ '' atomic push failed'') commands) @ [[]]"

text \<open>What the session did for an event.\<close>

inductive session_does ::
  "('z) ipc_env_scheme \<Rightarrow> 't exchange \<Rightarrow> 'g plumbing \<Rightarrow> remote_url \<Rightarrow> ('t, 'g) session \<Rightarrow> helper_event
     \<Rightarrow> ('t, 'g) session \<Rightarrow> bool" for E X G url where
  advertised: "session_does E X G url s Advertised s"
| listed: "session_list E X G url s = (Inr listing, s') \<Longrightarrow> session_does E X G url s (Listed listing) s'"
| listed_for_push: "session_list_for_push E X G url s = (Inr listing', s') \<Longrightarrow>
    session_does E X G url s (ListedForPush listing') s'"
| fetched: "on_git (gp_object_format G) s = (Inr f, t) \<Longrightarrow> fetch_batch E X G url commands t = (Inr (), s') \<Longrightarrow>
    session_does E X G url s (Fetched commands) s'"
| pushed: "push_batch E X G url commands' s = (Inr result, s') \<Longrightarrow> session_does E X G url s (Pushed commands') s'"
| push_refused: "push_batch E X G url commands' s = (Inl e, s') \<Longrightarrow>
    session_does E X G url s (PushRefused commands' e) s'"

fun session_runs ::
  "('z) ipc_env_scheme \<Rightarrow> 't exchange \<Rightarrow> 'g plumbing \<Rightarrow> remote_url \<Rightarrow> ('t, 'g) session \<Rightarrow> helper_event list
     \<Rightarrow> ('t, 'g) session \<Rightarrow> bool" where
  "session_runs E X G url s [] s' \<longleftrightarrow> s' = s"
| "session_runs E X G url s (event # events) s' \<longleftrightarrow>
     (\<exists>t. session_does E X G url s event t \<and> session_runs E X G url t events s')"

text \<open>Lines as text, and text that reads back as those lines.\<close>

definition lines_text :: "string list \<Rightarrow> string" where
  "lines_text lines = concat (map (\<lambda>l. l @ line_feed) lines)"

definition clean :: "string list \<Rightarrow> bool" where
  "clean lines \<longleftrightarrow> (\<forall>l \<in> set lines. CHR 0x0A \<notin> set l)"

lemma lines_text_append [simp]: "lines_text (xs @ ys) = lines_text xs @ lines_text ys"
  by (simp add: lines_text_def)

lemma lines_text_simps [simp]:
  "lines_text [] = []" "lines_text (l # ls) = l @ line_feed @ lines_text ls"
  by (simp_all add: lines_text_def)

lemma clean_simps [simp]:
  "clean []" "clean (l # ls) \<longleftrightarrow> CHR 0x0A \<notin> set l \<and> clean ls" "clean (xs @ ys) \<longleftrightarrow> clean xs \<and> clean ys"
  by (auto simp: clean_def)

lemma split_lines_text: "clean lines \<Longrightarrow> split_char CHR 0x0A (lines_text lines) = lines @ [[]]"
  by (induction lines) (auto simp: line_feed_def split_char_append)

section \<open>Writing to a vector\<close>

text \<open>\<open>Write\<close> for \<open>Vec<u8>\<close>: it appends and never fails.\<close>

definition vec_writer :: "bytes writer" where
  "vec_writer = \<lparr>wr_write_all = (\<lambda>bs out. (Inr (), out @ bs)), wr_flush = (\<lambda>out. (Inr (), out))\<rparr>"

definition wrote :: "string \<Rightarrow> (bytes, 't, 'g) loop_state \<Rightarrow> (bytes, 't, 'g) loop_state" where
  "wrote msg s = s\<lparr>lp_output := lp_output s @ str_bytes msg\<rparr>"

lemma str_bytes_append [simp]: "str_bytes (a @ b) = str_bytes a @ str_bytes b"
  by (simp add: str_bytes_def)

lemma wrote_simps [simp]:
  "wrote [] s = s" "wrote b (wrote a s) = wrote (a @ b) s" "lp_session (wrote a s) = lp_session s"
  "lp_input (wrote a s) = lp_input s" "lp_output (wrote a s) = lp_output s @ str_bytes a"
  by (simp_all add: wrote_def) (simp add: str_bytes_def)

lemma write_text_vec [simp]: "write_text vec_writer msg s = (Inr (), wrote msg s)"
  by (simp add: write_text_def vec_writer_def wrote_def)

lemma flush_vec [simp]: "flush_output vec_writer s = (Inr (), s)"
  by (simp add: flush_output_def vec_writer_def)

lemma write_pieces_vec [simp]: "write_pieces vec_writer pieces s = (Inr (), wrote (concat pieces) s)"
  unfolding write_pieces_def by (induction pieces arbitrary: s) simp_all

lemma end_answer_vec [simp]: "end_answer vec_writer s = (Inr (), wrote line_feed s)"
  by (simp add: end_answer_def bindS_def)

lemma forS_vec:
  assumes "\<And>x s. f x s = (Inr (), wrote (line x @ line_feed) s)"
  shows "forS f xs s = (Inr (), wrote (lines_text (map line xs)) s)"
  using assms by (induction xs arbitrary: s) simp_all

lemma write_refs_vec:
  "forS (write_ref E vec_writer) refs s = (Inr (), wrote (lines_text (map (ref_line E) refs)) s)"
  by (rule forS_vec) (simp add: write_ref_def ref_line_def)

lemma write_oks_vec:
  "write_oks vec_writer commands s = (Inr (), wrote (lines_text (map (\<lambda>c. ''ok '' @ pc_destination c) commands)) s)"
  unfolding write_oks_def by (rule forS_vec) simp

lemma write_errors_vec:
  "write_errors vec_writer commands s =
     (Inr (), wrote (lines_text (map (\<lambda>c. ''error '' @ pc_destination c @ '' atomic push failed'') commands)) s)"
  unfolding write_errors_def by (rule forS_vec) simp

lemma event_lines_push:
  "lines_text (event_lines E (Pushed commands)) =
     lines_text (map (\<lambda>c. ''ok '' @ pc_destination c) commands) @ line_feed"
  "lines_text (event_lines E (PushRefused commands e)) =
     lines_text (map (\<lambda>c. ''error '' @ pc_destination c @ '' atomic push failed'') commands) @ line_feed"
  by (simp_all add: event_lines_def)

lemma on_session_iff:
  "on_session m s = (r, s') \<longleftrightarrow>
     (\<exists>q n. m (lp_session s) = (q, n) \<and> r = map_err LoopHelper q \<and> s' = s\<lparr>lp_session := n\<rparr>)"
  by (auto simp: on_session_def split: prod.splits)

section \<open>Lines without a line feed\<close>

lemma of_char_inj: "inj (of_char :: char \<Rightarrow> u8)"
proof
  fix c d :: char assume "(of_char c :: u8) = of_char d"
  then have "(of_char c :: nat) = of_char d" using unat_of_char by metis
  then show "c = d" by simp
qed

lemma read_line_clean: "read_line s = (Inr (Some line), s') \<Longrightarrow> CHR 0x0A \<notin> set line"
proof -
  have bytes: "(0x0A \<notin> set (fst (split_line bs))) \<or> (\<exists>l. fst (split_line bs) = l @ [0x0A] \<and> 0x0A \<notin> set l)" for bs
  proof (induction bs)
    case (Cons b bs)
    then show ?case
    proof (cases "b = 0x0A")
      case False
      from Cons show ?thesis
      proof
        assume "\<exists>l. fst (split_line bs) = l @ [0x0A] \<and> 0x0A \<notin> set l"
        then obtain l where "fst (split_line bs) = l @ [0x0A]" "0x0A \<notin> set l" by blast
        then have "fst (split_line (b # bs)) = (b # l) @ [0x0A]" "0x0A \<notin> set (b # l)"
          using False by (simp_all add: split_beta)
        then show ?thesis by blast
      qed (use False in \<open>auto simp: split_beta\<close>)
    qed auto
  qed simp
  have feed: "(0x0A :: u8) = of_char (CHR 0x0A)" by simp
  have chars: "c \<in> set msg \<longleftrightarrow> of_char c \<in> set (str_bytes msg)" for c :: char and msg
    using inj_image_mem_iff [of "of_char :: char \<Rightarrow> u8" c "set msg"] of_char_inj by (simp add: str_bytes_def)
  assume "read_line s = (Inr (Some line), s')"
  then obtain msg s1 where limited: "read_limited (max_command_line_bytes + 2) s = (Inr msg, s1)"
    and line: "line = strip_line_end msg"
    unfolding read_line_def bindS_Inr_iff by (auto simp: okS_iff failS_iff split: if_splits)
  from limited have "str_bytes msg = fst (split_line (take (max_command_line_bytes + 2) (lp_input s)))"
    by (auto simp: read_limited_def Let_def from_utf8_Some_iff split: if_splits option.splits)
  with bytes [of "take (max_command_line_bytes + 2) (lp_input s)"] have "CHR 0x0A \<notin> set msg \<or> (\<exists>l. str_bytes msg = l @ [0x0A] \<and> 0x0A \<notin> set l)"
    by (auto simp: chars)
  then have "CHR 0x0A \<notin> set msg \<or> (\<exists>l. msg = l @ [CHR 0x0A] \<and> CHR 0x0A \<notin> set l)"
  proof
    assume "\<exists>l. str_bytes msg = l @ [0x0A] \<and> 0x0A \<notin> set l"
    then obtain l where l: "str_bytes msg = l @ [0x0A]" "0x0A \<notin> set l" by blast
    then have "str_bytes msg = str_bytes (text_of l @ [CHR 0x0A])" by (simp add: str_bytes_def [of "[_]"])
    then have "msg = text_of l @ [CHR 0x0A]" by (metis text_of_str_bytes)
    moreover have "CHR 0x0A \<notin> set (text_of l)" using l(2) by (simp add: chars)
    ultimately show ?thesis by blast
  qed simp
  then show "CHR 0x0A \<notin> set line"
    unfolding line strip_line_end_def strip_cr_def
    by (auto simp: last_in_set split: if_splits dest: in_set_butlastD)
qed


text \<open>Reading changes neither the output nor the session.\<close>

definition only_reads :: "('o, 't, 'g) loop_state \<Rightarrow> ('o, 't, 'g) loop_state \<Rightarrow> bool" where
  "only_reads s s' \<longleftrightarrow> lp_output s' = lp_output s \<and> lp_session s' = lp_session s"

interpretation reading: run_relation only_reads
  by unfold_locales (auto simp: only_reads_def)

lemma read_line_only_reads: "runs_in only_reads read_line"
  unfolding read_line_def
  by (intro reading.bind reading.pure)
    (auto simp: runs_in_def only_reads_def read_limited_def Let_def okS_def failS_def split: option.splits)

lemma read_batch_only_reads: "runs_in only_reads (read_batch operation malformed parse)"
  by (rule read_batch_respects [OF reading.run_relation_axioms read_line_only_reads])

lemma read_batch_line_clean: "read_batch_line op s = (Inr line, s') \<Longrightarrow> CHR 0x0A \<notin> set line"
  unfolding read_batch_line_def bindS_Inr_iff
  by (auto simp: liftS_iff ok_or_def split: option.splits dest: read_line_clean)

lemma read_batch_all:
  assumes "\<And>line c. parse line = Inr c \<Longrightarrow> CHR 0x0A \<notin> set line \<Longrightarrow> P c"
    and "read_batch operation malformed parse s = (Inr commands, s')"
  shows "\<forall>c \<in> set commands. P c"
  using assms(2)
proof (rule read_batch_run_induct [where P = "\<lambda>_ r _. \<forall>commands. r = Inr commands \<longrightarrow> (\<forall>c \<in> set commands. P c)",
      THEN spec, THEN mp, OF _ _ _ refl])
qed (use assms(1) read_batch_line_clean in \<open>fastforce simp: map_ok_Inr_iff\<close>)+

lemma parse_push_clean: "parse_push line = Inr c \<Longrightarrow> CHR 0x0A \<notin> set line \<Longrightarrow> CHR 0x0A \<notin> set (pc_destination c)"
  by (auto simp: parse_push_def bindE_Inr_iff ok_or_Inr_iff strip_prefix_Some_iff split_once_Some_iff Let_def
      split: if_splits option.splits)


lemma safe_name_clean: "safe_name name \<Longrightarrow> CHR 0x0A \<notin> set name"
proof
  assume "safe_name name" "CHR 0x0A \<in> set name"
  then have "CHR '' '' < CHR 0x0A" unfolding safe_name_def by blast
  then show False by (simp add: less_char_def)
qed

lemma hex_clean: "hex_ok E \<Longrightarrow> CHR 0x0A \<notin> set (object_hex E x)"
  by (auto simp: hex_ok_def object_hex_def hex_digits_def)

lemma refs_clean: "hex_ok E \<Longrightarrow> well_formed_refs f refs \<Longrightarrow> clean (map (ref_line E) refs)"
  by (auto simp: clean_def well_formed_refs_def ref_line_def safe_name_clean hex_clean)

section \<open>What each command writes\<close>

text \<open>An answer in full for an event of the session, or no output at all.\<close>

definition answers ::
  "('z) ipc_env_scheme \<Rightarrow> 't exchange \<Rightarrow> 'g plumbing \<Rightarrow> remote_url \<Rightarrow> helper_event
     \<Rightarrow> (bytes, 't, 'g) loop_state \<Rightarrow> (bytes, 't, 'g) loop_state \<Rightarrow> bool" where
  "answers E X G url event s s' \<longleftrightarrow>
     session_does E X G url (lp_session s) event (lp_session s') \<and> clean (event_lines E event) \<and>
     lp_output s' = lp_output s @ str_bytes (lines_text (event_lines E event))"

lemma do_list_answers:
  assumes "hex_ok E" "do_list E X G vec_writer url s = (r, s')"
  shows "(\<exists>listing. r = Inr () \<and> answers E X G url (Listed listing) s s') \<or>
    (\<exists>e. r = Inl e \<and> lp_output s' = lp_output s)"
proof -
  obtain q n where list: "session_list E X G url (lp_session s) = (q, n)" by fastforce
  show ?thesis
  proof (cases q)
    case (Inr listing)
    note valid = session_list_valid [OF list [unfolded Inr]]
    then have "clean (event_lines E (Listed listing))"
      using refs_clean [OF assms(1)] safe_name_clean by (auto simp: event_lines_def split: option.splits)
    then have "r = Inr ()" "answers E X G url (Listed listing) s s'"
      using assms(2) list Inr session_does.listed [OF list [unfolded Inr]]
      by (simp_all add: do_list_def bindS_def on_session_def write_refs_vec answers_def event_lines_def okS_def
          split: option.splits) (auto simp: str_bytes_def)
    then show ?thesis by blast
  qed (use assms(2) list in \<open>auto simp: do_list_def bindS_def on_session_def\<close>)
qed

lemma do_list_for_push_answers:
  assumes "hex_ok E" "do_list_for_push E X G vec_writer url s = (r, s')"
  shows "(\<exists>listing. r = Inr () \<and> answers E X G url (ListedForPush listing) s s') \<or>
    (\<exists>e. r = Inl e \<and> lp_output s' = lp_output s)"
proof -
  obtain q n where list: "session_list_for_push E X G url (lp_session s) = (q, n)" by fastforce
  show ?thesis
  proof (cases q)
    case (Inr listing)
    have "clean (event_lines E (ListedForPush listing))"
      using session_list_for_push_valid [OF list [unfolded Inr]] refs_clean [OF assms(1)]
      by (auto simp: event_lines_def)
    then have "r = Inr ()" "answers E X G url (ListedForPush listing) s s'"
      using assms(2) list Inr session_does.listed_for_push [OF list [unfolded Inr]]
      by (simp_all add: do_list_for_push_def bindS_def on_session_def write_refs_vec answers_def event_lines_def) auto
    then show ?thesis by blast
  qed (use assms(2) list in \<open>auto simp: do_list_for_push_def bindS_def on_session_def\<close>)
qed

lemma read_batch_unchanged:
  assumes "read_batch operation malformed parse s = (r, s')"
  shows "lp_output s' = lp_output s" "lp_session s' = lp_session s"
  using runs_inD [OF read_batch_only_reads assms] by (simp_all add: only_reads_def)

lemma do_fetch_answers:
  assumes "do_fetch E X G vec_writer url line s = (r, s')"
  shows "(\<exists>commands. r = Inr () \<and> answers E X G url (Fetched commands) s s') \<or>
    (\<exists>e. r = Inl e \<and> lp_output s' = lp_output s)"
proof -
  obtain q n where format: "on_git (gp_object_format G) (lp_session s) = (q, n)" by fastforce
  show ?thesis
  proof (cases q)
    case (Inr f)
    let ?s = "s\<lparr>lp_session := n\<rparr>"
    obtain batch s2 where batch:
      "read_batch ''fetch'' MalformedFetch (\<lambda>line. parse_fetch E line (remote_format_name f)) ?s = (batch, s2)"
      by fastforce
    note same = read_batch_unchanged [OF batch]
    show ?thesis
    proof (cases "parse_fetch E line (remote_format_name f)")
      case (Inr first)
      show ?thesis
      proof (cases batch)
        case (Inr rest)
        obtain outcome m where fetch: "fetch_batch E X G url (first # rest) (lp_session s2) = (outcome, m)"
          by fastforce
        have did: "outcome = Inr () \<Longrightarrow> \<exists>commands. session_does E X G url (lp_session s) (Fetched commands) m"
          using session_does.fetched [where commands = "first # rest",
            OF format [unfolded \<open>q = Inr f\<close>], of E X url m] fetch same(2) by auto
        show ?thesis
          using did assms format batch same fetch \<open>q = Inr f\<close> \<open>parse_fetch E line (remote_format_name f) = Inr first\<close> Inr
          by (cases outcome)
            (auto simp: do_fetch_def bindS_def on_session_def liftS_def answers_def event_lines_def)
      qed (use assms format batch same \<open>q = Inr f\<close> Inr in
          \<open>auto simp: do_fetch_def bindS_def on_session_def liftS_def\<close>)
    qed (use assms format \<open>q = Inr f\<close> in \<open>auto simp: do_fetch_def bindS_def on_session_def liftS_def\<close>)
  qed (use assms format in \<open>auto simp: do_fetch_def bindS_def on_session_def\<close>)
qed

lemma do_push_answers:
  assumes "CHR 0x0A \<notin> set line" "do_push E X G vec_writer url line s = (r, s')"
  shows "(\<exists>commands. r = Inr () \<and> answers E X G url (Pushed commands) s s') \<or>
    (\<exists>commands e. r = Inl (LoopHelper e) \<and> answers E X G url (PushRefused commands e) s s') \<or>
    (\<exists>e. r = Inl e \<and> lp_output s' = lp_output s)"
proof (cases "parse_push line")
  case (Inr first)
  obtain batch s2 where batch: "read_batch ''push'' MalformedPush parse_push s = (batch, s2)" by fastforce
  note same = read_batch_unchanged [OF batch]
  show ?thesis
  proof (cases batch)
    case (Inr rest)
    let ?all = "first # rest"
    have names: "\<forall>c \<in> set ?all. CHR 0x0A \<notin> set (pc_destination c)"
      using read_batch_all [where P = "\<lambda>c. CHR 0x0A \<notin> set (pc_destination c)", OF parse_push_clean batch [unfolded Inr]]
        parse_push_clean [OF \<open>parse_push line = Inr first\<close> assms(1)] by simp
    then have clean: "clean (event_lines E (Pushed ?all))" "clean (event_lines E (PushRefused ?all e))" for e
      by (auto simp: event_lines_def clean_def)
    obtain q n where push: "push_batch E X G url ?all (lp_session s) = (q, n)" by fastforce
    show ?thesis
    proof (cases q)
      case (Inl e)
      have "r = Inl (LoopHelper e)" "answers E X G url (PushRefused ?all e) s s'"
        using assms(2) batch \<open>batch = Inr rest\<close> same push Inl \<open>parse_push line = Inr first\<close> clean(2) [of e]
          session_does.push_refused [OF push [unfolded Inl]]
        by (simp_all add: do_push_def bindS_def liftS_def catchS_def on_session_def write_errors_vec failS_def
            answers_def event_lines_push) auto
      then show ?thesis by blast
    next
      case (Inr result)
      have "r = Inr ()" "answers E X G url (Pushed ?all) s s'"
        using assms(2) batch \<open>batch = Inr rest\<close> same push Inr \<open>parse_push line = Inr first\<close> clean(1)
          session_does.pushed [OF push [unfolded Inr]]
        by (simp_all add: do_push_def bindS_def liftS_def catchS_def on_session_def write_oks_vec
            answers_def event_lines_push) auto
      then show ?thesis by blast
    qed
  qed (use assms(2) Inr batch same in \<open>auto simp: do_push_def bindS_def liftS_def\<close>)
qed (use assms(2) in \<open>auto simp: do_push_def bindS_def liftS_def\<close>)


lemma answer_line_answers:
  fixes s :: "(bytes, 't, 'g) loop_state"
  assumes "hex_ok E" "CHR 0x0A \<notin> set line"
    and "answer_line E X G vec_writer url advertised line s = (r, s')"
  shows "(\<exists>event. r = Inr True \<and> answers E X G url event s s' \<and> (event = Advertised) = (\<not> advertised) \<and>
      (\<forall>commands e. event \<noteq> PushRefused commands e)) \<or>
    (\<exists>commands e. r = Inl (LoopHelper e) \<and> advertised \<and> answers E X G url (PushRefused commands e) s s') \<or>
    (\<exists>e. r = Inl e \<and> lp_output s' = lp_output s)"
proof -
  have then_advertised: "\<exists>q. m s = (q, s') \<and> r = map_ok (\<lambda>_. advertised) q"
    if "bindS m (\<lambda>_. okS advertised) s = (r, s')" for m :: "(bytes, 't, 'g, unit) loop_io"
    using that by (auto simp: bindS_def okS_def split: prod.splits sum.splits)
  consider "r = Inl CapabilitiesRequired \<or> r = Inl DuplicateCapabilities \<or> r = Inl UnsupportedCommand" "s' = s"
    | "\<not> advertised" "r = Inr True" "s' = wrote (''fetch'' @ line_feed @ ''push'' @ line_feed @ line_feed) s"
    | "advertised" "bindS (do_list E X G vec_writer url) (\<lambda>_. okS advertised) s = (r, s')"
    | "advertised" "bindS (do_list_for_push E X G vec_writer url) (\<lambda>_. okS advertised) s = (r, s')"
    | "advertised" "bindS (do_fetch E X G vec_writer url line) (\<lambda>_. okS advertised) s = (r, s')"
    | "advertised" "bindS (do_push E X G vec_writer url line) (\<lambda>_. okS advertised) s = (r, s')"
    using assms(3) unfolding answer_line_def
    by (cases "line = ''capabilities''"; cases advertised) (auto simp: failS_def bindS_def okS_def split: if_splits)
  then show ?thesis
  proof cases
    case 1 then show ?thesis by auto
  next
    case 2
    then have "answers E X G url Advertised s s'"
      by (simp add: answers_def event_lines_def session_does.advertised line_feed_def str_bytes_def)
    then show ?thesis using 2 by blast
  next
    case 3
    from then_advertised [OF 3(2)] obtain q where q: "do_list E X G vec_writer url s = (q, s')" "r = map_ok (\<lambda>_. advertised) q" by blast
    show ?thesis using do_list_answers [OF assms(1) q(1)] q(2) 3(1) by fastforce
  next
    case 4
    from then_advertised [OF 4(2)] obtain q where q: "do_list_for_push E X G vec_writer url s = (q, s')" "r = map_ok (\<lambda>_. advertised) q" by blast
    show ?thesis using do_list_for_push_answers [OF assms(1) q(1)] q(2) 4(1) by fastforce
  next
    case 5
    from then_advertised [OF 5(2)] obtain q where q: "do_fetch E X G vec_writer url line s = (q, s')" "r = map_ok (\<lambda>_. advertised) q" by blast
    show ?thesis using do_fetch_answers [OF q(1)] q(2) 5(1) by fastforce
  next
    case 6
    from then_advertised [OF 6(2)] obtain q where q: "do_push E X G vec_writer url line s = (q, s')" "r = map_ok (\<lambda>_. advertised) q" by blast
    show ?thesis using do_push_answers [OF assms(2) q(1)] q(2) 6(1) by fastforce
  qed
qed

section \<open>The whole conversation\<close>

definition conversation ::
  "('z) ipc_env_scheme \<Rightarrow> 't exchange \<Rightarrow> 'g plumbing \<Rightarrow> remote_url \<Rightarrow> bool \<Rightarrow> helper_event list
     \<Rightarrow> (bytes, 't, 'g) loop_state \<Rightarrow> (loop_error, unit) result \<Rightarrow> (bytes, 't, 'g) loop_state \<Rightarrow> bool" where
  "conversation E X G url advertised events s r s' \<longleftrightarrow>
     (\<exists>t msg. session_runs E X G url (lp_session s) events t \<and>
        lp_output s' = lp_output s @ str_bytes msg \<and>
        split_char CHR 0x0A msg = concat (map (event_lines E) events) @ [[]] \<and>
        (if advertised then Advertised \<notin> set events
         else events = [] \<or> hd events = Advertised \<and> Advertised \<notin> set (tl events)) \<and>
        (r = Inr () \<longrightarrow> lp_session s' = t) \<and>
        (\<forall>commands e. PushRefused commands e \<in> set events \<longrightarrow>
           r = Inl (LoopHelper e) \<and> lp_session s' = t \<and> last events = PushRefused commands e \<and>
           PushRefused commands e \<notin> set (butlast events)))"

lemma conversation_empty:
  "lp_output s' = lp_output s \<Longrightarrow> (r = Inr () \<Longrightarrow> lp_session s' = lp_session s) \<Longrightarrow>
     conversation E X G url advertised [] s r s'"
  by (auto simp: conversation_def str_bytes_def)

lemma split_char_text:
  "clean lines \<Longrightarrow> split_char CHR 0x0A (lines_text lines @ msg) = lines @ split_char CHR 0x0A msg"
  by (induction lines) (auto simp: line_feed_def split_char_append)

lemma conversation_Cons:
  assumes "conversation E X G url True events s2 r s'"
    and "lp_output s1 = lp_output s" "lp_session s1 = lp_session s"
    and "answers E X G url event s1 s2" "(event = Advertised) = (\<not> advertised)"
    "\<forall>commands e. event \<noteq> PushRefused commands e"
  shows "conversation E X G url advertised (event # events) s r s'"
proof -
  obtain t msg where rest: "session_runs E X G url (lp_session s2) events t"
    "lp_output s' = lp_output s2 @ str_bytes msg"
    "split_char CHR 0x0A msg = concat (map (event_lines E) events) @ [[]]" "Advertised \<notin> set events"
    "r = Inr () \<longrightarrow> lp_session s' = t"
    "\<forall>commands e. PushRefused commands e \<in> set events \<longrightarrow> r = Inl (LoopHelper e) \<and> lp_session s' = t \<and>
       last events = PushRefused commands e \<and> PushRefused commands e \<notin> set (butlast events)"
    using assms(1) by (auto simp: conversation_def)
  show ?thesis
    unfolding conversation_def
    by (rule exI [of _ t], rule exI [of _ "lines_text (event_lines E event) @ msg"])
      (use rest assms(2-) in \<open>auto simp: answers_def split_char_text\<close>)
qed

lemma conversation_refused:
  assumes "answers E X G url (PushRefused commands e) s1 s2"
    and "lp_output s1 = lp_output s" "lp_session s1 = lp_session s" and "advertised"
  shows "conversation E X G url advertised [PushRefused commands e] s (Inl (LoopHelper e)) s2"
  unfolding conversation_def
  by (rule exI [of _ "lp_session s2"], rule exI [of _ "lines_text (event_lines E (PushRefused commands e))"])
    (use assms in \<open>auto simp: answers_def split_lines_text\<close>)

lemma run_loop_conversation:
  assumes "hex_ok E"
  shows "run_loop E X G vec_writer url advertised s = (r, s') \<Longrightarrow>
    \<exists>events. conversation E X G url advertised events s r s'"
proof (induction "length (lp_input s)" arbitrary: advertised s rule: less_induct)
  case less
  obtain read s1 where read: "read_line s = (read, s1)" by fastforce
  have same: "lp_output s1 = lp_output s" "lp_session s1 = lp_session s"
    using runs_inD [OF read_line_only_reads read] by (simp_all add: only_reads_def)
  show ?case
  proof (cases "\<exists>line. read = Inr (Some line) \<and> line \<noteq> []")
    case False
    then have "s' = s1"
      using less.prems read
      by (subst (asm) run_loop.simps) (auto simp: command_turn_def bindS_def okS_def split: sum.splits option.splits if_splits)
    then show ?thesis using conversation_empty same by metis
  next
    case True
    then obtain line where line: "read = Inr (Some line)" "line \<noteq> []" by blast
    obtain q s2 where answer: "answer_line E X G vec_writer url advertised line s1 = (q, s2)" by fastforce
    have clean: "CHR 0x0A \<notin> set line" using read_line_clean read line(1) by blast
    have turn: "command_turn E X G vec_writer url advertised s = (map_ok Some q, s2)"
      using read line answer by (simp add: command_turn_def bindS_def okS_def split: sum.split)
    from answer_line_answers [OF assms clean answer] consider
      event where "q = Inr True" "answers E X G url event s1 s2" "(event = Advertised) = (\<not> advertised)"
        "\<forall>commands e. event \<noteq> PushRefused commands e"
      | commands e where "q = Inl (LoopHelper e)" "advertised" "answers E X G url (PushRefused commands e) s1 s2"
      | e where "q = Inl e" "lp_output s2 = lp_output s1" by blast
    then show ?thesis
    proof cases
      case 1
      have "run_loop E X G vec_writer url True s2 = (r, s')"
        using less.prems turn 1(1) by (subst (asm) run_loop.simps) simp
      from less.hyps [OF _ this] command_turn_reads turn 1(1) obtain events where
        "conversation E X G url True events s2 r s'" by fastforce
      with conversation_Cons [OF _ same 1(2,3,4)] show ?thesis by blast
    next
      case 2
      have "r = Inl (LoopHelper e)" "s' = s2"
        using less.prems turn 2(1) by (subst (asm) run_loop.simps; simp)+
      with conversation_refused [OF 2(3) same 2(2)] show ?thesis by blast
    next
      case 3
      have "r = Inl e" "s' = s2"
        using less.prems turn 3(1) by (subst (asm) run_loop.simps; simp)+
      with conversation_empty [of s' s r E X G url advertised] 3 same show ?thesis by auto
    qed
  qed
qed

text \<open>C10: what Git reads is what happened. Whatever Git sends, the helper writes complete lines, and
  they are exactly the lines of a sequence of events each of which the session really did: a
  listing is the listing obtained, a batch reported \<open>ok\<close> was committed, a fetch answered was
  delivered. The capabilities are announced first and once; a refused push is reported for every
  reference of its batch and ends the conversation with that error.\<close>

theorem command_loop_refines:
  assumes "hex_ok E" and "run_command_loop E X G vec_writer url s = (r, s')"
  shows "\<exists>events. conversation E X G url False events s r s'"
  using run_loop_conversation assms unfolding run_command_loop_def by blast

end
