(* ===== verification/Remote_Witnesses.thy ===== *)
theory Remote_Witnesses
  imports Sample_Daemon Command_Loop_Facts
begin

text \<open>
  The properties of the remote helper applied to the scripted daemon and the sample repository of
  the theory Sample_Daemon.
\<close>

section \<open>URLs\<close>

lemma url_text_witness:
  "url_from_str ipc_sample (url_to_string ipc_sample sample_url) = Inr sample_url"
  using url_text [OF ipc_sample_hex_ok ipc_sample_base32_ok, of _ sample_url]
  by (simp add: sample_url_def valid_labels_def)

section \<open>The client\<close>

definition scripted_log :: "(response_body list \<times> bytes list) exchange" where
  "scripted_log = logged script"

lemma session_requests_allowed_witness:
  "\<exists>ns. sorted_wrt (<) ns \<and> (\<forall>n \<in> set ns. 1 \<le> n) \<and>
    list_all2 (\<lambda>bs n. \<exists>body. canonical_bytes (request_codec ipc_sample) (request_new (RequestId (be_bytes n)) body) = Inr bs \<and>
        request_allowed (cl_capabilities (snd (list_refs ipc_sample scripted_log sample_repository CanonicalView
          (snd (negotiate ipc_sample scripted_log (projr (client_new ([CapabilitiesBody all_granted, RefsBody sample_listing], [])
            default_config))))))) body bs)
      (snd (cl_transport (snd (list_refs ipc_sample scripted_log sample_repository CanonicalView
          (snd (negotiate ipc_sample scripted_log (projr (client_new ([CapabilitiesBody all_granted, RefsBody sample_listing], [])
            default_config)))))))) ns"
proof -
  let ?t = "[CapabilitiesBody all_granted, RefsBody sample_listing]"
  let ?c = "projr (client_new (?t, []) default_config)"
  have new: "client_new (?t, []) default_config = Inr ?c"
    by (simp add: client_new_def default_config_def)
  have "client_run ipc_sample scripted_log ?c (snd (list_refs ipc_sample scripted_log sample_repository CanonicalView
      (snd (negotiate ipc_sample scripted_log ?c))))"
    by (rule client_run.continue [OF client_run.continue [OF client_run.start client_step.negotiated] client_step.refs_listed])
  from session_requests_allowed [OF new this [unfolded scripted_log_def]]
  show ?thesis unfolding scripted_log_def by (simp add: default_config_def)
qed


lemma push_failure_honest_witness:
  "push ipc_sample script sample_repository [] [] (ready_client 7 []) =
     (Inl (PushIndeterminate (TransportFailed (TransportError ''connection closed''))),
      (ready_client 7 [])\<lparr>cl_next_request_id := Some 8, cl_failed := True\<rparr>) \<and>
   (\<exists>n bs answer. canonical_bytes (request_codec ipc_sample)
       (request_new (RequestId (be_bytes n)) (Push sample_repository [] [])) = Inr bs \<and>
     script bs (- 1) [] = (answer, []))"
proof -
  have run: "push ipc_sample script sample_repository [] [] (ready_client 7 []) =
     (Inl (PushIndeterminate (TransportFailed (TransportError ''connection closed''))),
      (ready_client 7 [])\<lparr>cl_next_request_id := Some 8, cl_failed := True\<rparr>)"
    unfolding push_def bindS_def
    by (subst script_closed) (simp_all add: all_granted_simps require_count_def require_bytes_def indeterminate_def
        checked_add_one_def)
  from push_failure_honest [OF run] run show ?thesis by (auto simp: ready_client_def)
qed

section \<open>Operations\<close>

definition sample_session :: "response_body list \<Rightarrow> (response_body list, git_object_id list) session" where
  "sample_session bodies = \<lparr>sn_client = ready_client 7 bodies, sn_git = []\<rparr>"

lemma sample_valid [simp]:
  "validate_reference ''refs/heads/main'' = Inr ()" "validate_object FormatSha1 (sample_object 1) = Inr ()"
  "validate_listing FormatSha1 [\<lparr>rt_name = ''refs/heads/main'', rt_target = sample_object 1\<rparr>] = Inr ()"
proof -
  show name: "validate_reference ''refs/heads/main'' = Inr ()" by code_simp
  show object: "validate_object FormatSha1 (sample_object 1) = Inr ()"
    by (simp add: validate_object_def object_validate_def sample_object_def object_sha1_def remote_format_name_def)
  show "validate_listing FormatSha1 [\<lparr>rt_name = ''refs/heads/main'', rt_target = sample_object 1\<rparr>] = Inr ()"
    using name object by (simp add: validate_listing_def)
qed

lemma sample_list:
  "session_list ipc_sample script object_plumbing sample_url (sample_session (RefsBody sample_listing # rest)) =
     (Inr sample_listing, (sample_session rest)\<lparr>sn_client := (ready_client 7 rest)\<lparr>cl_next_request_id := Some 8\<rparr>\<rparr>)"
proof -
  have "list_refs ipc_sample script sample_repository CanonicalView (ready_client 7 (RefsBody sample_listing # rest)) =
      (Inr sample_listing, (ready_client 7 rest)\<lparr>cl_next_request_id := Some 8\<rparr>)"
    unfolding list_refs_def bindS_def
    by (subst script_send) (simp_all add: sample_listing_def all_granted_simps response_limits_def ready_client_def
        okS_def checked_add_one_def)
  then show ?thesis
    by (simp add: session_list_def bindS_def on_client_def on_git_def sample_session_def object_plumbing_def okS_def
        liftS_def sample_url_def)
qed

lemma listing_well_formed_witness:
  "rl_repository sample_listing = url_repository sample_url \<and> (\<exists>f. well_formed_refs f (rl_refs sample_listing))"
  using listing_well_formed [OF sample_list] by blast

lemma fetch_batch_delivers_witness:
  "sample_object 1 \<in> set (sn_git (snd (fetch_batch ipc_sample script object_plumbing sample_url
     [\<lparr>fc_object = sample_object 1, fc_reference = ''refs/heads/main''\<rparr>] (sample_session [FetchPackBody [1]]))))"
proof -
  let ?commands = "[\<lparr>fc_object = sample_object 1, fc_reference = ''refs/heads/main''\<rparr>]"
  have fetch: "fetch ipc_sample script sample_repository CanonicalView [sample_object 1] [] (ready_client 7 [FetchPackBody [1]]) =
      (Inr [1], (ready_client 7 [])\<lparr>cl_next_request_id := Some 8\<rparr>)"
    unfolding fetch_def bindS_def
    by (subst script_send) (simp_all add: all_granted_simps response_limits_def ready_client_def require_count_def
        require_bytes_def okS_def checked_add_one_def word_n1_ge unsigned_minus_1_eq_mask mask_eq_exp_minus_1)
  have "fst (fetch_batch ipc_sample script object_plumbing sample_url ?commands (sample_session [FetchPackBody [1]])) = Inr ()"
    using fetch
    by (simp add: fetch_batch_def bindS_def on_client_def on_git_def sample_session_def object_plumbing_def okS_def
        liftS_def sample_url_def validate_fetch_def btree_set_def all_granted_simps require_present_def Let_def
        unsigned_minus_1_eq_mask mask_eq_exp_minus_1)
  then obtain s' where run: "fetch_batch ipc_sample script object_plumbing sample_url ?commands
      (sample_session [FetchPackBody [1]]) = (Inr (), s')" by (metis prod.collapse)
  have "\<forall>c \<in> set ?commands. fc_object c \<in> set (sn_git s') \<and> safe_name (fc_reference c)"
    by (rule fetch_batch_delivers [where has = "\<lambda>g x. x \<in> set g", OF _ run]) (auto simp: object_plumbing_def)
  then show ?thesis using run by simp
qed


text \<open>A push of the branch that was listed, committed by the daemon.\<close>

definition sample_push_command :: push_command where
  "sample_push_command = \<lparr>pc_source = Some ''main'', pc_destination = ''refs/heads/main'', pc_force = False\<rparr>"

lemma sample_push_refs:
  "list_push_refs ipc_sample script sample_repository (ready_client 7 (PushRefsBody sample_push_listing # rest)) =
     (Inr sample_push_listing, ready_client 8 rest)"
  unfolding list_push_refs_def bindS_def
  by (subst script_send) (simp_all add: sample_push_listing_def all_granted_simps response_limits_def
      ready_client_def okS_def checked_add_one_def)

lemma sample_push_listing_simps [simp]:
  "pl_repository sample_push_listing = sample_repository"
  "pl_refs sample_push_listing = [\<lparr>rt_name = ''refs/heads/main'', rt_target = sample_object 1\<rparr>]"
  by (simp_all add: sample_push_listing_def)

lemma sample_push:
  "push ipc_sample script sample_repository updates pack (ready_client 8 [PushCommittedBody sample_push_result]) =
     (Inr sample_push_result, ready_client 9 [])"
  if "length updates \<le> 65535"
  unfolding push_def bindS_def
  using that by (subst script_send) (simp_all add: all_granted_simps response_limits_def ready_client_def
      require_count_def require_bytes_def okS_def checked_add_one_def word_n1_ge unsigned_minus_1_eq_mask
      mask_eq_exp_minus_1 sample_push_result_def)


text \<open>Deleting the branch with the connection closed, in a repository that only tells its format.\<close>

definition format_processes :: "unit processes" where
  "format_processes dir args input g = (Run_Exit True (str_bytes (''sha1'' @ line_feed)) [], g)"

lemma format_run: "command_object_format format_processes cmd () = (Inr FormatSha1, ())"
proof -
  have "trim (''sha1'' @ line_feed) = ''sha1''" "from_utf8 (str_bytes (''sha1'' @ line_feed)) = Some (''sha1'' @ line_feed)"
    by code_simp+
  moreover have "length (str_bytes (''sha1'' @ line_feed)) = 5" by (simp add: str_bytes_def line_feed_def)
  ultimately show ?thesis
    by (simp add: command_object_format_def command_run_def format_processes_def run_result_def bindS_def liftS_def
        output_text_def max_metadata_bytes_def max_stderr_bytes_def saturating_add_one_def okS_def Let_def)
qed

lemma sample_delete:
  "\<exists>s'. push_batch ipc_sample script (command_plumbing ipc_sample format_processes \<lparr>gc_dir = []\<rparr>) sample_url
       [sample_push_command\<lparr>pc_source := None\<rparr>]
       \<lparr>sn_client = ready_client 7 [PushRefsBody sample_push_listing], sn_git = ()\<rparr> =
     (Inl (HelperClient (PushIndeterminate (TransportFailed (TransportError ''connection closed'')))), s')"
proof -
  have closed: "push ipc_sample script sample_repository updates pack (ready_client 8 []) =
     (Inl (PushIndeterminate (TransportFailed (TransportError ''connection closed''))),
      (ready_client 8 [])\<lparr>cl_next_request_id := Some 9, cl_failed := True\<rparr>)"
    if "length updates \<le> 65535" for updates pack
    unfolding push_def bindS_def
    using that by (subst script_closed) (simp_all add: all_granted_simps require_count_def require_bytes_def
        indeterminate_def checked_add_one_def word_n1_ge unsigned_minus_1_eq_mask mask_eq_exp_minus_1)
  show ?thesis
    by (simp add: push_batch_def bindS_def on_client_def on_git_def command_plumbing_def format_run okS_def
        liftS_def sample_url_def sample_push_refs closed btree_set_def all_granted_simps Let_def
        sample_push_command_def unsigned_minus_1_eq_mask mask_eq_exp_minus_1 command_create_push_pack_def)
qed

lemma push_within_revision_limit_witness:
  "\<exists>e s'. push_batch ipc_sample script (command_plumbing ipc_sample format_processes \<lparr>gc_dir = []\<rparr>) sample_url
       [sample_push_command\<lparr>pc_source := None\<rparr>]
       \<lparr>sn_client = ready_client 7 [PushRefsBody sample_push_listing], sn_git = ()\<rparr> = (Inl e, s') \<and>
     e \<noteq> RevisionLimitOverflow \<and> e \<noteq> HelperGit InvalidLimit"
  using sample_delete push_within_revision_limit by metis

section \<open>The command loop\<close>

definition sample_input :: "(bytes, response_body list, git_object_id list) loop_state" where
  "sample_input = \<lparr>lp_input = str_bytes (''capabilities'' @ line_feed @ line_feed), lp_input_error = None,
     lp_output = [], lp_session = sample_session []\<rparr>"

lemma sample_input_lines:
  "read_line sample_input = (Inr (Some ''capabilities''), sample_input\<lparr>lp_input := [0x0A]\<rparr>)"
  "read_line (sample_input\<lparr>lp_input := [0x0A], lp_output := out\<rparr>) =
     (Inr (Some []), sample_input\<lparr>lp_input := [], lp_output := out\<rparr>)"
proof -
  have "from_utf8 (str_bytes (''capabilities'' @ line_feed)) = Some (''capabilities'' @ line_feed)"
    "from_utf8 [0x0A] = Some line_feed"
    by code_simp+
  then show "read_line sample_input = (Inr (Some ''capabilities''), sample_input\<lparr>lp_input := [0x0A]\<rparr>)"
    "read_line (sample_input\<lparr>lp_input := [0x0A], lp_output := out\<rparr>) =
     (Inr (Some []), sample_input\<lparr>lp_input := [], lp_output := out\<rparr>)"
    by (simp_all add: read_line_def bindS_def read_limited_def sample_input_def max_command_line_bytes_def
        str_bytes_def line_feed_def okS_def strip_line_end_def strip_cr_def Let_def)
qed

lemma sample_run:
  "run_command_loop ipc_sample script object_plumbing vec_writer sample_url sample_input =
     (Inr (), sample_input\<lparr>lp_input := [], lp_output := str_bytes (''fetch'' @ line_feed @ ''push'' @ line_feed @ line_feed)\<rparr>)"
proof -
  have "lp_output sample_input = []" by (simp add: sample_input_def)
  then show ?thesis
    unfolding run_command_loop_def
    by (subst run_loop.simps, simp add: command_turn_def bindS_def sample_input_lines answer_line_def okS_def wrote_def)
      (subst run_loop.simps, simp add: command_turn_def bindS_def sample_input_lines okS_def)
qed

lemma command_loop_refines_witness:
  "\<exists>events. conversation ipc_sample script object_plumbing sample_url False events sample_input (Inr ())
     (sample_input\<lparr>lp_input := [], lp_output := str_bytes (''fetch'' @ line_feed @ ''push'' @ line_feed @ line_feed)\<rparr>)"
  by (rule command_loop_refines [OF ipc_sample_hex_ok sample_run])

end
