(* ===== verification/Operator.thy ===== *)
theory Operator
  imports Protocol Canonical
begin

text \<open>
  \<open>crates/styrene-git-functional/src/operator.rs\<close> and the messages of \<open>wire.rs\<close>: an operator, a
  service that keeps the repositories of one actor and answers control requests one at a time under
  a lock.

  Its state is the record \<open>operator\<close>, the host's world included. An error is kept as the value
  whose text the code returns until the service answers with the text. The arithmetic on sequence
  numbers wraps, as in the packaged release build. The text of an invalid transfer's hexadecimal
  error is kept without its detail.
\<close>

section \<open>Control messages\<close>

definition max_control_bytes :: nat where
  "max_control_bytes = 16 * 1024 * 1024"

datatype control_request =
    HealthRequest
  | IdentityRequest
  | InitializeRequest "(string, string) btree_map" u16
  | PublishCommitRequest string string "string option"
  | PublishTargetRequest string string
  | ApplyRequest string
  | StateRequest string "string list"
  | FsckRequest string
  | RestartRequest

datatype operator_error =
    OperatorText string
  | OperatorCore core_error
  | OperatorStore store_error
  | OperatorProtocol protocol_error

datatype control_response =
    Healthy string string
  | IdentityResponse string string
  | Initialized string
  | PublishedResponse string u64 string
  | AppliedResponse string string u64
  | MissingResponse "string list"
  | StateResponse "string option" string "(string, string option) btree_map"
  | Verified string
  | ErrorResponse string

text \<open>
  The environment, extended by the codec of transfers, the JSON of \<open>serde_json\<close>, the derived texts
  of errors and prerequisites, and the error of a process that could not be replaced: a restart
  that succeeds does not return.
\<close>

record operator_env = refs_env +
  transfer_codec :: "transfer codec"
  request_of_json :: "bytes \<Rightarrow> (string, control_request) result"
  json_of_response :: "control_response \<Rightarrow> (string, bytes) result"
  operator_error_text :: "operator_error \<Rightarrow> string"
  prerequisite_text :: "prerequisite \<Rightarrow> string"
  restart_failure :: string

section \<open>State\<close>

definition operator_max_pack_bytes :: u64 where
  "operator_max_pack_bytes = 4 * 1024 * 1024"

record repository_context =
  rc_repository :: repository
  rc_identity :: identity_document
  rc_bindings :: "(styrene_identity, signer_selection) btree_map"
  rc_canonical :: "git_object_id option"

record actor =
  ac_repository_key :: signing_key
  ac_binding :: signer_binding

record 's operator =
  opr_name :: string
  opr_incarnation :: string
  opr_actor :: actor
  opr_store :: repository_store
  opr_repositories :: "(repository_id, repository_context) btree_map"
  opr_world :: "'s world"

type_synonym ('s, 'a) operator_io = "('s operator, operator_error, 'a) io"

definition on_store :: "('s, 'a) store_io \<Rightarrow> ('s, 'a) operator_io" where
  "on_store m s = (case m (opr_world s) of (r, w) \<Rightarrow> (map_err OperatorStore r, s\<lparr>opr_world := w\<rparr>))"

definition on_protocol :: "('s, 'a) protocol_io \<Rightarrow> ('s, 'a) operator_io" where
  "on_protocol m s = (case m (opr_world s) of (r, w) \<Rightarrow> (map_err OperatorProtocol r, s\<lparr>opr_world := w\<rparr>))"

definition core_result :: "(core_error, 'a) result \<Rightarrow> ('s, 'a) operator_io" where
  "core_result r = liftS (map_err OperatorCore r)"

definition actor_id :: "actor \<Rightarrow> styrene_identity" where
  "actor_id a = binding_identity (ac_binding a)"

definition actor_seeded :: "('z) identity_env_scheme \<Rightarrow> u8 \<Rightarrow> (operator_error, actor) result" where
  "actor_seeded E seed =
     (let identity_key = repeat_byte seed; repository_key = repeat_byte (seed + 100) in
      bindE (map_err OperatorCore
        (binding_issue E identity_key (PublicKey (ed_verifying_key E repository_key)) 0)) (\<lambda>binding.
      Inr \<lparr>ac_repository_key = repository_key, ac_binding = binding\<rparr>))"

text \<open>The state \<open>run\<close> starts the service with; \<open>incarnation\<close> is the text of the clock.\<close>

definition operator_start ::
  "('z) identity_env_scheme \<Rightarrow> 's host \<Rightarrow> string \<Rightarrow> u8 \<Rightarrow> string \<Rightarrow> path \<Rightarrow> 's world
     \<Rightarrow> (operator_error, 's operator) result \<times> 's world" where
  "operator_start E host name seed incarnation root w =
     (case actor_seeded E seed of
        Inl e \<Rightarrow> (Inl e, w)
      | Inr actor \<Rightarrow>
          (case store_new host root w of
             (Inl e, w') \<Rightarrow> (Inl (OperatorStore e), w')
           | (Inr st, w') \<Rightarrow>
               (Inr \<lparr>opr_name = name, opr_incarnation = incarnation, opr_actor = actor, opr_store = st,
                  opr_repositories = [], opr_world = w'\<rparr>, w')))"

section \<open>Helpers\<close>

definition parse_repository :: "('z) env_scheme \<Rightarrow> string \<Rightarrow> (operator_error, repository_id) result" where
  "parse_repository E v = map_err OperatorCore (repository_from_str E v)"

definition encode_transfer :: "('z) operator_env_scheme \<Rightarrow> transfer \<Rightarrow> (operator_error, string) result" where
  "encode_transfer E x = map_err OperatorCore (map_ok (hex_encode E) (canonical_bytes (transfer_codec E) x))"

definition decode_transfer :: "('z) operator_env_scheme \<Rightarrow> string \<Rightarrow> (operator_error, transfer) result" where
  "decode_transfer E v =
     bindE (ok_or (OperatorText ''invalid transfer hex'') (hex_decode E v)) (\<lambda>bs.
     map_err OperatorCore (from_canonical_bytes (transfer_codec E) bs))"

definition main_branch :: string where
  "main_branch = ''refs/heads/main''"

definition signed_transition ::
  "('z) refs_env_scheme \<Rightarrow> repository_id \<Rightarrow> actor \<Rightarrow> ref_state option \<Rightarrow> git_object_id
     \<Rightarrow> (operator_error, ref_transition) result" where
  "signed_transition E r a previous target =
     map_err OperatorCore (ref_transition_signed E r (ac_binding a) (ac_repository_key a) previous
       [\<lparr>rt_name = main_branch, rt_target = target\<rparr>])"

definition find_context :: "repository_id \<Rightarrow> string \<Rightarrow> ('s, repository_context) operator_io" where
  "find_context r message =
     bindS (getS (\<lambda>s. btree_get (opr_repositories s) r)) (\<lambda>c. liftS (ok_or (OperatorText message) c))"

definition own_selection :: "repository_context \<Rightarrow> styrene_identity \<Rightarrow> ('s, signer_selection) operator_io" where
  "own_selection c i =
     liftS (ok_or (OperatorText ''publisher has no accepted signer binding'') (btree_get (rc_bindings c) i))"

definition set_context :: "repository_id \<Rightarrow> repository_context \<Rightarrow> ('s, unit) operator_io" where
  "set_context r c s = (Inr (), s\<lparr>opr_repositories := btree_insert r c (opr_repositories s)\<rparr>)"

text \<open>The quarantine is dropped when the function that began it returns, whatever it returns.\<close>

definition in_quarantine ::
  "'s host \<Rightarrow> repository \<Rightarrow> (quarantine \<Rightarrow> ('s, 'a) operator_io) \<Rightarrow> ('s, 'a) operator_io" where
  "in_quarantine host repo body =
     bindS (on_store (begin_quarantine host repo)) (\<lambda>q.
     catchS (body q) (\<lambda>r. bindS (on_store (drop_quarantine host q)) (\<lambda>_. liftS r)))"

section \<open>Initialization\<close>

definition accept_binding ::
  "('z) identity_env_scheme \<Rightarrow> string \<times> string \<Rightarrow> (operator_error, styrene_identity \<times> signer_selection) result" where
  "accept_binding E entry =
     (case entry of (i, b) \<Rightarrow>
        bindE (map_err OperatorCore (identity_from_hex E i)) (\<lambda>i.
        bindE (ok_or (OperatorText ''invalid signer binding hex'') (hex_decode E b)) (\<lambda>bs.
        bindE (map_err OperatorCore (from_canonical_bytes (binding_codec E) bs)) (\<lambda>b.
        if binding_identity b \<noteq> i
        then Inl (OperatorText ''signer binding identity does not match selection'')
        else bindE (map_err OperatorCore (binding_selection E b)) (\<lambda>sel. Inr (i, sel))))))"

definition initialize ::
  "('z) identity_env_scheme \<Rightarrow> 's host \<Rightarrow> (string, string) btree_map \<Rightarrow> u16 \<Rightarrow> ('s, control_response) operator_io" where
  "initialize E host bindings threshold =
     bindS (liftS (map_ok btree_of_list (collect_ok (accept_binding E) bindings))) (\<lambda>bindings.
     bindS (core_result (document_new ''functional-fixture'' ''isolated multi-operator scenario'' ''main''
              Public (map fst bindings) threshold)) (\<lambda>identity.
     bindS (core_result (document_repository_id E identity)) (\<lambda>r.
     bindS (getS opr_store) (\<lambda>st.
     bindS (on_store (store_create E host st r Sha256)) (\<lambda>repo.
     bindS (getS (\<lambda>s. btree_get (opr_repositories s) r)) (\<lambda>known.
     bindS (case known of
              Some _ \<Rightarrow> okS ()
            | None \<Rightarrow> set_context r \<lparr>rc_repository = repo, rc_identity = identity,
                rc_bindings = bindings, rc_canonical = None\<rparr>) (\<lambda>_.
     okS (Initialized (repository_to_string E r)))))))))"

section \<open>Publishing\<close>

definition commit_text ::
  "('z) env_scheme \<Rightarrow> string \<Rightarrow> git_object_id \<Rightarrow> git_object_id option \<Rightarrow> u64 \<Rightarrow> string \<Rightarrow> string" where
  "commit_text E name tree parent sequence message =
     (let line_end = [CHR 0x0A]; who = name @ '' <'' @ name @ ''@example.invalid> '' @ decimal (unat (sequence + 1)) in
      ''tree '' @ object_hex E tree @ line_end
      @ (case parent of None \<Rightarrow> [] | Some p \<Rightarrow> ''parent '' @ object_hex E p @ line_end)
      @ ''author '' @ who @ '' +0000'' @ line_end
      @ ''committer '' @ who @ '' +0000'' @ line_end @ line_end
      @ message @ line_end)"

text \<open>From the check of the actor's selection on, the two ways to publish agree.\<close>

definition commit_and_export ::
  "('z) operator_env_scheme \<Rightarrow> 's host \<Rightarrow> repository_context \<Rightarrow> actor \<Rightarrow> ref_state option \<Rightarrow> ref_transition
     \<Rightarrow> git_object_id \<Rightarrow> git_object_id list \<Rightarrow> quarantine \<Rightarrow> ('s, control_response) operator_io" where
  "commit_and_export E host c a previous t head prerequisites q =
     bindS (own_selection c (actor_id a)) (\<lambda>selected.
     bindS (on_store (commit E host (rc_repository c) q t (ac_binding a) selected)) (\<lambda>outcome.
     bindS (on_protocol (export_transfer E host (rc_repository c)
              \<lparr>sa_binding = ac_binding a, sa_selected = selected\<rparr> t previous [head] prerequisites
              operator_max_pack_bytes)) (\<lambda>x.
     bindS (liftS (encode_transfer E x)) (\<lambda>msg.
     okS (PublishedResponse (object_hex E head) (rs_sequence (outcome_state outcome)) msg)))))"

text \<open>The rest of each operation once its repository, and what it reads of the operator, are known.\<close>

definition publish_commit_in ::
  "('z) operator_env_scheme \<Rightarrow> 's host \<Rightarrow> repository_id \<Rightarrow> repository_context \<Rightarrow> actor \<Rightarrow> string \<Rightarrow> string
     \<Rightarrow> string option \<Rightarrow> ('s, control_response) operator_io" where
  "publish_commit_in E host r c a name message parent =
     (let repo = rc_repository c in
      bindS (core_result (case parent of
               None \<Rightarrow> Inr None
             | Some v \<Rightarrow> map_ok Some (object_from_hex E (format_name (repo_format repo)) v))) (\<lambda>parent.
      bindS (case parent of
               None \<Rightarrow> okS ()
             | Some p \<Rightarrow> bindS (on_store (has_object E host repo p)) (\<lambda>present.
                 if \<not> present then failS (OperatorText ''commit parent is not present'') else okS ())) (\<lambda>_.
      bindS (on_store (publisher_state E host repo (actor_id a))) (\<lambda>previous.
      bindS (on_store (object_id E host repo ''tree'' [])) (\<lambda>tree.
      let sequence = (case previous of None \<Rightarrow> 0 | Some state \<Rightarrow> rs_sequence state + 1);
          content = str_bytes (commit_text E name tree parent sequence message) in
      bindS (on_store (object_id E host repo ''commit'' content)) (\<lambda>head.
      in_quarantine host repo (\<lambda>q.
        bindS (on_store (write_verified_object E host q ''tree'' [] tree)) (\<lambda>_.
        bindS (on_store (write_verified_object E host q ''commit'' content head)) (\<lambda>_.
        bindS (liftS (signed_transition E r a previous head)) (\<lambda>t.
        commit_and_export E host c a previous t head (case parent of None \<Rightarrow> [] | Some p \<Rightarrow> [p]) q))))))))))"

definition publish_commit ::
  "('z) operator_env_scheme \<Rightarrow> 's host \<Rightarrow> string \<Rightarrow> string \<Rightarrow> string option \<Rightarrow> ('s, control_response) operator_io" where
  "publish_commit E host repository message parent =
     bindS (liftS (parse_repository E repository)) (\<lambda>r.
     bindS (find_context r ''repository is not initialized'') (\<lambda>c.
     bindS (getS (\<lambda>s. (opr_actor s, opr_name s))) (\<lambda>(a, name).
     publish_commit_in E host r c a name message parent)))"

definition publish_target_in ::
  "('z) operator_env_scheme \<Rightarrow> 's host \<Rightarrow> repository_id \<Rightarrow> repository_context \<Rightarrow> actor \<Rightarrow> string
     \<Rightarrow> ('s, control_response) operator_io" where
  "publish_target_in E host r c a target =
     (let repo = rc_repository c in
      bindS (core_result (object_from_hex E (format_name (repo_format repo)) target)) (\<lambda>target.
      bindS (on_store (has_object E host repo target)) (\<lambda>present.
      if \<not> present then failS (OperatorText ''published target is not present'')
      else bindS (on_store (publisher_state E host repo (actor_id a))) (\<lambda>previous.
      bindS (liftS (signed_transition E r a previous target)) (\<lambda>t.
      in_quarantine host repo (commit_and_export E host c a previous t target [target]))))))"

definition publish_target ::
  "('z) operator_env_scheme \<Rightarrow> 's host \<Rightarrow> string \<Rightarrow> string \<Rightarrow> ('s, control_response) operator_io" where
  "publish_target E host repository target =
     bindS (liftS (parse_repository E repository)) (\<lambda>r.
     bindS (find_context r ''repository is not initialized'') (\<lambda>c.
     bindS (getS opr_actor) (\<lambda>a.
     publish_target_in E host r c a target)))"

section \<open>Applying transfers\<close>

definition apply_in ::
  "('z) operator_env_scheme \<Rightarrow> 's host \<Rightarrow> repository_context \<Rightarrow> transfer \<Rightarrow> ('s, control_response) operator_io" where
  "apply_in E host c x =
     bindS (own_selection c (tm_publisher (tr_manifest x))) (\<lambda>selected.
     bindS (on_protocol (apply_transfer E host (rc_repository c) x selected operator_max_pack_bytes)) (\<lambda>outcome.
     okS (case outcome of
            TransferApplied state \<Rightarrow>
              AppliedResponse ''applied'' (identity_hex E (rs_publisher state)) (rs_sequence state)
          | TransferPresent state \<Rightarrow>
              AppliedResponse ''already_present'' (identity_hex E (rs_publisher state)) (rs_sequence state)
          | MissingPrerequisites missing \<Rightarrow> MissingResponse (map (prerequisite_text E) missing))))"

definition apply_request ::
  "('z) operator_env_scheme \<Rightarrow> 's host \<Rightarrow> string \<Rightarrow> ('s, control_response) operator_io" where
  "apply_request E host v =
     bindS (liftS (decode_transfer E v)) (\<lambda>x.
     bindS (find_context (tm_repository (tr_manifest x)) ''transfer repository is not initialized'') (\<lambda>c.
     apply_in E host c x))"

section \<open>The state of a repository\<close>

fun gather_states ::
  "('z) refs_env_scheme \<Rightarrow> 's host \<Rightarrow> repository \<Rightarrow> (styrene_identity, ref_state) btree_map
     \<Rightarrow> (string, string option) btree_map \<Rightarrow> styrene_identity list
     \<Rightarrow> ('s, (styrene_identity, ref_state) btree_map \<times> (string, string option) btree_map) store_io" where
  "gather_states E host repo states publishers [] = okS (states, publishers)"
| "gather_states E host repo states publishers (delegate # delegates) =
     bindS (publisher_state E host repo delegate) (\<lambda>state.
     gather_states E host repo
       (case state of None \<Rightarrow> states | Some st \<Rightarrow> btree_insert delegate st states)
       (btree_insert (identity_hex E delegate)
          (map_option (object_hex E) (Option.bind state (\<lambda>st. ref_state_target st main_branch))) publishers)
       delegates)"

text \<open>
  The derivation asks Git about descent through its closure, at most once: when one commit other
  than the previous head qualifies. A failed question counts as no.
\<close>

definition descent_answer ::
  "('z) refs_env_scheme \<Rightarrow> 's host \<Rightarrow> repository \<Rightarrow> 's world \<Rightarrow> git_object_id \<Rightarrow> git_object_id \<Rightarrow> bool" where
  "descent_answer E host repo w ancestor descendant =
     (case fst (is_ancestor E host repo ancestor descendant w) of Inl _ \<Rightarrow> False | Inr b \<Rightarrow> b)"

definition after_descent ::
  "('z) refs_env_scheme \<Rightarrow> 's host \<Rightarrow> repository \<Rightarrow> git_object_id option \<Rightarrow> canonical_decision \<Rightarrow> 's world \<Rightarrow> 's world" where
  "after_descent E host repo previous decision w =
     (case (previous, decision) of
        (Some p, Advance d) \<Rightarrow> snd (is_ancestor E host repo p d w)
      | (Some p, Diverged d) \<Rightarrow> snd (is_ancestor E host repo p d w)
      | _ \<Rightarrow> w)"

definition derive_in_store ::
  "('z) refs_env_scheme \<Rightarrow> 's host \<Rightarrow> repository_context \<Rightarrow> (styrene_identity, ref_state) btree_map
     \<Rightarrow> ('s, canonical_decision) store_io" where
  "derive_in_store E host c states w =
     (let decision = derive_canonical_head (rc_identity c) states (rc_canonical c)
            (descent_answer E host (rc_repository c) w)
      in (Inr decision, after_descent E host (rc_repository c) (rc_canonical c) decision w))"

definition decision_name :: "canonical_decision \<Rightarrow> string" where
  "decision_name d = (case d of
     Advance _ \<Rightarrow> ''advance'' | Retain \<Rightarrow> ''retain'' | NoAgreement \<Rightarrow> ''no_agreement'' | Diverged _ \<Rightarrow> ''diverged'')"

definition next_canonical :: "git_object_id option \<Rightarrow> canonical_decision \<Rightarrow> git_object_id option" where
  "next_canonical previous d = (case d of Advance head \<Rightarrow> Some head | _ \<Rightarrow> previous)"

definition state_in ::
  "('z) refs_env_scheme \<Rightarrow> 's host \<Rightarrow> repository_id \<Rightarrow> repository_context \<Rightarrow> string list
     \<Rightarrow> ('s, control_response) operator_io" where
  "state_in E host r c delegates =
     bindS (core_result (collect_ok (identity_from_hex E) delegates)) (\<lambda>delegates.
     bindS (on_store (gather_states E host (rc_repository c) [] [] delegates)) (\<lambda>(states, publishers).
     bindS (on_store (derive_in_store E host c states)) (\<lambda>decision.
     let canonical = next_canonical (rc_canonical c) decision in
     bindS (set_context r (c\<lparr>rc_canonical := canonical\<rparr>)) (\<lambda>_.
     okS (StateResponse (map_option (object_hex E) canonical) (decision_name decision) publishers)))))"

definition state_request ::
  "('z) refs_env_scheme \<Rightarrow> 's host \<Rightarrow> string \<Rightarrow> string list \<Rightarrow> ('s, control_response) operator_io" where
  "state_request E host repository delegates =
     bindS (liftS (parse_repository E repository)) (\<lambda>r.
     bindS (find_context r ''repository is not initialized'') (\<lambda>c.
     state_in E host r c delegates))"

definition fsck_request ::
  "('z) env_scheme \<Rightarrow> 's host \<Rightarrow> string \<Rightarrow> ('s, control_response) operator_io" where
  "fsck_request E host repository =
     bindS (liftS (parse_repository E repository)) (\<lambda>r.
     bindS (find_context r ''repository is not initialized'') (\<lambda>c.
     bindS (on_store (store_fsck host (rc_repository c))) (\<lambda>_. okS (Verified repository))))"

section \<open>Requests\<close>

definition identity_request :: "('z) identity_env_scheme \<Rightarrow> ('s, control_response) operator_io" where
  "identity_request E =
     bindS (getS opr_actor) (\<lambda>a.
     bindS (core_result (canonical_bytes (binding_codec E) (ac_binding a))) (\<lambda>bs.
     okS (IdentityResponse (identity_hex E (actor_id a)) (hex_encode E bs))))"

definition handle ::
  "('z) operator_env_scheme \<Rightarrow> 's host \<Rightarrow> control_request \<Rightarrow> ('s, control_response) operator_io" where
  "handle E host request =
     (case request of
        HealthRequest \<Rightarrow> getS (\<lambda>s. Healthy (opr_name s) (opr_incarnation s))
      | IdentityRequest \<Rightarrow> identity_request E
      | InitializeRequest bindings threshold \<Rightarrow> initialize E host bindings threshold
      | PublishCommitRequest repository message parent \<Rightarrow> publish_commit E host repository message parent
      | PublishTargetRequest repository target \<Rightarrow> publish_target E host repository target
      | ApplyRequest x \<Rightarrow> apply_request E host x
      | StateRequest repository delegates \<Rightarrow> state_request E host repository delegates
      | FsckRequest repository \<Rightarrow> fsck_request E host repository
      | RestartRequest \<Rightarrow> failS (OperatorText (''restart operator process failed: '' @ restart_failure E)))"

text \<open>
  \<open>read_request\<close> on what the peer sent up to its end of stream, and \<open>serve\<close>, which answers every
  request, an error included, with the bytes it writes back.
\<close>

definition read_request ::
  "('z) operator_env_scheme \<Rightarrow> (io_error, bytes) result \<Rightarrow> (operator_error, control_request) result" where
  "read_request E input =
     bindE (map_err (\<lambda>e. OperatorText (''read control request failed: '' @ error_text e)) input) (\<lambda>bs.
     let bs = take (max_control_bytes + 1) bs in
     if max_control_bytes < length bs then Inl (OperatorText ''control request exceeds limit'')
     else map_err (\<lambda>e. OperatorText (''invalid control request: '' @ e)) (request_of_json E bs))"

definition serve ::
  "('z) operator_env_scheme \<Rightarrow> 's host \<Rightarrow> (io_error, bytes) result \<Rightarrow> 's operator \<Rightarrow> bytes \<times> 's operator" where
  "serve E host input s =
     (let (answer, s') = (case read_request E input of
            Inl e \<Rightarrow> (Inl e, s)
          | Inr request \<Rightarrow> handle E host request s);
          response = (case answer of Inl e \<Rightarrow> ErrorResponse (operator_error_text E e) | Inr x \<Rightarrow> x)
      in (case json_of_response E response of
            Inr bs \<Rightarrow> bs
          | Inl e \<Rightarrow> str_bytes ([CHR 0x7B] @ [CHR 0x22] @ ''result'' @ [CHR 0x22] @ '':'' @ [CHR 0x22] @ ''error''
              @ [CHR 0x22] @ '','' @ [CHR 0x22] @ ''message'' @ [CHR 0x22] @ '':'' @ [CHR 0x22] @ e
              @ [CHR 0x22] @ [CHR 0x7D]), s'))"

end
