(* ===== verification/Operator_Facts.thy ===== *)
theory Operator_Facts
  imports Operator Replication Quarantine
begin

text \<open>
  What an operator promises: whatever it is asked, by whom and with what outcome, its repositories
  only advance by verified transitions, and the canonical head it reports moves only with the
  agreement of the delegates' stored states and along Git's history.
\<close>

section \<open>Steps on the operator's world\<close>

definition on_world :: "('s world \<Rightarrow> 's world \<Rightarrow> bool) \<Rightarrow> 's operator \<Rightarrow> 's operator \<Rightarrow> bool" where
  "on_world R s s' \<longleftrightarrow> R (opr_world s) (opr_world s')"

lemma on_world_relation: "run_relation R \<Longrightarrow> run_relation (on_world R)"
  unfolding run_relation_def on_world_def by blast

interpretation world_advance: run_relation "on_world (advances E V repo P)" for E V repo P
  by (rule on_world_relation) (rule advance.run_relation_axioms)

interpretation world_keep: run_relation "on_world (keeps V p)" for V p
  by (rule on_world_relation) (rule kept.run_relation_axioms)

lemma on_store_runs: "runs_in R m \<Longrightarrow> runs_in (on_world R) (on_store m)"
  by (auto simp: runs_in_def on_world_def on_store_def split: prod.splits) (metis snd_conv)

lemma on_protocol_runs: "runs_in R m \<Longrightarrow> runs_in (on_world R) (on_protocol m)"
  by (auto simp: runs_in_def on_world_def on_protocol_def split: prod.splits) (metis snd_conv)

lemma lift_bind_runs:
  assumes "run_relation R" "\<And>x. r = Inr x \<Longrightarrow> runs_in R (f x)"
  shows "runs_in R (bindS (liftS r) f)"
  using assms run_relation.refl [OF assms(1)] by (cases r) (auto simp: runs_in_def bindS_def liftS_def)

lemma on_store_Inr: "on_store m s = (Inr x, s') \<longleftrightarrow> (\<exists>w. m (opr_world s) = (Inr x, w) \<and> s' = s\<lparr>opr_world := w\<rparr>)"
  by (auto simp: on_store_def map_err_Inr_iff split: prod.splits dest: sym)

lemma on_protocol_Inr: "on_protocol m s = (Inr x, s') \<longleftrightarrow> (\<exists>w. m (opr_world s) = (Inr x, w) \<and> s' = s\<lparr>opr_world := w\<rparr>)"
  by (auto simp: on_protocol_def map_err_Inr_iff split: prod.splits dest: sym)

lemma core_result_Inr: "core_result r s = (Inr x, s') \<longleftrightarrow> r = Inr x \<and> s' = s"
  by (auto simp: core_result_def liftS_iff map_err_Inr_iff dest: sym)

lemma lift_Inr: "liftS r s = (Inr x, s') \<longleftrightarrow> r = Inr x \<and> s' = s"
  by (auto simp: liftS_iff)

section \<open>The rest of the store\<close>

lemma object_id_keeps [runs]:
  "git_ok host V (repo_path repo) \<Longrightarrow> runs_in (keeps V (repo_path repo)) (object_id E host repo kind bs)"
  unfolding object_id_def by (intro runs) simp_all

lemma write_verified_object_keeps [runs]:
  "git_ok host V (repo_path (q_repository q)) \<Longrightarrow>
     runs_in (keeps V (repo_path (q_repository q))) (write_verified_object E host q kind bs expected)"
  unfolding write_verified_object_def by (intro runs) simp_all

lemma is_ancestor_keeps [runs]:
  "git_ok host V (repo_path repo) \<Longrightarrow> runs_in (keeps V (repo_path repo)) (is_ancestor E host repo a d)"
  unfolding is_ancestor_def by (intro runs) simp_all

lemma store_fsck_keeps [runs]:
  "git_ok host V (repo_path repo) \<Longrightarrow> runs_in (keeps V (repo_path repo)) (store_fsck host repo)"
  unfolding store_fsck_def by (intro runs) simp_all

lemma git_run_bounded_keeps:
  assumes "git_ok host V p" "args \<noteq> []" "hd args \<noteq> ''update-ref''"
  shows "runs_in (keeps V p) (git_run_bounded host p args input n)"
proof -
  have "keeps_os V p s (snd (h_git host (git_run_call p args (Some input) None) s))" for s
    using assms by (simp add: git_ok_def git_keeps_def)
  then show ?thesis
    by (auto simp: runs_in_def git_run_bounded_def keeps_def Let_def split: prod.splits git_answer.splits) (metis snd_conv)
qed

lemma export_pack_keeps [runs]:
  "git_ok host V (repo_path repo) \<Longrightarrow> runs_in (keeps V (repo_path repo)) (export_pack E host repo wants prerequisites n)"
  unfolding export_pack_def by (intro runs git_run_bounded_keeps) simp_all

lemma export_transfer_keeps [runs]:
  "git_ok host V (repo_path repo) \<Longrightarrow>
     runs_in (keeps V (repo_path repo)) (export_transfer E host repo signer t previous wants objects n)"
  unfolding export_transfer_def by (intro runs)

lemma gather_states_keeps [runs]:
  "git_ok host V (repo_path repo) \<Longrightarrow>
     runs_in (keeps V (repo_path repo)) (gather_states E host repo states publishers delegates)"
  by (induction delegates arbitrary: states publishers) (auto intro!: runs)

lemma derive_in_store_keeps [runs]:
  assumes "git_ok host V (repo_path (rc_repository c))"
  shows "runs_in (keeps V (repo_path (rc_repository c))) (derive_in_store E host c states)"
proof -
  have "keeps V (repo_path (rc_repository c)) w (after_descent E host (rc_repository c) previous d w)" for previous d w
    using runs_inS [OF is_ancestor_keeps [OF assms]] kept.refl
    by (auto simp: after_descent_def split: option.splits canonical_decision.splits)
  then show ?thesis by (simp add: runs_in_def derive_in_store_def Let_def)
qed

section \<open>Operations of a repository\<close>

text \<open>The bindings an operator accepted are kept under the identity they select.\<close>

definition bindings_ok :: "repository_context \<Rightarrow> bool" where
  "bindings_ok c \<longleftrightarrow> (\<forall>i sel. btree_get (rc_bindings c) i = Some sel \<longrightarrow> sel_identity sel = i)"

lemma in_quarantine_runs:
  assumes "git_ok host V (repo_path repo)"
    and "\<And>q. q_repository q = repo \<Longrightarrow> runs_in (on_world (advances E V repo P)) (body q)"
  shows "runs_in (on_world (advances E V repo P)) (in_quarantine host repo body)"
  unfolding in_quarantine_def
proof (rule returned_bind_runs)
  show "runs_in (on_world (advances E V repo P)) (on_store (begin_quarantine host repo))"
    using assms(1) by (intro on_store_runs keeps_runs_advances runs)
next
  fix q s s' assume "on_store (begin_quarantine host repo) s = (Inr q, s')"
  then have q: "q_repository q = repo" "prefix (repo_path repo @ [''q'']) (q_path q)"
    using begin_quarantine_Inr [of host repo "opr_world s" q] by (auto simp: on_store_Inr)
  have "runs_in (on_world (advances E V repo P)) (on_store (drop_quarantine host q))"
    using drop_quarantine_keeps [OF assms(1) q(2)] by (intro on_store_runs keeps_runs_advances)
  then show "runs_in (on_world (advances E V repo P))
      (catchS (body q) (\<lambda>r. bindS (on_store (drop_quarantine host q)) (\<lambda>_. liftS r)))"
    using assms(2) [OF q(1)] by (intro world_advance.catch world_advance.bind world_advance.pure)
qed (rule world_advance.trans)

lemma signed_transition_refs:
  "signed_transition E r a previous target = Inr t \<Longrightarrow>
     rtp_refs (rtr_payload t) = [\<lparr>rt_name = main_branch, rt_target = target\<rparr>]"
  by (auto simp: signed_transition_def ref_transition_signed_def map_err_Inr_iff bindE_Inr_iff Let_def split: if_splits)

lemma signed_transition_plain: "signed_transition E r a previous target = Inr t \<Longrightarrow> plain_names t"
  using signed_transition_refs by (fastforce simp: plain_names_def line_word_def main_branch_def)

text \<open>What a request rests on: the third-party code, and Git at the repository's path.\<close>

definition serving :: "('z) operator_env_scheme \<Rightarrow> 's host \<Rightarrow> 's views \<Rightarrow> repository_context \<Rightarrow> bool" where
  "serving E host V c \<longleftrightarrow>
     hex_ok E \<and> base32_ok E \<and> refs_codecs_ok E \<and> codec_ok (binding_codec E) \<and>
     git_ok host V (repo_path (rc_repository c)) \<and> bindings_ok c"

lemma keeping_step:
  "runs_in (keeps V (repo_path repo)) m \<Longrightarrow> runs_in (on_world (advances E V repo P)) (on_store m)"
  "runs_in (keeps V (repo_path repo)) m' \<Longrightarrow> runs_in (on_world (advances E V repo P)) (on_protocol m')"
  by (intro on_store_runs on_protocol_runs keeps_runs_advances; assumption)+

lemma own_selection_runs:
  assumes "serving E host V c"
    and "\<And>sel. btree_get (rc_bindings c) i = Some sel \<Longrightarrow> sel_identity sel = i \<Longrightarrow>
      runs_in (on_world (advances E V (rc_repository c) i)) (f sel)"
  shows "runs_in (on_world (advances E V (rc_repository c) i)) (bindS (own_selection c i) f)"
  unfolding own_selection_def
  by (rule lift_bind_runs [OF world_advance.run_relation_axioms])
    (use assms in \<open>auto simp: ok_or_Inr_iff serving_def bindings_ok_def\<close>)

lemma commit_and_export_runs:
  assumes "serving E host V c" "plain_names t"
  shows "runs_in (on_world (advances E V (rc_repository c) (actor_id a)))
    (commit_and_export E host c a previous t head prerequisites q)"
  unfolding commit_and_export_def
proof (rule own_selection_runs [OF assms(1)])
  fix sel :: signer_selection assume sel: "sel_identity sel = actor_id a"
  have "runs_in (on_world (advances E V (rc_repository c) (actor_id a)))
      (on_store (commit E host (rc_repository c) q t (ac_binding a) sel))"
    using assms(1) by (intro on_store_runs commit_advances [where selected = sel, unfolded sel] assms(2))
      (simp_all add: serving_def)
  then show "runs_in (on_world (advances E V (rc_repository c) (actor_id a)))
     (bindS (on_store (commit E host (rc_repository c) q t (ac_binding a) sel)) (\<lambda>outcome.
      bindS (on_protocol (export_transfer E host (rc_repository c) \<lparr>sa_binding = ac_binding a, sa_selected = sel\<rparr>
        t previous [head] prerequisites operator_max_pack_bytes)) (\<lambda>x.
      bindS (liftS (encode_transfer E x)) (\<lambda>msg.
      okS (PublishedResponse (object_hex E head) (rs_sequence (outcome_state outcome)) msg)))))"
    by (rule world_advance.bind)
      (use assms(1) in \<open>intro world_advance.bind world_advance.pure keeping_step export_transfer_keeps
        lift_bind_runs [OF world_advance.run_relation_axioms]; simp add: serving_def\<close>)
qed

lemma publish_target_in_runs:
  assumes "serving E host V c"
  shows "runs_in (on_world (advances E V (rc_repository c) (actor_id a))) (publish_target_in E host r c a target)"
  unfolding publish_target_in_def Let_def core_result_def
  using assms
  by (intro world_advance.bind world_advance.pure if_keeps keeping_step runs
      lift_bind_runs [OF world_advance.run_relation_axioms] in_quarantine_runs commit_and_export_runs)
    (auto simp: serving_def dest: signed_transition_plain)

lemma publish_commit_in_runs:
  assumes "serving E host V c"
  shows "runs_in (on_world (advances E V (rc_repository c) (actor_id a)))
    (publish_commit_in E host r c a name message parent)"
proof -
  have body: "runs_in (on_world (advances E V (rc_repository c) (actor_id a)))
      (bindS (on_store (write_verified_object E host q ''tree'' [] tree)) (\<lambda>_.
       bindS (on_store (write_verified_object E host q ''commit'' content head)) (\<lambda>_.
       bindS (liftS (signed_transition E r a previous head)) (\<lambda>t.
       commit_and_export E host c a previous t head prerequisites q))))"
    if "q_repository q = rc_repository c" for q tree content head previous prerequisites
    using assms that write_verified_object_keeps [of host V q E]
    by (intro world_advance.bind keeping_step
        lift_bind_runs [OF world_advance.run_relation_axioms] commit_and_export_runs)
      (auto simp: serving_def dest: signed_transition_plain)
  show ?thesis
    unfolding publish_commit_in_def Let_def core_result_def
    using assms
    by (intro world_advance.bind world_advance.pure option_keeps if_keeps keeping_step has_object_keeps
        publisher_state_keeps object_id_keeps in_quarantine_runs body)
      (auto simp: serving_def)
qed

lemma apply_in_runs:
  assumes "serving E host V c"
    and "\<And>t. canonical_bytes (ref_transition_codec E) t = Inr (tr_transition x) \<Longrightarrow> plain_names t"
  shows "runs_in (on_world (advances E V (rc_repository c) (tm_publisher (tr_manifest x)))) (apply_in E host c x)"
  unfolding apply_in_def
proof (rule own_selection_runs [OF assms(1)])
  fix sel :: signer_selection assume sel: "sel_identity sel = tm_publisher (tr_manifest x)"
  have "runs_in (on_world (advances E V (rc_repository c) (tm_publisher (tr_manifest x))))
      (on_protocol (apply_transfer E host (rc_repository c) x sel operator_max_pack_bytes))"
    using assms(1) by (intro on_protocol_runs apply_transfer_advances [where selected = sel, unfolded sel] assms(2))
      (simp_all add: serving_def)
  then show "runs_in (on_world (advances E V (rc_repository c) (tm_publisher (tr_manifest x))))
     (bindS (on_protocol (apply_transfer E host (rc_repository c) x sel operator_max_pack_bytes)) (\<lambda>outcome.
      okS (case outcome of
            TransferApplied state \<Rightarrow>
              AppliedResponse ''applied'' (identity_hex E (rs_publisher state)) (rs_sequence state)
          | TransferPresent state \<Rightarrow>
              AppliedResponse ''already_present'' (identity_hex E (rs_publisher state)) (rs_sequence state)
          | MissingPrerequisites missing \<Rightarrow> MissingResponse (map (prerequisite_text E) missing))))"
    by (intro world_advance.bind world_advance.pure)
qed

lemma state_in_runs:
  assumes "serving E host V c"
  shows "runs_in (on_world (keeps V (repo_path (rc_repository c)))) (state_in E host r c delegates)"
proof -
  have "runs_in (on_world (keeps V (repo_path (rc_repository c)))) (set_context r d)" for d
    by (simp add: runs_in_def on_world_def set_context_def kept.refl)
  then show ?thesis
    unfolding state_in_def Let_def core_result_def
    using assms
    by (intro world_keep.bind world_keep.pure prod_keeps on_store_runs gather_states_keeps derive_in_store_keeps)
      (auto simp: serving_def)
qed

section \<open>Requests\<close>

text \<open>The repository a request is about, and the publisher it may advance.\<close>

definition request_repository :: "('z) operator_env_scheme \<Rightarrow> control_request \<Rightarrow> repository_id option" where
  "request_repository E request =
     (let named = (\<lambda>v. case parse_repository E v of Inl _ \<Rightarrow> None | Inr r \<Rightarrow> Some r) in
      case request of
        PublishCommitRequest v _ _ \<Rightarrow> named v
      | PublishTargetRequest v _ \<Rightarrow> named v
      | ApplyRequest v \<Rightarrow>
          (case decode_transfer E v of Inl _ \<Rightarrow> None | Inr x \<Rightarrow> Some (tm_repository (tr_manifest x)))
      | StateRequest v _ \<Rightarrow> named v
      | FsckRequest v \<Rightarrow> named v
      | _ \<Rightarrow> None)"

definition request_publisher :: "('z) operator_env_scheme \<Rightarrow> actor \<Rightarrow> control_request \<Rightarrow> styrene_identity option" where
  "request_publisher E a request =
     (case request of
        PublishCommitRequest _ _ _ \<Rightarrow> Some (actor_id a)
      | PublishTargetRequest _ _ \<Rightarrow> Some (actor_id a)
      | ApplyRequest v \<Rightarrow>
          (case decode_transfer E v of Inl _ \<Rightarrow> None | Inr x \<Rightarrow> Some (tm_publisher (tr_manifest x)))
      | _ \<Rightarrow> None)"

definition plain_request :: "('z) operator_env_scheme \<Rightarrow> control_request \<Rightarrow> bool" where
  "plain_request E request \<longleftrightarrow>
     (\<forall>v x t. request = ApplyRequest v \<longrightarrow> decode_transfer E v = Inr x \<longrightarrow>
        canonical_bytes (ref_transition_codec E) t = Inr (tr_transition x) \<longrightarrow> plain_names t)"

lemma find_context_known:
  "btree_get (opr_repositories s) r = Some c \<Longrightarrow> bindS (find_context r message) f s = f c s"
  by (simp add: find_context_def bindS_def getS_def liftS_def)

lemma lift_bind_known: "m = Inr x \<Longrightarrow> bindS (liftS m) f s = f x s"
  by (simp add: bindS_def liftS_def)

lemma getS_bind: "bindS (getS g) f s = f (g s) s"
  by (simp add: bindS_def getS_def)

text \<open>Every request about a repository either only reads it or advances one publisher.\<close>

lemma handle_repository:
  fixes s :: "'s operator" and host :: "'s host"
  assumes "serving E host V c" "btree_get (opr_repositories s) r = Some c"
    and "request_repository E request = Some r" "plain_request E request"
    and "handle E host request s = (res, s')"
  shows "case request_publisher E (opr_actor s) request of
      None \<Rightarrow> keeps V (repo_path (rc_repository c)) (opr_world s) (opr_world s')
    | Some P \<Rightarrow> advances E V (rc_repository c) P (opr_world s) (opr_world s')"
proof (cases request)
  case (PublishCommitRequest v message parent)
  then have "parse_repository E v = Inr r"
    using assms(3) by (simp add: request_repository_def Let_def split: sum.splits)
  then have "publish_commit_in E host r c (opr_actor s) (opr_name s) message parent s = (res, s')"
    using assms(5) PublishCommitRequest
    by (simp add: handle_def publish_commit_def lift_bind_known find_context_known [OF assms(2)] getS_bind)
  from runs_inD [OF publish_commit_in_runs [OF assms(1)] this] show ?thesis
    using PublishCommitRequest by (simp add: request_publisher_def on_world_def)
next
  case (PublishTargetRequest v target)
  then have "parse_repository E v = Inr r"
    using assms(3) by (simp add: request_repository_def Let_def split: sum.splits)
  then have "publish_target_in E host r c (opr_actor s) target s = (res, s')"
    using assms(5) PublishTargetRequest
    by (simp add: handle_def publish_target_def lift_bind_known find_context_known [OF assms(2)] getS_bind)
  from runs_inD [OF publish_target_in_runs [OF assms(1)] this] show ?thesis
    using PublishTargetRequest by (simp add: request_publisher_def on_world_def)
next
  case (ApplyRequest v)
  then obtain x where x: "decode_transfer E v = Inr x" "tm_repository (tr_manifest x) = r"
    using assms(3) by (auto simp: request_repository_def Let_def split: sum.splits)
  then have "apply_in E host c x s = (res, s')"
    using assms(5) ApplyRequest
    by (simp add: handle_def apply_request_def lift_bind_known find_context_known [OF assms(2)])
  moreover have "\<And>t. canonical_bytes (ref_transition_codec E) t = Inr (tr_transition x) \<Longrightarrow> plain_names t"
    using assms(4) ApplyRequest x(1) by (simp add: plain_request_def)
  ultimately show ?thesis
    using runs_inD [OF apply_in_runs [OF assms(1)]] ApplyRequest x(1) by (simp add: request_publisher_def on_world_def)
next
  case (StateRequest v delegates)
  then have "parse_repository E v = Inr r"
    using assms(3) by (simp add: request_repository_def Let_def split: sum.splits)
  then have "state_in E host r c delegates s = (res, s')"
    using assms(5) StateRequest
    by (simp add: handle_def state_request_def lift_bind_known find_context_known [OF assms(2)])
  from runs_inD [OF state_in_runs [OF assms(1)] this] show ?thesis
    using StateRequest by (simp add: request_publisher_def on_world_def)
next
  case (FsckRequest v)
  then have "parse_repository E v = Inr r"
    using assms(3) by (simp add: request_repository_def Let_def split: sum.splits)
  then have run: "bindS (on_store (store_fsck host (rc_repository c))) (\<lambda>_. okS (Verified v)) s = (res, s')"
    using assms(5) FsckRequest
    by (simp add: handle_def fsck_request_def lift_bind_known find_context_known [OF assms(2)])
  have "runs_in (on_world (keeps V (repo_path (rc_repository c))))
      (bindS (on_store (store_fsck host (rc_repository c))) (\<lambda>_. okS (Verified v)) :: ('s, control_response) operator_io)"
    using assms(1) by (intro world_keep.bind world_keep.pure on_store_runs store_fsck_keeps) (simp add: serving_def)
  from runs_inD [OF this run] show ?thesis
    using FsckRequest by (simp add: request_publisher_def on_world_def)
qed (use assms(3) in \<open>simp_all add: request_repository_def Let_def\<close>)

end
