(* ===== verification/Operator_State.thy ===== *)
theory Operator_State
  imports Operator_Facts Governance
begin

text \<open>
  The state an operator keeps: what every request preserves of it, and when its canonical heads move.
\<close>

section \<open>The invariant\<close>

text \<open>
  A context belongs to the repository it is filed under: its document names that repository, and
  the accepted signers are exactly the document's delegates.
\<close>

definition context_ok :: "('z) identity_env_scheme \<Rightarrow> repository_id \<Rightarrow> repository_context \<Rightarrow> bool" where
  "context_ok E r c \<longleftrightarrow>
     repo_id (rc_repository c) = r \<and>
     document_repository_id E (rc_identity c) = Inr r \<and>
     valid_document (rc_identity c) \<and> default_ref (rc_identity c) = main_branch \<and>
     btree_invar (rc_bindings c) \<and> map fst (rc_bindings c) = doc_delegates (rc_identity c) \<and> bindings_ok c"

definition operator_ok :: "('z) identity_env_scheme \<Rightarrow> 's operator \<Rightarrow> bool" where
  "operator_ok E s \<longleftrightarrow> btree_invar (opr_repositories s) \<and>
     (\<forall>r c. btree_get (opr_repositories s) r = Some c \<longrightarrow> context_ok E r c)"

text \<open>Steps that leave the operator's own state alone.\<close>

definition same_state :: "'s operator \<Rightarrow> 's operator \<Rightarrow> bool" where
  "same_state s s' \<longleftrightarrow> opr_name s' = opr_name s \<and> opr_incarnation s' = opr_incarnation s \<and>
     opr_actor s' = opr_actor s \<and> opr_store s' = opr_store s \<and> opr_repositories s' = opr_repositories s"

interpretation unchanged: run_relation same_state
  by unfold_locales (auto simp: same_state_def)

lemma world_steps_unchanged [runs]:
  "runs_in same_state (on_store m)" "runs_in same_state (on_protocol m')" "runs_in same_state (core_result x)"
  by (auto simp: runs_in_def on_store_def on_protocol_def core_result_def liftS_def same_state_def split: prod.splits)

lemmas unchanged_steps = unchanged.bind unchanged.catch unchanged.pure world_steps_unchanged
  if_keeps option_keeps prod_keeps

lemma find_context_unchanged: "runs_in same_state (find_context r message)"
  unfolding find_context_def by (intro unchanged_steps)

lemma own_selection_unchanged: "runs_in same_state (own_selection c i)"
  unfolding own_selection_def by (intro unchanged_steps)

lemma in_quarantine_unchanged:
  "(\<And>q. runs_in same_state (body q)) \<Longrightarrow> runs_in same_state (in_quarantine host repo body)"
  unfolding in_quarantine_def by (intro unchanged_steps)

lemma commit_and_export_unchanged:
  "runs_in same_state (commit_and_export E host c a previous t head prerequisites q)"
  unfolding commit_and_export_def by (intro unchanged_steps own_selection_unchanged)

lemma publish_commit_unchanged: "runs_in same_state (publish_commit E host repository message parent)"
  unfolding publish_commit_def publish_commit_in_def Let_def
  by (intro unchanged_steps find_context_unchanged in_quarantine_unchanged commit_and_export_unchanged)

lemma publish_target_unchanged: "runs_in same_state (publish_target E host repository target)"
  unfolding publish_target_def publish_target_in_def Let_def
  by (intro unchanged_steps find_context_unchanged in_quarantine_unchanged commit_and_export_unchanged)

lemma apply_request_unchanged: "runs_in same_state (apply_request E host x)"
  unfolding apply_request_def apply_in_def
  by (intro unchanged_steps find_context_unchanged own_selection_unchanged)

lemma fsck_request_unchanged: "runs_in same_state (fsck_request E host repository)"
  unfolding fsck_request_def by (intro unchanged_steps find_context_unchanged)

lemma identity_request_unchanged: "runs_in same_state (identity_request E)"
  unfolding identity_request_def by (intro unchanged_steps)

section \<open>What initialization files\<close>

definition returns :: "('a \<Rightarrow> bool) \<Rightarrow> ('s, 'e, 'a) io \<Rightarrow> bool" where
  "returns Q m \<longleftrightarrow> (\<forall>s x s'. m s = (Inr x, s') \<longrightarrow> Q x)"

lemma returns_bind: "(\<And>x. returns Q (f x)) \<Longrightarrow> returns Q (bindS m f)"
  unfolding returns_def bindS_Inr_iff by blast

lemma returns_ok: "Q x \<Longrightarrow> returns Q (okS x)"
  by (simp add: returns_def okS_def)

lemma returns_fail: "returns Q (failS e)"
  by (simp add: returns_def failS_def)

lemma returns_if: "(b \<Longrightarrow> returns Q m) \<Longrightarrow> (\<not> b \<Longrightarrow> returns Q m') \<Longrightarrow> returns Q (if b then m else m')"
  by simp

lemma store_open_id: "returns (\<lambda>repo. repo_id repo = r) (store_open E host st r)"
  unfolding store_open_def Let_def by (intro returns_bind returns_if returns_ok returns_fail) simp_all

lemma store_create_id: "returns (\<lambda>repo. repo_id repo = r) (store_create E host st r f)"
  unfolding store_create_def Let_def by (intro returns_bind returns_if store_open_id)

lemma accept_binding_selected: "accept_binding E entry = Inr (i, sel) \<Longrightarrow> sel_identity sel = i"
  by (cases entry) (auto simp: accept_binding_def bindE_Inr_iff map_err_Inr_iff binding_selection_Inr_iff
      selects_def split: if_splits)

lemma accepted_bindings:
  assumes "collect_ok (accept_binding E) entries = Inr kvs" "btree_get (btree_of_list kvs) i = Some sel"
  shows "sel_identity sel = i"
proof -
  have "(i, sel) \<in> set kvs"
    using assms(2) by (auto simp: btree_get_of_list dest: map_of_SomeD)
  then show ?thesis
    using assms(1) by (auto simp: collect_ok_Inr_iff in_set_conv_nth list_all2_conv_all_nth
        dest!: accept_binding_selected)
qed

text \<open>What \<open>initialize\<close> does: the context it files is new, or was there already.\<close>

definition fresh_context :: "('z) identity_env_scheme \<Rightarrow> repository_id \<Rightarrow> repository_context \<Rightarrow> bool" where
  "fresh_context E r c \<longleftrightarrow> context_ok E r c \<and> rc_canonical c = None"

lemma initialize_files:
  assumes "initialize E host bindings threshold s = (res, s')"
  shows "same_state s s' \<or>
    (\<exists>r c w. btree_get (opr_repositories s) r = None \<and> fresh_context E r c \<and>
       s' = s\<lparr>opr_world := w, opr_repositories := btree_insert r c (opr_repositories s)\<rparr>)"
proof (cases "collect_ok (accept_binding E) bindings")
  case (Inl e)
  then show ?thesis
    using assms unchanged.refl by (auto simp: initialize_def bindS_def liftS_def)
next
  case (Inr kvs)
  define bs where "bs = btree_of_list kvs"
  show ?thesis
  proof (cases "\<exists>d r repo w. document_new ''functional-fixture'' ''isolated multi-operator scenario'' ''main'' Public
      (map fst bs) threshold = Inr d \<and> document_repository_id E d = Inr r \<and>
      store_create E host (opr_store s) r Sha256 (opr_world s) = (Inr repo, w)")
    case False
    then show ?thesis
      using assms Inr unchanged.refl
      by (auto simp: initialize_def bindS_def liftS_def core_result_def getS_def on_store_def same_state_def
          bs_def map_err_Inr_iff split: sum.splits prod.splits)
  next
    case True
    then obtain d r repo w where d: "document_new ''functional-fixture'' ''isolated multi-operator scenario'' ''main''
        Public (map fst bs) threshold = Inr d" and r: "document_repository_id E d = Inr r"
      and repo: "store_create E host (opr_store s) r Sha256 (opr_world s) = (Inr repo, w)" by blast
    let ?c = "\<lparr>rc_repository = repo, rc_identity = d, rc_bindings = bs, rc_canonical = None\<rparr>"
    have inv: "btree_invar bs" by (simp add: bs_def)
    have "repo_id repo = r" using store_create_id repo by (fastforce simp: returns_def)
    moreover have "valid_document d" "doc_default_branch d = ''main''" "doc_delegates d = map fst bs"
      using d inv by (auto simp: document_new_Inr_iff btree_invar_def strict_sorted_iff sorted_sort_id)
    moreover have "bindings_ok ?c"
      using accepted_bindings [OF Inr] by (auto simp: bindings_ok_def bs_def)
    ultimately have "fresh_context E r ?c"
      using inv r by (simp add: fresh_context_def context_ok_def default_ref_def main_branch_def)
    moreover have "s' = (case btree_get (opr_repositories s) r of
        Some _ \<Rightarrow> s\<lparr>opr_world := w\<rparr>
      | None \<Rightarrow> s\<lparr>opr_world := w, opr_repositories := btree_insert r ?c (opr_repositories s)\<rparr>)"
      using assms Inr d r repo
      by (auto simp: initialize_def bindS_def liftS_def core_result_def getS_def on_store_def
          set_context_def okS_def bs_def split: option.splits)
    ultimately show ?thesis
      by (cases "btree_get (opr_repositories s) r") (auto simp: same_state_def)
  qed
qed

section \<open>What a state request files\<close>

lemma state_in_cases:
  assumes "state_in E host r c names s = (res, s')"
  obtains "same_state s s'"
  | delegates states publishers w1 decision w2 where
      "gather_states E host (rc_repository c) [] [] delegates (opr_world s) = (Inr (states, publishers), w1)"
      "decision = derive_canonical_head (rc_identity c) states (rc_canonical c)
         (descent_answer E host (rc_repository c) w1)"
      "s' = s\<lparr>opr_world := w2, opr_repositories :=
         btree_insert r (c\<lparr>rc_canonical := next_canonical (rc_canonical c) decision\<rparr>) (opr_repositories s)\<rparr>"
proof (cases "collect_ok (identity_from_hex E) names")
  case (Inl e)
  then show ?thesis
    using assms that(1) by (auto simp: state_in_def bindS_def core_result_def liftS_def unchanged.refl)
next
  case (Inr delegates)
  obtain g w1 where g: "gather_states E host (rc_repository c) [] [] delegates (opr_world s) = (g, w1)"
    by fastforce
  show ?thesis
  proof (cases g)
    case (Inl e)
    then show ?thesis
      using assms Inr g by (intro that(1))
        (auto simp: state_in_def bindS_def core_result_def liftS_def on_store_def same_state_def)
  next
    case g': (Inr p)
    then obtain states publishers where "p = (states, publishers)" by fastforce
    then show ?thesis
      using assms Inr g g' by (intro that(2) [OF _ refl])
        (auto simp: state_in_def bindS_def core_result_def liftS_def on_store_def derive_in_store_def Let_def
          set_context_def okS_def)
  qed
qed

lemma handle_cases:
  assumes "handle E host request s = (res, s')"
  obtains "same_state s s'"
  | r c w where "btree_get (opr_repositories s) r = None" "fresh_context E r c"
      "s' = s\<lparr>opr_world := w, opr_repositories := btree_insert r c (opr_repositories s)\<rparr>"
  | r c v names where "btree_get (opr_repositories s) r = Some c" "request = StateRequest v names"
      "parse_repository E v = Inr r" "state_in E host r c names s = (res, s')"
proof (cases request)
  case (InitializeRequest bindings threshold)
  then show ?thesis
    using assms that(1,2) initialize_files [of E host bindings threshold s res s'] by (auto simp: handle_def)
next
  case (PublishCommitRequest v message parent)
  then show ?thesis
    using assms runs_inD [OF publish_commit_unchanged] by (intro that(1)) (simp add: handle_def)
next
  case (PublishTargetRequest v target)
  then show ?thesis
    using assms runs_inD [OF publish_target_unchanged] by (intro that(1)) (simp add: handle_def)
next
  case (ApplyRequest v)
  then show ?thesis
    using assms runs_inD [OF apply_request_unchanged] by (intro that(1)) (simp add: handle_def)
next
  case (StateRequest v names)
  show ?thesis
  proof (cases "\<exists>r c. parse_repository E v = Inr r \<and> btree_get (opr_repositories s) r = Some c")
    case True
    then obtain r c where "parse_repository E v = Inr r" "btree_get (opr_repositories s) r = Some c" by blast
    then show ?thesis
      using assms StateRequest
      by (intro that(3)) (simp_all add: handle_def state_request_def lift_bind_known find_context_known)
  next
    case False
    then show ?thesis
      using assms StateRequest by (intro that(1))
        (auto simp: handle_def state_request_def bindS_def liftS_def find_context_def getS_def ok_or_def
          unchanged.refl split: sum.splits option.splits)
  qed
next
  case (FsckRequest v)
  then show ?thesis
    using assms runs_inD [OF fsck_request_unchanged] by (intro that(1)) (simp add: handle_def)
next
  case IdentityRequest
  then show ?thesis
    using assms runs_inD [OF identity_request_unchanged] by (intro that(1)) (simp add: handle_def)
next
  case HealthRequest
  show ?thesis
    using assms HealthRequest by (intro that(1)) (simp add: handle_def getS_def unchanged.refl)
next
  case RestartRequest
  show ?thesis
    using assms RestartRequest by (intro that(1)) (simp add: handle_def failS_def unchanged.refl)
qed

lemma operator_ok_insert:
  assumes "operator_ok E s" "context_ok E r c"
  shows "operator_ok E (s\<lparr>opr_world := w, opr_repositories := btree_insert r c (opr_repositories s)\<rparr>)"
  using assms by (auto simp: operator_ok_def btree_invar_insert btree_get_insert)

lemma context_ok_canonical: "context_ok E r c \<Longrightarrow> context_ok E r (c\<lparr>rc_canonical := k\<rparr>)"
  by (simp add: context_ok_def bindings_ok_def)

lemma operator_start_ok: "operator_start E host name seed inc root w = (Inr s, w') \<Longrightarrow> operator_ok E s"
  by (auto simp: operator_start_def operator_ok_def btree_get_def btree.invar_empty split: sum.splits prod.splits)

text \<open>C20: what an operator keeps, whatever it is asked and whatever it answers. Every repository
  stays filed under the identifier of its own identity document, with the document's delegates as
  the accepted signers; no repository is dropped or replaced; and of a known repository only the
  canonical head can change. The operator's name, incarnation, keys and store never change.\<close>

theorem operator_invariant:
  assumes "operator_ok E s" "handle E host request s = (res, s')"
  shows "operator_ok E s' \<and>
    opr_name s' = opr_name s \<and> opr_incarnation s' = opr_incarnation s \<and>
    opr_actor s' = opr_actor s \<and> opr_store s' = opr_store s \<and>
    (\<forall>r c. btree_get (opr_repositories s) r = Some c \<longrightarrow>
       (\<exists>k. btree_get (opr_repositories s') r = Some (c\<lparr>rc_canonical := k\<rparr>)))"
  using assms(2)
proof (cases rule: handle_cases)
  case 1
  have "c = c\<lparr>rc_canonical := rc_canonical c\<rparr>" for c :: repository_context by simp
  then show ?thesis using 1 assms(1) unfolding operator_ok_def same_state_def by metis
next
  case (2 r c w)
  have "c = c\<lparr>rc_canonical := rc_canonical c\<rparr>" for c :: repository_context by simp
  then have "\<exists>k. Some c = Some (c\<lparr>rc_canonical := k\<rparr>)" for c :: repository_context by metis
  then show ?thesis
    using 2 operator_ok_insert [OF assms(1), of r c w] assms(1)
    by (auto simp: fresh_context_def operator_ok_def btree_get_insert)
next
  case (3 r c v names)
  have same: "\<exists>k. Some d = Some (d\<lparr>rc_canonical := k\<rparr>)" for d :: repository_context
    by (rule exI [of _ "rc_canonical d"]) simp
  from 3(4) show ?thesis
  proof (cases rule: state_in_cases)
    case 1
    then show ?thesis using assms(1) same unfolding operator_ok_def same_state_def by metis
  next
    case (2 delegates states publishers w1 decision w2)
    have "context_ok E r c" using assms(1) 3(1) by (simp add: operator_ok_def)
    from operator_ok_insert [OF assms(1) context_ok_canonical [OF this]] show ?thesis
      using 2(3) 3(1) assms(1) same by (auto simp: operator_ok_def btree_get_insert)
  qed
qed

section \<open>When the canonical head moves\<close>

lemma gather_states_stored:
  assumes git: "git_ok host V (repo_path repo)" and "store_consistent E V repo (os w0)" "keeps V (repo_path repo) w0 w"
    and "gather_states E host repo states publishers ds w = (Inr (states', publishers'), w')"
    and "btree_invar states"
    and "\<And>d st. btree_get states d = Some st \<Longrightarrow> map_option snd (stored E V (repo_path repo) (os w0) d) = Some st"
  shows "keeps V (repo_path repo) w0 w' \<and>
    (\<forall>d st. btree_get states' d = Some st \<longrightarrow> map_option snd (stored E V (repo_path repo) (os w0) d) = Some st)"
  using assms(3-6)
proof (induction ds arbitrary: states publishers w)
  case Nil
  then show ?case by (auto simp: okS_iff)
next
  case (Cons d ds)
  obtain x w1 where read: "publisher_state E host repo d w = (Inr x, w1)"
    and rest: "gather_states E host repo (case x of None \<Rightarrow> states | Some st \<Rightarrow> btree_insert d st states)
       (btree_insert (identity_hex E d)
          (map_option (object_hex E) (Option.bind x (\<lambda>st. ref_state_target st main_branch))) publishers) ds w1
       = (Inr (states', publishers'), w')"
    using Cons.prems(2) by (auto simp: bindS_Inr_iff)
  have cons: "publisher_consistent E V repo (os w0) d" using assms(2) by (simp add: store_consistent_def)
  note same = keeps_same_publisher [OF Cons.prems(1), of E d]
  have x: "x = map_option snd (stored E V (repo_path repo) (os w0) d)"
    using publisher_state_Inr [OF git consistent_same [OF same cons] read] stored_same [OF same cons] by simp
  have "keeps V (repo_path repo) w0 w1"
    by (rule kept.trans [OF Cons.prems(1) runs_inD [OF publisher_state_keeps [OF git] read]])
  moreover have "btree_invar (case x of None \<Rightarrow> states | Some st \<Rightarrow> btree_insert d st states)"
    using Cons.prems(3) by (simp add: btree_invar_insert split: option.split)
  moreover have "map_option snd (stored E V (repo_path repo) (os w0) i) = Some st"
    if "btree_get (case x of None \<Rightarrow> states | Some st \<Rightarrow> btree_insert d st states) i = Some st" for i st
  proof (cases "\<exists>y. x = Some y \<and> i = d")
    case True
    then show ?thesis using that Cons.prems(3) x by (auto simp: btree_get_insert)
  next
    case False
    then have "btree_get states i = Some st"
      using that Cons.prems(3) by (cases x) (simp_all add: btree_get_insert)
    then show ?thesis by (rule Cons.prems(4))
  qed
  ultimately show ?case by (rule Cons.IH [OF _ rest])
qed

text \<open>The delegates whose stored state puts the default branch at a commit.\<close>

definition stored_voters ::
  "('z) refs_env_scheme \<Rightarrow> 's views \<Rightarrow> repository_context \<Rightarrow> 's \<Rightarrow> git_object_id \<Rightarrow> styrene_identity set" where
  "stored_voters E V c k h =
     {d \<in> set (doc_delegates (rc_identity c)).
        Option.bind (map_option snd (stored E V (repo_path (rc_repository c)) k d))
          (\<lambda>st. ref_state_target st main_branch) = Some h}"

lemma voters_stored:
  assumes "default_ref (rc_identity c) = main_branch"
    and "\<forall>d st. btree_get states d = Some st \<longrightarrow>
      map_option snd (stored E V (repo_path (rc_repository c)) k d) = Some st"
  shows "card (voters (rc_identity c) states h) \<le> card (stored_voters E V c k h)"
proof (rule card_mono)
  show "voters (rc_identity c) states h \<subseteq> stored_voters E V c k h"
    using assms by (auto simp: voters_def stored_voters_def vote_of_def bind_eq_Some_conv) blast
qed (simp add: stored_voters_def)

lemma next_canonical_moves:
  "next_canonical previous d \<noteq> previous \<Longrightarrow> \<exists>h. d = Advance h \<and> next_canonical previous d = Some h"
  by (auto simp: next_canonical_def split: canonical_decision.splits)

lemma descent_answer_True:
  "descent_answer E host repo w p h \<longleftrightarrow> fst (is_ancestor E host repo p h w) = Inr True"
  by (auto simp: descent_answer_def split: sum.splits)


section \<open>The repository under requests\<close>


end
