(* ===== verification/Operator_Publishing.thy ===== *)
theory Operator_Publishing
  imports Operator_State
begin

text \<open>
  What an operator answers when it publishes: a transfer that any operator which accepted its
  signer binding accepts in turn, and the state it now stores.
\<close>

definition published ::
  "('z) operator_env_scheme \<Rightarrow> 's views \<Rightarrow> repository_context \<Rightarrow> actor \<Rightarrow> control_response \<Rightarrow> 's world \<Rightarrow> bool" where
  "published E V c a response w \<longleftrightarrow>
     (\<exists>head sequence msg x t i st sel.
        response = PublishedResponse (object_hex E head) sequence msg \<and>
        decode_transfer E msg = Inr x \<and> btree_get (rc_bindings c) (actor_id a) = Some sel \<and>
        transfer_authentic E (rc_repository c) x sel operator_max_pack_bytes (ac_binding a) t \<and>
        rtp_refs (rtr_payload t) = [\<lparr>rt_name = main_branch, rt_target = head\<rparr>] \<and>
        stored E V (repo_path (rc_repository c)) (os w) (actor_id a) = Some (i, st) \<and>
        rs_transition st = tm_resulting_transition (tr_manifest x) \<and> rs_sequence st = sequence)"

definition delivers ::
  "('z) operator_env_scheme \<Rightarrow> 's views \<Rightarrow> repository_context \<Rightarrow> actor
     \<Rightarrow> ('s, control_response) operator_io \<Rightarrow> bool" where
  "delivers E V c a m \<longleftrightarrow>
     (\<forall>s response s'. publisher_consistent E V (rc_repository c) (os (opr_world s)) (actor_id a) \<longrightarrow>
        m s = (Inr response, s') \<longrightarrow> published E V c a response (opr_world s'))"

lemma delivers_bind:
  assumes "runs_in (on_world (keeps V (repo_path (rc_repository c)))) m" "\<And>x. delivers E V c a (f x)"
  shows "delivers E V c a (bindS m f)"
  unfolding delivers_def
proof (intro allI impI)
  fix s response s'
  assume w: "publisher_consistent E V (rc_repository c) (os (opr_world s)) (actor_id a)"
    and run: "bindS m f s = (Inr response, s')"
  then obtain x s1 where m: "m s = (Inr x, s1)" and f: "f x s1 = (Inr response, s')"
    by (auto simp: bindS_Inr_iff)
  have "keeps V (repo_path (rc_repository c)) (opr_world s) (opr_world s1)"
    using runs_inD [OF assms(1) m] by (simp add: on_world_def)
  then have "publisher_consistent E V (rc_repository c) (os (opr_world s1)) (actor_id a)"
    by (rule consistent_same [OF keeps_same_publisher w])
  then show "published E V c a response (opr_world s')"
    using assms(2) [of x] f by (auto simp: delivers_def)
qed

lemma delivers_lift: "(\<And>x. r = Inr x \<Longrightarrow> delivers E V c a (f x)) \<Longrightarrow> delivers E V c a (bindS (liftS r) f)"
  by (auto simp: delivers_def bindS_Inr_iff lift_Inr)

lemma delivers_if:
  "(b \<Longrightarrow> delivers E V c a m) \<Longrightarrow> (\<not> b \<Longrightarrow> delivers E V c a m') \<Longrightarrow> delivers E V c a (if b then m else m')"
  by simp

lemma delivers_fail: "delivers E V c a (failS e)"
  by (simp add: delivers_def failS_def)

lemma published_kept:
  assumes "published E V c a response w" "keeps V (repo_path (rc_repository c)) w w'"
  shows "published E V c a response w'"
proof -
  have "stored E V (repo_path (rc_repository c)) (os w') P = Some y"
    if "stored E V (repo_path (rc_repository c)) (os w) P = Some y" for P y
    by (rule stored_mono [OF keeps_same_publisher [OF assms(2)] that])
  then show ?thesis using assms(1) unfolding published_def by blast
qed

lemma delivers_in_quarantine:
  assumes git: "git_ok host V (repo_path (rc_repository c))"
    and body: "\<And>q. q_repository q = rc_repository c \<Longrightarrow> delivers E V c a (body q)"
  shows "delivers E V c a (in_quarantine host (rc_repository c) body)"
  unfolding delivers_def
proof (intro allI impI)
  fix s response s'
  assume w: "publisher_consistent E V (rc_repository c) (os (opr_world s)) (actor_id a)"
    and run: "in_quarantine host (rc_repository c) body s = (Inr response, s')"
  then obtain q s1 where q: "on_store (begin_quarantine host (rc_repository c)) s = (Inr q, s1)"
    and rest: "catchS (body q) (\<lambda>r. bindS (on_store (drop_quarantine host q)) (\<lambda>_. liftS r)) s1 = (Inr response, s')"
    by (auto simp: in_quarantine_def bindS_Inr_iff)
  obtain r s2 where b: "body q s1 = (r, s2)" by fastforce
  then have drop: "r = Inr response" "\<exists>u. on_store (drop_quarantine host q) s2 = (Inr u, s')"
    using rest by (auto simp: catchS_def bindS_Inr_iff lift_Inr)
  have q': "q_repository q = rc_repository c" "prefix (repo_path (rc_repository c) @ [''q'']) (q_path q)"
    using q begin_quarantine_Inr [of host "rc_repository c" "opr_world s" q] by (auto simp: on_store_Inr)
  have "keeps V (repo_path (rc_repository c)) (opr_world s) (opr_world s1)"
    using runs_inD [OF on_store_runs [OF begin_quarantine_keeps [OF git]] q] by (simp add: on_world_def)
  then have "publisher_consistent E V (rc_repository c) (os (opr_world s1)) (actor_id a)"
    by (rule consistent_same [OF keeps_same_publisher w])
  then have p: "published E V c a response (opr_world s2)"
    using body [OF q'(1)] b drop(1) by (auto simp: delivers_def)
  have "keeps V (repo_path (rc_repository c)) (opr_world s2) (opr_world s')"
    using drop(2) runs_inD [OF on_store_runs [OF drop_quarantine_keeps [OF git q'(2)]]] by (auto simp: on_world_def)
  then show "published E V c a response (opr_world s')" by (rule published_kept [OF p])
qed

section \<open>The transfer\<close>

lemma export_pack_bounded:
  "export_pack E host repo wants prerequisites limit w = (Inr out, w') \<Longrightarrow> of_nat (length out) \<le> limit"
  by (auto simp: export_pack_def bindS_Inr_iff word_le_nat_alt unat_of_nat
      intro: order_trans [OF mod_less_eq_dividend] dest!: git_run_bounded_length)

lemma exported_authentic:
  assumes "codec_ok (binding_codec E)"
    and "export_transfer E host repo signer t previous wants objects limit w = (Inr x, w')"
  shows "transfer_authentic E repo x (sa_selected signer) limit (sa_binding signer) t"
proof -
  obtain st payload w1 where v: "ref_transition_verify E t (repo_id repo) (sa_binding signer) (sa_selected signer) previous = Inr st"
    and p: "export_pack E host repo wants objects limit w = (Inr payload, w1)"
    and x: "transfer_new E (repo_id repo) (sa_binding signer) t (map_option rs_transition previous) objects payload = Inr x"
    using assms(2)
    by (auto simp: export_transfer_def bindS_Inr_iff pure_step_def liftS_iff map_err_Inr_iff store_step_Inr
        protocol_core_def dest!: sym [of "Inr _"])
  have "binding_authentic E (sa_binding signer)" "selects (sa_binding signer) (sa_selected signer)"
    using v by (auto simp: ref_transition_verify_def bindE_Inr_iff binding_verify_selected_Inr_iff)
  then show ?thesis
    using transfer_new_is_authentic [OF assms(1) x _ _ export_pack_bounded [OF p]] by blast
qed

lemma decode_encoded:
  assumes "hex_ok E" "codec_ok (transfer_codec E)" "encode_transfer E x = Inr msg"
  shows "decode_transfer E msg = Inr x"
proof -
  obtain bs where "canonical_bytes (transfer_codec E) x = Inr bs" "msg = hex_encode E bs"
    using assms(3) by (auto simp: encode_transfer_def results)
  then show ?thesis
    using assms(1) canonical_bytes_iff [OF assms(2)]
    by (simp add: decode_transfer_def hex_ok_def map_err_Inr_iff)
qed

lemma delivers_commit_and_export:
  assumes env: "serving E host V c" "codec_ok (transfer_codec E)"
    and t: "rtp_refs (rtr_payload t) = [\<lparr>rt_name = main_branch, rt_target = head\<rparr>]" "plain_names t"
  shows "delivers E V c a (commit_and_export E host c a previous t head prerequisites q)"
  unfolding delivers_def
proof (intro allI impI)
  fix s response s'
  let ?p = "repo_path (rc_repository c)"
  assume w: "publisher_consistent E V (rc_repository c) (os (opr_world s)) (actor_id a)"
    and run: "commit_and_export E host c a previous t head prerequisites q s = (Inr response, s')"
  obtain sel outcome w1 x w2 msg where sel: "btree_get (rc_bindings c) (actor_id a) = Some sel"
    and commit: "commit E host (rc_repository c) q t (ac_binding a) sel (opr_world s) = (Inr outcome, w1)"
    and export: "export_transfer E host (rc_repository c) \<lparr>sa_binding = ac_binding a, sa_selected = sel\<rparr>
        t previous [head] prerequisites operator_max_pack_bytes w1 = (Inr x, w2)"
    and msg: "encode_transfer E x = Inr msg" and w2: "opr_world s' = w2"
    and response: "response = PublishedResponse (object_hex E head) (rs_sequence (outcome_state outcome)) msg"
    using run by (auto simp: commit_and_export_def own_selection_def bindS_Inr_iff lift_Inr on_store_Inr
        on_protocol_Inr ok_or_Inr_iff okS_iff)
  have i: "sel_identity sel = actor_id a" and laws: "hex_ok E" "base32_ok E" "refs_codecs_ok E"
    "git_ok host V ?p" "codec_ok (binding_codec E)"
    using env(1) sel by (simp_all add: serving_def bindings_ok_def)
  obtain j where answer: "transition_id E t = Inr (rs_transition (outcome_state outcome))"
    "stored E V ?p (os w1) (actor_id a) = Some (j, outcome_state outcome)"
    using commit_answer [OF laws(1-4) t(2) _ commit] w i by auto
  have authentic: "transfer_authentic E (rc_repository c) x sel operator_max_pack_bytes (ac_binding a) t"
    using exported_authentic [OF laws(5) export] by simp
  have "keeps V ?p w1 w2" by (rule runs_inD [OF export_transfer_keeps [OF laws(4)] export])
  from stored_mono [OF keeps_same_publisher [OF this] answer(2)]
  have "stored E V ?p (os (opr_world s')) (actor_id a) = Some (j, outcome_state outcome)" by (simp add: w2)
  then show "published E V c a response (opr_world s')"
    using response decode_encoded [OF laws(1) env(2) msg] sel authentic t(1) answer(1)
    unfolding published_def transfer_authentic_def by auto
qed

section \<open>Publishing\<close>

lemma publish_target_delivers:
  assumes "serving E host V c" "codec_ok (transfer_codec E)"
  shows "delivers E V c a (publish_target_in E host r c a target)"
proof -
  have git: "git_ok host V (repo_path (rc_repository c))" using assms(1) by (simp add: serving_def)
  show ?thesis
    unfolding publish_target_in_def Let_def core_result_def
    using assms
    by (intro delivers_lift delivers_bind on_store_runs has_object_keeps publisher_state_keeps git
        delivers_if delivers_fail delivers_in_quarantine [OF git] delivers_commit_and_export)
      (auto dest: signed_transition_refs signed_transition_plain)
qed

lemma publish_commit_delivers:
  assumes "serving E host V c" "codec_ok (transfer_codec E)"
  shows "delivers E V c a (publish_commit_in E host r c a name message parent)"
proof -
  have git: "git_ok host V (repo_path (rc_repository c))" using assms(1) by (simp add: serving_def)
  have body: "delivers E V c a
      (bindS (on_store (write_verified_object E host q ''tree'' [] tree)) (\<lambda>_.
       bindS (on_store (write_verified_object E host q ''commit'' content head)) (\<lambda>_.
       bindS (liftS (signed_transition E r a previous head)) (\<lambda>t.
       commit_and_export E host c a previous t head prerequisites q))))"
    if "q_repository q = rc_repository c" for q tree content head previous prerequisites
    using assms that write_verified_object_keeps [of host V q E] git
    by (intro delivers_bind on_store_runs delivers_lift delivers_commit_and_export)
      (auto dest: signed_transition_refs signed_transition_plain)
  have parent: "runs_in (on_world (keeps V (repo_path (rc_repository c))))
      (case p of None \<Rightarrow> okS () | Some p \<Rightarrow> bindS (on_store (has_object E host (rc_repository c) p)) (\<lambda>present.
         if \<not> present then failS (OperatorText ''commit parent is not present'') else okS ()))" for p
    by (intro option_keeps world_keep.pure world_keep.bind on_store_runs has_object_keeps git if_keeps)
  show ?thesis
    unfolding publish_commit_in_def Let_def core_result_def
    by (intro delivers_lift delivers_bind parent on_store_runs publisher_state_keeps object_id_keeps git
        delivers_in_quarantine [OF git] body)
qed


end
