(* ===== verification/Operator_Network.thy ===== *)
theory Operator_Network
  imports Operator_Publishing
begin

text \<open>
  Two operators on two hosts: what one publishes and the other applies.
\<close>

lemma apply_in_applied:
  assumes "apply_in E host c x s = (Inr (AppliedResponse label publisher n), s')"
  obtains sel outcome st where "btree_get (rc_bindings c) (tm_publisher (tr_manifest x)) = Some sel"
    and "apply_transfer E host (rc_repository c) x sel operator_max_pack_bytes (opr_world s) = (Inr outcome, opr_world s')"
    and "outcome = TransferApplied st \<and> label = ''applied'' \<or> outcome = TransferPresent st \<and> label = ''already_present''"
    and "publisher = identity_hex E (rs_publisher st)" "n = rs_sequence st"
proof -
  obtain sel s1 outcome w where sel: "own_selection c (tm_publisher (tr_manifest x)) s = (Inr sel, s1)"
    and run: "apply_transfer E host (rc_repository c) x sel operator_max_pack_bytes (opr_world s1) = (Inr outcome, w)"
    and s': "s' = s1\<lparr>opr_world := w\<rparr>"
    and answer: "AppliedResponse label publisher n = (case outcome of
            TransferApplied state \<Rightarrow>
              AppliedResponse ''applied'' (identity_hex E (rs_publisher state)) (rs_sequence state)
          | TransferPresent state \<Rightarrow>
              AppliedResponse ''already_present'' (identity_hex E (rs_publisher state)) (rs_sequence state)
          | MissingPrerequisites missing \<Rightarrow> MissingResponse (map (prerequisite_text E) missing))"
    using assms by (auto simp: apply_in_def bindS_Inr_iff on_protocol_Inr okS_iff)
  have "s1 = s" "btree_get (rc_bindings c) (tm_publisher (tr_manifest x)) = Some sel"
    using sel by (auto simp: own_selection_def lift_Inr ok_or_Inr_iff)
  then show ?thesis
    using that run s' answer by (cases outcome) auto
qed


end
