(* ===== verification/Operator_Witnesses.thy ===== *)
theory Operator_Witnesses
  imports Operator_Network Store_Witnesses Ipc_Instances
begin

text \<open>
  Witnesses for the operator's properties: an operator of one repository on the sample Git host
  publishes a target, and is then asked for the repository's state.
\<close>

section \<open>The environment\<close>

definition s_prerequisite :: "prerequisite serial" where
  "s_prerequisite = via (\<lambda>p. case p of PublisherTransition d \<Rightarrow> Inl d | ObjectPresent x \<Rightarrow> Inr x)
     (\<lambda>x. case x of Inl d \<Rightarrow> PublisherTransition d | Inr x \<Rightarrow> ObjectPresent x) (s_sum s_digest s_object)"

definition s_payload :: "payload_descriptor serial" where
  "s_payload = via (\<lambda>p. (pd_length p, pd_digest p))
     (\<lambda>(a, b). \<lparr>pd_kind = GitPack, pd_length = a, pd_digest = b\<rparr>) (s_pair s_word s_digest)"

definition s_manifest :: "transfer_manifest serial" where
  "s_manifest = via
     (\<lambda>m. (tm_version m, tm_repository m, tm_publisher m, tm_prerequisites m, tm_resulting_transition m,
           tm_binding_digest m, tm_transition_digest m, tm_payload m))
     (\<lambda>(a, b, c, d, e, f, g, h). \<lparr>tm_version = a, tm_repository = b, tm_publisher = c,
        tm_prerequisites = d, tm_resulting_transition = e, tm_binding_digest = f,
        tm_transition_digest = g, tm_payload = h\<rparr>)
     (s_pair s_word (s_pair s_repository (s_pair s_identity (s_pair (s_list s_prerequisite)
       (s_pair s_digest (s_pair s_digest (s_pair s_digest s_payload)))))))"

definition s_transfer :: "transfer serial" where
  "s_transfer = via (\<lambda>x. (tr_manifest x, tr_binding x, tr_transition x, tr_payload x))
     (\<lambda>(a, b, c, d). \<lparr>tr_manifest = a, tr_binding = b, tr_transition = c, tr_payload = d\<rparr>)
     (s_pair s_manifest (s_pair (s_list s_word) (s_pair (s_list s_word) (s_list s_word))))"

lemma s_prerequisite_ok [serials]: "serial_ok s_prerequisite"
  unfolding s_prerequisite_def by (intro serials) (simp split: prerequisite.split)

lemma s_payload_ok [serials]: "serial_ok s_payload"
proof -
  have "GitPack = pd_kind p" for p :: payload_descriptor by (cases "pd_kind p") simp
  then show ?thesis unfolding s_payload_def by (intro serials) simp
qed

lemma s_manifest_ok [serials]: "serial_ok s_manifest"
  unfolding s_manifest_def by (intro serials) simp

lemma s_transfer_ok [serials]: "serial_ok s_transfer"
  unfolding s_transfer_def by (intro serials) simp

definition demo_sample :: operator_env where
  "demo_sample = refs_env.extend sample
     \<lparr>transfer_codec = codec_of s_transfer, request_of_json = \<lambda>_. Inr HealthRequest,
      json_of_response = \<lambda>_. Inr [],
      operator_error_text = \<lambda>_. [], prerequisite_text = \<lambda>_. [], restart_failure = []\<rparr>"

lemma demo_sample_codec_ok: "codec_ok (transfer_codec demo_sample)"
  by (simp add: demo_sample_def refs_env.defs codec_of_ok serials)

lemma demo_sample_ok:
  "hex_ok demo_sample" "base32_ok demo_sample" "refs_codecs_ok demo_sample" "identity_codecs_ok demo_sample"
  "signatures_ok demo_sample"
  using sample_ok
  by (simp_all add: hex_ok_def base32_ok_def refs_codecs_ok_def identity_codecs_ok_def signatures_ok_def
      demo_sample_def refs_env.defs)

lemma demo_sample_binding_codec: "codec_ok (binding_codec demo_sample)"
  using demo_sample_ok(4) by (simp add: identity_codecs_ok_def)

lemma demo_sample_hex: "object_hex demo_sample = object_hex sample" "object_id_hex demo_sample = object_id_hex sample"
  by (simp_all add: fun_eq_iff object_hex_def object_id_hex_def demo_sample_def refs_env.defs)

section \<open>The operator\<close>

definition demo_actor :: actor where
  "demo_actor = projr (actor_seeded demo_sample 1)"

lemma demo_actor_made: "actor_seeded demo_sample 1 = Inr demo_actor"
proof -
  have "codec_ok (binding_payload_codec demo_sample)"
    using demo_sample_ok(4) by (simp add: identity_codecs_ok_def)
  from binding_issue_total [OF this] show ?thesis
    by (auto simp: demo_actor_def actor_seeded_def Let_def) (metis (no_types) bindE.simps(2) map_err.simps(2) sum.sel(2))
qed

lemma demo_actor_facts:
  "binding_authentic demo_sample (ac_binding demo_actor)"
  "public_key_of demo_sample (ac_repository_key demo_actor) = binding_repository_key (ac_binding demo_actor)"
proof -
  obtain b where b: "binding_issue demo_sample (repeat_byte 1) (PublicKey (ed_verifying_key demo_sample (repeat_byte 101))) 0 = Inr b"
    "demo_actor = \<lparr>ac_repository_key = repeat_byte 101, ac_binding = b\<rparr>"
    using demo_actor_made by (auto simp: actor_seeded_def Let_def bindE_Inr_iff map_err_Inr_iff)
  note f = binding_issue_authentic [OF demo_sample_ok(5) b(1)]
  have actor: "ac_binding demo_actor = b" "ac_repository_key demo_actor = repeat_byte 101" by (simp_all add: b(2))
  show "binding_authentic demo_sample (ac_binding demo_actor)" unfolding actor by (rule f(1))
  show "public_key_of demo_sample (ac_repository_key demo_actor) = binding_repository_key (ac_binding demo_actor)"
    unfolding actor f(3) by (simp add: public_key_of_def)
qed

abbreviation demo_id :: styrene_identity where
  "demo_id \<equiv> actor_id demo_actor"

definition demo_selection :: signer_selection where
  "demo_selection = \<lparr>sel_identity = demo_id, sel_repository_key = binding_repository_key (ac_binding demo_actor),
     sel_key_epoch = binding_key_epoch (ac_binding demo_actor)\<rparr>"

lemma demo_selects: "selects (ac_binding demo_actor) demo_selection"
  by (simp add: selects_def demo_selection_def actor_id_def)

definition demo_document :: identity_document where
  "demo_document = \<lparr>doc_version = 1, doc_name = ''demo'', doc_description = [], doc_default_branch = ''main'',
     doc_visibility = Public, doc_delegates = [demo_id], doc_threshold = 1\<rparr>"

definition demo_repository :: repository_id where
  "demo_repository = projr (document_repository_id demo_sample demo_document)"

lemma demo_document_ok: "valid_document demo_document" "document_repository_id demo_sample demo_document = Inr demo_repository"
proof -
  have "valid_branch_name ''main''" by code_simp
  then show "valid_document demo_document" by (simp add: valid_document_def demo_document_def)
  then have "document_validate demo_document = Inr ()" by (simp add: results)
  moreover have "codec_ok (document_codec demo_sample)"
    using demo_sample_ok(4) by (simp add: identity_codecs_ok_def)
  ultimately show "document_repository_id demo_sample demo_document = Inr demo_repository"
    using canonical_bytes_total [of "document_codec demo_sample" demo_document]
    by (auto simp: demo_repository_def document_repository_id_def)
qed

definition demo_repo :: repository where
  "demo_repo = \<lparr>repo_id = demo_repository, repo_path = [''demo.git''], repo_format = LegacySha1\<rparr>"

definition demo_context :: repository_context where
  "demo_context = \<lparr>rc_repository = demo_repo, rc_identity = demo_document,
     rc_bindings = [(demo_id, demo_selection)], rc_canonical = None\<rparr>"

definition demo_empty :: "git_state operator" where
  "demo_empty = \<lparr>opr_name = ''a'', opr_incarnation = ''1'', opr_actor = demo_actor, opr_store = \<lparr>store_root = []\<rparr>,
     opr_repositories = [(demo_repository, demo_context)], opr_world = empty_world\<rparr>"

lemma demo_context_ok: "context_ok demo_sample demo_repository demo_context"
  using demo_document_ok
  by (simp add: context_ok_def demo_context_def demo_repo_def bindings_ok_def btree_get_def btree_invar_def
      demo_selection_def default_ref_def main_branch_def) (simp add: demo_document_def)

lemma demo_empty_ok: "operator_ok demo_sample demo_empty"
  using demo_context_ok by (simp add: operator_ok_def demo_empty_def btree_get_def btree_invar_def)

lemma demo_empty_facts:
  "btree_get (opr_repositories demo_empty) demo_repository = Some demo_context" "rc_repository demo_context = demo_repo"
  "repo_path demo_repo = [''demo.git'']" "opr_actor demo_empty = demo_actor" "opr_world demo_empty = empty_world"
  by (simp_all add: demo_empty_def btree_get_def demo_context_def demo_repo_def)

lemma demo_empty_consistent: "store_consistent demo_sample git_views demo_repo (os empty_world)"
  by (simp add: store_consistent_def publisher_consistent_def Let_def mirrors_def empty_world_def
      word_refs_def ref_targets_def)

abbreviation demo_text :: string where
  "demo_text \<equiv> repository_to_string demo_sample demo_repository"

lemma demo_text_parsed: "parse_repository demo_sample demo_text = Inr demo_repository"
  by (simp add: parse_repository_def repository_from_str_to_string [OF demo_sample_ok(2)])

section \<open>Publishing\<close>

definition demo_head :: git_object_id where
  "demo_head = sample_object 1"

definition demo_transition :: ref_transition where
  "demo_transition = projr (signed_transition demo_sample demo_repository demo_actor None demo_head)"

definition demo_state :: ref_state where
  "demo_state = projr (ref_transition_verify demo_sample demo_transition demo_repository (ac_binding demo_actor) demo_selection None)"

lemma demo_signed:
  "ref_transition_signed demo_sample demo_repository (ac_binding demo_actor) (ac_repository_key demo_actor) None
     [\<lparr>rt_name = main_branch, rt_target = demo_head\<rparr>] = Inr demo_transition"
proof -
  have "valid_ref_name main_branch" unfolding main_branch_def by code_simp
  then have "valid_refs (sort_key rt_name [\<lparr>rt_name = main_branch, rt_target = demo_head\<rparr>])"
    by (simp add: valid_refs_def demo_head_def)
  moreover have "next_position None = Inr (None, 0)" by (simp add: next_position_def)
  ultimately have "\<exists>t. ref_transition_signed demo_sample demo_repository (ac_binding demo_actor) (ac_repository_key demo_actor) None
     [\<lparr>rt_name = main_branch, rt_target = demo_head\<rparr>] = Inr t"
    by (rule ref_transition_signed_total [OF demo_sample_ok(3) demo_actor_facts])
  then show ?thesis by (auto simp: demo_transition_def signed_transition_def)
qed

lemma demo_state_ok:
  "ref_transition_verify demo_sample demo_transition demo_repository (ac_binding demo_actor) demo_selection None = Inr demo_state"
  "rs_refs demo_state = [\<lparr>rt_name = main_branch, rt_target = demo_head\<rparr>]"
  using signed_accepted [OF demo_sample_ok(5,3) demo_selects demo_signed] by (auto simp: demo_state_def)

lemma demo_first_commit: "first_commit demo_sample demo_repo demo_transition (ac_binding demo_actor) demo_selection demo_state"
proof -
  have "sample_target demo_sample demo_head"
    using sample_two(1) by (simp add: sample_target_def demo_head_def demo_sample_hex)
  moreover have "line_word main_branch" by (simp add: main_branch_def line_word_def)
  ultimately show ?thesis
    using demo_sample_ok demo_actor_facts(1) demo_selects demo_state_ok
    by (simp add: first_commit_def demo_repo_def plain_refs_def sample_target_def)
qed

lemma demo_plain: "plain_names demo_transition"
  by (rule signed_transition_plain [where E = demo_sample and r = demo_repository and a = demo_actor and previous = None
        and target = demo_head]) (simp add: signed_transition_def demo_signed)

definition demo_transfer :: transfer where
  "demo_transfer = projr (transfer_new demo_sample demo_repository (ac_binding demo_actor) demo_transition None [demo_head] [])"

lemma demo_transfer_made:
  "transfer_new demo_sample (repo_id demo_repo) (ac_binding demo_actor) demo_transition None [demo_head] [] = Inr demo_transfer"
proof -
  have "repo_id demo_repo = demo_repository" by (simp add: demo_repo_def)
  then show ?thesis
    using transfer_new_total [OF demo_sample_ok(3) demo_sample_binding_codec] by (metis demo_transfer_def sum.sel(2))
qed

definition demo_text_of_transfer :: string where
  "demo_text_of_transfer = projr (encode_transfer demo_sample demo_transfer)"

lemma demo_encoded: "encode_transfer demo_sample demo_transfer = Inr demo_text_of_transfer"
  using canonical_bytes_total [OF demo_sample_codec_ok, of demo_transfer]
  by (auto simp: demo_text_of_transfer_def encode_transfer_def)

lemma demo_export:
  "export_transfer demo_sample sample_host demo_repo \<lparr>sa_binding = ac_binding demo_actor, sa_selected = demo_selection\<rparr>
     demo_transition None [demo_head] [demo_head] operator_max_pack_bytes w = (Inr demo_transfer, w)"
proof -
  have h: "object_validate demo_head = Inr ()" "algorithm demo_head = ''sha1''"
    using sample_two(1) by (simp_all add: sample_target_def demo_head_def)
  then have "require_object_format demo_repo demo_head = Inr ()"
    by (simp add: require_object_format_def demo_repo_def format_name_def)
  then have lines: "\<exists>ls. revision_lines demo_sample demo_repo mark [demo_head] = Inr ls" for mark by simp
  have "sample_git [''pack-objects'', ''--stdout'', ''--revs''] i (os w) = (Git_Exit True [] [], os w)" for i
    by (simp add: sample_git_def)
  then have run: "git_run_bounded sample_host p [''pack-objects'', ''--stdout'', ''--revs''] i n w = (Inr [], w)" for p i n
    by (simp add: git_run_bounded_def)
  obtain wanted excluded where "revision_lines demo_sample demo_repo [] [demo_head] = Inr wanted"
    "revision_lines demo_sample demo_repo ''^'' [demo_head] = Inr excluded" using lines by blast
  then have "export_pack demo_sample sample_host demo_repo [demo_head] [demo_head] operator_max_pack_bytes w = (Inr [], w)"
    by (simp add: export_pack_def bindS_def liftS_def run del: revision_lines.simps)
  moreover have "repo_id demo_repo = demo_repository" by (simp add: demo_repo_def)
  ultimately show ?thesis
    using demo_transfer_made demo_state_ok(1)
    by (simp add: export_transfer_def bindS_def pure_step_def liftS_def store_step_def errS_def protocol_core_def)
qed

abbreviation demo_publish :: control_request where
  "demo_publish \<equiv> PublishTargetRequest demo_text (object_hex demo_sample demo_head)"

abbreviation demo_response :: control_response where
  "demo_response \<equiv> PublishedResponse (object_hex demo_sample demo_head) (rs_sequence demo_state) demo_text_of_transfer"

lemma demo_published:
  "\<exists>s'. handle demo_sample sample_host demo_publish demo_empty = (Inr demo_response, s') \<and>
     (\<exists>i. stored demo_sample git_views [''demo.git''] (os (opr_world s')) demo_id = Some (i, demo_state))"
proof -
  define q where "q = fresh_quarantine demo_repo empty_world"
  let ?w = "empty_world\<lparr>quarantine_sequence := quarantine_sequence empty_world + 1\<rparr>"
  have "\<forall>r. word_refs (os ?w) r = None" using empty_world_refs by simp
  then obtain w1 where commit: "commit demo_sample sample_host demo_repo q demo_transition
      (ac_binding demo_actor) demo_selection ?w = (Inr (Applied demo_state), w1)"
    using first_committed [OF demo_first_commit, of ?w q] by (auto simp: demo_repo_def q_def)
  have begun: "begin_quarantine sample_host demo_repo empty_world = (Inr q, ?w)"
    unfolding q_def by (rule sample_begin)
  have selection: "btree_get (rc_bindings demo_context) demo_id = Some demo_selection"
    by (simp add: demo_context_def btree_get_def)
  have "commit_and_export demo_sample sample_host demo_context demo_actor None demo_transition demo_head [demo_head]
      q (demo_empty\<lparr>opr_world := ?w\<rparr>) =
      (Inr demo_response, demo_empty\<lparr>opr_world := w1\<rparr>)"
    by (simp add: commit_and_export_def own_selection_def bindS_def liftS_def selection ok_or_def on_store_def
        on_protocol_def demo_empty_facts commit demo_export demo_encoded okS_def outcome_state_def)
  moreover have "object_from_hex demo_sample ''sha1'' (object_hex demo_sample demo_head) = Inr demo_head"
    using object_from_hex_hex [OF demo_sample_ok(1), of demo_head] sample_two(1)
    by (simp add: sample_target_def demo_head_def)
  moreover have "has_object demo_sample sample_host demo_repo demo_head empty_world = (Inr True, empty_world)"
    by (rule sample_has_object)
      (use sample_two(1) in \<open>simp_all add: sample_target_def demo_head_def demo_sample_hex demo_repo_def\<close>)
  moreover have "publisher_state demo_sample sample_host demo_repo demo_id empty_world = (Inr None, empty_world)"
    using empty_world_refs by (simp add: publisher_state_absent)
  moreover have "repo_format demo_repo = LegacySha1" by (simp add: demo_repo_def)
  moreover have "signed_transition demo_sample demo_repository demo_actor None demo_head = Inr demo_transition"
    by (simp add: signed_transition_def demo_signed)
  ultimately have "publish_target_in demo_sample sample_host demo_repository demo_context demo_actor
      (object_hex demo_sample demo_head) demo_empty =
      (Inr demo_response, demo_empty\<lparr>opr_world := w1\<rparr>)"
    by (simp add: publish_target_in_def Let_def demo_empty_facts core_result_def
        bindS_def on_store_def liftS_def format_name_def in_quarantine_def begun catchS_def sample_drop)
  then have "handle demo_sample sample_host demo_publish demo_empty =
      (Inr demo_response, demo_empty\<lparr>opr_world := w1\<rparr>)"
    by (simp add: handle_def publish_target_def lift_bind_known [OF demo_text_parsed] getS_bind
        find_context_known [OF demo_empty_facts(1)] demo_empty_facts)
  moreover have "\<exists>i. stored demo_sample git_views [''demo.git''] (os w1) demo_id = Some (i, demo_state)"
    using commit_answer [OF demo_sample_ok(1-3) sample_git_ok demo_plain _ commit] demo_empty_consistent
    by (auto simp: store_consistent_def demo_selection_def outcome_state_def demo_repo_def)
  ultimately show ?thesis by (auto simp: demo_empty_facts)
qed

definition demo_after :: "git_state operator" where
  "demo_after = snd (handle demo_sample sample_host demo_publish demo_empty)"

lemma demo_after:
  "handle demo_sample sample_host demo_publish demo_empty = (Inr demo_response, demo_after)"
  "\<exists>i. stored demo_sample git_views [''demo.git''] (os (opr_world demo_after)) demo_id = Some (i, demo_state)"
  using demo_published by (auto simp: demo_after_def)

lemma demo_request:
  "request_repository demo_sample demo_publish = Some demo_repository"
  "request_publisher demo_sample demo_actor demo_publish = Some demo_id" "plain_request demo_sample demo_publish"
  by (simp_all add: request_repository_def request_publisher_def plain_request_def demo_text_parsed)

lemma demo_serving: "serving demo_sample sample_host git_views demo_context"
  using demo_sample_ok demo_sample_binding_codec sample_git_ok demo_context_ok by (simp add: serving_def context_ok_def)

lemma demo_after_same: "same_state demo_empty demo_after"
proof -
  obtain response where "publish_target demo_sample sample_host demo_text (object_hex demo_sample demo_head) demo_empty
      = (response, demo_after)"
    using demo_after(1) by (auto simp: handle_def)
  then show ?thesis by (rule runs_inD [OF publish_target_unchanged])
qed

lemma demo_after_facts:
  "operator_ok demo_sample demo_after"
  "btree_get (opr_repositories demo_after) demo_repository = Some demo_context"
  "store_consistent demo_sample git_views demo_repo (os (opr_world demo_after))"
proof -
  show "operator_ok demo_sample demo_after"
    "btree_get (opr_repositories demo_after) demo_repository = Some demo_context"
    using demo_after_same demo_empty_ok demo_empty_facts(1) by (simp_all add: operator_ok_def same_state_def)
  obtain response where run: "handle demo_sample sample_host demo_publish demo_empty = (Inr response, demo_after)"
    using demo_after(1) by blast
  show "store_consistent demo_sample git_views demo_repo (os (opr_world demo_after))"
    using handle_repository [OF demo_serving demo_empty_facts(1) demo_request(1,3) run] demo_empty_consistent
    by (simp add: demo_empty_facts demo_request(2) advances_def)
qed



section \<open>Asking for the state\<close>

abbreviation demo_ask :: control_request where
  "demo_ask \<equiv> StateRequest demo_text [identity_hex demo_sample demo_id]"

lemma demo_asked:
  "\<exists>response s'. handle demo_sample sample_host demo_ask demo_after = (response, s') \<and>
     btree_get (opr_repositories s') demo_repository = Some (demo_context\<lparr>rc_canonical := Some demo_head\<rparr>)"
proof -
  let ?w = "opr_world demo_after"
  have "publisher_consistent demo_sample git_views demo_repo (os ?w) demo_id"
    using demo_after_facts(3) by (simp add: store_consistent_def)
  then have "publisher_state demo_sample sample_host demo_repo demo_id ?w = (Inr (Some demo_state), ?w)"
    using demo_after(2) by (auto simp: publisher_state_def bindS_def publisher_state_sample okS_def demo_empty_facts)
  then have gather: "\<exists>p. gather_states demo_sample sample_host demo_repo [] [] [demo_id] ?w = (Inr ([(demo_id, demo_state)], p), ?w)"
    by (simp add: bindS_def okS_def)
  have "ref_state_target demo_state main_branch = Some demo_head"
    by (simp add: ref_state_target_def demo_state_ok(2) binary_search_by_def cmp_def search_loop.simps)
  then have "collect_votes [(demo_id, demo_state)] main_branch [] [demo_id] = [(demo_head, 1)]"
    by (simp add: collect_votes.simps(2) btree_get_def add_vote_def)
  then have decide: "derive_canonical_head demo_document [(demo_id, demo_state)] None f = Advance demo_head" for f
    by (simp add: derive_canonical_head_def Let_def demo_document_def main_branch_def)
  have "collect_ok (identity_from_hex demo_sample) [identity_hex demo_sample demo_id] = Inr [demo_id]"
    by (simp add: identity_from_hex_hex [OF demo_sample_ok(1)])
  then have "\<exists>response. state_in demo_sample sample_host demo_repository demo_context [identity_hex demo_sample demo_id] demo_after =
      (response, demo_after\<lparr>opr_repositories := btree_insert demo_repository
         (demo_context\<lparr>rc_canonical := Some demo_head\<rparr>) (opr_repositories demo_after)\<rparr>)"
    using gather decide
    by (auto simp: state_in_def core_result_def bindS_def liftS_def on_store_def demo_empty_facts derive_in_store_def
        demo_context_def Let_def next_canonical_def after_descent_def set_context_def okS_def)
  then show ?thesis
    using demo_after_facts(1,2)
    by (auto simp: handle_def state_request_def lift_bind_known [OF demo_text_parsed]
        find_context_known [OF demo_after_facts(2)] operator_ok_def btree_get_insert)
qed

lemma operator_invariant_witness:
  "\<exists>response s' k. handle demo_sample sample_host demo_ask demo_after = (response, s') \<and> operator_ok demo_sample s' \<and>
     btree_get (opr_repositories s') demo_repository = Some (demo_context\<lparr>rc_canonical := k\<rparr>)"
proof -
  obtain response s' where run: "handle demo_sample sample_host demo_ask demo_after = (response, s')"
    using demo_asked by blast
  from operator_invariant [OF demo_after_facts(1) run] show ?thesis
    using run demo_after_facts(2) by blast
qed


section \<open>Applying what was published\<close>

lemma demo_transfer_facts:
  "transfer_authentic demo_sample demo_repo demo_transfer demo_selection operator_max_pack_bytes
     (ac_binding demo_actor) demo_transition"
  "tm_prerequisites (tr_manifest demo_transfer) = [ObjectPresent demo_head]" "tr_payload demo_transfer = []"
  "tm_repository (tr_manifest demo_transfer) = demo_repository" "tm_publisher (tr_manifest demo_transfer) = demo_id"
  using transfer_new_Inr [OF demo_sample_binding_codec demo_transfer_made]
    transfer_new_is_authentic [OF demo_sample_binding_codec demo_transfer_made demo_actor_facts(1) demo_selects, of operator_max_pack_bytes]
  by (simp_all add: demo_repo_def actor_id_def)

lemma demo_applied:
  "\<exists>s'. handle demo_sample sample_host (ApplyRequest demo_text_of_transfer) demo_empty =
     (Inr (AppliedResponse ''applied'' (identity_hex demo_sample (rs_publisher demo_state)) (rs_sequence demo_state)), s')"
proof -
  note x = demo_transfer_facts
  define q where "q = fresh_quarantine demo_repo empty_world"
  let ?w = "empty_world\<lparr>quarantine_sequence := quarantine_sequence empty_world + 1\<rparr>"
  have "\<forall>r. word_refs (os ?w) r = None" using empty_world_refs by simp
  then obtain w1 where commit: "commit demo_sample sample_host demo_repo q demo_transition
      (ac_binding demo_actor) demo_selection ?w = (Inr (Applied demo_state), w1)"
    using first_committed [OF demo_first_commit, of ?w q] by (auto simp: demo_repo_def q_def)
  have begun: "begin_quarantine sample_host demo_repo empty_world = (Inr q, ?w)"
    unfolding q_def by (rule sample_begin)
  have commit': "import_and_commit demo_sample sample_host demo_repo [] operator_max_pack_bytes demo_transition
      (ac_binding demo_actor) demo_selection empty_world = (Inr (TransferApplied demo_state), w1)"
    by (simp add: import_and_commit_def bindS_def store_step_def errS_def begun catchS_def sample_import commit
        sample_drop okS_def liftS_def)
  have "has_object demo_sample sample_host demo_repo demo_head empty_world = (Inr True, empty_world)"
    by (rule sample_has_object)
      (use sample_two(1) in \<open>simp_all add: sample_target_def demo_head_def demo_sample_hex demo_repo_def\<close>)
  then have "missing_prerequisites demo_sample sample_host demo_repo current [ObjectPresent demo_head] empty_world
      = (Inr [], empty_world)" for current
    by (simp add: okS_def bindS_def prerequisite_present_def store_step_def errS_def)
  then have "apply_transfer demo_sample sample_host demo_repo demo_transfer demo_selection operator_max_pack_bytes empty_world
      = (Inr (TransferApplied demo_state), w1)"
    unfolding apply_transfer_authentic [OF x(1) demo_sample_ok(3) demo_sample_binding_codec] apply_authentic_def
    by (simp add: bindS_def store_step_def errS_def publisher_state_absent empty_world_refs x(2,3) commit')
  moreover have "btree_get (rc_bindings demo_context) demo_id = Some demo_selection"
    by (simp add: demo_context_def btree_get_def)
  ultimately have "apply_in demo_sample sample_host demo_context demo_transfer demo_empty =
     (Inr (AppliedResponse ''applied'' (identity_hex demo_sample (rs_publisher demo_state)) (rs_sequence demo_state)),
      demo_empty\<lparr>opr_world := w1\<rparr>)"
    by (simp add: apply_in_def own_selection_def bindS_def liftS_def ok_or_def x(5) on_protocol_def demo_empty_facts okS_def)
  moreover have "decode_transfer demo_sample demo_text_of_transfer = Inr demo_transfer"
    by (rule decode_encoded [OF demo_sample_ok(1) demo_sample_codec_ok demo_encoded])
  ultimately show ?thesis
    by (simp add: handle_def apply_request_def lift_bind_known x(4) find_context_known [OF demo_empty_facts(1)])
qed


end
