(* ===== verification/Wire.thy ===== *)
theory Wire
  imports Operator
begin

text \<open>
  \<open>crates/styrene-git-functional/src/wire.rs\<close>: the client side of the control protocol, over the
  network and the clock of the process as a record of functions, in the order the code calls them.
  Times are in milliseconds. A loop that waits may run for ever, so it is an optional result.
\<close>

section \<open>The network\<close>

record 'n net =
  nt_connect :: "string \<Rightarrow> ('n, io_error, nat) io"
  nt_set_read_timeout :: "nat \<Rightarrow> nat \<Rightarrow> ('n, io_error, unit) io"
  nt_write_all :: "nat \<Rightarrow> bytes \<Rightarrow> ('n, io_error, unit) io"
  nt_shutdown_write :: "nat \<Rightarrow> ('n, io_error, unit) io"
  nt_read_to_end :: "nat \<Rightarrow> ('n, io_error, bytes) io"
  nt_now :: "'n \<Rightarrow> nat \<times> 'n"
  nt_sleep :: "nat \<Rightarrow> 'n \<Rightarrow> 'n"

text \<open>The environment of a client: the JSON it writes and reads, and the derived text of a response.\<close>

record wire_env = operator_env +
  json_of_request :: "control_request \<Rightarrow> (string, bytes) result"
  response_of_json :: "bytes \<Rightarrow> (string, control_response) result"
  response_debug :: "control_response \<Rightarrow> string"

type_synonym ('n, 'a) wire_io = "('n, string, 'a) io"

definition net_step :: "string \<Rightarrow> ('n, io_error, 'a) io \<Rightarrow> ('n, 'a) wire_io" where
  "net_step label m = errS (\<lambda>e. label @ error_text e) m"

section \<open>One request\<close>

definition wire_request ::
  "('z) wire_env_scheme \<Rightarrow> 'n net \<Rightarrow> string \<Rightarrow> control_request \<Rightarrow> ('n, control_response) wire_io" where
  "wire_request E N address request =
     bindS (net_step (''connect to '' @ address @ '' failed: '') (nt_connect N address)) (\<lambda>stream.
     bindS (net_step ''set timeout failed: '' (nt_set_read_timeout N stream 30000)) (\<lambda>_.
     bindS (liftS (map_err (\<lambda>e. ''encode control request failed: '' @ e) (json_of_request E request))) (\<lambda>bs.
     bindS (net_step ''write control request failed: '' (nt_write_all N stream bs)) (\<lambda>_.
     bindS (net_step ''finish control request failed: '' (nt_shutdown_write N stream)) (\<lambda>_.
     bindS (net_step ''read control response failed: '' (nt_read_to_end N stream)) (\<lambda>sent.
     let response = take (max_control_bytes + 1) sent in
     if max_control_bytes < length response then failS ''control response exceeds limit''
     else bindS (liftS (map_err (\<lambda>e. ''decode control response failed: '' @ e) (response_of_json E response))) (\<lambda>response.
     case response of
       ErrorResponse message \<Rightarrow> failS message
     | _ \<Rightarrow> okS response)))))))"

definition incarnation :: "('z) wire_env_scheme \<Rightarrow> 'n net \<Rightarrow> string \<Rightarrow> ('n, string) wire_io" where
  "incarnation E N address =
     bindS (wire_request E N address HealthRequest) (\<lambda>response.
     case response of
       Healthy _ incarnation \<Rightarrow> okS incarnation
     | _ \<Rightarrow> failS (''unexpected health response: '' @ response_debug E response))"

section \<open>Waiting\<close>

text \<open>The loop of both functions that wait: attempt, give up after the deadline, sleep, and again.\<close>

partial_function (option) poll_loop ::
  "'n net \<Rightarrow> ('n \<Rightarrow> bool \<times> 'n) \<Rightarrow> string \<Rightarrow> nat \<Rightarrow> 'n \<Rightarrow> ((string, unit) result \<times> 'n) option" where
  "poll_loop N attempt failure deadline s =
     (case attempt s of (success, s1) \<Rightarrow>
        if success then Some (Inr (), s1)
        else (case nt_now N s1 of (now, s2) \<Rightarrow>
          if deadline \<le> now then Some (Inl failure, s2)
          else poll_loop N attempt failure deadline (nt_sleep N 100 s2)))"

definition poll_until ::
  "'n net \<Rightarrow> ('n \<Rightarrow> bool \<times> 'n) \<Rightarrow> string \<Rightarrow> nat \<Rightarrow> 'n \<Rightarrow> ((string, unit) result \<times> 'n) option" where
  "poll_until N attempt failure timeout s =
     (case nt_now N s of (now, s') \<Rightarrow> poll_loop N attempt failure (now + timeout) s')"

definition is_healthy :: "(string, control_response) result \<Rightarrow> bool" where
  "is_healthy r = (case r of Inr (Healthy _ _) \<Rightarrow> True | _ \<Rightarrow> False)"

definition wait_until_healthy ::
  "('z) wire_env_scheme \<Rightarrow> 'n net \<Rightarrow> string \<Rightarrow> nat \<Rightarrow> 'n \<Rightarrow> ((string, unit) result \<times> 'n) option" where
  "wait_until_healthy E N address timeout =
     poll_until N (\<lambda>s. map_prod is_healthy (\<lambda>s. s) (wire_request E N address HealthRequest s))
       (''operator '' @ address @ '' did not become healthy'') timeout"

definition is_new :: "string \<Rightarrow> (string, string) result \<Rightarrow> bool" where
  "is_new previous r = (case r of Inr current \<Rightarrow> current \<noteq> previous | Inl _ \<Rightarrow> False)"

definition wait_until_restarted ::
  "('z) wire_env_scheme \<Rightarrow> 'n net \<Rightarrow> string \<Rightarrow> string \<Rightarrow> nat \<Rightarrow> 'n \<Rightarrow> ((string, unit) result \<times> 'n) option" where
  "wait_until_restarted E N address previous timeout =
     poll_until N (\<lambda>s. map_prod (is_new previous) (\<lambda>s. s) (incarnation E N address s))
       (''operator '' @ address @ '' did not restart'') timeout"

end
