(* ===== verification/Scenario.thy ===== *)
theory Scenario
  imports Wire
begin

text \<open>
  \<open>crates/styrene-git-functional/src/{scenario,main}.rs\<close>: the scripted client of three operators
  that lets their repositories diverge and converge, compares what they answer, and writes an
  artifact when all went as it should; and the choice of the program's command. The long function
  \<open>run_three_party\<close> is cut into its stages, in the order of the code.
\<close>

section \<open>Steps that may wait\<close>

text \<open>A wait may run for ever, so a step of the script is an optional result.\<close>

type_synonym ('n, 'a) awaited = "'n \<Rightarrow> ((string, 'a) result \<times> 'n) option"

definition stepW :: "('n, 'a) wire_io \<Rightarrow> ('n, 'a) awaited" where
  "stepW m s = Some (m s)"

definition bindW :: "('n, 'a) awaited \<Rightarrow> ('a \<Rightarrow> ('n, 'b) awaited) \<Rightarrow> ('n, 'b) awaited" where
  "bindW m f s =
     (case m s of
        None \<Rightarrow> None
      | Some (Inl e, s') \<Rightarrow> Some (Inl e, s')
      | Some (Inr x, s') \<Rightarrow> f x s')"

fun forW :: "('a \<Rightarrow> ('n, unit) awaited) \<Rightarrow> 'a list \<Rightarrow> ('n, unit) awaited" where
  "forW f [] = stepW (okS ())"
| "forW f (x # xs) = bindW (f x) (\<lambda>_. forW f xs)"

section \<open>The artifact and its destination\<close>

definition alice_control where "alice_control = ''alice-control:7800''"
definition bob_control where "bob_control = ''bob-control:7800''"
definition carol_control where "carol_control = ''carol-control:7800''"
definition alice_carrier where "alice_carrier = ''alice-carrier:7800''"
definition bob_carrier where "bob_carrier = ''bob-carrier:7800''"
definition carol_carrier where "carol_carrier = ''carol-carrier:7800''"

record scenario_artifact =
  sa_scenario :: string
  sa_repository :: string
  sa_identities :: "(string, string) btree_map"
  sa_heads :: "(string, string) btree_map"
  sa_final_states :: "(string, control_response) btree_map"
  sa_fsck :: "(string, string) btree_map"
  sa_failure_recovery :: "(string, string) btree_map"
  sa_restart_recovery :: "(string, string) btree_map"
  sa_duplicate_outcome :: string
  sa_status :: string

record scenario_env = wire_env +
  text_debug :: "string \<Rightarrow> string"
  json_of_artifact :: "scenario_artifact \<Rightarrow> (string, bytes) result"

text \<open>The network, with the files and the standard output of the process.\<close>

record 'n desk =
  dk_net :: "'n net"
  dk_create_dir_all :: "path \<Rightarrow> ('n, io_error, unit) io"
  dk_write :: "path \<Rightarrow> bytes \<Rightarrow> ('n, io_error, unit) io"
  dk_print :: "string \<Rightarrow> 'n \<Rightarrow> 'n"

section \<open>Requests and what is expected of their answers\<close>

text \<open>The derived text of an unexpected response, and the quoted text of an error, come from the
  environment; of the error of \<open>hex::decode\<close> the model keeps the label.\<close>

record published_head =
  pb_head :: string
  pb_transfer :: string

record state_view =
  sv_canonical :: "string option"
  sv_decision :: string
  sv_publishers :: "(string, string option) btree_map"

definition ask_identity :: "('z) wire_env_scheme \<Rightarrow> 'n net \<Rightarrow> string \<Rightarrow> ('n, string \<times> string) wire_io" where
  "ask_identity E N address =
     bindS (wire_request E N address IdentityRequest) (\<lambda>response.
     case response of
       IdentityResponse identity binding \<Rightarrow> okS (identity, binding)
     | _ \<Rightarrow> failS (''unexpected identity response: '' @ response_debug E response))"

definition published_of :: "('z) wire_env_scheme \<Rightarrow> control_response \<Rightarrow> ('n, published_head) wire_io" where
  "published_of E response =
     (case response of
        PublishedResponse head _ transfer \<Rightarrow> okS \<lparr>pb_head = head, pb_transfer = transfer\<rparr>
      | _ \<Rightarrow> failS (''unexpected publish response: '' @ response_debug E response))"

definition ask_publish_commit ::
  "('z) wire_env_scheme \<Rightarrow> 'n net \<Rightarrow> string \<Rightarrow> string \<Rightarrow> string \<Rightarrow> string option \<Rightarrow> ('n, published_head) wire_io" where
  "ask_publish_commit E N address repository message parent =
     bindS (wire_request E N address (PublishCommitRequest repository message parent)) (published_of E)"

definition ask_publish_target ::
  "('z) wire_env_scheme \<Rightarrow> 'n net \<Rightarrow> string \<Rightarrow> string \<Rightarrow> string \<Rightarrow> ('n, published_head) wire_io" where
  "ask_publish_target E N address repository target =
     bindS (wire_request E N address (PublishTargetRequest repository target)) (published_of E)"

definition ask_apply ::
  "('z) wire_env_scheme \<Rightarrow> 'n net \<Rightarrow> string \<Rightarrow> string \<Rightarrow> string \<Rightarrow> ('n, string) wire_io" where
  "ask_apply E N address transfer expected =
     bindS (wire_request E N address (ApplyRequest transfer)) (\<lambda>response.
     let unexpected = failS (''unexpected apply response: '' @ response_debug E response) in
     case response of
       AppliedResponse outcome _ _ \<Rightarrow> if outcome = expected then okS outcome else unexpected
     | _ \<Rightarrow> unexpected)"

definition ask_missing :: "('z) wire_env_scheme \<Rightarrow> 'n net \<Rightarrow> string \<Rightarrow> string \<Rightarrow> ('n, nat) wire_io" where
  "ask_missing E N address transfer =
     bindS (wire_request E N address (ApplyRequest transfer)) (\<lambda>response.
     case response of
       MissingResponse prerequisites \<Rightarrow> okS (length prerequisites)
     | _ \<Rightarrow> failS (''expected missing prerequisites, received: '' @ response_debug E response))"

definition ask_rejected ::
  "('z) scenario_env_scheme \<Rightarrow> 'n net \<Rightarrow> string \<Rightarrow> string \<Rightarrow> string \<Rightarrow> ('n, unit) wire_io" where
  "ask_rejected E N address transfer expected =
     catchS (wire_request E N address (ApplyRequest transfer)) (\<lambda>answer.
     case answer of
       Inl message \<Rightarrow>
         if contains_str message expected then okS ()
         else failS (''transfer failed with unexpected error '' @ text_debug E message @ ''; expected '' @ text_debug E expected)
     | Inr response \<Rightarrow> failS (''invalid transfer was accepted: '' @ response_debug E response))"

definition ask_restart :: "('z) wire_env_scheme \<Rightarrow> 'n net \<Rightarrow> string \<Rightarrow> ('n, unit) wire_io" where
  "ask_restart E N address =
     catchS (wire_request E N address RestartRequest) (\<lambda>answer.
     case answer of
       Inl _ \<Rightarrow> okS ()
     | Inr response \<Rightarrow> failS (''operator restart unexpectedly returned a response: '' @ response_debug E response))"

definition corrupt_transfer :: "('z) env_scheme \<Rightarrow> string \<Rightarrow> (string, string) result" where
  "corrupt_transfer E transfer =
     bindE (ok_or ''decode fixture'' (hex_decode E transfer)) (\<lambda>bs.
     if bs = [] then Inl ''cannot corrupt an empty transfer''
     else Inr (hex_encode E (butlast bs @ [xor (last bs) 1])))"

text \<open>The positions at which \<open>str::get\<close> may cut: not inside the bytes of a character.\<close>

definition char_boundary :: "string \<Rightarrow> nat \<Rightarrow> bool" where
  "char_boundary s n \<longleftrightarrow>
     n = 0 \<or> n = length s \<or> n < length s \<and> \<not> (CHR 0x80 \<le> s ! n \<and> s ! n \<le> CHR 0xBF)"

definition truncate_transfer :: "string \<Rightarrow> (string, string) result" where
  "truncate_transfer transfer =
     (let n = length transfer - 2 in
      if char_boundary transfer n \<and> take n transfer \<noteq> [] then Inr (take n transfer)
      else Inl ''cannot truncate an empty transfer'')"

definition assert_state_unchanged :: "string \<Rightarrow> state_view \<Rightarrow> state_view \<Rightarrow> ('n, unit) wire_io" where
  "assert_state_unchanged label before after =
     (if before = after then okS () else failS (''accepted state changed after '' @ label))"

definition ask_state ::
  "('z) wire_env_scheme \<Rightarrow> 'n net \<Rightarrow> string \<Rightarrow> string \<Rightarrow> string list \<Rightarrow> ('n, state_view) wire_io" where
  "ask_state E N address repository delegates =
     bindS (wire_request E N address (StateRequest repository delegates)) (\<lambda>response.
     case response of
       StateResponse canonical decision publishers \<Rightarrow>
         okS \<lparr>sv_canonical = canonical, sv_decision = decision, sv_publishers = publishers\<rparr>
     | _ \<Rightarrow> failS (''unexpected state response: '' @ response_debug E response))"

definition ask_fsck :: "('z) wire_env_scheme \<Rightarrow> 'n net \<Rightarrow> string \<Rightarrow> string \<Rightarrow> ('n, unit) wire_io" where
  "ask_fsck E N address repository =
     bindS (wire_request E N address (FsckRequest repository)) (\<lambda>response.
     let unexpected = failS (''unexpected fsck response: '' @ response_debug E response) in
     case response of
       Verified verified \<Rightarrow> if verified = repository then okS () else unexpected
     | _ \<Rightarrow> unexpected)"

section \<open>The stages of the script\<close>

text \<open>Actors by name, with their identity and their binding.\<close>

definition ask_actors ::
  "('z) wire_env_scheme \<Rightarrow> 'n net \<Rightarrow> ('n, (string, string \<times> string) btree_map) wire_io" where
  "ask_actors E N =
     bindS (ask_identity E N alice_control) (\<lambda>alice.
     bindS (ask_identity E N bob_control) (\<lambda>bob.
     bindS (ask_identity E N carol_control) (\<lambda>carol.
     okS (btree_of_list [(''alice'', alice), (''bob'', bob), (''carol'', carol)]))))"

definition identities_of :: "(string, string \<times> string) btree_map \<Rightarrow> (string, string) btree_map" where
  "identities_of actors = btree_of_list (map (\<lambda>(name, (identity, _)). (name, identity)) actors)"

definition bindings_of :: "(string, string \<times> string) btree_map \<Rightarrow> (string, string) btree_map" where
  "bindings_of actors = btree_of_list (map (\<lambda>(_, (identity, binding)). (identity, binding)) actors)"

text \<open>Indexing a map panics at an absent key; the three names are always present.\<close>

definition identity_named :: "(string, string) btree_map \<Rightarrow> string \<Rightarrow> string" where
  "identity_named identities name = (case btree_get identities name of Some i \<Rightarrow> i | None \<Rightarrow> [])"

definition scenario_delegates :: "(string, string) btree_map \<Rightarrow> string list" where
  "scenario_delegates identities = map (identity_named identities) [''alice'', ''bob'', ''carol'']"

fun initialize_all ::
  "('z) wire_env_scheme \<Rightarrow> 'n net \<Rightarrow> (string, string) btree_map \<Rightarrow> string list \<Rightarrow> string option
     \<Rightarrow> ('n, string option) wire_io" where
  "initialize_all E N bindings [] repository = okS repository"
| "initialize_all E N bindings (address # addresses) repository =
     bindS (wire_request E N address (InitializeRequest bindings 2)) (\<lambda>response.
     case response of
       Initialized initialized \<Rightarrow>
         (case repository of
            Some expected \<Rightarrow>
              if expected \<noteq> initialized then failS ''operators derived different repository identifiers''
              else initialize_all E N bindings addresses repository
          | None \<Rightarrow> initialize_all E N bindings addresses (Some initialized))
     | _ \<Rightarrow> failS (''unexpected initialize response: '' @ response_debug E response))"

definition initialize_operators ::
  "('z) wire_env_scheme \<Rightarrow> 'n net \<Rightarrow> (string, string) btree_map \<Rightarrow> ('n, string) wire_io" where
  "initialize_operators E N bindings =
     bindS (initialize_all E N bindings [alice_control, bob_control, carol_control] None) (\<lambda>repository.
     liftS (ok_or ''repository was not initialized'' repository))"

text \<open>Alice publishes, Bob follows her, and each applies what the other published.\<close>

definition publish_initial ::
  "('z) wire_env_scheme \<Rightarrow> 'n net \<Rightarrow> string \<Rightarrow> ('n, published_head \<times> published_head) wire_io" where
  "publish_initial E N repository =
     bindS (ask_publish_commit E N alice_control repository ''initial'' None) (\<lambda>alice_initial.
     bindS (ask_apply E N bob_carrier (pb_transfer alice_initial) ''applied'') (\<lambda>_.
     bindS (ask_publish_commit E N bob_control repository ''bob descendant'' (Some (pb_head alice_initial))) (\<lambda>bob.
     bindS (ask_apply E N alice_carrier (pb_transfer bob) ''applied'') (\<lambda>_.
     okS (alice_initial, bob)))))"

text \<open>Transfers that must fail at Carol, without a change of her state, and then the valid ones.\<close>

definition failed_deliveries ::
  "('z) scenario_env_scheme \<Rightarrow> 'n net \<Rightarrow> string \<Rightarrow> string list \<Rightarrow> published_head \<Rightarrow> published_head
     \<Rightarrow> ('n, unit) wire_io" where
  "failed_deliveries E N repository delegates alice_initial bob =
     (let carol_state = ask_state E N carol_control repository delegates;
          unchanged = (\<lambda>label before. bindS carol_state (assert_state_unchanged label before)) in
      bindS carol_state (\<lambda>before.
      bindS (liftS (corrupt_transfer E (pb_transfer bob))) (\<lambda>corrupt.
      bindS (ask_rejected E N carol_carrier corrupt ''integrity check failed'') (\<lambda>_.
      bindS (unchanged ''corrupt transfer'' before) (\<lambda>_.
      bindS (liftS (truncate_transfer (pb_transfer bob))) (\<lambda>truncated.
      bindS (ask_rejected E N carol_carrier truncated ''CBOR decoding failed'') (\<lambda>_.
      bindS (unchanged ''truncated transfer'' before) (\<lambda>_.
      bindS (ask_missing E N carol_carrier (pb_transfer bob)) (\<lambda>missing.
      if missing \<noteq> 1
      then failS (''Carol reported '' @ decimal missing @ '' missing prerequisites instead of one'')
      else bindS (unchanged ''missing prerequisite'' before) (\<lambda>_.
      bindS (ask_apply E N carol_carrier (pb_transfer alice_initial) ''applied'') (\<lambda>_.
      bindS (ask_apply E N carol_carrier (pb_transfer bob) ''applied'') (\<lambda>_.
      okS ()))))))))))))"

text \<open>Carol diverges; nobody may see an agreement yet.\<close>

definition require_no_agreement ::
  "('z) wire_env_scheme \<Rightarrow> 'n net \<Rightarrow> string \<Rightarrow> string list \<Rightarrow> string \<Rightarrow> ('n, unit) wire_io" where
  "require_no_agreement E N repository delegates address =
     bindS (ask_state E N address repository delegates) (\<lambda>state.
     if sv_canonical state \<noteq> None \<or> sv_decision state \<noteq> ''no_agreement''
     then failS (address @ '' reached canonical agreement before threshold'')
     else okS ())"

definition diverge ::
  "('z) wire_env_scheme \<Rightarrow> 'n net \<Rightarrow> string \<Rightarrow> string list \<Rightarrow> published_head \<Rightarrow> ('n, published_head) wire_io" where
  "diverge E N repository delegates alice_initial =
     bindS (ask_publish_commit E N carol_control repository ''carol divergent descendant''
       (Some (pb_head alice_initial))) (\<lambda>carol.
     bindS (ask_apply E N alice_carrier (pb_transfer carol) ''applied'') (\<lambda>_.
     bindS (ask_apply E N bob_carrier (pb_transfer carol) ''applied'') (\<lambda>_.
     bindS (forS (require_no_agreement E N repository delegates) [alice_control, bob_control, carol_control]) (\<lambda>_.
     okS carol))))"

text \<open>Alice votes for Bob's head; a transfer applied twice is recognised.\<close>

definition converge ::
  "('z) wire_env_scheme \<Rightarrow> 'n net \<Rightarrow> string \<Rightarrow> published_head \<Rightarrow> ('n, published_head \<times> string) wire_io" where
  "converge E N repository bob =
     bindS (ask_publish_target E N alice_control repository (pb_head bob)) (\<lambda>alice_vote.
     bindS (ask_apply E N bob_carrier (pb_transfer alice_vote) ''applied'') (\<lambda>_.
     bindS (ask_apply E N carol_carrier (pb_transfer alice_vote) ''applied'') (\<lambda>_.
     bindS (ask_apply E N alice_carrier (pb_transfer bob) ''already_present'') (\<lambda>duplicate.
     okS (alice_vote, duplicate)))))"

text \<open>Carol's process is replaced; she must come back with the state she had.\<close>

definition reopen ::
  "('z) wire_env_scheme \<Rightarrow> 'n net \<Rightarrow> string \<Rightarrow> string list \<Rightarrow> (string, string) btree_map \<Rightarrow> state_view
     \<Rightarrow> published_head \<Rightarrow> ('n, unit) wire_io" where
  "reopen E N repository delegates bindings before alice_vote =
     bindS (wire_request E N carol_control (InitializeRequest bindings 2)) (\<lambda>response.
     bindS (if response = Initialized repository then okS ()
            else failS (''unexpected restart initialize response: '' @ response_debug E response)) (\<lambda>_.
     bindS (ask_state E N carol_control repository delegates) (\<lambda>after.
     bindS (assert_state_unchanged ''operator process restart'' before after) (\<lambda>_.
     bindS (ask_apply E N carol_carrier (pb_transfer alice_vote) ''already_present'') (\<lambda>_.
     okS ())))))"

definition restart_carol ::
  "('z) wire_env_scheme \<Rightarrow> 'n net \<Rightarrow> string \<Rightarrow> string list \<Rightarrow> (string, string) btree_map \<Rightarrow> published_head
     \<Rightarrow> ('n, unit) awaited" where
  "restart_carol E N repository delegates bindings alice_vote =
     bindW (stepW (ask_state E N carol_control repository delegates)) (\<lambda>before.
     bindW (stepW (incarnation E N carol_control)) (\<lambda>prior_incarnation.
     bindW (stepW (ask_restart E N carol_control)) (\<lambda>_.
     bindW (wait_until_restarted E N carol_control prior_incarnation 30000) (\<lambda>_.
     stepW (reopen E N repository delegates bindings before alice_vote)))))"

text \<open>The final states: Bob's head is canonical everywhere, and Carol's head is kept everywhere.\<close>

fun gather_final ::
  "('z) wire_env_scheme \<Rightarrow> 'n net \<Rightarrow> string \<Rightarrow> string list \<Rightarrow> string \<Rightarrow> published_head \<Rightarrow> published_head
     \<Rightarrow> (string \<times> string) list \<Rightarrow> (string, control_response) btree_map \<Rightarrow> (string, string) btree_map
     \<Rightarrow> ('n, (string, control_response) btree_map \<times> (string, string) btree_map) wire_io" where
  "gather_final E N repository delegates carol_identity bob carol [] final_states fsck_results =
     okS (final_states, fsck_results)"
| "gather_final E N repository delegates carol_identity bob carol ((name, address) # operators)
     final_states fsck_results =
     bindS (ask_state E N address repository delegates) (\<lambda>state.
     if sv_canonical state \<noteq> Some (pb_head bob)
     then failS (name @ '' canonical head does not match Bob's descendant'')
     else if Option.bind (btree_get (sv_publishers state) carol_identity) (\<lambda>head. head) \<noteq> Some (pb_head carol)
     then failS (name @ '' did not retain Carol's divergent publisher head'')
     else bindS (ask_fsck E N address repository) (\<lambda>_.
       gather_final E N repository delegates carol_identity bob carol operators
         (btree_insert name (StateResponse (sv_canonical state) (sv_decision state) (sv_publishers state)) final_states)
         (btree_insert name ''passed'' fsck_results)))"

definition scenario_result ::
  "string \<Rightarrow> (string, string) btree_map \<Rightarrow> published_head \<Rightarrow> published_head \<Rightarrow> published_head
     \<Rightarrow> (string, control_response) btree_map \<Rightarrow> (string, string) btree_map \<Rightarrow> string \<Rightarrow> scenario_artifact" where
  "scenario_result repository identities alice_initial bob carol final_states fsck_results duplicate =
     \<lparr>sa_scenario = ''three-party-diverge-converge'',
      sa_repository = repository,
      sa_identities = identities,
      sa_heads = btree_of_list
        [(''initial'', pb_head alice_initial), (''bob'', pb_head bob), (''carol'', pb_head carol)],
      sa_final_states = final_states,
      sa_fsck = fsck_results,
      sa_failure_recovery = btree_of_list
        [(''corrupt_transfer'', ''rejected_without_state_change''),
         (''truncated_transfer'', ''rejected_without_state_change''),
         (''missing_prerequisite'', ''reported_without_state_change''),
         (''valid_redelivery'', ''applied'')],
      sa_restart_recovery = btree_of_list
        [(''accepted_refs'', ''reopened''),
         (''canonical_state'', ''rederived_identically''),
         (''committed_redelivery'', ''already_present'')],
      sa_duplicate_outcome = duplicate,
      sa_status = ''passed''\<rparr>"

definition write_artifact ::
  "('z) scenario_env_scheme \<Rightarrow> 'n desk \<Rightarrow> path \<Rightarrow> scenario_artifact \<Rightarrow> ('n, unit) wire_io" where
  "write_artifact E D artifact_path artifact =
     bindS (if artifact_path = [] then okS ()
            else net_step ''create artifact directory failed: '' (dk_create_dir_all D (butlast artifact_path))) (\<lambda>_.
     bindS (liftS (map_err (\<lambda>e. ''encode scenario artifact failed: '' @ e) (json_of_artifact E artifact))) (\<lambda>bs.
     bindS (net_step ''write scenario artifact failed: '' (dk_write D artifact_path bs)) (\<lambda>_ s.
     (Inr (), dk_print D (''functional scenario passed: '' @ sa_scenario artifact @ [CHR 0x0A]) s))))"

section \<open>The script\<close>

definition run_three_party ::
  "('z) scenario_env_scheme \<Rightarrow> 'n desk \<Rightarrow> path \<Rightarrow> ('n, unit) awaited" where
  "run_three_party E D artifact_path =
     (let N = dk_net D in
      bindW (forW (\<lambda>address. wait_until_healthy E N address 60000) [alice_control, bob_control, carol_control]) (\<lambda>_.
      bindW (stepW (ask_actors E N)) (\<lambda>actors.
      let identities = identities_of actors; bindings = bindings_of actors; delegates = scenario_delegates identities in
      bindW (stepW (initialize_operators E N bindings)) (\<lambda>repository.
      bindW (stepW (publish_initial E N repository)) (\<lambda>(alice_initial, bob).
      bindW (stepW (failed_deliveries E N repository delegates alice_initial bob)) (\<lambda>_.
      bindW (stepW (diverge E N repository delegates alice_initial)) (\<lambda>carol.
      bindW (stepW (converge E N repository bob)) (\<lambda>(alice_vote, duplicate).
      bindW (restart_carol E N repository delegates bindings alice_vote) (\<lambda>_.
      bindW (stepW (gather_final E N repository delegates (identity_named identities ''carol'') bob carol
        [(''alice'', alice_control), (''bob'', bob_control), (''carol'', carol_control)] [] [])) (\<lambda>(final_states, fsck_results).
      stepW (write_artifact E D artifact_path
        (scenario_result repository identities alice_initial bob carol final_states fsck_results duplicate))))))))))))"

section \<open>The choice of the command\<close>

text \<open>\<open>u8::from_str\<close>, with the texts of its errors.\<close>

fun parse_digits :: "string \<Rightarrow> nat \<Rightarrow> (string, nat) result" where
  "parse_digits [] n = Inr n"
| "parse_digits (c # cs) n =
     (if c < CHR ''0'' \<or> CHR ''9'' < c then Inl ''invalid digit found in string''
      else let m = 10 * n + (of_char c - 48) in
        if 255 < m then Inl ''number too large to fit in target type'' else parse_digits cs m)"

definition u8_from_str :: "string \<Rightarrow> (string, u8) result" where
  "u8_from_str v =
     (if v = [] then Inl ''cannot parse integer from empty string''
      else if v = ''+'' then Inl ''invalid digit found in string''
      else map_ok of_nat (parse_digits (if hd v = CHR ''+'' then tl v else v) 0))"

datatype lab_command =
    RunOperator string u8 string string
  | RunScenario string

definition lab_usage :: string where
  "lab_usage = ''usage: styrene-git-lab operator <name> <seed> <listen> <state-root> | scenario <artifact-path>''"

definition lab_command_of :: "string list \<Rightarrow> (string, lab_command) result" where
  "lab_command_of args =
     (case args of
        [_, command, name, seed, listen, root] \<Rightarrow>
          if command = ''operator''
          then bindE (map_err (\<lambda>e. ''invalid operator seed: '' @ e) (u8_from_str seed)) (\<lambda>seed.
            Inr (RunOperator name seed listen root))
          else Inl lab_usage
      | [_, command, artifact_path] \<Rightarrow>
          if command = ''scenario'' then Inr (RunScenario artifact_path) else Inl lab_usage
      | _ \<Rightarrow> Inl lab_usage)"

end
