(* ===== verification/Wire_Facts.thy ===== *)
theory Wire_Facts
  imports Wire
begin

text \<open>
  What a client of the control protocol can rely on: waiting ends, with an answer or after the
  timeout.
\<close>

section \<open>Waiting ends\<close>

text \<open>
  The documented behaviour of the clock: it tells the time, which no call turns back, and a sleep
  takes at least as long as it was asked to.
\<close>

definition later :: "('n \<Rightarrow> nat) \<Rightarrow> 'n \<Rightarrow> 'n \<Rightarrow> bool" where
  "later time s s' \<longleftrightarrow> time s \<le> time s'"

interpretation passing: run_relation "later time" for time
  by unfold_locales (auto simp: later_def)

definition clock_ok :: "'n net \<Rightarrow> ('n \<Rightarrow> nat) \<Rightarrow> bool" where
  "clock_ok N time \<longleftrightarrow>
     (\<forall>s. fst (nt_now N s) = time s \<and> time s \<le> time (snd (nt_now N s))) \<and>
     (\<forall>d s. time s + d \<le> time (nt_sleep N d s)) \<and>
     (\<forall>a. runs_in (later time) (nt_connect N a)) \<and>
     (\<forall>c d. runs_in (later time) (nt_set_read_timeout N c d)) \<and>
     (\<forall>c bs. runs_in (later time) (nt_write_all N c bs)) \<and>
     (\<forall>c. runs_in (later time) (nt_shutdown_write N c)) \<and>
     (\<forall>c. runs_in (later time) (nt_read_to_end N c))"

lemma response_case_runs:
  "run_relation R \<Longrightarrow> runs_in R (case response of ErrorResponse message \<Rightarrow> failS message | _ \<Rightarrow> okS response)"
  by (cases response) (simp_all add: run_relation.pure)

lemma wire_request_later: "clock_ok N time \<Longrightarrow> runs_in (later time) (wire_request E N address request)"
  unfolding wire_request_def net_step_def Let_def
  by (intro passing.bind passing.err passing.pure if_keeps response_case_runs [OF passing.run_relation_axioms])
    (simp_all add: clock_ok_def)

lemma incarnation_later: "clock_ok N time \<Longrightarrow> runs_in (later time) (incarnation E N address)"
proof -
  have "runs_in (later time) (case response of Healthy _ i \<Rightarrow> okS i
      | _ \<Rightarrow> failS (''unexpected health response: '' @ response_debug E response))" for response
    by (cases response) (simp_all add: passing.pure)
  then show "clock_ok N time \<Longrightarrow> ?thesis"
    unfolding incarnation_def by (intro passing.bind wire_request_later)
qed

text \<open>The loop returns: each round in which it goes on takes a tenth of a second of the deadline.\<close>

lemma poll_loop_returns:
  assumes clock: "clock_ok N time" and attempt: "\<And>s. time s \<le> time (snd (attempt s))"
  shows "\<exists>r s'. poll_loop N attempt failure deadline s = Some (r, s') \<and> time s \<le> time s' \<and>
    (r = Inr () \<and> (\<exists>s1. fst (attempt s1) \<and> s' = snd (attempt s1)) \<or> r = Inl failure \<and> deadline \<le> time s')"
proof (induction "deadline - time s" arbitrary: s rule: less_induct)
  case less
  obtain success s1 where a: "attempt s = (success, s1)" by fastforce
  obtain now s2 where n: "nt_now N s1 = (now, s2)" by fastforce
  have t: "time s \<le> time s1" "now = time s1" "time s1 \<le> time s2"
    using attempt [of s] a clock n by (auto simp: clock_ok_def) (metis fst_conv, metis snd_conv)
  have sleep: "time s2 + 100 \<le> time (nt_sleep N 100 s2)" using clock by (simp add: clock_ok_def)
  note unfold = poll_loop.simps [of N attempt failure deadline s]
  show ?case
  proof (cases success)
    case True
    then show ?thesis using a t(1) unfold by (auto intro!: exI [of _ s])
  next
    case no: False
    show ?thesis
    proof (cases "deadline \<le> now")
      case True
      then show ?thesis using no a n t unfold by auto
    next
      case False
      then have "deadline - time (nt_sleep N 100 s2) < deadline - time s"
        using t sleep by linarith
      from less.hyps [OF this] obtain r s' where r: "poll_loop N attempt failure deadline (nt_sleep N 100 s2) = Some (r, s')"
        "time (nt_sleep N 100 s2) \<le> time s'"
        "r = Inr () \<and> (\<exists>s1. fst (attempt s1) \<and> s' = snd (attempt s1)) \<or> r = Inl failure \<and> deadline \<le> time s'"
        by blast
      have "poll_loop N attempt failure deadline s = Some (r, s')"
        unfolding unfold using False no a n r(1) by simp
      then show ?thesis using r(2,3) t sleep by force
    qed
  qed
qed

lemma poll_until_returns:
  assumes clock: "clock_ok N time" and m: "runs_in (later time) m"
  shows "\<exists>r s'. poll_until N (\<lambda>s. map_prod p (\<lambda>s. s) (m s)) failure timeout s = Some (r, s') \<and>
    (r = Inr () \<and> (\<exists>x s1. m s1 = (x, s') \<and> p x) \<or> r = Inl failure \<and> time s + timeout \<le> time s')"
proof -
  let ?attempt = "\<lambda>s. map_prod p (\<lambda>s. s) (m s)"
  obtain now s1 where n: "nt_now N s = (now, s1)" by fastforce
  then have now: "now = time s" using clock by (auto simp: clock_ok_def) (metis fst_conv)
  have "time s \<le> time (snd (?attempt s))" for s
    using m by (simp add: runs_in_def later_def)
  from poll_loop_returns [where attempt = ?attempt and failure = failure and deadline = "now + timeout" and s = s1, OF clock this]
  obtain r s' where r: "poll_loop N ?attempt failure (now + timeout) s1 = Some (r, s')"
    "r = Inr () \<and> (\<exists>s1. fst (?attempt s1) \<and> s' = snd (?attempt s1)) \<or> r = Inl failure \<and> now + timeout \<le> time s'"
    by blast
  have "\<exists>x s2. m s2 = (x, s') \<and> p x" if "fst (?attempt s2)" "s' = snd (?attempt s2)" for s2
    using that by (cases "m s2") auto
  then have "r = Inr () \<and> (\<exists>x s1. m s1 = (x, s') \<and> p x) \<or> r = Inl failure \<and> time s + timeout \<le> time s'"
    using r(2) now by metis
  moreover have "poll_until N ?attempt failure timeout s = Some (r, s')"
    using r(1) n by (simp add: poll_until_def)
  ultimately show ?thesis by blast
qed

lemma is_healthy_iff: "is_healthy r \<longleftrightarrow> (\<exists>name i. r = Inr (Healthy name i))"
  by (auto simp: is_healthy_def split: sum.splits control_response.splits)

lemma is_new_iff: "is_new previous r \<longleftrightarrow> (\<exists>i. r = Inr i \<and> i \<noteq> previous)"
  by (auto simp: is_new_def split: sum.splits)

text \<open>C34: waiting for an operator ends. On a clock that advances by the time slept, both functions
  that wait return; they succeed only right after an answer that shows the operator healthy, or
  restarted, and give up only when the whole timeout has passed.\<close>

theorem waiting_returns:
  assumes "clock_ok N time"
  shows "(\<exists>r s'. wait_until_healthy E N address timeout s = Some (r, s') \<and>
      (r = Inr () \<and> (\<exists>name i s1. wire_request E N address HealthRequest s1 = (Inr (Healthy name i), s')) \<or>
       r = Inl (''operator '' @ address @ '' did not become healthy'') \<and> time s + timeout \<le> time s')) \<and>
    (\<exists>r s'. wait_until_restarted E N address previous timeout s = Some (r, s') \<and>
      (r = Inr () \<and> (\<exists>i s1. incarnation E N address s1 = (Inr i, s') \<and> i \<noteq> previous) \<or>
       r = Inl (''operator '' @ address @ '' did not restart'') \<and> time s + timeout \<le> time s'))"
proof -
  have "\<exists>r s'. poll_until N (\<lambda>s. map_prod is_healthy (\<lambda>s. s) (wire_request E N address HealthRequest s)) failure timeout s = Some (r, s') \<and>
      (r = Inr () \<and> (\<exists>name i s1. wire_request E N address HealthRequest s1 = (Inr (Healthy name i), s')) \<or>
       r = Inl failure \<and> time s + timeout \<le> time s')" for failure
    using poll_until_returns [OF assms wire_request_later [OF assms], of is_healthy E address HealthRequest failure timeout s]
    unfolding is_healthy_iff by blast
  moreover have "\<exists>r s'. poll_until N (\<lambda>s. map_prod (is_new previous) (\<lambda>s. s) (incarnation E N address s)) failure timeout s = Some (r, s') \<and>
      (r = Inr () \<and> (\<exists>i s1. incarnation E N address s1 = (Inr i, s') \<and> i \<noteq> previous) \<or>
       r = Inl failure \<and> time s + timeout \<le> time s')" for failure
    using poll_until_returns [OF assms incarnation_later [OF assms], of "is_new previous" E address failure timeout s]
    unfolding is_new_iff by blast
  ultimately show ?thesis unfolding wait_until_healthy_def wait_until_restarted_def by (intro conjI)
qed

end
