(* ===== verification/Scenario_Facts.thy ===== *)
theory Scenario_Facts
  imports Scenario Wire_Facts
begin

text \<open>
  What a passed run of the script shows: the script always returns, and the artifact of a run that
  passes holds states the operators did answer, with one canonical head.
\<close>

section \<open>Steps that return\<close>

definition returns :: "('n, 'a) awaited \<Rightarrow> bool" where
  "returns m \<longleftrightarrow> (\<forall>s. \<exists>r s'. m s = Some (r, s'))"

named_theorems returning \<open>steps that always return\<close>

lemma returns_stepW [returning]: "returns (stepW m)"
  by (simp add: returns_def stepW_def)

lemma returns_bindW [returning]:
  assumes "returns m" "\<And>x. returns (f x)" shows "returns (bindW m f)"
proof -
  have "\<exists>r s'. bindW m f s = Some (r, s')" for s
  proof -
    obtain r t where "m s = Some (r, t)" using assms(1) unfolding returns_def by blast
    then show ?thesis using assms(2) by (cases r) (auto simp: bindW_def returns_def)
  qed
  then show ?thesis by (simp add: returns_def)
qed

lemma returns_forW [returning]: "(\<And>x. returns (f x)) \<Longrightarrow> returns (forW f xs)"
  by (induction xs) (auto intro!: returning)

lemma returns_poll_until:
  assumes "clock_ok N time" "runs_in (later time) m"
  shows "returns (poll_until N (\<lambda>s. map_prod p (\<lambda>s. s) (m s)) failure timeout)"
  unfolding returns_def
proof
  fix s
  show "\<exists>r s'. poll_until N (\<lambda>s. map_prod p (\<lambda>s. s) (m s)) failure timeout s = Some (r, s')"
    using poll_until_returns [OF assms, of p failure timeout s] by blast
qed

lemma returns_healthy: "clock_ok N time \<Longrightarrow> returns (wait_until_healthy E N address timeout)"
  unfolding wait_until_healthy_def by (intro returns_poll_until wire_request_later)

lemma returns_restarted: "clock_ok N time \<Longrightarrow> returns (wait_until_restarted E N address previous timeout)"
  unfolding wait_until_restarted_def by (intro returns_poll_until incarnation_later)

lemma returns_prod_case [returning]: "(\<And>a b. returns (f a b)) \<Longrightarrow> returns (case x of (a, b) \<Rightarrow> f a b)"
  by (cases x) simp

lemma run_three_party_returns: "clock_ok (dk_net D) time \<Longrightarrow> returns (run_three_party E D p)"
  unfolding run_three_party_def restart_carol_def Let_def
  by (intro returning returns_healthy returns_restarted)

lemma bindW_passed [effects]:
  "bindW m f s = Some (Inr y, s') \<longleftrightarrow> (\<exists>x t. m s = Some (Inr x, t) \<and> f x t = Some (Inr y, s'))"
  by (auto simp: bindW_def split: option.splits sum.splits)

lemma stepW_iff [effects]: "stepW m s = Some (r, s') \<longleftrightarrow> m s = (r, s')"
  by (simp add: stepW_def)

lemma net_step_passed [effects]: "net_step label m s = (Inr x, s') \<longleftrightarrow> m s = (Inr x, s')"
  by (cases "m s"; cases "fst (m s)") (auto simp: net_step_def errS_def)

section \<open>The states of the artifact\<close>

text \<open>An operator did answer with the reported state, and its repository passed the check.\<close>

definition reported where
  "reported E N repository delegates carol_identity bob carol final_states fsck_results name address \<longleftrightarrow>
     (\<exists>decision publishers s s1 t t1.
       wire_request E N address (StateRequest repository delegates) s =
         (Inr (StateResponse (Some bob) decision publishers), s1) \<and>
       btree_get publishers carol_identity = Some (Some carol) \<and>
       wire_request E N address (FsckRequest repository) t = (Inr (Verified repository), t1) \<and>
       btree_get final_states name = Some (StateResponse (Some bob) decision publishers) \<and>
       btree_get fsck_results name = Some ''passed'')"

lemma ask_state_answered:
  assumes "ask_state E N address repository delegates s = (Inr state, s')"
  shows "wire_request E N address (StateRequest repository delegates) s =
    (Inr (StateResponse (sv_canonical state) (sv_decision state) (sv_publishers state)), s')"
proof -
  obtain response s1 where "wire_request E N address (StateRequest repository delegates) s = (Inr response, s1)"
    using assms by (auto simp: ask_state_def effects)
  then show ?thesis using assms by (cases response) (auto simp: ask_state_def bindS_def effects)
qed

lemma ask_fsck_answered:
  assumes "ask_fsck E N address repository s = (Inr (), s')"
  shows "wire_request E N address (FsckRequest repository) s = (Inr (Verified repository), s')"
proof -
  obtain response s1 where "wire_request E N address (FsckRequest repository) s = (Inr response, s1)"
    using assms by (auto simp: ask_fsck_def effects)
  then show ?thesis using assms by (cases response) (auto simp: ask_fsck_def bindS_def effects split: if_splits)
qed

lemma liftS_mapped: "liftS (map_err f m) s = (Inr x, s') \<longleftrightarrow> m = Inr x \<and> s' = s"
  by (cases m) (auto simp: liftS_def)

lemma write_artifact_written:
  "write_artifact E D p a s = (Inr (), s') \<Longrightarrow>
   \<exists>bs t t'. json_of_artifact E a = Inr bs \<and> dk_write D p bs t = (Inr (), t')"
  unfolding write_artifact_def bindS_Inr_iff net_step_passed liftS_mapped
  by (elim exE conjE) (auto intro: exI)

lemma gather_final_reported:
  assumes "gather_final E N repository delegates carol_identity bob carol operators final_states fsck_results s =
      (Inr (finals, fscks), s')"
    and "distinct (map fst operators)" "btree_invar final_states" "btree_invar fsck_results"
  shows "(\<forall>(name, address) \<in> set operators.
      reported E N repository delegates carol_identity (pb_head bob) (pb_head carol) finals fscks name address) \<and>
    (\<forall>name. name \<notin> fst ` set operators \<longrightarrow>
      btree_get finals name = btree_get final_states name \<and> btree_get fscks name = btree_get fsck_results name)"
  using assms
proof (induction operators arbitrary: final_states fsck_results s)
  case Nil
  then show ?case by (simp add: effects)
next
  case (Cons op operators)
  obtain name address where op: "op = (name, address)" by fastforce
  obtain state s1 s2 where
    state: "ask_state E N address repository delegates s = (Inr state, s1)" "sv_canonical state = Some (pb_head bob)"
      "Option.bind (btree_get (sv_publishers state) carol_identity) (\<lambda>head. head) = Some (pb_head carol)"
    and fsck: "ask_fsck E N address repository s1 = (Inr (), s2)"
    and rest: "gather_final E N repository delegates carol_identity bob carol operators
      (btree_insert name (StateResponse (sv_canonical state) (sv_decision state) (sv_publishers state)) final_states)
      (btree_insert name ''passed'' fsck_results) s2 = (Inr (finals, fscks), s')"
    using Cons.prems(1) unfolding op by (auto simp: effects split: if_splits)
  have kept: "btree_get (sv_publishers state) carol_identity = Some (Some (pb_head carol))"
    using state(3) by (cases "btree_get (sv_publishers state) carol_identity") auto
  have fresh: "name \<notin> fst ` set operators" "distinct (map fst operators)"
    using Cons.prems(2) op by auto
  have IH: "(\<forall>(name, address) \<in> set operators.
      reported E N repository delegates carol_identity (pb_head bob) (pb_head carol) finals fscks name address) \<and>
    (\<forall>n. n \<notin> fst ` set operators \<longrightarrow>
      btree_get finals n = btree_get (btree_insert name (StateResponse (sv_canonical state) (sv_decision state) (sv_publishers state)) final_states) n \<and>
      btree_get fscks n = btree_get (btree_insert name ''passed'' fsck_results) n)"
    by (rule Cons.IH [OF rest fresh(2)]) (simp_all add: btree_invar_insert Cons.prems)
  have head: "reported E N repository delegates carol_identity (pb_head bob) (pb_head carol) finals fscks name address"
    unfolding reported_def
    using ask_state_answered [OF state(1)] ask_fsck_answered [OF fsck] kept fresh(1) IH state(2)
    by (simp add: btree_get_insert Cons.prems(3,4)) blast
  show ?case using IH head op by (auto simp: btree_get_insert Cons.prems(3,4))
qed

text \<open>C35: a passed scenario is evidence. The script always returns, on a clock that advances; when
  it passes, the artifact it wrote has the status \<open>passed\<close>, and for each of the three operators it
  holds a state which that operator did answer, after its repository was found intact: Bob's head is
  canonical there, and Carol's divergent head is kept under Carol's identity.\<close>

theorem scenario_evidence:
  fixes D :: "'n desk" and s :: 'n
  assumes "clock_ok (dk_net D) time"
  shows "\<exists>r s'. run_three_party E D path s = Some (r, s') \<and>
    (r = Inr () \<longrightarrow> (\<exists>artifact bs t t' delegates bob carol.
       json_of_artifact E artifact = Inr bs \<and> dk_write D path bs t = (Inr (), t') \<and>
       sa_status artifact = ''passed'' \<and>
       btree_get (sa_heads artifact) ''bob'' = Some bob \<and> btree_get (sa_heads artifact) ''carol'' = Some carol \<and>
       (\<forall>(name, address) \<in> {(''alice'', alice_control), (''bob'', bob_control), (''carol'', carol_control)}.
          reported E (dk_net D) (sa_repository artifact) delegates
            (identity_named (sa_identities artifact) ''carol'') bob carol
            (sa_final_states artifact) (sa_fsck artifact) name address)))"
proof -
  let ?evidence = "\<exists>artifact bs t t' delegates bob carol.
       json_of_artifact E artifact = Inr bs \<and> dk_write D path bs t = (Inr (), t') \<and>
       sa_status artifact = ''passed'' \<and>
       btree_get (sa_heads artifact) ''bob'' = Some bob \<and> btree_get (sa_heads artifact) ''carol'' = Some carol \<and>
       (\<forall>(name, address) \<in> {(''alice'', alice_control), (''bob'', bob_control), (''carol'', carol_control)}.
          reported E (dk_net D) (sa_repository artifact) delegates
            (identity_named (sa_identities artifact) ''carol'') bob carol
            (sa_final_states artifact) (sa_fsck artifact) name address)"
  obtain r s' where run: "run_three_party E D path s = Some (r, s')"
    using run_three_party_returns [OF assms] unfolding returns_def by blast
  have ?evidence if "r = Inr ()"
  proof -
    have passed: "run_three_party E D path s = Some (Inr (), s')" using run that by simp
    obtain actors repository initial bob carol duplicate finals fscks t1 t2 t3 where
      gathered: "gather_final E (dk_net D) repository (scenario_delegates (identities_of actors))
        (identity_named (identities_of actors) ''carol'') bob carol
        [(''alice'', alice_control), (''bob'', bob_control), (''carol'', carol_control)] [] [] t1 = (Inr (finals, fscks), t2)"
      and written: "write_artifact E D path
        (scenario_result repository (identities_of actors) initial bob carol finals fscks duplicate) t2 = (Inr (), t3)"
      using passed unfolding run_three_party_def Let_def
      by (simp only: effects split_paired_Ex split_paired_all prod.case) blast
    let ?artifact = "scenario_result repository (identities_of actors) initial bob carol finals fscks duplicate"
    obtain bs t t' where wrote: "json_of_artifact E ?artifact = Inr bs" "dk_write D path bs t = (Inr (), t')"
      using write_artifact_written [OF written] by blast
    have heads: "btree_get (sa_heads ?artifact) ''bob'' = Some (pb_head bob)"
      "btree_get (sa_heads ?artifact) ''carol'' = Some (pb_head carol)"
      by (simp_all add: scenario_result_def btree_get_of_list_distinct)
    have "\<forall>(name, address) \<in> {(''alice'', alice_control), (''bob'', bob_control), (''carol'', carol_control)}.
        reported E (dk_net D) repository (scenario_delegates (identities_of actors))
          (identity_named (identities_of actors) ''carol'') (pb_head bob) (pb_head carol) finals fscks name address"
      using gather_final_reported [OF gathered] by (simp add: btree_invar_def)
    then show ?thesis
      using wrote heads
      by (intro exI [of _ ?artifact] exI [of _ bs] exI [of _ t] exI [of _ t'] exI [of _ "scenario_delegates (identities_of actors)"]
          exI [of _ "pb_head bob"] exI [of _ "pb_head carol"]) (simp add: scenario_result_def)
  qed
  then show ?thesis using run by blast
qed

end
