(* ===== verification/Wire_Lab.thy ===== *)
theory Wire_Lab
  imports Wire_Facts Operator_Witnesses
begin

text \<open>
  Client and operator together: a laboratory of operators, each at its address and on its host,
  with streams that deliver what is written and a clock that only sleeping advances.
\<close>

section \<open>The laboratory\<close>

record 's lab =
  lab_operators :: "string \<Rightarrow> 's operator option"
  lab_peer :: string
  lab_sent :: bytes
  lab_reply :: bytes
  lab_time :: nat

definition lab_net :: "('z) operator_env_scheme \<Rightarrow> (string \<Rightarrow> 's host) \<Rightarrow> 's lab net" where
  "lab_net E H =
     \<lparr>nt_connect = \<lambda>address s.
        (case lab_operators s address of
           None \<Rightarrow> (Inl (Io_Error Other_Kind ''connection refused''), s)
         | Some _ \<Rightarrow> (Inr 0, s\<lparr>lab_peer := address, lab_sent := [], lab_reply := []\<rparr>)),
      nt_set_read_timeout = \<lambda>stream d. okS (),
      nt_write_all = \<lambda>stream bs s. (Inr (), s\<lparr>lab_sent := lab_sent s @ bs\<rparr>),
      nt_shutdown_write = \<lambda>stream s.
        (case lab_operators s (lab_peer s) of
           None \<Rightarrow> (Inl (Io_Error Other_Kind ''connection reset''), s)
         | Some op \<Rightarrow>
             (case serve E (H (lab_peer s)) (Inr (lab_sent s)) op of (bs, op') \<Rightarrow>
                (Inr (), s\<lparr>lab_operators := (lab_operators s)(lab_peer s \<mapsto> op'), lab_reply := bs\<rparr>))),
      nt_read_to_end = \<lambda>stream. getS lab_reply,
      nt_now = \<lambda>s. (lab_time s, s),
      nt_sleep = \<lambda>d s. s\<lparr>lab_time := lab_time s + d\<rparr>\<rparr>"

lemma lab_clock_ok: "clock_ok (lab_net E H) lab_time"
  by (auto simp: clock_ok_def lab_net_def runs_in_def later_def okS_def getS_def split: option.splits prod.splits)

section \<open>A request and its answer\<close>

text \<open>JSON of \<open>serde_json\<close>: what is written is read back.\<close>

definition json_ok :: "('z) wire_env_scheme \<Rightarrow> bool" where
  "json_ok E \<longleftrightarrow>
     (\<forall>q. \<exists>bs. json_of_request E q = Inr bs \<and> request_of_json E bs = Inr q) \<and>
     (\<forall>a. \<exists>bs. json_of_response E a = Inr bs \<and> response_of_json E bs = Inr a)"

definition answered :: "('z) operator_env_scheme \<Rightarrow> (operator_error, control_response) result \<Rightarrow> control_response" where
  "answered E answer = (case answer of Inl e \<Rightarrow> ErrorResponse (operator_error_text E e) | Inr x \<Rightarrow> x)"

definition received :: "control_response \<Rightarrow> (string, control_response) result" where
  "received response = (case response of ErrorResponse message \<Rightarrow> Inl message | _ \<Rightarrow> Inr response)"

lemma serve_request:
  assumes "request_of_json E bs = Inr request" "length bs \<le> max_control_bytes"
    and "handle E host request op = (answer, op')" "json_of_response E (answered E answer) = Inr reply"
  shows "serve E host (Inr bs) op = (reply, op')"
proof -
  have "read_request E (Inr bs) = Inr request"
    using assms(1,2) by (simp add: read_request_def Let_def)
  then show ?thesis
    using assms(3,4) by (simp add: serve_def answered_def)
qed


section \<open>An environment with JSON\<close>

fun request_parts where
  "request_parts HealthRequest = Inl ()"
| "request_parts IdentityRequest = Inr (Inl ())"
| "request_parts (InitializeRequest b n) = Inr (Inr (Inl (b, n)))"
| "request_parts (PublishCommitRequest r m p) = Inr (Inr (Inr (Inl (r, m, p))))"
| "request_parts (PublishTargetRequest r t) = Inr (Inr (Inr (Inr (Inl (r, t)))))"
| "request_parts (ApplyRequest x) = Inr (Inr (Inr (Inr (Inr (Inl x)))))"
| "request_parts (StateRequest r ds) = Inr (Inr (Inr (Inr (Inr (Inr (Inl (r, ds)))))))"
| "request_parts (FsckRequest r) = Inr (Inr (Inr (Inr (Inr (Inr (Inr (Inl r)))))))"
| "request_parts RestartRequest = Inr (Inr (Inr (Inr (Inr (Inr (Inr (Inr ())))))))"

fun request_of_parts where
  "request_of_parts (Inl ()) = HealthRequest"
| "request_of_parts (Inr (Inl ())) = IdentityRequest"
| "request_of_parts (Inr (Inr (Inl (b, n)))) = InitializeRequest b n"
| "request_of_parts (Inr (Inr (Inr (Inl (r, m, p))))) = PublishCommitRequest r m p"
| "request_of_parts (Inr (Inr (Inr (Inr (Inl (r, t)))))) = PublishTargetRequest r t"
| "request_of_parts (Inr (Inr (Inr (Inr (Inr (Inl x)))))) = ApplyRequest x"
| "request_of_parts (Inr (Inr (Inr (Inr (Inr (Inr (Inl (r, ds)))))))) = StateRequest r ds"
| "request_of_parts (Inr (Inr (Inr (Inr (Inr (Inr (Inr (Inl r)))))))) = FsckRequest r"
| "request_of_parts (Inr (Inr (Inr (Inr (Inr (Inr (Inr (Inr ())))))))) = RestartRequest"

definition s_control_request :: "control_request serial" where
  "s_control_request = via request_parts request_of_parts
     (s_sum s_unit (s_sum s_unit (s_sum (s_pair (s_list (s_pair s_string s_string)) s_word)
       (s_sum (s_pair s_string (s_pair s_string (s_option s_string)))
       (s_sum (s_pair s_string s_string) (s_sum s_string
       (s_sum (s_pair s_string (s_list s_string)) (s_sum s_string s_unit))))))))"

fun answer_parts where
  "answer_parts (Healthy a b) = Inl (a, b)"
| "answer_parts (IdentityResponse a b) = Inr (Inl (a, b))"
| "answer_parts (Initialized a) = Inr (Inr (Inl a))"
| "answer_parts (PublishedResponse a n b) = Inr (Inr (Inr (Inl (a, n, b))))"
| "answer_parts (AppliedResponse a b n) = Inr (Inr (Inr (Inr (Inl (a, b, n)))))"
| "answer_parts (MissingResponse ps) = Inr (Inr (Inr (Inr (Inr (Inl ps)))))"
| "answer_parts (StateResponse c d ps) = Inr (Inr (Inr (Inr (Inr (Inr (Inl (c, d, ps)))))))"
| "answer_parts (Verified a) = Inr (Inr (Inr (Inr (Inr (Inr (Inr (Inl a)))))))"
| "answer_parts (ErrorResponse a) = Inr (Inr (Inr (Inr (Inr (Inr (Inr (Inr a)))))))"

fun answer_of_parts where
  "answer_of_parts (Inl (a, b)) = Healthy a b"
| "answer_of_parts (Inr (Inl (a, b))) = IdentityResponse a b"
| "answer_of_parts (Inr (Inr (Inl a))) = Initialized a"
| "answer_of_parts (Inr (Inr (Inr (Inl (a, n, b))))) = PublishedResponse a n b"
| "answer_of_parts (Inr (Inr (Inr (Inr (Inl (a, b, n)))))) = AppliedResponse a b n"
| "answer_of_parts (Inr (Inr (Inr (Inr (Inr (Inl ps)))))) = MissingResponse ps"
| "answer_of_parts (Inr (Inr (Inr (Inr (Inr (Inr (Inl (c, d, ps)))))))) = StateResponse c d ps"
| "answer_of_parts (Inr (Inr (Inr (Inr (Inr (Inr (Inr (Inl a)))))))) = Verified a"
| "answer_of_parts (Inr (Inr (Inr (Inr (Inr (Inr (Inr (Inr a)))))))) = ErrorResponse a"

definition s_control_response :: "control_response serial" where
  "s_control_response = via answer_parts answer_of_parts
     (s_sum (s_pair s_string s_string) (s_sum (s_pair s_string s_string) (s_sum s_string
       (s_sum (s_pair s_string (s_pair s_word s_string)) (s_sum (s_pair s_string (s_pair s_string s_word))
       (s_sum (s_list s_string) (s_sum (s_pair (s_option s_string) (s_pair s_string
         (s_list (s_pair s_string (s_option s_string))))) (s_sum s_string s_string))))))))"

lemma s_control_request_ok: "serial_ok s_control_request"
  unfolding s_control_request_def by (intro serials) (case_tac x; simp)

lemma s_control_response_ok: "serial_ok s_control_response"
  unfolding s_control_response_def by (intro serials) (case_tac x; simp)

definition parse_with :: "'a serial \<Rightarrow> bytes \<Rightarrow> (string, 'a) result" where
  "parse_with s bs = (case des s bs of Some (x, []) \<Rightarrow> Inr x | _ \<Rightarrow> Inl ''invalid'')"

lemma parse_with_ser: "serial_ok s \<Longrightarrow> parse_with s (ser s x) = Inr x"
proof -
  assume "serial_ok s"
  then have "des s (ser s x @ []) = Some (x, [])" unfolding serial_ok_def by blast
  then show "parse_with s (ser s x) = Inr x" by (simp add: parse_with_def)
qed

definition wire_sample :: wire_env where
  "wire_sample = operator_env.extend
     (demo_sample\<lparr>request_of_json := parse_with s_control_request,
        json_of_response := \<lambda>a. Inr (ser s_control_response a)\<rparr>)
     \<lparr>json_of_request = \<lambda>q. Inr (ser s_control_request q),
      response_of_json = parse_with s_control_response, response_debug = \<lambda>_. []\<rparr>"

lemma wire_sample_json_ok: "json_ok wire_sample"
  by (simp add: json_ok_def wire_sample_def operator_env.defs parse_with_ser s_control_request_ok s_control_response_ok)

section \<open>Witnesses\<close>

definition demo_lab :: "git_state lab" where
  "demo_lab = \<lparr>lab_operators = [''alice-control:7800'' \<mapsto> demo_empty], lab_peer = [], lab_sent = [],
     lab_reply = [], lab_time = 0\<rparr>"


lemma waiting_returns_witness:
  "\<exists>r s'. wait_until_restarted wire_sample (lab_net wire_sample (\<lambda>_. sample_host)) ''alice-control:7800'' ''1'' 30000 demo_lab
     = Some (r, s')"
  using waiting_returns [OF lab_clock_ok [of wire_sample "\<lambda>_. sample_host"], of wire_sample "''alice-control:7800''" 30000 demo_lab "''1''"]
  by blast

end
