(* ===== verification/Scenario_Script.thy ===== *)
theory Scenario_Script
  imports Scenario_Facts Wire_Lab
begin

text \<open>
  A run of the script that passes: a network that gives forty-five recorded answers in turn, with
  the failures, the restart and the final states the script asks for.
\<close>

section \<open>The answers\<close>

abbreviation (input) applied_answer :: control_response where
  "applied_answer \<equiv> AppliedResponse ''applied'' ''p'' 0"

abbreviation (input) present_answer :: control_response where
  "present_answer \<equiv> AppliedResponse ''already_present'' ''p'' 0"

abbreviation (input) empty_answer :: control_response where
  "empty_answer \<equiv> StateResponse None ''no_agreement'' []"

abbreviation (input) final_answer :: control_response where
  "final_answer \<equiv> StateResponse (Some ''h2'') ''agreed'' [(''c'', Some ''h3'')]"

definition script :: "control_response list" where
  "script =
     [Healthy ''alice'' ''1'', Healthy ''bob'' ''1'', Healthy ''carol'' ''1'',
      IdentityResponse ''a'' ''k'', IdentityResponse ''b'' ''l'', IdentityResponse ''c'' ''m'',
      Initialized ''r'', Initialized ''r'', Initialized ''r'',
      PublishedResponse ''h1'' 0 ''00'', applied_answer, PublishedResponse ''h2'' 0 ''0102'', applied_answer,
      empty_answer, ErrorResponse ''pack integrity check failed'', empty_answer,
      ErrorResponse ''CBOR decoding failed: x'', empty_answer, MissingResponse [''object''], empty_answer,
      applied_answer, applied_answer,
      PublishedResponse ''h3'' 0 ''03'', applied_answer, applied_answer, empty_answer, empty_answer, empty_answer,
      PublishedResponse ''h2'' 1 ''04'', applied_answer, applied_answer, present_answer,
      final_answer, Healthy ''carol'' ''1'', ErrorResponse ''closed'', Healthy ''carol'' ''2'',
      Initialized ''r'', final_answer, present_answer,
      final_answer, Verified ''r'', final_answer, Verified ''r'', final_answer, Verified ''r'']"

definition script_env :: scenario_env where
  "script_env = wire_env.extend
     (wire_sample\<lparr>response_of_json := \<lambda>bs. case bs of [b] \<Rightarrow> Inr (script ! unat b) | _ \<Rightarrow> Inl ''invalid''\<rparr>)
     \<lparr>text_debug = \<lambda>t. t, json_of_artifact = \<lambda>a. Inr [1]\<rparr>"

text \<open>The state: the number of answers given, and the time.\<close>

definition script_desk :: "(nat \<times> nat) desk" where
  "script_desk =
     \<lparr>dk_net =
        \<lparr>nt_connect = \<lambda>address. okS 0, nt_set_read_timeout = \<lambda>stream d. okS (),
         nt_write_all = \<lambda>stream bs. okS (), nt_shutdown_write = \<lambda>stream. okS (),
         nt_read_to_end = \<lambda>stream (n, t). (Inr [of_nat n], (n + 1, t)),
         nt_now = \<lambda>s. (snd s, s), nt_sleep = \<lambda>d (n, t). (n, t + d)\<rparr>,
      dk_create_dir_all = \<lambda>p. okS (), dk_write = \<lambda>p bs. okS (), dk_print = \<lambda>t s. s\<rparr>"

lemma script_clock_ok: "clock_ok (dk_net script_desk) snd"
  by (auto simp: clock_ok_def script_desk_def runs_in_def later_def okS_def)

lemma script_request:
  assumes "n < 256"
  shows "wire_request script_env (dk_net script_desk) address request (n, t) = (received (script ! n), (n + 1, t))"
proof -
  have "unat (of_nat n :: u8) = n" using assms by (simp add: unat_of_nat)
  then have parsed: "response_of_json script_env [of_nat n] = Inr (script ! n)"
    by (simp add: script_env_def wire_env.defs)
  have written: "json_of_request script_env request = Inr (ser s_control_request request)"
    by (simp add: script_env_def wire_env.defs wire_sample_def operator_env.defs)
  have small: "take (max_control_bytes + 1) [of_nat n :: u8] = [of_nat n]" "\<not> max_control_bytes < length [of_nat n :: u8]"
    "max_control_bytes \<noteq> 0"
    by (simp_all add: max_control_bytes_def)
  have finish: "(case response of ErrorResponse message \<Rightarrow> failS message | _ \<Rightarrow> okS response) s = (received response, s)"
    for response and s :: "nat \<times> nat"
    by (cases response) (simp_all add: failS_def okS_def received_def)
  show ?thesis
    unfolding wire_request_def net_step_def errS_def bindS_def liftS_def Let_def
    by (simp add: script_desk_def okS_def written parsed small [unfolded One_nat_def] finish del: take_Suc)
qed

section \<open>The stages\<close>

lemmas script_asks = ask_identity_def published_of_def ask_publish_commit_def ask_publish_target_def ask_apply_def
  ask_missing_def ask_rejected_def ask_restart_def ask_state_def ask_fsck_def assert_state_unchanged_def
  incarnation_def

lemmas script_steps = script_asks bindS_def catchS_def okS_def liftS_def Let_def script_request script_def received_def

lemma script_poll:
  assumes "attempt (n, t) = (True, s')"
  shows "poll_until (dk_net script_desk) attempt failure timeout (n, t) = Some (Inr (), s')"
proof -
  have "nt_now (dk_net script_desk) (n, t) = (t, (n, t))" by (simp add: script_desk_def)
  then show ?thesis using assms by (simp add: poll_until_def poll_loop.simps)
qed

lemma script_healthy:
  assumes "n < 3"
  shows "wait_until_healthy script_env (dk_net script_desk) address timeout (n, t) = Some (Inr (), (n + 1, t))"
proof -
  have "is_healthy (received (script ! n))"
    using assms by (auto simp: script_def is_healthy_def received_def less_Suc_eq numeral_3_eq_3)
  then show ?thesis
    using assms unfolding wait_until_healthy_def by (intro script_poll) (simp add: script_request)
qed

lemma script_actors:
  "ask_actors script_env (dk_net script_desk) (3, t) =
     (Inr [(''alice'', ''a'', ''k''), (''bob'', ''b'', ''l''), (''carol'', ''c'', ''m'')], (6, t))"
proof -
  have "btree_of_list [(''alice'', (''a'', ''k'')), (''bob'', ''b'', ''l''), (''carol'', ''c'', ''m'')] =
      [(''alice'', ''a'', ''k''), (''bob'', ''b'', ''l''), (''carol'', ''c'', ''m'')]"
    by code_simp
  then show ?thesis by (simp add: ask_actors_def script_steps)
qed

lemma script_initialize:
  "initialize_operators script_env (dk_net script_desk) bindings (6, t) = (Inr ''r'', (9, t))"
  by (simp add: initialize_operators_def script_steps)

lemma script_initial:
  "publish_initial script_env (dk_net script_desk) ''r'' (9, t) =
     (Inr (\<lparr>pb_head = ''h1'', pb_transfer = ''00''\<rparr>, \<lparr>pb_head = ''h2'', pb_transfer = ''0102''\<rparr>), (13, t))"
  by (simp add: publish_initial_def script_steps)

lemma script_failed:
  "failed_deliveries script_env (dk_net script_desk) ''r'' delegates
     \<lparr>pb_head = ''h1'', pb_transfer = ''00''\<rparr> \<lparr>pb_head = ''h2'', pb_transfer = ''0102''\<rparr> (13, t) = (Inr (), (22, t))"
proof -
  have "hex_decode script_env ''0102'' = Some [1, 2]"
  proof -
    have "hex_parse ''0102'' = Some [1, 2]" by code_simp
    then show ?thesis
      by (simp add: script_env_def wire_env.defs wire_sample_def operator_env.defs demo_sample_def refs_env.defs sample_def)
  qed
  then obtain corrupt where "corrupt_transfer script_env ''0102'' = Inr corrupt"
    by (simp add: corrupt_transfer_def)
  moreover have "truncate_transfer ''0102'' = Inr ''01''" by code_simp
  moreover have "contains_str ''pack integrity check failed'' ''integrity check failed''"
    "contains_str ''CBOR decoding failed: x'' ''CBOR decoding failed''" by code_simp+
  ultimately show ?thesis by (simp add: failed_deliveries_def script_steps)
qed

lemma script_diverge:
  "diverge script_env (dk_net script_desk) ''r'' delegates \<lparr>pb_head = ''h1'', pb_transfer = ''00''\<rparr> (22, t) =
     (Inr \<lparr>pb_head = ''h3'', pb_transfer = ''03''\<rparr>, (28, t))"
  by (simp add: diverge_def require_no_agreement_def script_steps)

lemma script_converge:
  "converge script_env (dk_net script_desk) ''r'' \<lparr>pb_head = ''h2'', pb_transfer = ''0102''\<rparr> (28, t) =
     (Inr (\<lparr>pb_head = ''h2'', pb_transfer = ''04''\<rparr>, ''already_present''), (32, t))"
  by (simp add: converge_def script_steps)

lemma script_restart:
  "restart_carol script_env (dk_net script_desk) ''r'' delegates bindings \<lparr>pb_head = ''h2'', pb_transfer = ''04''\<rparr> (32, t) =
     Some (Inr (), (39, t))"
proof -
  have "wait_until_restarted script_env (dk_net script_desk) carol_control ''1'' 30000 (35, t) = Some (Inr (), (36, t))"
  proof -
    have "incarnation script_env (dk_net script_desk) carol_control (35, t) = (Inr ''2'', (36, t))"
      by (simp add: script_steps)
    then show ?thesis
      unfolding wait_until_restarted_def by (intro script_poll) (simp add: is_new_def)
  qed
  then show ?thesis by (simp add: restart_carol_def reopen_def bindW_def stepW_def script_steps)
qed

lemma script_gather:
  "\<exists>finals. gather_final script_env (dk_net script_desk) ''r'' delegates ''c''
     \<lparr>pb_head = ''h2'', pb_transfer = ''0102''\<rparr> \<lparr>pb_head = ''h3'', pb_transfer = ''03''\<rparr>
     [(''alice'', alice_control), (''bob'', bob_control), (''carol'', carol_control)] [] [] (39, t) = (Inr finals, (45, t))"
  by (simp add: btree_get_def script_steps)

lemma script_written: "write_artifact script_env script_desk [] a s = (Inr (), s)"
  by (simp add: write_artifact_def net_step_def errS_def bindS_def okS_def liftS_def script_desk_def script_env_def wire_env.defs)

lemma script_passes: "run_three_party script_env script_desk [] (0, t) = Some (Inr (), (45, t))"
proof -
  let ?actors = "[(''alice'', ''a'', ''k''), (''bob'', ''b'', ''l''), (''carol'', ''c'', ''m'')]"
  have named: "identity_named (identities_of ?actors) ''carol'' = ''c''" by code_simp
  have healthy: "forW (\<lambda>address. wait_until_healthy script_env (dk_net script_desk) address 60000)
      [alice_control, bob_control, carol_control] (0, t) = Some (Inr (), (3, t))"
    by (simp add: bindW_def script_healthy stepW_def okS_def)
  obtain finals fscks where gathered: "gather_final script_env (dk_net script_desk) ''r'' (scenario_delegates (identities_of ?actors)) ''c''
      \<lparr>pb_head = ''h2'', pb_transfer = ''0102''\<rparr> \<lparr>pb_head = ''h3'', pb_transfer = ''03''\<rparr>
      [(''alice'', alice_control), (''bob'', bob_control), (''carol'', carol_control)] [] [] (39, t)
      = (Inr (finals, fscks), (45, t))"
    using script_gather [of "scenario_delegates (identities_of ?actors)" t] by auto
  show ?thesis
    unfolding run_three_party_def Let_def bindW_def stepW_def
    by (simp only: healthy script_actors script_initialize script_initial script_failed script_diverge script_converge
      script_restart named gathered script_written option.case sum.case prod.case)
qed

lemma scenario_evidence_witness:
  "\<exists>(artifact :: scenario_artifact) delegates bob carol. sa_status artifact = ''passed'' \<and>
     reported script_env (dk_net script_desk) (sa_repository artifact) delegates
       (identity_named (sa_identities artifact) ''carol'') bob carol
       (sa_final_states artifact) (sa_fsck artifact) ''alice'' alice_control"
  using scenario_evidence [OF script_clock_ok, of script_env "[]" "(0, 0)"] unfolding script_passes
  by auto

end
