(* ===== verification/Helper_Main.thy ===== *)
theory Helper_Main
  imports Command_Loop
begin

text \<open>
  \<open>crates/styrene-git-remote/src/bin/git-remote-styrene.rs\<close>: the program Git starts. Its arguments
  and its environment are bytes of the operating system; its transport is not connected yet, so it
  refuses every exchange.
\<close>

datatype main_error =
    MainText string
  | MainUrl url_error
  | MainClient client_error
  | MainLoop loop_error

definition unavailable_transport :: "unit exchange" where
  "unavailable_transport request max_response_bytes t =
     (Inl (TransportError ''authenticated styrened Git connector is unavailable''), t)"

text \<open>The URL is the second argument after the program's name, or the only one.\<close>

definition url_argument :: "bytes list \<Rightarrow> (main_error, bytes) result" where
  "url_argument arguments =
     (case drop 1 arguments of
        [] \<Rightarrow> Inl (MainText ''missing remote name or URL'')
      | [first] \<Rightarrow> Inr first
      | [first, second] \<Rightarrow> Inr second
      | _ \<Rightarrow> Inl (MainText ''too many arguments''))"

definition helper_main ::
  "('z) ipc_env_scheme \<Rightarrow> 'g processes \<Rightarrow> 'o writer \<Rightarrow> bytes list \<Rightarrow> path option \<Rightarrow> bytes \<Rightarrow> io_error option
     \<Rightarrow> 'o \<Rightarrow> 'g \<Rightarrow> (main_error, unit) result \<times> 'o \<times> 'g" where
  "helper_main E processes W arguments git_dir_variable input input_error out g =
     (let prepared =
        bindE (url_argument arguments) (\<lambda>argument.
        bindE (ok_or (MainText ''remote URL is not UTF-8'') (from_utf8 argument)) (\<lambda>value.
        bindE (map_err MainUrl (url_from_str E value)) (\<lambda>url.
        bindE (ok_or (MainText ''GIT_DIR is not set'') git_dir_variable) (\<lambda>git_dir.
        bindE (map_err MainClient (client_new () default_config)) (\<lambda>client.
        Inr (url, git_dir, client))))))
      in case prepared of
           Inl e \<Rightarrow> (Inl e, out, g)
         | Inr (url, git_dir, client) \<Rightarrow>
             (case run_command_loop E unavailable_transport (command_plumbing E processes \<lparr>gc_dir = git_dir\<rparr>) W url
                     \<lparr>lp_input = input, lp_input_error = input_error, lp_output = out,
                       lp_session = \<lparr>sn_client = client, sn_git = g\<rparr>\<rparr> of
                (r, s) \<Rightarrow> (map_err MainLoop r, lp_output s, sn_git (lp_session s))))"

end
