(* ===== verification/Spec2Isabelle.thy ===== *)
theory Spec2Isabelle
  imports Core_Witnesses Store_Witnesses Remote_Witnesses Operator_Witnesses Scenario_Script Helper_Main
begin

text \<open>
  A verified model of styrene-git, the Rust workspace that replicates Git repositories between
  peers without a trusted server.

  \<^bold>\<open>The program.\<close> A repository is governed by an identity document with delegates and a threshold.
  Each delegate publishes references by signed transitions, one after another; every peer verifies
  them and stores them in a Git namespace of the publisher. Which commit is the head of the default
  branch is derived from the stored states of the delegates. States travel between peers as
  transfers. A user's Git reaches the repository through a remote helper, which talks to a local
  daemon. A functional test program runs three operators and a scripted client of them.

  \<^bold>\<open>Foundations.\<close> Prelude: machine words, results, slices and strings. Fixed_Bytes: byte arrays.
  Ordered: \<open>BTreeMap\<close>, \<open>BTreeSet\<close>, sorting, binary search. Text: UTF-8, \<open>trim\<close>, decimal numbers.
  Effects: fallible code with a state, and relations that every run respects.

  \<^bold>\<open>Core\<close> (\<open>crates/styrene-git-core/src\<close>). Codec: \<open>codec.rs\<close>, \<open>error.rs\<close> and the third-party code
  of the core as a record of functions. Core_Types: \<open>types.rs\<close>. Identity: \<open>identity.rs\<close>, documents,
  signer bindings, identity transitions. Refs: \<open>refs.rs\<close>, object identifiers and reference
  transitions. Canonical: \<open>canonical.rs\<close>. Identity_Facts, Governance, Publishing and Canonical prove
  who can change what: accepted transitions carry the authority they need, continue the state they
  name and no other, can be neither replayed nor transplanted, and the head moves only with a
  threshold of delegates and only to a descendant. The abstract view of a sequence of transitions is
  the inductive relations \<open>identity_history\<close> and \<open>ref_history\<close>.

  \<^bold>\<open>Store\<close> (\<open>crates/styrene-git-store/src\<close>). Store: \<open>lib.rs\<close>, \<open>git.rs\<close>, \<open>error.rs\<close>; every Git process
  and file operation is a call of the argument \<open>host\<close>. Store_Facts: what the Git commands promise,
  \<open>git_ok\<close>. Commit: a commit refines the history of its publisher, keeps the references consistent
  with the stored states, and is read back. Quarantine: attempts and pack sizes are bounded.

  \<^bold>\<open>Replication\<close> (\<open>crates/styrene-git-protocol/src\<close>). Protocol: \<open>lib.rs\<close>. Replication: applying any
  transfer, authentic or not, with whatever outcome, advances the store by verified transitions only.

  \<^bold>\<open>Remote helper\<close> (\<open>crates/styrene-git-ipc/src\<close>, \<open>crates/styrene-git-remote/src\<close>). Ipc: the messages
  of the daemon. Url: \<open>lib.rs\<close>. Client: \<open>client.rs\<close>; Client_Facts follows whole sessions with the
  inductive relation \<open>client_run\<close>. Remote_Git: \<open>git.rs\<close>. Operations: \<open>operations.rs\<close>; Operations_Facts:
  pushes are checked against what was listed, fetches deliver, listings are well formed.
  Command_Loop: \<open>command_loop.rs\<close>; Command_Loop_Facts: the bytes Git reads are the text of the events
  of a session (\<open>session_does\<close>). Helper_Main: \<open>bin/git-remote-styrene.rs\<close>.

  \<^bold>\<open>Operators\<close> (\<open>crates/styrene-git-functional/src\<close>). Operator: \<open>operator.rs\<close> and the messages of
  \<open>wire.rs\<close>. Operator_Facts and Operator_State: the refinement of histories and the invariant over
  every request, and when the canonical head moves. Operator_Publishing: what is published is
  accepted elsewhere. Operator_Network: two operators come to agree. Wire, Wire_Facts: the client of
  \<open>wire.rs\<close>, and that its loops end. Wire_Lab: client and operators together. Scenario, Scenario_Facts:
  \<open>scenario.rs\<close> and \<open>main.rs\<close>, and what a passed scenario shows.

  \<^bold>\<open>Interfaces.\<close> Three locales state what several components rely on: \<open>canonical_form\<close>, bytes that
  decode only from their own encoding (interpreted on the canonical CBOR check); \<open>ordered_map\<close>
  (interpreted on the model of \<open>BTreeMap\<close>); \<open>run_relation\<close>, a reflexive and transitive relation that
  every composition of steps inherits, interpreted on what the store keeps (\<open>kept\<close>), how it advances
  (\<open>advance\<close>, \<open>world_advance\<close>, \<open>world_keep\<close>), what an operator leaves alone (\<open>unchanged\<close>), what the
  command loop reads (\<open>input\<close>, \<open>reading\<close>), and the passing of time (\<open>passing\<close>).

  \<^bold>\<open>Third-party code\<close> is an argument: environments are records of functions, extended from
  component to component. What is relied on are named predicates: \<open>signatures_ok\<close>, \<open>hex_ok\<close>,
  \<open>base32_ok\<close>, \<open>codec_ok\<close> and the collections of codecs built on it, \<open>git_ok\<close> for the Git commands,
  \<open>clock_ok\<close> for the clock, \<open>json_ok\<close> for \<open>serde_json\<close>. Hash functions are arbitrary functions: no
  property assumes that they are collision free; the properties speak of the equality of digests.
  Instances, Ipc_Instances, Sample_Git, Sample_Daemon, Wire_Lab and Scenario_Script define concrete
  functions for all of it, prove the predicates for them, and the witnesses run the model on them.

  \<^bold>\<open>Bounds.\<close> Integers have their width: sequence numbers and sizes are 64-bit, request identifiers
  128-bit, thresholds 16-bit words; checked arithmetic gives an error, other arithmetic wraps as in
  a release build. A quarantine is tried a hundred times, a packaged transfer has at most 4 MiB, a
  control message 16 MiB, a line of the helper 4096 bytes. No fuel is used: loops are structural or
  terminate by a measure, except the two that wait for an operator, whose result is \<open>None\<close> when they
  do not return; \<open>waiting_returns\<close> and \<open>scenario_evidence\<close> prove that they do.

  \<^bold>\<open>Not modelled.\<close> Threads, the accept loop of the operator's listener and the exit status of the
  three programs: requests are served one at a time, as under the lock of the code. The Drop of a
  quarantine is an explicit step where the scope ends. Error texts are modelled where the code reads
  or transmits them; texts derived by \<open>Debug\<close> or made by third-party code are arguments, and the
  details of hexadecimal decoding errors are left out of two texts. Tests are not modelled.
\<close>

end
